(* ===== verification/Go_Prelude.thy ===== *)
theory Go_Prelude
  imports Main "HOL-Library.List_Lexorder" "HOL-Library.Char_ord" "HOL-Library.Sublist"
begin

section \<open>The Go language and library, as far as the operator uses them\<close>

text \<open>
  Shared by every component theory.
  \<^item> \<open>result\<close>: how a Go call ends. \<open>Ret v\<close> is a normal return with a nil error,
    \<open>Err e\<close> a return with the non-nil error \<open>e\<close>, \<open>Panic m\<close> a run-time panic. \<open>andThen\<close> is
    the pattern \<open>x, err := f(); if err != nil { return err }\<close> over a state.
  \<^item> \<open>gomap\<close>: a Go map with string keys. A nil map and an empty map are different values
    (\<open>reflect.DeepEqual\<close> tells them apart). The order of the entries is the order in which a
    \<open>range\<close> loop visits them; no operation but such a loop depends on it.
  \<^item> \<open>slice\<close>: a Go slice whose nil-ness is observable.
  \<^item> the functions of the packages \<open>strings\<close>, \<open>slices\<close> and \<open>maps\<close> that the sources call.
  Go strings are byte strings; so are Isabelle's \<open>string\<close>s.
\<close>

named_theorems gomap_simps \<open>laws of Go maps\<close>
named_theorems prog_simps \<open>computation rules of stateful calls\<close>

subsection \<open>Results and stateful calls\<close>

datatype ('e, 'a) result = Ret (ret_val: 'a) | Err (err_val: 'e) | Panic string

type_synonym ('e, 's, 'a) prog = "'s \<Rightarrow> ('e, 'a) result \<times> 's"

definition gret :: "'a \<Rightarrow> ('e, 's, 'a) prog" where
  "gret x = (\<lambda>s. (Ret x, s))"

definition gerr :: "'e \<Rightarrow> ('e, 's, 'a) prog" where
  "gerr e = (\<lambda>s. (Err e, s))"

definition gpanic :: "string \<Rightarrow> ('e, 's, 'a) prog" where
  "gpanic m = (\<lambda>s. (Panic m, s))"

definition andThen :: "('e, 's, 'a) prog \<Rightarrow> ('a \<Rightarrow> ('e, 's, 'b) prog) \<Rightarrow> ('e, 's, 'b) prog" where
  "andThen m f = (\<lambda>s. case m s of
       (Ret x, s') \<Rightarrow> f x s'
     | (Err e, s') \<Rightarrow> (Err e, s')
     | (Panic p, s') \<Rightarrow> (Panic p, s'))"

text \<open>\<open>if err := f(); err != nil { ... }\<close> with a handler for the error.\<close>

definition onErr :: "('e, 's, 'a) prog \<Rightarrow> ('e \<Rightarrow> ('e, 's, 'a) prog) \<Rightarrow> ('e, 's, 'a) prog" where
  "onErr m h = (\<lambda>s. case m s of
       (Err e, s') \<Rightarrow> h e s'
     | r \<Rightarrow> r)"

text \<open>A loop that returns at the first error.\<close>

fun forEach :: "'x list \<Rightarrow> ('x \<Rightarrow> ('e, 's, unit) prog) \<Rightarrow> ('e, 's, unit) prog" where
  "forEach [] f = gret ()"
| "forEach (x # xs) f = andThen (f x) (\<lambda>_. forEach xs f)"

subsection \<open>Maps\<close>

datatype 'v gomap = NilMap | GoMap "(string \<times> 'v) list"

type_synonym strmap = "string gomap"

fun entries :: "'v gomap \<Rightarrow> (string \<times> 'v) list" where
  "entries NilMap = []"
| "entries (GoMap es) = es"

definition isNil :: "'v gomap \<Rightarrow> bool" where
  "isNil m = (case m of NilMap \<Rightarrow> True | GoMap _ \<Rightarrow> False)"

definition glookup :: "'v gomap \<Rightarrow> string \<Rightarrow> 'v option" where
  "glookup m k = map_of (entries m) k"

text \<open>\<open>m[k]\<close> on a \<open>map[string]string\<close>: the empty string when the key is absent.\<close>

definition gget :: "strmap \<Rightarrow> string \<Rightarrow> string" where
  "gget m k = (case glookup m k of None \<Rightarrow> '''' | Some v \<Rightarrow> v)"

definition ghas :: "'v gomap \<Rightarrow> string \<Rightarrow> bool" where
  "ghas m k = (glookup m k \<noteq> None)"

fun update_entries :: "string \<Rightarrow> 'v \<Rightarrow> (string \<times> 'v) list \<Rightarrow> (string \<times> 'v) list" where
  "update_entries k v [] = [(k, v)]"
| "update_entries k v ((k', v') # es) =
     (if k' = k then (k, v) # es else (k', v') # update_entries k v es)"

text \<open>\<open>m[k] = v\<close> on a map that has been made.\<close>

definition gput :: "string \<Rightarrow> 'v \<Rightarrow> 'v gomap \<Rightarrow> 'v gomap" where
  "gput k v m = GoMap (update_entries k v (entries m))"

text \<open>\<open>delete(m, k)\<close>: a no-op on a nil map.\<close>

definition gdelete :: "string \<Rightarrow> 'v gomap \<Rightarrow> 'v gomap" where
  "gdelete k m = (case m of NilMap \<Rightarrow> NilMap
     | GoMap es \<Rightarrow> GoMap (filter (\<lambda>e. fst e \<noteq> k) es))"

text \<open>\<open>if m == nil { m = make(...) }\<close>\<close>

definition makeIfNil :: "'v gomap \<Rightarrow> 'v gomap" where
  "makeIfNil m = (case m of NilMap \<Rightarrow> GoMap [] | GoMap es \<Rightarrow> GoMap es)"

text \<open>\<open>maps.Copy(dst, src)\<close> on a made \<open>dst\<close>.\<close>

definition gcopy :: "'v gomap \<Rightarrow> 'v gomap \<Rightarrow> 'v gomap" where
  "gcopy dst src = foldr (\<lambda>(k, v) m. gput k v m) (entries src) dst"

definition gkeys :: "'v gomap \<Rightarrow> string list" where
  "gkeys m = remdups (map fst (entries m))"

definition glen :: "'v gomap \<Rightarrow> nat" where
  "glen m = length (gkeys m)"

text \<open>\<open>reflect.DeepEqual\<close> on two maps.\<close>

definition geq :: "'v gomap \<Rightarrow> 'v gomap \<Rightarrow> bool" where
  "geq a b = (isNil a = isNil b \<and>
     list_all (\<lambda>k. glookup a k = glookup b k) (gkeys a @ gkeys b))"

subsection \<open>Slices\<close>

type_synonym 'a slice = "'a list option"

definition elems :: "'a slice \<Rightarrow> 'a list" where
  "elems s = (case s of None \<Rightarrow> [] | Some xs \<Rightarrow> xs)"

text \<open>\<open>for i := range xs { if p(xs[i]) { xs[i] = f(xs[i]); break } }\<close>\<close>

fun updateFirst :: "('a \<Rightarrow> bool) \<Rightarrow> ('a \<Rightarrow> 'a) \<Rightarrow> 'a list \<Rightarrow> 'a list" where
  "updateFirst p f [] = []"
| "updateFirst p f (x # xs) = (if p x then f x # xs else x # updateFirst p f xs)"

text \<open>The same loop, appending \<open>y\<close> when no element matched.\<close>

fun upsertFirst :: "('a \<Rightarrow> bool) \<Rightarrow> ('a \<Rightarrow> 'a) \<Rightarrow> 'a \<Rightarrow> 'a list \<Rightarrow> 'a list" where
  "upsertFirst p f y [] = [y]"
| "upsertFirst p f y (x # xs) = (if p x then f x # xs else x # upsertFirst p f y xs)"

text \<open>
  \<open>m := make(map[string]T); for _, x := range xs { m[key(x)] = x }\<close>, read at \<open>k\<close>: the last
  element with that key.
\<close>

definition lastByKey :: "('a \<Rightarrow> string) \<Rightarrow> 'a list \<Rightarrow> string \<Rightarrow> 'a option" where
  "lastByKey key xs k = find (\<lambda>x. key x = k) (rev xs)"

subsection \<open>Strings\<close>

definition trimPrefix :: "string \<Rightarrow> string \<Rightarrow> string" where
  "trimPrefix s p = (if prefix p s then drop (length p) s else s)"

text \<open>
  \<open>unicode.IsSpace\<close>, as the UTF-8 encodings of the white-space runes that
  \<open>strings.TrimSpace\<close> removes.
\<close>

definition spaceEncodings :: "string list" where
  "spaceEncodings =
     map (\<lambda>c. [c]) [CHR 0x20, CHR 0x09, CHR 0x0A, CHR 0x0B, CHR 0x0C, CHR 0x0D] @
     map (\<lambda>c. [CHR 0xC2, c]) [CHR 0x85, CHR 0xA0] @
     [[CHR 0xE1, CHR 0x9A, CHR 0x80]] @
     map (\<lambda>c. [CHR 0xE2, CHR 0x80, c])
       [CHR 0x80, CHR 0x81, CHR 0x82, CHR 0x83, CHR 0x84, CHR 0x85, CHR 0x86, CHR 0x87,
        CHR 0x88, CHR 0x89, CHR 0x8A, CHR 0xA8, CHR 0xA9, CHR 0xAF] @
     [[CHR 0xE2, CHR 0x81, CHR 0x9F], [CHR 0xE3, CHR 0x80, CHR 0x80]]"

lemma spaceEncodings_nonempty: "p \<in> set spaceEncodings \<Longrightarrow> p \<noteq> []"
  by (auto simp: spaceEncodings_def)

text \<open>Strip leading occurrences of any of the (non-empty) encodings in \<open>encs\<close>.\<close>

function stripAny :: "string list \<Rightarrow> string \<Rightarrow> string" where
  "stripAny encs s =
     (case find (\<lambda>p. p \<noteq> [] \<and> prefix p s) encs of
        None \<Rightarrow> s
      | Some p \<Rightarrow> stripAny encs (drop (length p) s))"
  by pat_completeness auto
termination
proof (relation "measure (\<lambda>(encs, s). length s)", goal_cases)
  case 1
  show ?case by simp
next
  case (2 encs s p)
  then have "p \<noteq> []" and "prefix p s"
    by (auto simp: find_Some_iff)
  then show ?case by (cases p; cases s) auto
qed

declare stripAny.simps [simp del]

definition trimSpace :: "string \<Rightarrow> string" where
  "trimSpace s = rev (stripAny (map rev spaceEncodings) (rev (stripAny spaceEncodings s)))"

text \<open>\<open>strings.TrimRight(s, ",")\<close>\<close>

definition trimRightComma :: "string \<Rightarrow> string" where
  "trimRightComma s = rev (dropWhile (\<lambda>c. c = CHR '','') (rev s))"

text \<open>\<open>strings.Split(s, sep)\<close> for a separator of one byte, and \<open>strings.Join\<close>.\<close>

fun splitChar :: "char \<Rightarrow> string \<Rightarrow> string list" where
  "splitChar sep [] = [[]]"
| "splitChar sep (c # cs) =
     (if c = sep then [] # splitChar sep cs
      else (case splitChar sep cs of [] \<Rightarrow> [[c]] | w # ws \<Rightarrow> (c # w) # ws))"

fun joinWith :: "string \<Rightarrow> string list \<Rightarrow> string" where
  "joinWith sep [] = []"
| "joinWith sep [w] = w"
| "joinWith sep (w # ws) = w @ sep @ joinWith sep ws"

text \<open>\<open>strings.ToLower\<close> on ASCII letters.\<close>

definition toLowerAscii :: "string \<Rightarrow> string" where
  "toLowerAscii = map (\<lambda>c. if of_char c \<ge> (65::nat) \<and> of_char c \<le> (90::nat)
                            then char_of (of_char c + 32 :: nat) else c)"

definition digitChars :: string where
  "digitChars = ''0123456789''"

text \<open>Decimal digits of a natural number, as \<open>%d\<close> prints it.\<close>

fun showNat :: "nat \<Rightarrow> string" where
  "showNat n = (if n < 10 then [digitChars ! n] else showNat (n div 10) @ [digitChars ! (n mod 10)])"

declare showNat.simps [simp del]

text \<open>
  \<open>%q\<close> on a string of printable ASCII bytes: double quotes around it, a backslash before each
  double quote and backslash. Other bytes are passed through.
\<close>

definition quoted :: "string \<Rightarrow> string" where
  "quoted s = [CHR 0x22] @
     concat (map (\<lambda>c. if c = CHR 0x22 \<or> c = CHR 0x5C then [CHR 0x5C, c] else [c]) s) @ [CHR 0x22]"

section \<open>Generic lemmas\<close>

subsection \<open>Stateful calls\<close>

lemma gret_apply [prog_simps, simp]: "gret x s = (Ret x, s)"
  by (simp add: gret_def)

lemma gerr_apply [prog_simps, simp]: "gerr e s = (Err e, s)"
  by (simp add: gerr_def)

lemma gpanic_apply [prog_simps, simp]: "gpanic m s = (Panic m, s)"
  by (simp add: gpanic_def)

lemma andThen_apply [prog_simps]:
  "andThen m f s = (case m s of
       (Ret x, s') \<Rightarrow> f x s'
     | (Err e, s') \<Rightarrow> (Err e, s')
     | (Panic p, s') \<Rightarrow> (Panic p, s'))"
  by (simp add: andThen_def)

lemma andThen_gret [simp]: "andThen (gret x) f = f x"
  by (rule ext) (simp add: andThen_def)

lemma andThen_gerr [simp]: "andThen (gerr e) f = gerr e"
  by (rule ext) (simp add: andThen_def)

lemma andThen_gpanic [simp]: "andThen (gpanic e) f = gpanic e"
  by (rule ext) (simp add: andThen_def)

lemma andThen_assoc: "andThen (andThen m f) g = andThen m (\<lambda>x. andThen (f x) g)"
  by (rule ext) (simp add: andThen_def split: prod.splits result.splits)

lemma andThen_Ret_iff:
  "andThen m f s = (Ret y, s'') \<longleftrightarrow> (\<exists>x s'. m s = (Ret x, s') \<and> f x s' = (Ret y, s''))"
  by (simp add: andThen_def split: prod.splits result.splits)

lemma andThen_RetE:
  assumes "andThen m f s = (Ret y, s'')"
  obtains x s' where "m s = (Ret x, s')" and "f x s' = (Ret y, s'')"
  using assms by (auto simp: andThen_Ret_iff)

lemma onErr_apply [prog_simps]:
  "onErr m h s = (case m s of (Err e, s') \<Rightarrow> h e s' | r \<Rightarrow> r)"
  by (simp add: onErr_def)

text \<open>
  An invariant of the state that every stateful call in a composition keeps: the shape of all
  the frame and safety proofs over the reconcilers.
\<close>

definition keeps :: "('s \<Rightarrow> 's \<Rightarrow> bool) \<Rightarrow> ('e, 's, 'a) prog \<Rightarrow> bool" where
  "keeps R m \<longleftrightarrow> (\<forall>s. R s (snd (m s)))"

lemma keepsI: "(\<And>s. R s (snd (m s))) \<Longrightarrow> keeps R m"
  by (simp add: keeps_def)

lemma keepsD: "keeps R m \<Longrightarrow> m s = (r, s') \<Longrightarrow> R s s'"
  by (metis keeps_def snd_conv)

lemma keeps_gret [intro]: "reflp R \<Longrightarrow> keeps R (gret x)"
  by (simp add: keeps_def reflpD)

lemma keeps_gerr [intro]: "reflp R \<Longrightarrow> keeps R (gerr x)"
  by (simp add: keeps_def reflpD)

lemma keeps_gpanic [intro]: "reflp R \<Longrightarrow> keeps R (gpanic x)"
  by (simp add: keeps_def reflpD)

lemma keeps_andThen [intro]:
  assumes "transp R" and "keeps R m" and "\<And>x. keeps R (f x)"
  shows "keeps R (andThen m f)"
proof (rule keepsI)
  fix s
  have m: "R s (snd (m s))" using assms(2) by (simp add: keeps_def)
  show "R s (snd (andThen m f s))"
  proof (cases "m s")
    case (Pair r s')
    show ?thesis
    proof (cases r)
      case (Ret x)
      have "R s' (snd (f x s'))" using assms(3) by (simp add: keeps_def)
      with m Pair Ret assms(1) show ?thesis
        by (auto simp: andThen_def dest: transpD)
    qed (use m Pair in \<open>simp_all add: andThen_def\<close>)
  qed
qed

lemma keeps_onErr [intro]:
  assumes "transp R" and "keeps R m" and "\<And>e. keeps R (h e)"
  shows "keeps R (onErr m h)"
proof (rule keepsI)
  fix s
  have m: "R s (snd (m s))" using assms(2) by (simp add: keeps_def)
  show "R s (snd (onErr m h s))"
  proof (cases "m s")
    case (Pair r s')
    show ?thesis
    proof (cases r)
      case (Err e)
      have "R s' (snd (h e s'))" using assms(3) by (simp add: keeps_def)
      with m Pair Err assms(1) show ?thesis
        by (auto simp: onErr_def dest: transpD)
    qed (use m Pair in \<open>simp_all add: onErr_def\<close>)
  qed
qed

lemma keeps_forEach [intro]:
  assumes "reflp R" "transp R" and "\<And>x. x \<in> set xs \<Longrightarrow> keeps R (f x)"
  shows "keeps R (forEach xs f)"
  using assms by (induction xs) (auto intro!: keeps_gret keeps_andThen)

subsection \<open>Maps\<close>

lemma entries_makeIfNil [simp]: "entries (makeIfNil m) = entries m"
  by (cases m) (auto simp: makeIfNil_def)

lemma map_of_update_entries:
  "map_of (update_entries k v es) = (map_of es)(k \<mapsto> v)"
  by (induction es) (auto simp: fun_eq_iff)

lemma glookup_NilMap [simp, gomap_simps]: "glookup NilMap k = None"
  by (simp add: glookup_def)

lemma glookup_empty [simp, gomap_simps]: "glookup (GoMap []) k = None"
  by (simp add: glookup_def)

lemma glookup_gput [gomap_simps]: "glookup (gput k v m) k' = (if k' = k then Some v else glookup m k')"
  by (simp add: glookup_def gput_def map_of_update_entries)

lemma glookup_gdelete [gomap_simps]: "glookup (gdelete k m) k' = (if k' = k then None else glookup m k')"
proof (cases m)
  case (GoMap es)
  have "map_of (filter (\<lambda>e. fst e \<noteq> k) es) k' = (if k' = k then None else map_of es k')"
    by (induction es) auto
  with GoMap show ?thesis by (simp add: glookup_def gdelete_def)
qed (simp add: glookup_def gdelete_def)

lemma glookup_makeIfNil [simp, gomap_simps]: "glookup (makeIfNil m) k = glookup m k"
  by (simp add: glookup_def)

lemma glookup_gcopy [gomap_simps]:
  "glookup (gcopy dst src) k = (case glookup src k of Some v \<Rightarrow> Some v | None \<Rightarrow> glookup dst k)"
proof -
  have "glookup (foldr (\<lambda>(k, v) m. gput k v m) es dst) k =
        (case map_of es k of Some v \<Rightarrow> Some v | None \<Rightarrow> glookup dst k)" for es
    by (induction es) (auto simp: glookup_gput split: option.splits)
  then show ?thesis by (simp add: gcopy_def glookup_def)
qed

lemma isNil_gput [simp, gomap_simps]: "\<not> isNil (gput k v m)"
  by (simp add: isNil_def gput_def)

lemma isNil_GoMap [simp, gomap_simps]: "\<not> isNil (GoMap es)" and isNil_NilMap [simp, gomap_simps]: "isNil NilMap"
  by (simp_all add: isNil_def)

lemma isNil_makeIfNil [simp, gomap_simps]: "\<not> isNil (makeIfNil m)"
  by (cases m) (simp_all add: makeIfNil_def)

lemma isNil_gdelete [simp, gomap_simps]: "isNil (gdelete k m) = isNil m"
  by (cases m) (simp_all add: gdelete_def)

lemma isNil_gcopy [gomap_simps]: "\<not> isNil dst \<Longrightarrow> \<not> isNil (gcopy dst src)"
proof -
  assume "\<not> isNil dst"
  then have "\<not> isNil (foldr (\<lambda>(k, v) m. gput k v m) es dst)" for es
    by (induction es) auto
  then show ?thesis by (simp add: gcopy_def)
qed

lemma set_gkeys: "set (gkeys m) = {k. glookup m k \<noteq> None}"
proof -
  have "k \<in> fst ` set (entries m) \<longleftrightarrow> glookup m k \<noteq> None" for k
    by (simp add: glookup_def map_of_eq_None_iff)
  then show ?thesis by (auto simp: gkeys_def)
qed

lemma distinct_gkeys [simp]: "distinct (gkeys m)"
  by (simp add: gkeys_def)

lemma geq_iff: "geq a b \<longleftrightarrow> isNil a = isNil b \<and> glookup a = glookup b"
proof
  assume "geq a b"
  then have nils: "isNil a = isNil b"
    and eq: "\<And>k. k \<in> set (gkeys a) \<union> set (gkeys b) \<Longrightarrow> glookup a k = glookup b k"
    by (auto simp: geq_def list_all_iff)
  have "glookup a k = glookup b k" for k
  proof (cases "k \<in> set (gkeys a) \<union> set (gkeys b)")
    case True
    then show ?thesis by (rule eq)
  next
    case False
    then show ?thesis by (simp add: set_gkeys)
  qed
  with nils show "isNil a = isNil b \<and> glookup a = glookup b" by auto
next
  assume "isNil a = isNil b \<and> glookup a = glookup b"
  then show "geq a b" by (simp add: geq_def list_all_iff)
qed

lemma geq_refl [simp]: "geq m m"
  by (simp add: geq_iff)

lemma geq_sym: "geq a b \<Longrightarrow> geq b a"
  unfolding geq_iff by metis

lemma geq_trans: "geq a b \<Longrightarrow> geq b c \<Longrightarrow> geq a c"
  unfolding geq_iff by metis

lemma glen_0_iff: "glen m = 0 \<longleftrightarrow> entries m = []"
  by (simp add: glen_def gkeys_def)

lemma glen_0_lookup: "glen m = 0 \<longleftrightarrow> (\<forall>k. glookup m k = None)"
proof -
  have "glen m = 0 \<longleftrightarrow> set (gkeys m) = {}" by (simp add: glen_def)
  then show ?thesis by (auto simp: set_gkeys)
qed

text \<open>The interface of a Go map, and the laws its users rely on.\<close>

locale go_map =
  fixes lookup :: "'m \<Rightarrow> 'k \<Rightarrow> 'v option"
    and put :: "'k \<Rightarrow> 'v \<Rightarrow> 'm \<Rightarrow> 'm"
    and remove :: "'k \<Rightarrow> 'm \<Rightarrow> 'm"
    and copy :: "'m \<Rightarrow> 'm \<Rightarrow> 'm"
  assumes lookup_put: "lookup (put k v m) k' = (if k' = k then Some v else lookup m k')"
    and lookup_remove: "lookup (remove k m) k' = (if k' = k then None else lookup m k')"
    and lookup_copy: "lookup (copy dst src) k = (case lookup src k of Some v \<Rightarrow> Some v | None \<Rightarrow> lookup dst k)"
begin

lemma lookup_remove_all:
  "lookup (fold remove ks m) k = (if k \<in> set ks then None else lookup m k)"
  by (induction ks arbitrary: m) (auto simp: lookup_remove)

lemma copy_then_agrees: "lookup src k = Some v \<Longrightarrow> lookup (copy dst src) k = Some v"
  by (simp add: lookup_copy)

lemma copy_frame: "lookup src k = None \<Longrightarrow> lookup (copy dst src) k = lookup dst k"
  by (simp add: lookup_copy)

lemma copy_idem: "lookup (copy (copy dst src) src) = lookup (copy dst src)"
  by (rule ext) (simp add: lookup_copy split: option.splits)

lemma copy_copy_later_wins:
  "lookup (copy (copy dst a) b) k =
     (case lookup b k of Some v \<Rightarrow> Some v | None \<Rightarrow>
        (case lookup a k of Some v \<Rightarrow> Some v | None \<Rightarrow> lookup dst k))"
  by (simp add: lookup_copy split: option.splits)

end

interpretation gm: go_map glookup gput gdelete gcopy
  by unfold_locales (simp_all add: gomap_simps)

subsection \<open>Slices\<close>

lemma elems_simps [simp]: "elems None = []" "elems (Some xs) = xs"
  by (simp_all add: elems_def)

lemma updateFirst_id: "(\<And>x. x \<in> set xs \<Longrightarrow> \<not> p x) \<Longrightarrow> updateFirst p f xs = xs"
  by (induction xs) auto

lemma map_updateFirst:
  "(\<And>x. p x \<Longrightarrow> g (f x) = g x) \<Longrightarrow> map g (updateFirst p f xs) = map g xs"
  by (induction xs) auto

lemma updateFirst_idem:
  "(\<And>x. p x \<Longrightarrow> p (f x) \<and> f (f x) = f x) \<Longrightarrow>
   updateFirst p f (updateFirst p f xs) = updateFirst p f xs"
  by (induction xs) auto

lemma upsertFirst_idem:
  assumes "\<And>x. p x \<Longrightarrow> p (f x) \<and> f (f x) = f x" and "p y" and "f y = y"
  shows "upsertFirst p f y (upsertFirst p f y xs) = upsertFirst p f y xs"
  using assms by (induction xs) auto

text \<open>
  Slices whose elements carry a name: environment variables, volumes, volume mounts, containers,
  conditions. The code looks an element up by the first match, replaces it in place or appends.
\<close>

locale named_slice =
  fixes name_of :: "'a \<Rightarrow> string"
begin

abbreviation named :: "string \<Rightarrow> 'a \<Rightarrow> bool" where
  "named n x \<equiv> name_of x = n"

lemma find_upsert_same:
  assumes "name_of y = n" and "\<And>x. name_of x = n \<Longrightarrow> f x = y"
  shows "find (named n) (upsertFirst (named n) f y xs) = Some y"
  using assms by (induction xs) auto

lemma find_upsert_other:
  assumes "name_of y = n" and "\<And>x. name_of x = n \<Longrightarrow> name_of (f x) = n" and "n' \<noteq> n"
  shows "find (named n') (upsertFirst (named n) f y xs) = find (named n') xs"
  using assms by (induction xs) auto

lemma distinct_upsert:
  assumes "name_of y = n" and "\<And>x. name_of x = n \<Longrightarrow> name_of (f x) = n"
  shows "distinct (map name_of xs) \<Longrightarrow> distinct (map name_of (upsertFirst (named n) f y xs))"
proof (induction xs)
  case (Cons x xs)
  have set: "set (map name_of (upsertFirst (named n) f y xs)) \<subseteq> insert n (name_of ` set xs)"
    using assms by (induction xs) auto
  show ?case
  proof (cases "name_of x = n")
    case True
    with Cons.prems assms show ?thesis by auto
  next
    case False
    with Cons set show ?thesis by auto
  qed
qed simp

lemma find_prune_same: "find (named n) (filter (\<lambda>x. name_of x \<noteq> n) xs) = None"
  by (simp add: find_None_iff)

lemma find_prune_other:
  "n' \<noteq> n \<Longrightarrow> find (named n') (filter (\<lambda>x. name_of x \<noteq> n) xs) = find (named n') xs"
  by (induction xs) auto

lemma prune_upsert:
  assumes "name_of y = n" and "\<And>x. name_of x = n \<Longrightarrow> name_of (f x) = n"
  shows "filter (\<lambda>x. name_of x \<noteq> n) (upsertFirst (named n) f y xs) = filter (\<lambda>x. name_of x \<noteq> n) xs"
  using assms by (induction xs) auto

end

lemma lastByKey_SomeD:
  assumes "lastByKey key xs k = Some x"
  shows "x \<in> set xs" and "key x = k"
proof -
  from assms obtain i where "i < length (rev xs)" "key (rev xs ! i) = k" "x = rev xs ! i"
    by (auto simp: lastByKey_def find_Some_iff)
  then show "x \<in> set xs" and "key x = k" by (metis nth_mem set_rev, simp)
qed

lemma lastByKey_distinct:
  assumes "distinct (map key xs)" and "x \<in> set xs"
  shows "lastByKey key xs (key x) = Some x"
proof -
  from assms(2) have "find (\<lambda>y. key y = key x) (rev xs) \<noteq> None"
    by (auto simp: find_None_iff)
  then obtain y where y: "find (\<lambda>y. key y = key x) (rev xs) = Some y" by auto
  then have "y \<in> set xs" and "key y = key x"
    by (metis (mono_tags, lifting) find_Some_iff nth_mem set_rev, metis (mono_tags, lifting) find_Some_iff)
  with assms have "y = x" by (meson distinct_map inj_onD)
  with y show ?thesis by (simp add: lastByKey_def)
qed

subsection \<open>Strings\<close>

lemma splitChar_nonempty [simp]: "splitChar sep s \<noteq> []"
  by (induction s) (auto split: list.splits)

lemma joinWith_Cons: "ws \<noteq> [] \<Longrightarrow> joinWith sep (w # ws) = w @ sep @ joinWith sep ws"
  by (cases ws) auto

lemma join_splitChar: "joinWith [sep] (splitChar sep s) = s"
proof (induction s)
  case (Cons c cs)
  show ?case
  proof (cases "c = sep")
    case True
    with Cons show ?thesis by (simp add: joinWith_Cons)
  next
    case False
    obtain w ws where w: "splitChar sep cs = w # ws"
      by (cases "splitChar sep cs") auto
    with Cons have "joinWith [sep] (w # ws) = cs" by simp
    then have "joinWith [sep] ((c # w) # ws) = c # cs" by (cases ws) auto
    with False w show ?thesis by simp
  qed
qed simp

lemma splitChar_no_sep: "sep \<notin> set w \<Longrightarrow> splitChar sep w = [w]"
  by (induction w) auto

lemma splitChar_append_sep:
  "sep \<notin> set w \<Longrightarrow> splitChar sep (w @ sep # s) = w # splitChar sep s"
  by (induction w) auto

lemma split_joinWith:
  "ws \<noteq> [] \<Longrightarrow> (\<And>w. w \<in> set ws \<Longrightarrow> sep \<notin> set w) \<Longrightarrow> splitChar sep (joinWith [sep] ws) = ws"
proof (induction ws)
  case (Cons w ws)
  show ?case
  proof (cases ws)
    case Nil
    with Cons show ?thesis by (simp add: splitChar_no_sep)
  next
    case (Cons v vs)
    with Cons.IH Cons.prems have "splitChar sep (joinWith [sep] ws) = ws" by simp
    with Cons Cons.prems show ?thesis by (simp add: splitChar_append_sep)
  qed
qed simp

lemma splitChar_no_sep_in: "w \<in> set (splitChar sep s) \<Longrightarrow> sep \<notin> set w"
proof (induction s arbitrary: w)
  case (Cons c cs)
  obtain v vs where "splitChar sep cs = v # vs" by (cases "splitChar sep cs") auto
  with Cons show ?case by (auto split: if_splits)
qed simp

lemma trimRightComma_no_comma: "s \<noteq> [] \<Longrightarrow> last s \<noteq> CHR '','' \<Longrightarrow> trimRightComma s = s"
  by (cases s rule: rev_cases) (auto simp: trimRightComma_def)

end
