(* ===== verification/Reconcile_Errors.thy ===== *)
theory Reconcile_Errors
  imports Go_Prelude
begin

section \<open>Errors: \<^verbatim>\<open>pkg/controller/common/errors.go\<close>\<close>

text \<open>
  Go error values as the operator builds them, the error predicates of
  \<^verbatim>\<open>k8s.io/apimachinery/pkg/api/errors\<close> it branches on, the classification of
  \<^verbatim>\<open>ReconcileError\<close>, and the retry loop of \<^verbatim>\<open>k8s.io/client-go/util/retry\<close>.
  The lemmas show that a wrapped error keeps its class, that the three classes exclude each
  other, that the outermost classification decides, and how often a retried call runs.
\<close>

datatype ErrorReason = IrrecoverableError | RetryRequiredError | UserConfigurationError

text \<open>
  \<open>PlainErr\<close>: \<open>errors.New\<close> or \<open>fmt.Errorf\<close> without \<open>%w\<close>. \<open>SentinelErr\<close>: a package variable
  compared with \<open>errors.Is\<close>. \<open>StatusErr reason code message\<close>: an API status error.
  \<open>WrapErr p e s\<close>: \<open>fmt.Errorf\<close> with \<open>%w\<close> between the texts \<open>p\<close> and \<open>s\<close>.
  \<open>ValidationErr reason message\<close>: a \<open>trustedCABundleValidationError\<close>.
  \<open>AggregateErr\<close>: \<open>utilerrors.NewAggregate\<close> of two or more errors.
\<close>

datatype goerr =
    PlainErr string
  | SentinelErr string
  | StatusErr string int string
  | WrapErr string goerr string
  | ReconcileErr ErrorReason string goerr
  | ValidationErr string string
  | AggregateErr "goerr list"

subsection \<open>Construction\<close>

definition NewIrrecoverableError :: "goerr option \<Rightarrow> string \<Rightarrow> goerr option" where
  "NewIrrecoverableError err message =
     (case err of None \<Rightarrow> None | Some e \<Rightarrow> Some (ReconcileErr IrrecoverableError message e))"

definition NewRetryRequiredError :: "goerr option \<Rightarrow> string \<Rightarrow> goerr option" where
  "NewRetryRequiredError err message =
     (case err of None \<Rightarrow> None | Some e \<Rightarrow> Some (ReconcileErr RetryRequiredError message e))"

definition NewUserConfigurationError :: "goerr option \<Rightarrow> string \<Rightarrow> goerr option" where
  "NewUserConfigurationError err message =
     (case err of None \<Rightarrow> None | Some e \<Rightarrow> Some (ReconcileErr UserConfigurationError message e))"

subsection \<open>Inspection\<close>

text \<open>\<open>errors.As(err, &rerr)\<close> for a \<open>*ReconcileError\<close>: the outermost one of the chain.\<close>

fun asReconcileError :: "goerr \<Rightarrow> (ErrorReason \<times> string \<times> goerr) option" where
  "asReconcileError (ReconcileErr r m e) = Some (r, m, e)"
| "asReconcileError (WrapErr p e s) = asReconcileError e"
| "asReconcileError _ = None"

text \<open>\<open>errors.As\<close> for an \<open>APIStatus\<close>: reason and code.\<close>

fun asStatus :: "goerr \<Rightarrow> (string \<times> int) option" where
  "asStatus (StatusErr r c m) = Some (r, c)"
| "asStatus (WrapErr p e s) = asStatus e"
| "asStatus (ReconcileErr r m e) = asStatus e"
| "asStatus _ = None"

text \<open>\<open>errors.Is(err, sentinel)\<close>; an aggregate asks its members.\<close>

fun errorsIs :: "goerr \<Rightarrow> string \<Rightarrow> bool" where
  "errorsIs (SentinelErr t) s = (t = s)"
| "errorsIs (WrapErr p e x) s = errorsIs e s"
| "errorsIs (ReconcileErr r m e) s = errorsIs e s"
| "errorsIs (AggregateErr es) s = list_ex (\<lambda>e. errorsIs e s) es"
| "errorsIs _ s = False"

definition knownReasons :: "string list" where
  "knownReasons = [''Unauthorized'', ''Forbidden'', ''NotFound'', ''AlreadyExists'', ''Conflict'',
     ''Gone'', ''Invalid'', ''ServerTimeout'', ''StorageReadError'', ''Timeout'',
     ''TooManyRequests'', ''BadRequest'', ''MethodNotAllowed'', ''NotAcceptable'',
     ''RequestEntityTooLarge'', ''UnsupportedMediaType'', ''InternalError'', ''Expired'',
     ''ServiceUnavailable'']"

definition reasonAndCodeForError :: "goerr \<Rightarrow> string \<times> int" where
  "reasonAndCodeForError e = (case asStatus e of None \<Rightarrow> ('''', 0) | Some rc \<Rightarrow> rc)"

definition hasReasonOrCode :: "string \<Rightarrow> int \<Rightarrow> goerr \<Rightarrow> bool" where
  "hasReasonOrCode reason code e =
     (let (r, c) = reasonAndCodeForError e
      in r = reason \<or> (\<not> List.member knownReasons r \<and> c = code))"

definition IsNotFound :: "goerr \<Rightarrow> bool" where "IsNotFound = hasReasonOrCode ''NotFound'' 404"
definition IsConflict :: "goerr \<Rightarrow> bool" where "IsConflict = hasReasonOrCode ''Conflict'' 409"
definition IsInvalid :: "goerr \<Rightarrow> bool" where "IsInvalid = hasReasonOrCode ''Invalid'' 422"
definition IsBadRequest :: "goerr \<Rightarrow> bool" where "IsBadRequest = hasReasonOrCode ''BadRequest'' 400"
definition IsUnauthorized :: "goerr \<Rightarrow> bool" where "IsUnauthorized = hasReasonOrCode ''Unauthorized'' 401"
definition IsForbidden :: "goerr \<Rightarrow> bool" where "IsForbidden = hasReasonOrCode ''Forbidden'' 403"

definition IsAlreadyExists :: "goerr \<Rightarrow> bool" where
  "IsAlreadyExists e = (fst (reasonAndCodeForError e) = ''AlreadyExists'')"

definition IsTooManyRequests :: "goerr \<Rightarrow> bool" where
  "IsTooManyRequests e = (let (r, c) = reasonAndCodeForError e
      in r = ''TooManyRequests'' \<or> c = 429)"

definition IsIrrecoverableError :: "goerr option \<Rightarrow> bool" where
  "IsIrrecoverableError err =
     (case Option.bind err asReconcileError of
        None \<Rightarrow> False | Some (r, m, e) \<Rightarrow> r = IrrecoverableError)"

definition IsRetryRequiredError :: "goerr option \<Rightarrow> bool" where
  "IsRetryRequiredError err =
     (case Option.bind err asReconcileError of
        None \<Rightarrow> False | Some (r, m, e) \<Rightarrow> r = RetryRequiredError)"

definition IsUserConfigurationError :: "goerr option \<Rightarrow> bool" where
  "IsUserConfigurationError err =
     (case Option.bind err asReconcileError of
        None \<Rightarrow> False | Some (r, m, e) \<Rightarrow> r = UserConfigurationError)"

definition IsUserConfigurationNotFound :: "goerr option \<Rightarrow> bool" where
  "IsUserConfigurationNotFound err =
     (case Option.bind err asReconcileError of
        None \<Rightarrow> False
      | Some (r, m, e) \<Rightarrow> if r \<noteq> UserConfigurationError then False else IsNotFound e)"

definition FromClientError :: "goerr option \<Rightarrow> string \<Rightarrow> goerr option" where
  "FromClientError err message =
     (case err of None \<Rightarrow> None
      | Some e \<Rightarrow>
          if IsUnauthorized e \<or> IsForbidden e \<or> IsInvalid e \<or> IsBadRequest e
          then NewIrrecoverableError err message
          else NewRetryRequiredError err message)"

text \<open>The same for an error known to be non-nil, as the callers use it.\<close>

definition fromClientErr :: "goerr \<Rightarrow> string \<Rightarrow> goerr" where
  "fromClientErr e message = the (FromClientError (Some e) message)"

definition userConfigErr :: "goerr \<Rightarrow> string \<Rightarrow> goerr" where
  "userConfigErr e message = ReconcileErr UserConfigurationError message e"

definition irrecoverableErr :: "goerr \<Rightarrow> string \<Rightarrow> goerr" where
  "irrecoverableErr e message = ReconcileErr IrrecoverableError message e"

text \<open>\<open>Error()\<close>. An aggregate prints each distinct member text once, in brackets;
  the operator never puts an aggregate inside an aggregate.\<close>

fun errText :: "goerr \<Rightarrow> string" where
  "errText (PlainErr m) = m"
| "errText (SentinelErr m) = m"
| "errText (StatusErr r c m) = m"
| "errText (WrapErr p e s) = p @ errText e @ s"
| "errText (ReconcileErr r m e) = m @ '': '' @ errText e"
| "errText (ValidationErr r m) = m"
| "errText (AggregateErr es) =
     (case remdups (rev (map errText es)) of
        [] \<Rightarrow> ''''
      | [m] \<Rightarrow> m
      | ms \<Rightarrow> ''['' @ joinWith '', '' (rev ms) @ '']'')"

text \<open>\<open>utilerrors.NewAggregate([]error{a, b})\<close> with nil members dropped.\<close>

definition newAggregate :: "goerr option list \<Rightarrow> goerr option" where
  "newAggregate es = (case List.map_filter id es of [] \<Rightarrow> None | xs \<Rightarrow> Some (AggregateErr xs))"

subsection \<open>Retry loops\<close>

text \<open>
  \<open>retry.OnError(backoff, retriable, fn)\<close>: at most \<open>Suc n\<close> attempts; the last error when all of
  them fail with a retriable error. \<open>retry.DefaultRetry\<close> has 5 steps, so 4 further attempts.
\<close>

fun retryOnError :: "nat \<Rightarrow> (goerr \<Rightarrow> bool) \<Rightarrow> (goerr, 's, 'a) prog \<Rightarrow> (goerr, 's, 'a) prog" where
  "retryOnError 0 retriable fn = fn"
| "retryOnError (Suc n) retriable fn =
     onErr fn (\<lambda>e. if retriable e then retryOnError n retriable fn else gerr e)"

definition DefaultRetry :: nat where
  "DefaultRetry = 4"

definition retryOnConflict :: "(goerr, 's, 'a) prog \<Rightarrow> (goerr, 's, 'a) prog" where
  "retryOnConflict fn = retryOnError DefaultRetry IsConflict fn"

section \<open>Lemmas\<close>

lemmas error_class_defs = IsIrrecoverableError_def IsRetryRequiredError_def
  IsUserConfigurationError_def IsUserConfigurationNotFound_def

lemmas api_error_defs = IsNotFound_def IsConflict_def IsInvalid_def IsBadRequest_def
  IsUnauthorized_def IsForbidden_def IsAlreadyExists_def IsTooManyRequests_def
  hasReasonOrCode_def reasonAndCodeForError_def

lemma asReconcileError_WrapErr [simp]:
  "IsIrrecoverableError (Some (WrapErr p e s)) = IsIrrecoverableError (Some e)"
  "IsRetryRequiredError (Some (WrapErr p e s)) = IsRetryRequiredError (Some e)"
  "IsUserConfigurationError (Some (WrapErr p e s)) = IsUserConfigurationError (Some e)"
  "IsUserConfigurationNotFound (Some (WrapErr p e s)) = IsUserConfigurationNotFound (Some e)"
  by (simp_all add: error_class_defs)

lemma class_ReconcileErr [simp]:
  "IsIrrecoverableError (Some (ReconcileErr r m e)) = (r = IrrecoverableError)"
  "IsRetryRequiredError (Some (ReconcileErr r m e)) = (r = RetryRequiredError)"
  "IsUserConfigurationError (Some (ReconcileErr r m e)) = (r = UserConfigurationError)"
  "IsUserConfigurationNotFound (Some (ReconcileErr r m e)) =
     (r = UserConfigurationError \<and> IsNotFound e)"
  by (simp_all add: error_class_defs)

lemma class_None [simp]:
  "\<not> IsIrrecoverableError None" "\<not> IsRetryRequiredError None" "\<not> IsUserConfigurationError None"
  "\<not> IsUserConfigurationNotFound None"
  by (simp_all add: error_class_defs)

lemma api_error_through_wrappers [simp]:
  "IsNotFound (WrapErr p e s) = IsNotFound e" "IsNotFound (ReconcileErr r m e) = IsNotFound e"
  "IsConflict (WrapErr p e s) = IsConflict e" "IsConflict (ReconcileErr r m e) = IsConflict e"
  "IsAlreadyExists (WrapErr p e s) = IsAlreadyExists e"
  by (simp_all add: api_error_defs)

text \<open>A reason known to the API machinery decides by itself: the predicates exclude each other.\<close>

lemma known_reason_decides:
  assumes "asStatus e = Some (r, c)" and "r \<in> set knownReasons"
  shows "hasReasonOrCode r' c' e \<longleftrightarrow> r = r'"
  using assms by (auto simp: api_error_defs)

lemma class_exclusive:
  "\<not> (IsIrrecoverableError err \<and> IsRetryRequiredError err)"
  "\<not> (IsIrrecoverableError err \<and> IsUserConfigurationError err)"
  "\<not> (IsRetryRequiredError err \<and> IsUserConfigurationError err)"
  by (auto simp: error_class_defs split: option.splits)

lemma fromClientErr_cases:
  "fromClientErr e m =
     (if IsUnauthorized e \<or> IsForbidden e \<or> IsInvalid e \<or> IsBadRequest e
      then ReconcileErr IrrecoverableError m e else ReconcileErr RetryRequiredError m e)"
  by (simp add: fromClientErr_def FromClientError_def NewIrrecoverableError_def
      NewRetryRequiredError_def)

lemma fromClientErr_not_user [simp]:
  "\<not> IsUserConfigurationError (Some (fromClientErr e m))"
  by (simp add: fromClientErr_cases)

lemma retry_first_success:
  "fn s = (Ret x, s') \<Longrightarrow> retryOnError n retriable fn s = (Ret x, s')"
  by (cases n) (auto simp: onErr_def)

lemma retry_not_retriable:
  "fn s = (Err e, s') \<Longrightarrow> \<not> retriable e \<Longrightarrow> retryOnError n retriable fn s = (Err e, s')"
  by (cases n) (auto simp: onErr_def)

lemma retry_step:
  "fn s = (Err e, s') \<Longrightarrow> retriable e \<Longrightarrow>
   retryOnError (Suc n) retriable fn s = retryOnError n retriable fn s'"
  by (simp add: onErr_def)

lemma keeps_retryOnError [intro]:
  assumes "reflp R" "transp R" "keeps R fn"
  shows "keeps R (retryOnError n retriable fn)"
  using assms by (induction n) (auto intro!: keeps_onErr)

text \<open>
  How the reconcilers classify a failed API call. \<open>FromClientError\<close> answers nil exactly for
  nil; for an error it answers a reconcile error that wraps it, irrecoverable exactly when the
  API server answered Unauthorized, Forbidden, Invalid or BadRequest, retry-required otherwise,
  never a user-configuration error, even when the wrapped error was one.
\<close>

theorem from_client_error_classifies:
  "(FromClientError err m = None \<longleftrightarrow> err = None) \<and>
   (\<forall>e. err = Some e \<longrightarrow>
      (IsIrrecoverableError (FromClientError err m) \<longleftrightarrow>
         IsUnauthorized e \<or> IsForbidden e \<or> IsInvalid e \<or> IsBadRequest e) \<and>
      (IsRetryRequiredError (FromClientError err m) \<longleftrightarrow>
         \<not> IsIrrecoverableError (FromClientError err m)) \<and>
      \<not> IsUserConfigurationError (FromClientError err m) \<and>
      map_option errText (FromClientError err m) = Some (m @ '': '' @ errText e))"
  by (cases err) (auto simp: FromClientError_def NewIrrecoverableError_def NewRetryRequiredError_def)

theorem from_client_error_classifies_witness:
  "IsIrrecoverableError (FromClientError (Some (StatusErr ''Forbidden'' 403 ''denied'')) ''create'')"
proof -
  have "IsForbidden (StatusErr ''Forbidden'' 403 ''denied'')" by code_simp
  with from_client_error_classifies [of "Some (StatusErr ''Forbidden'' 403 ''denied'')" "''create''"]
  show ?thesis by blast
qed

end
