(* ===== verification/Kube_Types.thy ===== *)
theory Kube_Types
  imports Reconcile_Errors
begin

section \<open>Data: the operator's API and the Kubernetes objects it handles\<close>

text \<open>
  The custom resources of \<^verbatim>\<open>api/v1alpha1\<close> and the Kubernetes types the operator builds and
  compares, each struct as a record, each string enumeration as strings with named constants.
  Of a Kubernetes type the fields the operator reads or writes are modelled one by one; the rest
  of a struct, which the code only copies and compares with \<open>reflect.DeepEqual\<close>, is one field
  of type \<open>blob\<close>: its canonical JSON image. Pointers are options. A slice or map whose nil-ness
  is observable is a \<open>slice\<close> or a \<open>gomap\<close>, any other slice a list.
\<close>

datatype json =
    JNull
  | JBool bool
  | JNum int
  | JStr string
  | JArr "json list"
  | JObj "(string \<times> json) list"

type_synonym blob = json

subsection \<open>Object metadata\<close>

record objmeta =
  om_Name :: string
  om_Namespace :: string
  om_Labels :: strmap
  om_Annotations :: strmap
  om_Finalizers :: "string list"
  om_ResourceVersion :: string
  om_Generation :: int
  om_DeletionTimestamp :: "int option"

definition zeroMeta :: objmeta where
  "zeroMeta = \<lparr>om_Name = '''', om_Namespace = '''', om_Labels = NilMap, om_Annotations = NilMap,
     om_Finalizers = [], om_ResourceVersion = '''', om_Generation = 0, om_DeletionTimestamp = None\<rparr>"

text \<open>\<open>metav1.Condition\<close>; the transition time is left out (see \<open>Status_Conditions\<close>).\<close>

record condition =
  cond_Type :: string
  cond_Status :: string
  cond_Reason :: string
  cond_Message :: string
  cond_ObservedGeneration :: int

subsection \<open>Pod template\<close>

record EnvVar =
  ev_Name :: string
  ev_Value :: string
  ev_ValueFrom :: "blob option"

record VolumeMount =
  vm_Name :: string
  vm_MountPath :: string
  vm_ReadOnly :: bool
  vm_Other :: blob

record KeyToPath =
  ktp_Key :: string
  ktp_Path :: string
  ktp_Mode :: "int option"

record ConfigMapVolumeSource =
  cmvs_Name :: string
  cmvs_Items :: "KeyToPath slice"
  cmvs_DefaultMode :: "int option"
  cmvs_Optional :: "bool option"

record SecretVolumeSource =
  svs_SecretName :: string
  svs_Items :: "KeyToPath slice"
  svs_DefaultMode :: "int option"
  svs_Optional :: "bool option"

record Volume =
  v_Name :: string
  v_ConfigMap :: "ConfigMapVolumeSource option"
  v_Secret :: "SecretVolumeSource option"
  v_EmptyDir :: "blob option"
  v_Other :: blob

record ContainerPort =
  cp_Name :: string
  cp_ContainerPort :: int
  cp_Protocol :: string
  cp_Other :: blob

record HTTPGetAction =
  hg_Path :: string
  hg_Other :: blob

record Probe =
  pr_HTTPGet :: "HTTPGetAction option"
  pr_Other :: blob

record Capabilities =
  caps_Add :: "string slice"
  caps_Drop :: "string slice"

record SecurityContext =
  sc_AllowPrivilegeEscalation :: "bool option"
  sc_Capabilities :: "Capabilities option"
  sc_ReadOnlyRootFilesystem :: "bool option"
  sc_RunAsNonRoot :: "bool option"
  sc_RunAsUser :: "int option"
  sc_SeccompProfile :: "string option"
  sc_Other :: blob

text \<open>\<open>resource.Quantity\<close>: \<open>value * 10 ^ scale\<close> with a cached string.\<close>

record Quantity =
  q_value :: int
  q_scale :: int
  q_str :: string

type_synonym ResourceList = "Quantity gomap"

record ResourceRequirements =
  rr_Limits :: ResourceList
  rr_Requests :: ResourceList
  rr_Claims :: "blob slice"

record Container =
  c_Name :: string
  c_Image :: string
  c_ImagePullPolicy :: string
  c_Args :: "string slice"
  c_Env :: "EnvVar list"
  c_Ports :: "ContainerPort list"
  c_ReadinessProbe :: "Probe option"
  c_LivenessProbe :: "Probe option"
  c_SecurityContext :: "SecurityContext option"
  c_VolumeMounts :: "VolumeMount list"
  c_Resources :: ResourceRequirements
  c_Other :: blob

record PodSpec =
  ps_ServiceAccountName :: string
  ps_AutomountServiceAccountToken :: "bool option"
  ps_DNSPolicy :: string
  ps_HostNetwork :: bool
  ps_Volumes :: "Volume list"
  ps_NodeSelector :: strmap
  ps_Affinity :: "blob option"
  ps_Tolerations :: "blob slice"
  ps_TopologySpreadConstraints :: "blob slice"
  ps_Containers :: "Container list"
  ps_InitContainers :: "Container list"
  ps_Other :: blob

record PodTemplate =
  pt_Labels :: strmap
  pt_Annotations :: strmap
  pt_Spec :: PodSpec

record LabelSelectorRequirement =
  lsr_Key :: string
  lsr_Operator :: string
  lsr_Values :: "string slice"

record LabelSelector =
  ls_MatchLabels :: strmap
  ls_MatchExpressions :: "LabelSelectorRequirement slice"

record DeploymentStrategy =
  dst_Type :: string
  dst_RollingUpdate :: "blob option"

record DeploymentSpec =
  ds_Replicas :: "int option"
  ds_Selector :: "LabelSelector option"
  ds_Strategy :: DeploymentStrategy
  ds_MinReadySeconds :: int
  ds_Paused :: bool
  ds_ProgressDeadlineSeconds :: "int option"
  ds_RevisionHistoryLimit :: "int option"
  ds_Template :: PodTemplate

record Deployment =
  d_Meta :: objmeta
  d_Spec :: DeploymentSpec

subsection \<open>The other operand kinds\<close>

record Service =
  svc_Meta :: objmeta
  svc_Type :: string
  svc_Ports :: "blob slice"
  svc_Selector :: strmap

record NetworkPolicyPort =
  npp_Protocol :: "string option"
  npp_Port :: "int option"
  npp_Other :: blob

record NetworkPolicyEgressRule =
  er_Ports :: "NetworkPolicyPort slice"
  er_To :: "blob slice"

record NetworkPolicyObj =
  np_Meta :: objmeta
  np_PodSelector :: LabelSelector
  np_PolicyTypes :: "string slice"
  np_Ingress :: "blob slice"
  np_Egress :: "NetworkPolicyEgressRule slice"

text \<open>\<open>Role\<close> and \<open>ClusterRole\<close> have the same fields, and so have the two bindings.\<close>

record RoleObj =
  role_Meta :: objmeta
  role_Rules :: "blob slice"

record RoleRef =
  rref_APIGroup :: string
  rref_Kind :: string
  rref_Name :: string

record Subject =
  subj_Kind :: string
  subj_APIGroup :: string
  subj_Name :: string
  subj_Namespace :: string

record BindingObj =
  rb_Meta :: objmeta
  rb_RoleRef :: RoleRef
  rb_Subjects :: "Subject slice"

record SecretObj =
  sec_Meta :: objmeta
  sec_Data :: blob

record ConfigMapObj =
  cm_Meta :: objmeta
  cm_Data :: strmap

record WebhookService =
  whs_Name :: string
  whs_Path :: "string option"
  whs_Other :: blob

record ValidatingWebhook =
  wh_Name :: string
  wh_SideEffects :: "string option"
  wh_TimeoutSeconds :: "int option"
  wh_AdmissionReviewVersions :: "string slice"
  wh_ClientService :: "WebhookService option"
  wh_Rules :: "blob slice"
  wh_Other :: blob

record WebhookConfig =
  whc_Meta :: objmeta
  whc_Webhooks :: "ValidatingWebhook list"

record IssuerReference =
  iref_Name :: string
  iref_Kind :: string
  iref_Group :: string

record Certificate =
  cert_Meta :: objmeta
  cert_SecretName :: string
  cert_IssuerRef :: IssuerReference
  cert_DNSNames :: "string slice"
  cert_RenewBefore :: "int option"
  cert_Duration :: "int option"
  cert_Other :: blob

subsection \<open>The custom resources\<close>

text \<open>String enumerations keep every string a client may send.\<close>

type_synonym Mode = string
type_synonym ManagementState = string
type_synonym ComponentName = string
type_synonym FeatureName = string

definition Enabled :: Mode where "Enabled = ''Enabled''"
definition Disabled :: Mode where "Disabled = ''Disabled''"

definition ManagementStateManaged :: ManagementState where "ManagementStateManaged = ''Managed''"
definition ManagementStateUnmanaged :: ManagementState where "ManagementStateUnmanaged = ''Unmanaged''"

definition CoreController :: ComponentName where "CoreController = ''ExternalSecretsCoreController''"
definition BitwardenSDKServer :: ComponentName where "BitwardenSDKServer = ''BitwardenSDKServer''"
definition Webhook :: ComponentName where "Webhook = ''Webhook''"
definition CertController :: ComponentName where "CertController = ''CertController''"

definition UnsafeAllowGenericTargets :: FeatureName where
  "UnsafeAllowGenericTargets = ''UnsafeAllowGenericTargets''"

record ProxyConfig =
  px_HTTPProxy :: string
  px_HTTPSProxy :: string
  px_NoProxy :: string
  px_NetworkPolicyProvisioning :: ManagementState

record CommonConfigs =
  cc_LogLevel :: int
  cc_Resources :: "ResourceRequirements option"
  cc_Affinity :: "blob option"
  cc_Tolerations :: "blob slice"
  cc_NodeSelector :: strmap
  cc_Proxy :: "ProxyConfig option"

record ObjectReference =
  or_Name :: string
  or_Kind :: string
  or_Group :: string

record ConfigMapKeyReference =
  cmk_Name :: string
  cmk_Key :: string

record CertManagerConfig =
  cmc_Mode :: Mode
  cmc_InjectAnnotations :: string
  cmc_IssuerRef :: "ObjectReference option"
  cmc_CertificateDuration :: "int option"
  cmc_CertificateRenewBefore :: "int option"

record CertProvidersConfig =
  cpc_CertManager :: "CertManagerConfig option"

record BitwardenSecretManagerProvider =
  bw_Mode :: Mode
  bw_SecretRef :: "string option"

record PluginsConfig =
  pl_Bitwarden :: "BitwardenSecretManagerProvider option"

record ApplicationConfig =
  ac_Common :: CommonConfigs
  ac_OperatingNamespace :: string
  ac_CertificateCheckInterval :: "int option option"

record DeploymentConfig =
  dc_RevisionHistoryLimit :: "int option"
  dc_Replicas :: "int option"

text \<open>\<open>AdvancedOverrides\<close> is a \<open>*runtime.RawExtension\<close> whose \<open>Raw\<close> bytes may be nil.\<close>

record ComponentConfig =
  cpt_ComponentName :: ComponentName
  cpt_DeploymentConfigs :: "DeploymentConfig option"
  cpt_OverrideEnv :: "EnvVar list"
  cpt_AdvancedOverrides :: "string option option"

record NetworkPolicyConfig =
  npc_Name :: string
  npc_ComponentName :: ComponentName
  npc_Egress :: "NetworkPolicyEgressRule slice"

record ControllerConfig =
  ctl_CertProvider :: "CertProvidersConfig option"
  ctl_Labels :: strmap
  ctl_Annotations :: strmap
  ctl_NetworkPolicies :: "NetworkPolicyConfig slice"
  ctl_ComponentConfigs :: "ComponentConfig list"
  ctl_TrustedCABundle :: "ConfigMapKeyReference option"

record ExternalSecretsConfigSpec =
  spec_ApplicationConfig :: ApplicationConfig
  spec_Plugins :: PluginsConfig
  spec_ControllerConfig :: ControllerConfig

record ExternalSecretsConfigStatus =
  st_Conditions :: "condition list"
  st_ExternalSecretsImage :: string
  st_BitwardenSDKServerImage :: string

record ExternalSecretsConfig =
  esc_Meta :: objmeta
  esc_Spec :: ExternalSecretsConfigSpec
  esc_Status :: ExternalSecretsConfigStatus

record GlobalConfig =
  gc_Common :: CommonConfigs
  gc_Labels :: strmap

record Feature =
  ft_Name :: FeatureName
  ft_Mode :: Mode

record ExternalSecretsManagerSpec =
  es_GlobalConfig :: "GlobalConfig option"
  es_Features :: "Feature slice"

text \<open>\<open>operatorv1alpha1.Condition\<close> of the manager's aggregated status.\<close>

record ManagerCondition =
  mc_Type :: string
  mc_Status :: string
  mc_Message :: string

record ControllerStatus =
  cs_Name :: string
  cs_Conditions :: "ManagerCondition list"
  cs_ObservedGeneration :: int

record ExternalSecretsManagerStatus =
  ms_ControllerStatuses :: "ControllerStatus list"

record ExternalSecretsManager =
  esm_Meta :: objmeta
  esm_Spec :: ExternalSecretsManagerSpec
  esm_Status :: ExternalSecretsManagerStatus

text \<open>Zero values, as \<open>&ExternalSecretsConfig{}\<close> and the like.\<close>

definition zeroCommonConfigs :: CommonConfigs where
  "zeroCommonConfigs = \<lparr>cc_LogLevel = 0, cc_Resources = None, cc_Affinity = None, cc_Tolerations = None,
     cc_NodeSelector = NilMap, cc_Proxy = None\<rparr>"

definition zeroControllerConfig :: ControllerConfig where
  "zeroControllerConfig = \<lparr>ctl_CertProvider = None, ctl_Labels = NilMap, ctl_Annotations = NilMap,
     ctl_NetworkPolicies = None, ctl_ComponentConfigs = [], ctl_TrustedCABundle = None\<rparr>"

definition zeroESC :: ExternalSecretsConfig where
  "zeroESC = \<lparr>esc_Meta = zeroMeta,
     esc_Spec = \<lparr>spec_ApplicationConfig = \<lparr>ac_Common = zeroCommonConfigs, ac_OperatingNamespace = '''',
                    ac_CertificateCheckInterval = None\<rparr>,
       spec_Plugins = \<lparr>pl_Bitwarden = None\<rparr>,
       spec_ControllerConfig = zeroControllerConfig\<rparr>,
     esc_Status = \<lparr>st_Conditions = [], st_ExternalSecretsImage = '''', st_BitwardenSDKServerImage = ''''\<rparr>\<rparr>"

definition zeroESM :: ExternalSecretsManager where
  "zeroESM = \<lparr>esm_Meta = zeroMeta, esm_Spec = \<lparr>es_GlobalConfig = None, es_Features = None\<rparr>,
     esm_Status = \<lparr>ms_ControllerStatuses = []\<rparr>\<rparr>"

definition zeroContainer :: Container where
  "zeroContainer = \<lparr>c_Name = '''', c_Image = '''', c_ImagePullPolicy = '''', c_Args = None, c_Env = [], c_Ports = [],
     c_ReadinessProbe = None, c_LivenessProbe = None, c_SecurityContext = None, c_VolumeMounts = [],
     c_Resources = \<lparr>rr_Limits = NilMap, rr_Requests = NilMap, rr_Claims = None\<rparr>, c_Other = JNull\<rparr>"

definition zeroPodSpec :: PodSpec where
  "zeroPodSpec = \<lparr>ps_ServiceAccountName = '''', ps_AutomountServiceAccountToken = None, ps_DNSPolicy = '''',
     ps_HostNetwork = False, ps_Volumes = [], ps_NodeSelector = NilMap, ps_Affinity = None, ps_Tolerations = None,
     ps_TopologySpreadConstraints = None, ps_Containers = [], ps_InitContainers = [], ps_Other = JNull\<rparr>"

definition zeroDeployment :: Deployment where
  "zeroDeployment = \<lparr>d_Meta = zeroMeta, d_Spec = \<lparr>ds_Replicas = None, ds_Selector = None,
     ds_Strategy = \<lparr>dst_Type = '''', dst_RollingUpdate = None\<rparr>, ds_MinReadySeconds = 0, ds_Paused = False,
     ds_ProgressDeadlineSeconds = None, ds_RevisionHistoryLimit = None,
     ds_Template = \<lparr>pt_Labels = NilMap, pt_Annotations = NilMap, pt_Spec = zeroPodSpec\<rparr>\<rparr>\<rparr>"

subsection \<open>Objects\<close>

text \<open>\<open>client.Object\<close>: the kinds the operator passes to a Kubernetes client.\<close>

datatype kobj =
    KDeployment Deployment
  | KService Service
  | KNetworkPolicy NetworkPolicyObj
  | KClusterRole RoleObj
  | KRole RoleObj
  | KClusterRoleBinding BindingObj
  | KRoleBinding BindingObj
  | KServiceAccount objmeta
  | KSecret SecretObj
  | KConfigMap ConfigMapObj
  | KWebhookConfig WebhookConfig
  | KCertificate Certificate
  | KNamespace objmeta
  | KIssuer objmeta
  | KClusterIssuer objmeta
  | KCRD objmeta
  | KESC ExternalSecretsConfig
  | KESM ExternalSecretsManager

fun metaOf :: "kobj \<Rightarrow> objmeta" where
  "metaOf (KDeployment d) = d_Meta d"
| "metaOf (KService d) = svc_Meta d"
| "metaOf (KNetworkPolicy d) = np_Meta d"
| "metaOf (KClusterRole d) = role_Meta d"
| "metaOf (KRole d) = role_Meta d"
| "metaOf (KClusterRoleBinding d) = rb_Meta d"
| "metaOf (KRoleBinding d) = rb_Meta d"
| "metaOf (KServiceAccount m) = m"
| "metaOf (KSecret d) = sec_Meta d"
| "metaOf (KConfigMap d) = cm_Meta d"
| "metaOf (KWebhookConfig d) = whc_Meta d"
| "metaOf (KCertificate d) = cert_Meta d"
| "metaOf (KNamespace m) = m"
| "metaOf (KIssuer m) = m"
| "metaOf (KClusterIssuer m) = m"
| "metaOf (KCRD m) = m"
| "metaOf (KESC d) = esc_Meta d"
| "metaOf (KESM d) = esm_Meta d"

fun mapMeta :: "(objmeta \<Rightarrow> objmeta) \<Rightarrow> kobj \<Rightarrow> kobj" where
  "mapMeta f (KDeployment d) = KDeployment (d\<lparr>d_Meta := f (d_Meta d)\<rparr>)"
| "mapMeta f (KService d) = KService (d\<lparr>svc_Meta := f (svc_Meta d)\<rparr>)"
| "mapMeta f (KNetworkPolicy d) = KNetworkPolicy (d\<lparr>np_Meta := f (np_Meta d)\<rparr>)"
| "mapMeta f (KClusterRole d) = KClusterRole (d\<lparr>role_Meta := f (role_Meta d)\<rparr>)"
| "mapMeta f (KRole d) = KRole (d\<lparr>role_Meta := f (role_Meta d)\<rparr>)"
| "mapMeta f (KClusterRoleBinding d) = KClusterRoleBinding (d\<lparr>rb_Meta := f (rb_Meta d)\<rparr>)"
| "mapMeta f (KRoleBinding d) = KRoleBinding (d\<lparr>rb_Meta := f (rb_Meta d)\<rparr>)"
| "mapMeta f (KServiceAccount m) = KServiceAccount (f m)"
| "mapMeta f (KSecret d) = KSecret (d\<lparr>sec_Meta := f (sec_Meta d)\<rparr>)"
| "mapMeta f (KConfigMap d) = KConfigMap (d\<lparr>cm_Meta := f (cm_Meta d)\<rparr>)"
| "mapMeta f (KWebhookConfig d) = KWebhookConfig (d\<lparr>whc_Meta := f (whc_Meta d)\<rparr>)"
| "mapMeta f (KCertificate d) = KCertificate (d\<lparr>cert_Meta := f (cert_Meta d)\<rparr>)"
| "mapMeta f (KNamespace m) = KNamespace (f m)"
| "mapMeta f (KIssuer m) = KIssuer (f m)"
| "mapMeta f (KClusterIssuer m) = KClusterIssuer (f m)"
| "mapMeta f (KCRD m) = KCRD (f m)"
| "mapMeta f (KESC d) = KESC (d\<lparr>esc_Meta := f (esc_Meta d)\<rparr>)"
| "mapMeta f (KESM d) = KESM (d\<lparr>esm_Meta := f (esm_Meta d)\<rparr>)"

text \<open>The Go type of an object: \<open>reflect.TypeOf\<close>.\<close>

fun kindOf :: "kobj \<Rightarrow> string" where
  "kindOf (KDeployment d) = ''Deployment''"
| "kindOf (KService d) = ''Service''"
| "kindOf (KNetworkPolicy d) = ''NetworkPolicy''"
| "kindOf (KClusterRole d) = ''ClusterRole''"
| "kindOf (KRole d) = ''Role''"
| "kindOf (KClusterRoleBinding d) = ''ClusterRoleBinding''"
| "kindOf (KRoleBinding d) = ''RoleBinding''"
| "kindOf (KServiceAccount m) = ''ServiceAccount''"
| "kindOf (KSecret d) = ''Secret''"
| "kindOf (KConfigMap d) = ''ConfigMap''"
| "kindOf (KWebhookConfig d) = ''ValidatingWebhookConfiguration''"
| "kindOf (KCertificate d) = ''Certificate''"
| "kindOf (KNamespace m) = ''Namespace''"
| "kindOf (KIssuer m) = ''Issuer''"
| "kindOf (KClusterIssuer m) = ''ClusterIssuer''"
| "kindOf (KCRD m) = ''CustomResourceDefinition''"
| "kindOf (KESC d) = ''ExternalSecretsConfig''"
| "kindOf (KESM d) = ''ExternalSecretsManager''"

type_synonym nsname = "string \<times> string"

definition objectKey :: "kobj \<Rightarrow> nsname" where
  "objectKey o1 = (om_Namespace (metaOf o1), om_Name (metaOf o1))"

text \<open>\<open>types.NamespacedName.String()\<close>\<close>

definition nsnameString :: "nsname \<Rightarrow> string" where
  "nsnameString k = fst k @ ''/'' @ snd k"

lemma metaOf_mapMeta [simp]: "metaOf (mapMeta f x) = f (metaOf x)"
  by (cases x) simp_all

lemma kindOf_mapMeta [simp]: "kindOf (mapMeta f x) = kindOf x"
  by (cases x) simp_all

lemma mapMeta_id [simp]: "mapMeta (\<lambda>m. m) x = x"
  by (cases x) simp_all

lemma mapMeta_comp: "mapMeta f (mapMeta g x) = mapMeta (\<lambda>m. f (g m)) x"
  by (cases x) simp_all

end
