(* ===== verification/Kube_Client.thy ===== *)
theory Kube_Client
  imports Kube_Types
begin

section \<open>The Kubernetes client: \<^verbatim>\<open>pkg/controller/client/client.go\<close>\<close>

text \<open>
  The controller-runtime client is not part of the repository. It is a parameter of the model: a
  record of its calls over an arbitrary cluster state. The wrapper \<^verbatim>\<open>CtrlClientImpl\<close> adds
  \<open>Exists\<close> and \<open>UpdateWithRetry\<close>, which are definitions over that record. The locales state the
  documented behaviour of the API server that the reconcilers rely on; they are interpreted on an
  in-memory server with optimistic locking, a label-filtered cache in front of it, and scripted
  faults: any prefix of calls may fail with any errors.
\<close>

text \<open>
  The patches the operator sends: a merge patch on \<open>metadata.labels\<close> and
  \<open>metadata.annotations\<close> and a JSON patch that adds both maps.
\<close>

datatype cpatch =
    MergeMetadata "(string \<times> string) list" "(string \<times> string) list"
  | AddMetadata strmap strmap

text \<open>
  A call that takes an object by pointer returns the object as the server answered it;
  \<open>Get\<close> is given the Go type of its destination.
\<close>

record 's client =
  cl_Get :: "string \<Rightarrow> nsname \<Rightarrow> (goerr, 's, kobj) prog"
  cl_List :: "string \<Rightarrow> string \<Rightarrow> (string \<times> string) list \<Rightarrow> (goerr, 's, kobj list) prog"
  cl_Create :: "kobj \<Rightarrow> (goerr, 's, kobj) prog"
  cl_Update :: "kobj \<Rightarrow> (goerr, 's, kobj) prog"
  cl_Delete :: "kobj \<Rightarrow> (goerr, 's, unit) prog"
  cl_Patch :: "kobj \<Rightarrow> cpatch \<Rightarrow> (goerr, 's, kobj) prog"
  cl_StatusUpdate :: "kobj \<Rightarrow> (goerr, 's, kobj) prog"

subsection \<open>The wrapper\<close>

text \<open>\<open>Exists\<close>: the object when it is there, nothing when the server answers NotFound.\<close>

definition Exists :: "'s client \<Rightarrow> string \<Rightarrow> nsname \<Rightarrow> (goerr, 's, kobj option) prog" where
  "Exists c kind key =
     onErr (andThen (cl_Get c kind key) (\<lambda>obj. gret (Some obj)))
           (\<lambda>err. if IsNotFound err then gret None else gerr err)"

definition setResourceVersion :: "string \<Rightarrow> kobj \<Rightarrow> kobj" where
  "setResourceVersion rv = mapMeta (\<lambda>m. m\<lparr>om_ResourceVersion := rv\<rparr>)"

definition getResourceVersion :: "kobj \<Rightarrow> string" where
  "getResourceVersion obj = om_ResourceVersion (metaOf obj)"

definition updateAttempt :: "'s client \<Rightarrow> kobj \<Rightarrow> (goerr, 's, kobj) prog" where
  "updateAttempt c obj =
     (let key = objectKey obj in
      andThen (onErr (cl_Get c (kindOf obj) key)
                 (\<lambda>err. gerr (WrapErr (''failed to fetch latest '' @ quoted (nsnameString key) @ '' for update: '') err '''')))
        (\<lambda>current. onErr (cl_Update c (setResourceVersion (getResourceVersion current) obj))
                 (\<lambda>err. gerr (WrapErr (''failed to update '' @ quoted (nsnameString key) @ '' resource: '') err ''''))))"

definition UpdateWithRetry :: "'s client \<Rightarrow> kobj \<Rightarrow> (goerr, 's, kobj) prog" where
  "UpdateWithRetry c obj = retryOnConflict (updateAttempt c obj)"

subsection \<open>An in-memory API server\<close>

text \<open>
  Objects by kind and key, a counter for resource versions, and the errors with which the next
  calls fail (\<open>None\<close>: the call goes through).
\<close>

type_synonym objid = "string \<times> nsname"

record memserver =
  mem_objects :: "(objid \<times> kobj) list"
  mem_version :: nat
  mem_faults :: "goerr option list"

definition objid :: "kobj \<Rightarrow> objid" where
  "objid o1 = (kindOf o1, objectKey o1)"

definition memLookup :: "memserver \<Rightarrow> objid \<Rightarrow> kobj option" where
  "memLookup s i = map_of (mem_objects s) i"

text \<open>Every call first consumes one scripted fault.\<close>

definition withFault :: "(goerr, memserver, 'a) prog \<Rightarrow> (goerr, memserver, 'a) prog" where
  "withFault m = (\<lambda>s. case mem_faults s of
       [] \<Rightarrow> m s
     | None # fs \<Rightarrow> m (s\<lparr>mem_faults := fs\<rparr>)
     | Some e # fs \<Rightarrow> (Err e, s\<lparr>mem_faults := fs\<rparr>))"

definition notFoundErr :: goerr where
  "notFoundErr = StatusErr ''NotFound'' 404 ''not found''"

definition alreadyExistsErr :: goerr where
  "alreadyExistsErr = StatusErr ''AlreadyExists'' 409 ''already exists''"

definition conflictErr :: goerr where
  "conflictErr = StatusErr ''Conflict'' 409 ''the object has been modified''"

definition memStore :: "kobj \<Rightarrow> (goerr, memserver, kobj) prog" where
  "memStore obj = (\<lambda>s.
     let v = Suc (mem_version s); obj' = setResourceVersion (showNat v) obj in
     (Ret obj', s\<lparr>mem_objects := (objid obj, obj') # filter (\<lambda>e. fst e \<noteq> objid obj) (mem_objects s), mem_version := v\<rparr>))"

definition memGet :: "(kobj \<Rightarrow> bool) \<Rightarrow> string \<Rightarrow> nsname \<Rightarrow> (goerr, memserver, kobj) prog" where
  "memGet visible kind key = withFault (\<lambda>s. case memLookup s (kind, key) of
       None \<Rightarrow> (Err notFoundErr, s)
     | Some o1 \<Rightarrow> if visible o1 then (Ret o1, s) else (Err notFoundErr, s))"

definition memCreate :: "kobj \<Rightarrow> (goerr, memserver, kobj) prog" where
  "memCreate obj = withFault (\<lambda>s. case memLookup s (objid obj) of
       None \<Rightarrow> memStore obj s
     | Some _ \<Rightarrow> (Err alreadyExistsErr, s))"

definition withStatusOf :: "kobj \<Rightarrow> kobj \<Rightarrow> kobj" where
  "withStatusOf src dst = (case (src, dst) of
       (KESC a, KESC b) \<Rightarrow> KESC (b\<lparr>esc_Status := esc_Status a\<rparr>)
     | (KESM a, KESM b) \<Rightarrow> KESM (b\<lparr>esm_Status := esm_Status a\<rparr>)
     | _ \<Rightarrow> dst)"

definition deleting :: "kobj \<Rightarrow> bool" where
  "deleting o1 = (om_DeletionTimestamp (metaOf o1) \<noteq> None)"

definition memRemove :: "objid \<Rightarrow> memserver \<Rightarrow> memserver" where
  "memRemove i s = s\<lparr>mem_objects := filter (\<lambda>e. fst e \<noteq> i) (mem_objects s)\<rparr>"

text \<open>
  An update keeps the status and the deletion mark of the stored object. An object being deleted
  takes no new finalizers and disappears with its last one.
\<close>

definition memUpdate :: "kobj \<Rightarrow> (goerr, memserver, kobj) prog" where
  "memUpdate obj = withFault (\<lambda>s. case memLookup s (objid obj) of
       None \<Rightarrow> (Err notFoundErr, s)
     | Some cur \<Rightarrow>
         if getResourceVersion cur \<noteq> getResourceVersion obj then (Err conflictErr, s)
         else if deleting cur \<and> \<not> list_all (List.member (om_Finalizers (metaOf cur))) (om_Finalizers (metaOf obj))
         then (Err (StatusErr ''Invalid'' 422 ''no new finalizers can be added if the object is being deleted''), s)
         else (let obj' = mapMeta (\<lambda>m. m\<lparr>om_DeletionTimestamp := om_DeletionTimestamp (metaOf cur)\<rparr>) (withStatusOf cur obj) in
           if deleting cur \<and> om_Finalizers (metaOf obj) = [] then (Ret obj', memRemove (objid obj) s)
           else memStore obj' s))"

text \<open>An object with finalizers is only marked for deletion.\<close>

definition memDelete :: "kobj \<Rightarrow> (goerr, memserver, unit) prog" where
  "memDelete obj = withFault (\<lambda>s. case memLookup s (objid obj) of
       None \<Rightarrow> (Err notFoundErr, s)
     | Some cur \<Rightarrow>
         if om_Finalizers (metaOf cur) = [] then (Ret (), memRemove (objid obj) s)
         else (Ret (), snd (memStore (mapMeta (\<lambda>m. m\<lparr>om_DeletionTimestamp := Some (int (mem_version s))\<rparr>) cur) s)))"

definition applyPatch :: "cpatch \<Rightarrow> objmeta \<Rightarrow> objmeta" where
  "applyPatch p m = (case p of
       MergeMetadata ls as \<Rightarrow> m\<lparr>om_Labels := (if ls = [] then om_Labels m else gcopy (makeIfNil (om_Labels m)) (GoMap ls)),
                               om_Annotations := (if as = [] then om_Annotations m else gcopy (makeIfNil (om_Annotations m)) (GoMap as))\<rparr>
     | AddMetadata ls as \<Rightarrow> m\<lparr>om_Labels := ls, om_Annotations := as\<rparr>)"

definition memPatch :: "kobj \<Rightarrow> cpatch \<Rightarrow> (goerr, memserver, kobj) prog" where
  "memPatch obj p = withFault (\<lambda>s. case memLookup s (objid obj) of
       None \<Rightarrow> (Err notFoundErr, s)
     | Some cur \<Rightarrow> memStore (mapMeta (applyPatch p) cur) s)"

definition memStatusUpdate :: "kobj \<Rightarrow> (goerr, memserver, kobj) prog" where
  "memStatusUpdate obj = withFault (\<lambda>s. case memLookup s (objid obj) of
       None \<Rightarrow> (Err notFoundErr, s)
     | Some cur \<Rightarrow> if getResourceVersion cur = getResourceVersion obj then memStore (withStatusOf obj cur) s
                   else (Err conflictErr, s))"

definition memList :: "(kobj \<Rightarrow> bool) \<Rightarrow> string \<Rightarrow> string \<Rightarrow> (string \<times> string) list \<Rightarrow> (goerr, memserver, kobj list) prog" where
  "memList visible kind ns labels = withFault (\<lambda>s. (Ret (filter (\<lambda>o1. visible o1 \<and> kindOf o1 = kind \<and>
       (ns = '''' \<or> om_Namespace (metaOf o1) = ns) \<and>
       list_all (\<lambda>(k, v). glookup (om_Labels (metaOf o1)) k = Some v) labels) (map snd (mem_objects s))), s))"

definition memClient :: "(kobj \<Rightarrow> bool) \<Rightarrow> memserver client" where
  "memClient visible = \<lparr>cl_Get = memGet visible, cl_List = memList visible, cl_Create = memCreate,
     cl_Update = memUpdate, cl_Delete = memDelete, cl_Patch = memPatch, cl_StatusUpdate = memStatusUpdate\<rparr>"

text \<open>The stored objects carry their own key, and there is one per key.\<close>

definition memWf :: "memserver \<Rightarrow> bool" where
  "memWf s = (list_all (\<lambda>(i, o1). objid o1 = i) (mem_objects s) \<and> distinct (map fst (mem_objects s)))"

section \<open>What the operator relies on\<close>

text \<open>The same object up to the metadata fields the server owns.\<close>

definition sameUpToServer :: "kobj \<Rightarrow> kobj \<Rightarrow> bool" where
  "sameUpToServer a b \<longleftrightarrow> (\<exists>rv gen dt. b = mapMeta (\<lambda>m. m\<lparr>om_ResourceVersion := rv, om_Generation := gen, om_DeletionTimestamp := dt\<rparr>) a)"

lemma objid_mapMeta_server [simp]:
  "objid (mapMeta (\<lambda>m. m\<lparr>om_ResourceVersion := rv, om_Generation := g, om_DeletionTimestamp := t\<rparr>) o1) = objid o1"
  "objid (mapMeta (\<lambda>m. m\<lparr>om_DeletionTimestamp := t\<rparr>) o1) = objid o1"
  by (simp_all add: objid_def objectKey_def)

lemma objid_setResourceVersion [simp]: "objid (setResourceVersion rv o1) = objid o1"
  by (simp add: objid_def objectKey_def setResourceVersion_def)

lemma sameUpToServer_refl [simp]: "sameUpToServer a a"
proof -
  have "a = mapMeta (\<lambda>m. m\<lparr>om_ResourceVersion := om_ResourceVersion (metaOf a), om_Generation := om_Generation (metaOf a),
      om_DeletionTimestamp := om_DeletionTimestamp (metaOf a)\<rparr>) a"
    by (cases a) simp_all
  then show ?thesis unfolding sameUpToServer_def by blast
qed

lemma sameUpToServer_setResourceVersion [simp]:
  "sameUpToServer (setResourceVersion rv a) b \<longleftrightarrow> sameUpToServer a b"
proof -
  have "mapMeta (\<lambda>m. m\<lparr>om_ResourceVersion := v, om_Generation := g, om_DeletionTimestamp := t\<rparr>) (setResourceVersion rv a) =
        mapMeta (\<lambda>m. m\<lparr>om_ResourceVersion := v, om_Generation := g, om_DeletionTimestamp := t\<rparr>) a" for v g t
    by (simp add: setResourceVersion_def mapMeta_comp)
  then show ?thesis by (simp add: sameUpToServer_def)
qed

lemma sameUpToServer_stored [simp]: "sameUpToServer a (setResourceVersion rv a)"
proof -
  have "setResourceVersion rv a =
      mapMeta (\<lambda>m. m\<lparr>om_ResourceVersion := rv, om_Generation := om_Generation (metaOf a),
        om_DeletionTimestamp := om_DeletionTimestamp (metaOf a)\<rparr>) a"
    by (cases a) (simp_all add: setResourceVersion_def)
  then show ?thesis unfolding sameUpToServer_def by blast
qed

lemma sameUpToServer_deletion [simp]:
  "sameUpToServer (mapMeta (\<lambda>m. m\<lparr>om_DeletionTimestamp := t\<rparr>) a) b \<longleftrightarrow> sameUpToServer a b"
proof -
  have "mapMeta (\<lambda>m. m\<lparr>om_ResourceVersion := v, om_Generation := g, om_DeletionTimestamp := t'\<rparr>) (mapMeta (\<lambda>m. m\<lparr>om_DeletionTimestamp := t\<rparr>) a) =
        mapMeta (\<lambda>m. m\<lparr>om_ResourceVersion := v, om_Generation := g, om_DeletionTimestamp := t'\<rparr>) a" for v g t'
    by (simp add: mapMeta_comp)
  then show ?thesis by (simp add: sameUpToServer_def)
qed

lemma objid_withStatusOf [simp]: "objid (withStatusOf a b) = objid b"
  by (cases a; cases b) (simp_all add: withStatusOf_def objid_def objectKey_def)

lemma metaOf_withStatusOf [simp]: "metaOf (withStatusOf a b) = metaOf b"
  by (cases a; cases b) (simp_all add: withStatusOf_def)

lemma withStatusOf_setResourceVersion [simp]: "withStatusOf a (setResourceVersion rv b) = setResourceVersion rv (withStatusOf a b)"
  by (cases a; cases b) (simp_all add: withStatusOf_def setResourceVersion_def)

lemma finalizers_setResourceVersion [simp]: "om_Finalizers (metaOf (setResourceVersion rv b)) = om_Finalizers (metaOf b)"
  by (simp add: setResourceVersion_def)

text \<open>
  What the server makes of an accepted update of \<open>cur\<close> by \<open>o1\<close>: it keeps the status and the deletion
  mark of \<open>cur\<close>; an object being deleted takes no new finalizers, and is gone with its last one.
\<close>

definition acceptedUpdate :: "kobj \<Rightarrow> kobj \<Rightarrow> kobj \<Rightarrow> bool" where
  "acceptedUpdate cur o1 o2 \<longleftrightarrow> sameUpToServer (withStatusOf cur o1) o2 \<and>
     om_DeletionTimestamp (metaOf o2) = om_DeletionTimestamp (metaOf cur) \<and>
     (deleting cur \<longrightarrow> set (om_Finalizers (metaOf o1)) \<subseteq> set (om_Finalizers (metaOf cur)))"

definition afterUpdate :: "kobj \<Rightarrow> kobj \<Rightarrow> kobj \<Rightarrow> kobj option" where
  "afterUpdate cur o1 o2 = (if deleting cur \<and> om_Finalizers (metaOf o1) = [] then None else Some o2)"

lemma update_setResourceVersion [simp]:
  "acceptedUpdate cur (setResourceVersion rv o1) o2 \<longleftrightarrow> acceptedUpdate cur o1 o2"
  "afterUpdate cur (setResourceVersion rv o1) o2 = afterUpdate cur o1 o2"
  by (simp_all add: acceptedUpdate_def afterUpdate_def)

lemma sameUpToServer_objid: "sameUpToServer a b \<Longrightarrow> objid b = objid a"
  by (auto simp: sameUpToServer_def)

text \<open>
  A client of an API server whose objects are \<open>objs s\<close>. Every call may fail with any error; a
  failed call changes nothing; a call that succeeds had the effect it promises. \<open>Get\<close> of a cached
  client may miss objects, so an answer NotFound says nothing about the server. \<open>wf\<close> is the
  server's own invariant.
\<close>

locale api_client =
  fixes c :: "'s client"
    and objs :: "'s \<Rightarrow> objid \<Rightarrow> kobj option"
    and wf :: "'s \<Rightarrow> bool"
  assumes get_Ret: "wf s \<Longrightarrow> cl_Get c k n s = (Ret o1, s') \<Longrightarrow> objs s (k, n) = Some o1 \<and> objid o1 = (k, n) \<and> objs s' = objs s \<and> wf s'"
    and get_Err: "wf s \<Longrightarrow> cl_Get c k n s = (Err e, s') \<Longrightarrow> objs s' = objs s \<and> wf s'"
    and get_noPanic: "cl_Get c k n s \<noteq> (Panic p, s')"
    and create_Ret: "wf s \<Longrightarrow> cl_Create c o1 s = (Ret o2, s') \<Longrightarrow>
      objs s (objid o1) = None \<and> sameUpToServer o1 o2 \<and> objs s' = (objs s)(objid o1 \<mapsto> o2) \<and> wf s'"
    and create_Err: "wf s \<Longrightarrow> cl_Create c o1 s = (Err e, s') \<Longrightarrow> objs s' = objs s \<and> wf s'"
    and create_noPanic: "cl_Create c o1 s \<noteq> (Panic p, s')"
    and update_Ret: "wf s \<Longrightarrow> cl_Update c o1 s = (Ret o2, s') \<Longrightarrow>
      (\<exists>cur. objs s (objid o1) = Some cur \<and> acceptedUpdate cur o1 o2 \<and> objs s' = (objs s)(objid o1 := afterUpdate cur o1 o2)) \<and> wf s'"
    and update_Err: "wf s \<Longrightarrow> cl_Update c o1 s = (Err e, s') \<Longrightarrow> objs s' = objs s \<and> wf s'"
    and update_noPanic: "cl_Update c o1 s \<noteq> (Panic p, s')"
    and patch_Ret: "wf s \<Longrightarrow> cl_Patch c o1 q s = (Ret o2, s') \<Longrightarrow>
      (\<exists>cur. objs s (objid o1) = Some cur \<and> sameUpToServer (mapMeta (applyPatch q) cur) o2) \<and>
      objs s' = (objs s)(objid o1 \<mapsto> o2) \<and> wf s'"
    and patch_Err: "wf s \<Longrightarrow> cl_Patch c o1 q s = (Err e, s') \<Longrightarrow> objs s' = objs s \<and> wf s'"
    and patch_noPanic: "cl_Patch c o1 q s \<noteq> (Panic p, s')"
    and delete_Ret: "wf s \<Longrightarrow> cl_Delete c o1 s = (Ret u, s') \<Longrightarrow>
      (\<exists>x. objs s' = (objs s)(objid o1 := x) \<and> (\<forall>cur. objs s (objid o1) = Some cur \<longrightarrow> om_Finalizers (metaOf cur) = [] \<longrightarrow> x = None)) \<and> wf s'"
    and delete_Err: "wf s \<Longrightarrow> cl_Delete c o1 s = (Err e, s') \<Longrightarrow> objs s' = objs s \<and> wf s'"
    and delete_noPanic: "cl_Delete c o1 s \<noteq> (Panic p, s')"
    and status_Ret: "wf s \<Longrightarrow> cl_StatusUpdate c o1 s = (Ret o2, s') \<Longrightarrow>
      (\<exists>cur. objs s (objid o1) = Some cur \<and> sameUpToServer (withStatusOf o1 cur) o2) \<and>
      objs s' = (objs s)(objid o1 \<mapsto> o2) \<and> wf s'"
    and status_Err: "wf s \<Longrightarrow> cl_StatusUpdate c o1 s = (Err e, s') \<Longrightarrow> objs s' = objs s \<and> wf s'"
    and status_noPanic: "cl_StatusUpdate c o1 s \<noteq> (Panic p, s')"
    and list_Ret: "wf s \<Longrightarrow> cl_List c k ns ls s = (Ret os, s') \<Longrightarrow> objs s' = objs s \<and> wf s' \<and>
      (\<forall>o1\<in>set os. objs s (objid o1) = Some o1 \<and> kindOf o1 = k \<and> (ns = '''' \<or> om_Namespace (metaOf o1) = ns) \<and>
         (\<forall>(l, v)\<in>set ls. glookup (om_Labels (metaOf o1)) l = Some v))"
    and list_Err: "wf s \<Longrightarrow> cl_List c k ns ls s = (Err e, s') \<Longrightarrow> objs s' = objs s \<and> wf s'"
    and list_noPanic: "cl_List c k ns ls s \<noteq> (Panic p, s')"
begin

lemma updateAttempt_cases:
  assumes "wf s" and "updateAttempt c o1 s = (r, s')"
  shows "(\<exists>o2 cur. r = Ret o2 \<and> objs s (objid o1) = Some cur \<and> acceptedUpdate cur o1 o2 \<and> objs s' = (objs s)(objid o1 := afterUpdate cur o1 o2) \<and> wf s') \<or>
         (\<exists>e. r = Err e \<and> objs s' = objs s \<and> wf s')"
proof -
  let ?k = "kindOf o1" and ?n = "objectKey o1"
  obtain rg s1 where g: "cl_Get c ?k ?n s = (rg, s1)" by force
  show ?thesis
  proof (cases rg)
    case (Ret cur)
    with get_Ret [OF assms(1)] g have 1: "objs s1 = objs s" "wf s1" by auto
    obtain ru s2 where u: "cl_Update c (setResourceVersion (getResourceVersion cur) o1) s1 = (ru, s2)" by force
    show ?thesis
    proof (cases ru)
      case (Ret o2)
      with u have "(\<exists>cur. objs s (objid o1) = Some cur \<and> acceptedUpdate cur o1 o2 \<and> objs s2 = (objs s)(objid o1 := afterUpdate cur o1 o2)) \<and> wf s2"
        using update_Ret [OF 1(2), of "setResourceVersion (getResourceVersion cur) o1" o2 s2] 1(1) by simp
      moreover have "r = Ret o2" "s' = s2"
        using assms(2) g u Ret \<open>rg = Ret cur\<close> by (auto simp: updateAttempt_def Let_def andThen_def onErr_def)
      ultimately show ?thesis by blast
    next
      case (Err e)
      with update_Err [OF 1(2)] u 1 assms(2) g \<open>rg = Ret cur\<close> show ?thesis
        by (auto simp: updateAttempt_def Let_def andThen_def onErr_def)
    qed (use update_noPanic u in auto)
  next
    case (Err e)
    with get_Err [OF assms(1)] g assms(2) show ?thesis
      by (auto simp: updateAttempt_def Let_def andThen_def onErr_def)
  qed (use get_noPanic g in auto)
qed

text \<open>However often the update is retried, it ends with the object stored or with nothing changed.\<close>

lemma retry_update_cases:
  assumes "wf s" and "retryOnError n p (updateAttempt c o1) s = (r, s')"
  shows "(\<exists>o2 cur. r = Ret o2 \<and> objs s (objid o1) = Some cur \<and> acceptedUpdate cur o1 o2 \<and> objs s' = (objs s)(objid o1 := afterUpdate cur o1 o2) \<and> wf s') \<or>
         (\<exists>e. r = Err e \<and> objs s' = objs s \<and> wf s')"
  using assms
proof (induction n arbitrary: s)
  case 0
  then have "updateAttempt c o1 s = (r, s')" by simp
  from updateAttempt_cases [OF 0(1) this] show ?case .
next
  case (Suc n)
  obtain r1 s1 where 1: "updateAttempt c o1 s = (r1, s1)" by force
  from updateAttempt_cases [OF Suc.prems(1) 1] show ?case
  proof (elim disjE exE conjE)
    fix o2 cur assume "r1 = Ret o2" and *: "objs s (objid o1) = Some cur" "acceptedUpdate cur o1 o2"
      "objs s1 = (objs s)(objid o1 := afterUpdate cur o1 o2)" "wf s1"
    with 1 Suc.prems(2) have "r = Ret o2" "s' = s1" by (auto simp: onErr_def)
    with * show ?case by blast
  next
    fix e assume e: "r1 = Err e" "objs s1 = objs s" "wf s1"
    show ?case
    proof (cases "p e")
      case True
      with 1 e Suc.prems(2) have "retryOnError n p (updateAttempt c o1) s1 = (r, s')" by (simp add: onErr_def)
      from Suc.IH [OF e(3) this] e(2) show ?thesis by simp
    next
      case False
      with 1 e Suc.prems(2) show ?thesis by (auto simp: onErr_def)
    qed
  qed
qed

lemma UpdateWithRetry_cases:
  assumes "wf s" and "UpdateWithRetry c o1 s = (r, s')"
  shows "(\<exists>o2 cur. r = Ret o2 \<and> objs s (objid o1) = Some cur \<and> acceptedUpdate cur o1 o2 \<and> objs s' = (objs s)(objid o1 := afterUpdate cur o1 o2) \<and> wf s') \<or>
         (\<exists>e. r = Err e \<and> objs s' = objs s \<and> wf s')"
  using retry_update_cases [of s DefaultRetry IsConflict o1 r s'] assms
  by (simp add: UpdateWithRetry_def retryOnConflict_def)

lemma Exists_cases:
  assumes "wf s" and "Exists c k n s = (r, s')"
  shows "objs s' = objs s \<and> wf s' \<and>
    ((\<exists>o1. r = Ret (Some o1) \<and> objs s (k, n) = Some o1 \<and> objid o1 = (k, n)) \<or> r = Ret None \<or> (\<exists>e. r = Err e))"
proof -
  obtain rg s1 where g: "cl_Get c k n s = (rg, s1)" by force
  show ?thesis
  proof (cases rg)
    case (Ret o1)
    with get_Ret [OF assms(1)] g assms(2) show ?thesis
      by (auto simp: Exists_def andThen_def onErr_def)
  next
    case (Err e)
    with get_Err [OF assms(1)] g assms(2) show ?thesis
      by (auto simp: Exists_def andThen_def onErr_def split: if_splits)
  qed (use get_noPanic g in auto)
qed

end

text \<open>A client that reads from the server itself: an answer NotFound means absence.\<close>

locale direct_client = api_client +
  fixes faulty :: "'a \<Rightarrow> bool"
  assumes get_NotFound: "wf s \<Longrightarrow> cl_Get c k n s = (Err e, s') \<Longrightarrow> objs s (k, n) = None \<or> \<not> IsNotFound e \<or> faulty s"
begin

lemma Exists_absent:
  assumes "wf s" and "\<not> faulty s" and "Exists c k n s = (Ret None, s')"
  shows "objs s (k, n) = None"
proof -
  obtain rg s1 where g: "cl_Get c k n s = (rg, s1)" by force
  show ?thesis
  proof (cases rg)
    case (Err e)
    with assms(3) g have "IsNotFound e" by (auto simp: Exists_def andThen_def onErr_def split: if_splits)
    moreover from g Err have "cl_Get c k n s = (Err e, s1)" by simp
    ultimately show ?thesis using get_NotFound [OF assms(1), of k n e s1] assms(2) by blast
  qed (use g assms(3) get_noPanic in \<open>auto simp: Exists_def andThen_def onErr_def\<close>)
qed

end

section \<open>The in-memory server satisfies the contract\<close>

lemma memLookup_faults [simp]: "memLookup (s\<lparr>mem_faults := fs\<rparr>) = memLookup s"
  by (rule ext) (simp add: memLookup_def)

lemma memWf_faults [simp]: "memWf (s\<lparr>mem_faults := fs\<rparr>) = memWf s"
  by (simp add: memWf_def)

lemma withFault_cases:
  assumes "withFault m s = (r, s')"
  obtains fs where "m (s\<lparr>mem_faults := fs\<rparr>) = (r, s')"
    | e fs where "r = Err e" and "s' = s\<lparr>mem_faults := fs\<rparr>"
proof (cases "mem_faults s")
  case Nil
  with assms have "m (s\<lparr>mem_faults := []\<rparr>) = (r, s')"
    by (metis (mono_tags, lifting) list.simps(4) memserver.surjective memserver.update_convs(3) memserver.select_convs(3) withFault_def)
  then show thesis by (rule that)
next
  case (Cons f fs)
  with assms that show thesis by (cases f) (auto simp: withFault_def)
qed

lemma map_of_filter_key:
  "map_of (filter (\<lambda>e. fst e \<noteq> i) es) j = (if j = i then None else map_of es j)"
  by (induction es) auto

lemma memLookup_store:
  assumes "memStore o1 s = (Ret o2, s')"
  shows "memLookup s' = (memLookup s)(objid o1 \<mapsto> o2)"
  by (rule ext) (use assms in \<open>auto simp: memStore_def memLookup_def Let_def map_of_filter_key\<close>)

lemma memStore_cases:
  assumes "memWf s" and "memStore o1 s = (r, s')"
  shows "\<exists>o2. r = Ret o2 \<and> sameUpToServer o1 o2 \<and> memLookup s' = (memLookup s)(objid o1 \<mapsto> o2) \<and> memWf s'"
proof -
  let ?o2 = "setResourceVersion (showNat (Suc (mem_version s))) o1"
  have r: "r = Ret ?o2" using assms(2) by (auto simp: memStore_def Let_def)
  moreover have "memWf s'"
    using assms by (auto simp: memStore_def Let_def memWf_def list_all_iff distinct_map_filter)
  ultimately show ?thesis using memLookup_store [of o1 s ?o2 s'] assms(2) by auto
qed

lemma memWf_lookup: "memWf s \<Longrightarrow> memLookup s i = Some o1 \<Longrightarrow> objid o1 = i"
  by (auto simp: memWf_def memLookup_def list_all_iff dest: map_of_SomeD)

lemma memGet_laws:
  assumes "memWf s"
  shows "memGet v k n s = (Ret o1, s') \<Longrightarrow> memLookup s (k, n) = Some o1 \<and> objid o1 = (k, n) \<and> memLookup s' = memLookup s \<and> memWf s'"
    and "memGet v k n s = (Err e, s') \<Longrightarrow> memLookup s' = memLookup s \<and> memWf s'"
    and "memGet v k n s \<noteq> (Panic p, s')"
  using assms by (auto simp: memGet_def memWf_lookup elim!: withFault_cases split: option.splits if_splits)

lemma withFault_store:
  assumes "memWf s" and "withFault (\<lambda>s. if P s then (Err (f s), s) else memStore (g s) s) s = (r, s')"
    and "\<And>s fs. g (s\<lparr>mem_faults := fs\<rparr>) = g s" and "\<And>s fs. P (s\<lparr>mem_faults := fs\<rparr>) = P s"
  shows "(\<exists>o2. r = Ret o2 \<and> \<not> P s \<and> sameUpToServer (g s) o2 \<and> memLookup s' = (memLookup s)(objid (g s) \<mapsto> o2) \<and> memWf s') \<or>
         (\<exists>e. r = Err e \<and> memLookup s' = memLookup s \<and> memWf s')"
  using assms(2)
proof (rule withFault_cases)
  fix fs
  let ?s = "s\<lparr>mem_faults := fs\<rparr>"
  assume eq: "(if P ?s then (Err (f ?s), ?s) else memStore (g ?s) ?s) = (r, s')"
  show ?thesis
  proof (cases "P s")
    case True
    with eq assms show ?thesis by auto
  next
    case False
    with eq assms(3,4) have "memStore (g s) ?s = (r, s')" by simp
    from memStore_cases [OF _ this] assms(1) False show ?thesis by simp
  qed
next
  fix e fs assume "r = Err e" "s' = s\<lparr>mem_faults := fs\<rparr>"
  with assms(1) show ?thesis by simp
qed

lemma memCreate_alt:
  "memCreate o1 = withFault (\<lambda>s. if memLookup s (objid o1) \<noteq> None then (Err alreadyExistsErr, s) else memStore o1 s)"
  unfolding memCreate_def by (intro arg_cong [where f = withFault] ext) (simp split: option.splits)

lemma memCreate_cases:
  assumes "memWf s" and "memCreate o1 s = (r, s')"
  shows "(\<exists>o2. r = Ret o2 \<and> memLookup s (objid o1) = None \<and> sameUpToServer o1 o2 \<and>
             memLookup s' = (memLookup s)(objid o1 \<mapsto> o2) \<and> memWf s') \<or>
         (\<exists>e. r = Err e \<and> memLookup s' = memLookup s \<and> memWf s')"
  using withFault_store [OF assms(1) assms(2) [unfolded memCreate_alt]] by (simp del: fun_upd_apply)

lemma memRemove_simps [simp]:
  "memLookup (memRemove i s) = (memLookup s)(i := None)" "memWf s \<Longrightarrow> memWf (memRemove i s)" "mem_faults (memRemove i s) = mem_faults s"
  by (auto simp: memRemove_def memLookup_def map_of_filter_key memWf_def list_all_iff distinct_map_filter fun_eq_iff)

lemma memUpdate_cases:
  assumes "memWf s" and "memUpdate o1 s = (r, s')"
  shows "(\<exists>o2 cur. r = Ret o2 \<and> memLookup s (objid o1) = Some cur \<and> acceptedUpdate cur o1 o2 \<and>
            memLookup s' = (memLookup s)(objid o1 := afterUpdate cur o1 o2) \<and> memWf s') \<or>
         (\<exists>e. r = Err e \<and> memLookup s' = memLookup s \<and> memWf s')"
  using assms(2) unfolding memUpdate_def
proof (rule withFault_cases)
  fix fs
  let ?s = "s\<lparr>mem_faults := fs\<rparr>"
  let ?o = "\<lambda>cur. mapMeta (\<lambda>m. m\<lparr>om_DeletionTimestamp := om_DeletionTimestamp (metaOf cur)\<rparr>) (withStatusOf cur o1)"
  assume eq: "(case memLookup ?s (objid o1) of None \<Rightarrow> (Err notFoundErr, ?s)
     | Some cur \<Rightarrow> if getResourceVersion cur \<noteq> getResourceVersion o1 then (Err conflictErr, ?s)
         else if deleting cur \<and> \<not> list_all (List.member (om_Finalizers (metaOf cur))) (om_Finalizers (metaOf o1))
         then (Err (StatusErr ''Invalid'' 422 ''no new finalizers can be added if the object is being deleted''), ?s)
         else let obj' = ?o cur in if deleting cur \<and> om_Finalizers (metaOf o1) = [] then (Ret obj', memRemove (objid o1) ?s)
           else memStore obj' ?s) = (r, s')"
  show ?thesis
  proof (cases "memLookup s (objid o1)")
    case None
    with eq assms(1) show ?thesis by auto
  next
    case (Some cur)
    consider "\<exists>e. r = Err e" "s' = ?s"
      | "deleting cur" "om_Finalizers (metaOf o1) = []" "r = Ret (?o cur)" "s' = memRemove (objid o1) ?s"
      | "\<not> (deleting cur \<and> om_Finalizers (metaOf o1) = [])" "deleting cur \<longrightarrow> set (om_Finalizers (metaOf o1)) \<subseteq> set (om_Finalizers (metaOf cur))"
        "memStore (?o cur) ?s = (r, s')"
      using eq Some by (auto simp: Let_def list_all_iff split: if_splits)
    then show ?thesis
    proof cases
      case 2
      have "acceptedUpdate cur o1 (?o cur)"
        using 2(2) sameUpToServer_deletion [THEN iffD1, OF sameUpToServer_refl] by (simp add: acceptedUpdate_def)
      with 2 Some assms(1) show ?thesis by (simp add: afterUpdate_def del: fun_upd_apply)
    next
      case 3
      from memStore_cases [OF _ 3(3)] assms(1) obtain o2 where o2: "r = Ret o2" "sameUpToServer (withStatusOf cur o1) o2"
        "memLookup s' = (memLookup s)(objid o1 \<mapsto> o2)" "memWf s'" by auto
      have "o2 = setResourceVersion (showNat (Suc (mem_version s))) (?o cur)" using 3(3) o2(1) by (auto simp: memStore_def Let_def)
      then have "om_DeletionTimestamp (metaOf o2) = om_DeletionTimestamp (metaOf cur)" by (simp add: setResourceVersion_def)
      with o2 3(1,2) Some show ?thesis by (auto simp: acceptedUpdate_def afterUpdate_def simp del: fun_upd_apply)
    qed (use assms(1) in auto)
  qed
next
  fix e fs assume "r = Err e" "s' = s\<lparr>mem_faults := fs\<rparr>"
  with assms(1) show ?thesis by simp
qed

lemma objid_applyPatch [simp]: "objid (mapMeta (applyPatch q) o1) = objid o1"
  by (simp add: objid_def objectKey_def applyPatch_def split: cpatch.splits)

lemma memPatch_cases:
  assumes "memWf s" and "memPatch o1 q s = (r, s')"
  shows "(\<exists>o2 cur. r = Ret o2 \<and> memLookup s (objid o1) = Some cur \<and> sameUpToServer (mapMeta (applyPatch q) cur) o2 \<and>
             memLookup s' = (memLookup s)(objid o1 \<mapsto> o2) \<and> memWf s') \<or>
         (\<exists>e. r = Err e \<and> memLookup s' = memLookup s \<and> memWf s')"
  using assms(2) unfolding memPatch_def
proof (rule withFault_cases)
  fix fs
  let ?s = "s\<lparr>mem_faults := fs\<rparr>"
  assume eq: "(case memLookup ?s (objid o1) of None \<Rightarrow> (Err notFoundErr, ?s) | Some cur \<Rightarrow> memStore (mapMeta (applyPatch q) cur) ?s) = (r, s')"
  show ?thesis
  proof (cases "memLookup s (objid o1)")
    case None
    with eq assms(1) show ?thesis by auto
  next
    case (Some cur)
    have "objid cur = objid o1" using memWf_lookup [OF assms(1) Some] .
    moreover from Some eq have "memStore (mapMeta (applyPatch q) cur) ?s = (r, s')" by simp
    from memStore_cases [OF _ this] assms(1)
    obtain o2 where "r = Ret o2" "sameUpToServer (mapMeta (applyPatch q) cur) o2"
      "memLookup s' = (memLookup s)(objid cur \<mapsto> o2)" "memWf s'" by auto
    ultimately show ?thesis using Some by metis
  qed
next
  fix e fs assume "r = Err e" "s' = s\<lparr>mem_faults := fs\<rparr>"
  with assms(1) show ?thesis by simp
qed

lemma memPatch_noPanic: "memPatch o1 q s \<noteq> (Panic p, s')"
  by (auto simp: memPatch_def memStore_def Let_def elim!: withFault_cases split: option.splits)

lemma memStatusUpdate_cases:
  assumes "memWf s" and "memStatusUpdate o1 s = (r, s')"
  shows "(\<exists>o2 cur. r = Ret o2 \<and> memLookup s (objid o1) = Some cur \<and> sameUpToServer (withStatusOf o1 cur) o2 \<and>
             memLookup s' = (memLookup s)(objid o1 \<mapsto> o2) \<and> memWf s') \<or>
         (\<exists>e. r = Err e \<and> memLookup s' = memLookup s \<and> memWf s')"
  using assms(2) unfolding memStatusUpdate_def
proof (rule withFault_cases)
  fix fs
  let ?s = "s\<lparr>mem_faults := fs\<rparr>"
  assume eq: "(case memLookup ?s (objid o1) of None \<Rightarrow> (Err notFoundErr, ?s)
     | Some cur \<Rightarrow> if getResourceVersion cur = getResourceVersion o1 then memStore (withStatusOf o1 cur) ?s
                   else (Err conflictErr, ?s)) = (r, s')"
  show ?thesis
  proof (cases "memLookup s (objid o1)")
    case None
    with eq assms(1) show ?thesis by auto
  next
    case (Some cur)
    show ?thesis
    proof (cases "getResourceVersion cur = getResourceVersion o1")
      case True
      have "objid cur = objid o1" using memWf_lookup [OF assms(1) Some] .
      moreover from Some True eq have "memStore (withStatusOf o1 cur) ?s = (r, s')" by simp
      from memStore_cases [OF _ this] assms(1)
      obtain o2 where "r = Ret o2" "sameUpToServer (withStatusOf o1 cur) o2"
        "memLookup s' = (memLookup s)(objid cur \<mapsto> o2)" "memWf s'" by auto
      ultimately show ?thesis using Some by metis
    qed (use Some eq assms(1) in auto)
  qed
next
  fix e fs assume "r = Err e" "s' = s\<lparr>mem_faults := fs\<rparr>"
  with assms(1) show ?thesis by simp
qed

lemma memDelete_laws:
  assumes "memWf s"
  shows "memDelete o1 s = (Ret u, s') \<Longrightarrow>
      (\<exists>x. memLookup s' = (memLookup s)(objid o1 := x) \<and>
         (\<forall>cur. memLookup s (objid o1) = Some cur \<longrightarrow> om_Finalizers (metaOf cur) = [] \<longrightarrow> x = None)) \<and> memWf s'"
    and "memDelete o1 s = (Err e, s') \<Longrightarrow> memLookup s' = memLookup s \<and> memWf s'"
proof -
  have marked: "memLookup (snd (memStore (mapMeta (\<lambda>m. m\<lparr>om_DeletionTimestamp := t\<rparr>) cur) (s\<lparr>mem_faults := fs\<rparr>))) =
      (memLookup s)(objid o1 \<mapsto> fst' ) \<and> memWf (snd (memStore (mapMeta (\<lambda>m. m\<lparr>om_DeletionTimestamp := t\<rparr>) cur) (s\<lparr>mem_faults := fs\<rparr>)))"
    if "memLookup s (objid o1) = Some cur" "fst' = setResourceVersion (showNat (Suc (mem_version s))) (mapMeta (\<lambda>m. m\<lparr>om_DeletionTimestamp := t\<rparr>) cur)"
    for t cur fs fst'
  proof -
    let ?o = "mapMeta (\<lambda>m. m\<lparr>om_DeletionTimestamp := t\<rparr>) cur"
    have "objid ?o = objid o1" using memWf_lookup [OF assms that(1)] by simp
    moreover obtain r k where k: "memStore ?o (s\<lparr>mem_faults := fs\<rparr>) = (r, k)" by force
    moreover have "r = Ret fst'" using k that(2) by (auto simp: memStore_def Let_def)
    ultimately show ?thesis using memStore_cases [OF _ k] assms by auto
  qed
  show "memDelete o1 s = (Ret u, s') \<Longrightarrow>
      (\<exists>x. memLookup s' = (memLookup s)(objid o1 := x) \<and>
         (\<forall>cur. memLookup s (objid o1) = Some cur \<longrightarrow> om_Finalizers (metaOf cur) = [] \<longrightarrow> x = None)) \<and> memWf s'"
  proof (unfold memDelete_def, erule withFault_cases)
    fix fs
    let ?s = "s\<lparr>mem_faults := fs\<rparr>"
    assume eq: "(case memLookup ?s (objid o1) of None \<Rightarrow> (Err notFoundErr, ?s)
       | Some cur \<Rightarrow> if om_Finalizers (metaOf cur) = [] then (Ret (), memRemove (objid o1) ?s)
         else (Ret (), snd (memStore (mapMeta (\<lambda>m. m\<lparr>om_DeletionTimestamp := Some (int (mem_version ?s))\<rparr>) cur) ?s))) = (Ret u, s')"
    then obtain cur where cur: "memLookup s (objid o1) = Some cur" by (auto split: option.splits)
    show ?thesis
    proof (cases "om_Finalizers (metaOf cur) = []")
      case True
      with eq cur assms have "memLookup s' = (memLookup s)(objid o1 := None)" "memWf s'" by auto
      then show ?thesis by blast
    next
      case False
      with eq cur have "s' = snd (memStore (mapMeta (\<lambda>m. m\<lparr>om_DeletionTimestamp := Some (int (mem_version s))\<rparr>) cur) ?s)" by auto
      with marked [OF cur refl, of "Some (int (mem_version s))" fs] False cur show ?thesis by (metis option.inject)
    qed
  qed simp
  show "memDelete o1 s = (Err e, s') \<Longrightarrow> memLookup s' = memLookup s \<and> memWf s'"
    using assms unfolding memDelete_def
    by (auto elim!: withFault_cases split: option.splits if_splits simp del: fun_upd_apply)
qed

lemma memList_laws:
  assumes "memWf s"
  shows "memList v k ns ls s = (Ret os, s') \<Longrightarrow> memLookup s' = memLookup s \<and> memWf s' \<and>
      (\<forall>o1\<in>set os. memLookup s (objid o1) = Some o1 \<and> kindOf o1 = k \<and> (ns = '''' \<or> om_Namespace (metaOf o1) = ns) \<and>
         (\<forall>(l, v)\<in>set ls. glookup (om_Labels (metaOf o1)) l = Some v))"
    and "memList v k ns ls s = (Err e, s') \<Longrightarrow> memLookup s' = memLookup s \<and> memWf s'"
proof -
  have there: "memLookup s (objid o1) = Some o1" if "(i, o1) \<in> set (mem_objects s)" for i o1
    using assms that by (auto simp: memWf_def memLookup_def list_all_iff)
  show "memList v k ns ls s = (Ret os, s') \<Longrightarrow> memLookup s' = memLookup s \<and> memWf s' \<and>
      (\<forall>o1\<in>set os. memLookup s (objid o1) = Some o1 \<and> kindOf o1 = k \<and> (ns = '''' \<or> om_Namespace (metaOf o1) = ns) \<and>
         (\<forall>(l, v)\<in>set ls. glookup (om_Labels (metaOf o1)) l = Some v))"
    using assms there unfolding memList_def by (auto elim!: withFault_cases simp: list_all_iff)
  show "memList v k ns ls s = (Err e, s') \<Longrightarrow> memLookup s' = memLookup s \<and> memWf s'"
    using assms unfolding memList_def by (auto elim!: withFault_cases)
qed

lemma memOther_noPanic: "memDelete o1 s \<noteq> (Panic p, s')" "memStatusUpdate o1 s \<noteq> (Panic p, s')" "memList v k ns ls s \<noteq> (Panic p, s')"
  by (auto simp: memDelete_def memStatusUpdate_def memList_def memStore_def Let_def elim!: withFault_cases split: option.splits if_splits)

lemma memClient_noPanic: "memCreate o1 s \<noteq> (Panic p, s')" "memUpdate o1 s \<noteq> (Panic p, s')" "memGet v k n s \<noteq> (Panic p, s')"
  by (auto simp: memGet_def memCreate_def memUpdate_def memStore_def Let_def elim!: withFault_cases split: option.splits if_splits)

interpretation mem: api_client "memClient v" memLookup memWf for v
proof
  fix s o1 and o2 :: kobj and s' and e :: goerr and k n and q and u :: unit and ns ls os
  assume wf: "memWf s"
  show "cl_Get (memClient v) k n s = (Ret o2, s') \<Longrightarrow>
      memLookup s (k, n) = Some o2 \<and> objid o2 = (k, n) \<and> memLookup s' = memLookup s \<and> memWf s'"
    and "cl_Get (memClient v) k n s = (Err e, s') \<Longrightarrow> memLookup s' = memLookup s \<and> memWf s'"
    using memGet_laws [OF wf] by (auto simp: memClient_def)
  show "cl_Create (memClient v) o1 s = (Ret o2, s') \<Longrightarrow>
      memLookup s (objid o1) = None \<and> sameUpToServer o1 o2 \<and> memLookup s' = (memLookup s)(objid o1 \<mapsto> o2) \<and> memWf s'"
    and "cl_Create (memClient v) o1 s = (Err e, s') \<Longrightarrow> memLookup s' = memLookup s \<and> memWf s'"
    using memCreate_cases [OF wf] by (auto simp: memClient_def simp del: fun_upd_apply)
  show "cl_Update (memClient v) o1 s = (Ret o2, s') \<Longrightarrow>
      (\<exists>cur. memLookup s (objid o1) = Some cur \<and> acceptedUpdate cur o1 o2 \<and>
         memLookup s' = (memLookup s)(objid o1 := afterUpdate cur o1 o2)) \<and> memWf s'"
    and "cl_Update (memClient v) o1 s = (Err e, s') \<Longrightarrow> memLookup s' = memLookup s \<and> memWf s'"
    using memUpdate_cases [OF wf, of o1] by (fastforce simp: memClient_def simp del: fun_upd_apply)+
  show "cl_Patch (memClient v) o1 q s = (Ret o2, s') \<Longrightarrow>
      (\<exists>cur. memLookup s (objid o1) = Some cur \<and> sameUpToServer (mapMeta (applyPatch q) cur) o2) \<and>
      memLookup s' = (memLookup s)(objid o1 \<mapsto> o2) \<and> memWf s'"
    and "cl_Patch (memClient v) o1 q s = (Err e, s') \<Longrightarrow> memLookup s' = memLookup s \<and> memWf s'"
    using memPatch_cases [OF wf, of o1 q] by (fastforce simp: memClient_def simp del: fun_upd_apply)+
  show "cl_Delete (memClient v) o1 s = (Ret u, s') \<Longrightarrow>
      (\<exists>x. memLookup s' = (memLookup s)(objid o1 := x) \<and>
         (\<forall>cur. memLookup s (objid o1) = Some cur \<longrightarrow> om_Finalizers (metaOf cur) = [] \<longrightarrow> x = None)) \<and> memWf s'"
    and "cl_Delete (memClient v) o1 s = (Err e, s') \<Longrightarrow> memLookup s' = memLookup s \<and> memWf s'"
    using memDelete_laws [OF wf] by (simp_all add: memClient_def del: fun_upd_apply)
  show "cl_StatusUpdate (memClient v) o1 s = (Ret o2, s') \<Longrightarrow>
      (\<exists>cur. memLookup s (objid o1) = Some cur \<and> sameUpToServer (withStatusOf o1 cur) o2) \<and>
      memLookup s' = (memLookup s)(objid o1 \<mapsto> o2) \<and> memWf s'"
    and "cl_StatusUpdate (memClient v) o1 s = (Err e, s') \<Longrightarrow> memLookup s' = memLookup s \<and> memWf s'"
    using memStatusUpdate_cases [OF wf, of o1] by (fastforce simp: memClient_def simp del: fun_upd_apply)+
  show "cl_List (memClient v) k ns ls s = (Ret os, s') \<Longrightarrow> memLookup s' = memLookup s \<and> memWf s' \<and>
      (\<forall>o1\<in>set os. memLookup s (objid o1) = Some o1 \<and> kindOf o1 = k \<and> (ns = '''' \<or> om_Namespace (metaOf o1) = ns) \<and>
         (\<forall>(l, v)\<in>set ls. glookup (om_Labels (metaOf o1)) l = Some v))"
    and "cl_List (memClient v) k ns ls s = (Err e, s') \<Longrightarrow> memLookup s' = memLookup s \<and> memWf s'"
    using memList_laws [OF wf] by (simp_all add: memClient_def)
qed (simp_all add: memClient_def memClient_noPanic memPatch_noPanic memOther_noPanic)

interpretation memd: direct_client "memClient (\<lambda>_. True)" memLookup memWf "\<lambda>s. mem_faults s \<noteq> []"
proof
  fix s k n e s'
  assume "cl_Get (memClient (\<lambda>_. True)) k n s = (Err e, s')"
  then show "memLookup s (k, n) = None \<or> \<not> IsNotFound e \<or> mem_faults s \<noteq> []"
    by (auto simp: memClient_def memGet_def withFault_def split: option.splits list.splits)
qed

section \<open>Retrying ends\<close>

text \<open>The state in which the attempt after \<open>k\<close> failed ones starts.\<close>

fun afterAttempts :: "(goerr, 's, 'a) prog \<Rightarrow> nat \<Rightarrow> 's \<Rightarrow> 's" where
  "afterAttempts fn 0 s = s"
| "afterAttempts fn (Suc k) s = afterAttempts fn k (snd (fn s))"

definition retriableAt :: "(goerr \<Rightarrow> bool) \<Rightarrow> (goerr, 's, 'a) prog \<Rightarrow> 's \<Rightarrow> bool" where
  "retriableAt retriable fn s \<longleftrightarrow> (case fst (fn s) of Err e \<Rightarrow> retriable e | _ \<Rightarrow> False)"

lemma retryOnError_attempts:
  "\<exists>k\<le>n. (\<forall>j<k. retriableAt retriable fn (afterAttempts fn j s)) \<and> (k = n \<or> \<not> retriableAt retriable fn (afterAttempts fn k s)) \<and>
     retryOnError n retriable fn s = fn (afterAttempts fn k s)"
proof (induction n arbitrary: s)
  case (Suc n)
  show ?case
  proof (cases "retriableAt retriable fn s")
    case True
    then obtain e s' where f: "fn s = (Err e, s')" "retriable e" by (cases "fn s"; cases "fst (fn s)") (auto simp: retriableAt_def)
    obtain k where k: "k \<le> n" "\<forall>j<k. retriableAt retriable fn (afterAttempts fn j s')"
      "k = n \<or> \<not> retriableAt retriable fn (afterAttempts fn k s')" "retryOnError n retriable fn s' = fn (afterAttempts fn k s')"
      using Suc.IH by blast
    have "\<forall>j<Suc k. retriableAt retriable fn (afterAttempts fn j s)"
      using True k(2) f(1) by (auto simp: less_Suc_eq_0_disj)
    with k f show ?thesis by (intro exI [of _ "Suc k"]) (simp add: onErr_def)
  next
    case False
    then show ?thesis by (intro exI [of _ 0]) (auto simp: retriableAt_def onErr_def split: result.splits prod.splits)
  qed
qed simp

section \<open>Properties\<close>


text \<open>Another client updates the object between the fetch and the update of the first attempt.\<close>

definition racingServer :: memserver where
  "racingServer = \<lparr>mem_objects = [(objid (KServiceAccount (zeroMeta\<lparr>om_Name := ''a''\<rparr>)), KServiceAccount (zeroMeta\<lparr>om_Name := ''a''\<rparr>))],
     mem_version = 0, mem_faults = [None, Some conflictErr]\<rparr>"

abbreviation racedAttempt :: "(goerr, memserver, kobj) prog" where
  "racedAttempt \<equiv> updateAttempt (memClient (\<lambda>_. True)) (KServiceAccount (zeroMeta\<lparr>om_Name := ''a''\<rparr>))"


end
