(* ===== verification/Annotation_Codec.thy ===== *)
theory Annotation_Codec
  imports Reconcile_Errors
begin

section \<open>Encoding of the managed-annotations list\<close>

text \<open>
  The operator remembers which annotation keys it manages in one annotation of the custom
  resource: the base64 of a JSON list of strings (\<^verbatim>\<open>EncodeDataToB64Json\<close>,
  \<^verbatim>\<open>DecodeDataFromB64Json\<close> and \<^verbatim>\<open>GetPreviouslyAppliedAnnotationKeys\<close> of
  \<^verbatim>\<open>pkg/controller/common/utils.go\<close>). This theory models \<open>base64.StdEncoding\<close>, \<open>json.Marshal\<close>
  on a list of strings and \<open>json.Unmarshal\<close> into one, and shows that decoding inverts encoding
  on every list. Bytes above 127 pass through both directions, as valid UTF-8 does in Go (apart
  from U+2028 and U+2029, which Go escapes; annotation keys are ASCII).
\<close>

subsection \<open>Base64\<close>

definition b64Alphabet :: string where
  "b64Alphabet = ''ABCDEFGHIJKLMNOPQRSTUVWXYZabcdefghijklmnopqrstuvwxyz0123456789+/''"

definition b64Char :: "nat \<Rightarrow> char" where
  "b64Char n = b64Alphabet ! n"

definition b64Val :: "char \<Rightarrow> nat option" where
  "b64Val c = (case dropWhile (\<lambda>p. snd p \<noteq> c) (enumerate 0 b64Alphabet) of
     [] \<Rightarrow> None | p # _ \<Rightarrow> Some (fst p))"

text \<open>\<open>base64.StdEncoding.EncodeToString\<close> (also \<open>Encode\<close>): three bytes to four characters.\<close>

fun b64Encode :: "string \<Rightarrow> string" where
  "b64Encode [] = []"
| "b64Encode [a] =
     (let x = of_char a in
      [b64Char (x div 4), b64Char (x mod 4 * 16), CHR ''='', CHR ''=''])"
| "b64Encode [a, b] =
     (let x = of_char a; y = of_char b in
      [b64Char (x div 4), b64Char (x mod 4 * 16 + y div 16), b64Char (y mod 16 * 4), CHR ''=''])"
| "b64Encode (a # b # c # s) =
     (let x = of_char a; y = of_char b; z = of_char c in
      [b64Char (x div 4), b64Char (x mod 4 * 16 + y div 16), b64Char (y mod 16 * 4 + z div 64),
       b64Char (z mod 64)] @ b64Encode s)"

text \<open>
  \<open>base64.StdEncoding.Decode\<close> on an input without line breaks: groups of four, padding only in
  the last one. Bits past the last full byte are ignored (the encoding is not strict).
\<close>

definition byteOf :: "nat \<Rightarrow> char" where
  "byteOf n = char_of (n mod 256)"

fun b64DecodeGroups :: "string \<Rightarrow> string option" where
  "b64DecodeGroups [] = Some []"
| "b64DecodeGroups (a # b # c # d # s) =
     (case (b64Val a, b64Val b) of
        (Some x, Some y) \<Rightarrow>
          if c = CHR ''='' then
            (if d = CHR ''='' \<and> s = [] then Some [byteOf (x * 4 + y div 16)] else None)
          else (case b64Val c of None \<Rightarrow> None | Some z \<Rightarrow>
            if d = CHR ''='' then
              (if s = [] then Some [byteOf (x * 4 + y div 16), byteOf (y * 16 + z div 4)] else None)
            else (case b64Val d of None \<Rightarrow> None | Some w \<Rightarrow>
              map_option (\<lambda>r. [byteOf (x * 4 + y div 16), byteOf (y * 16 + z div 4), byteOf (z * 64 + w)] @ r)
                (b64DecodeGroups s)))
      | _ \<Rightarrow> None)"
| "b64DecodeGroups _ = None"

definition b64Decode :: "string \<Rightarrow> string option" where
  "b64Decode s = b64DecodeGroups (filter (\<lambda>c. c \<noteq> CHR 0x0A \<and> c \<noteq> CHR 0x0D) s)"

subsection \<open>JSON lists of strings\<close>

definition hexChars :: string where
  "hexChars = ''0123456789abcdef''"

definition hexDigit :: "nat \<Rightarrow> char" where
  "hexDigit n = hexChars ! n"

text \<open>The escape of one byte in \<open>json.Marshal\<close>, HTML escaping included.\<close>

definition jsonEscape :: "char \<Rightarrow> string" where
  "jsonEscape c =
     (if c = CHR 0x22 \<or> c = CHR 0x5C then [CHR 0x5C, c]
      else if c = CHR 0x08 then [CHR 0x5C, CHR ''b'']
      else if c = CHR 0x0C then [CHR 0x5C, CHR ''f'']
      else if c = CHR 0x0A then [CHR 0x5C, CHR ''n'']
      else if c = CHR 0x0D then [CHR 0x5C, CHR ''r'']
      else if c = CHR 0x09 then [CHR 0x5C, CHR ''t'']
      else if of_char c < (32::nat) \<or> c = CHR ''<'' \<or> c = CHR ''>'' \<or> c = CHR ''&''
      then [CHR 0x5C, CHR ''u'', CHR ''0'', CHR ''0'', hexDigit (of_char c div 16), hexDigit (of_char c mod 16)]
      else [c])"

definition jsonString :: "string \<Rightarrow> string" where
  "jsonString s = [CHR 0x22] @ concat (map jsonEscape s) @ [CHR 0x22]"

definition jsonMarshalStrings :: "string list \<Rightarrow> string" where
  "jsonMarshalStrings ks = ''['' @ joinWith '','' (map jsonString ks) @ '']''"

definition hexVal :: "char \<Rightarrow> nat option" where
  "hexVal c =
     (let n = of_char c :: nat in
      if 48 \<le> n \<and> n \<le> 57 then Some (n - 48)
      else if 97 \<le> n \<and> n \<le> 102 then Some (n - 87)
      else if 65 \<le> n \<and> n \<le> 70 then Some (n - 55)
      else None)"

definition hex4 :: "char \<Rightarrow> char \<Rightarrow> char \<Rightarrow> char \<Rightarrow> nat option" where
  "hex4 a b c d =
     (case (hexVal a, hexVal b, hexVal c, hexVal d) of
        (Some w, Some x, Some y, Some z) \<Rightarrow> Some (((w * 16 + x) * 16 + y) * 16 + z)
      | _ \<Rightarrow> None)"

definition utf8 :: "nat \<Rightarrow> string" where
  "utf8 n =
     (if n < 128 then [char_of n]
      else if n < 2048 then [char_of (192 + n div 64), char_of (128 + n mod 64)]
      else if n < 65536 then
        [char_of (224 + n div 4096), char_of (128 + n div 64 mod 64), char_of (128 + n mod 64)]
      else [char_of (240 + n div 262144), char_of (128 + n div 4096 mod 64),
            char_of (128 + n div 64 mod 64), char_of (128 + n mod 64)])"

definition isSurrogate :: "nat \<Rightarrow> bool" where
  "isSurrogate n = (55296 \<le> n \<and> n < 57344)"

definition runeError :: string where
  "runeError = utf8 65533"

text \<open>The letter after a backslash, \<open>\u\<close> apart.\<close>

definition jsonUnescape :: "char \<Rightarrow> char option" where
  "jsonUnescape e =
     (if e = CHR 0x22 \<or> e = CHR 0x5C \<or> e = CHR ''/'' then Some e
      else if e = CHR ''b'' then Some (CHR 0x08)
      else if e = CHR ''f'' then Some (CHR 0x0C)
      else if e = CHR ''n'' then Some (CHR 0x0A)
      else if e = CHR ''r'' then Some (CHR 0x0D)
      else if e = CHR ''t'' then Some (CHR 0x09)
      else None)"

text \<open>
  A \<open>\u\<close> escape, its four digits and what follows. A surrogate pair is one rune; a lone surrogate
  is replaced by U+FFFD.
\<close>

definition jsonLowSurrogate :: "string \<Rightarrow> (nat \<times> string) option" where
  "jsonLowSurrogate s =
     (case s of
        b # u # l1 # l2 # l3 # l4 # rest \<Rightarrow>
          (case hex4 l1 l2 l3 l4 of
             None \<Rightarrow> None
           | Some m \<Rightarrow> if b = CHR 0x5C \<and> u = CHR ''u'' \<and> 56320 \<le> m \<and> m < 57344 then Some (m, rest) else None)
      | _ \<Rightarrow> None)"

definition jsonUnicode :: "string \<Rightarrow> (string \<times> string) option" where
  "jsonUnicode s =
     (case s of
        h1 # h2 # h3 # h4 # rest \<Rightarrow>
          (case hex4 h1 h2 h3 h4 of
             None \<Rightarrow> None
           | Some n \<Rightarrow>
               if \<not> isSurrogate n then Some (utf8 n, rest)
               else if 56320 \<le> n then Some (runeError, rest)
               else (case jsonLowSurrogate rest of
                       None \<Rightarrow> Some (runeError, rest)
                     | Some (m, rest') \<Rightarrow>
                         Some (utf8 (65536 + (n - 55296) * 1024 + (m - 56320)), rest')))
      | _ \<Rightarrow> None)"

text \<open>One character of a string body: the bytes it stands for and the rest of the input.\<close>

definition jsonChar :: "string \<Rightarrow> (string \<times> string) option" where
  "jsonChar s =
     (case s of
        [] \<Rightarrow> None
      | c # cs \<Rightarrow>
          if c = CHR 0x5C then
            (case cs of
               [] \<Rightarrow> None
             | e # es \<Rightarrow>
                 if e = CHR ''u'' then jsonUnicode es
                 else map_option (\<lambda>r. ([r], es)) (jsonUnescape e))
          else if of_char c < (32::nat) then None
          else Some ([c], cs))"

lemma jsonLowSurrogate_shorter: "jsonLowSurrogate s = Some (m, rest) \<Longrightarrow> length rest < length s"
  by (auto simp: jsonLowSurrogate_def split: list.splits option.splits if_splits)

lemma jsonUnicode_shorter: "jsonUnicode s = Some (x, rest) \<Longrightarrow> length rest < length s"
  by (auto simp: jsonUnicode_def dest!: jsonLowSurrogate_shorter
      split: list.splits option.splits if_splits)

lemma jsonChar_shorter: "jsonChar s = Some (x, rest) \<Longrightarrow> length rest < length s"
  by (auto simp: jsonChar_def dest!: jsonUnicode_shorter split: list.splits if_splits)

text \<open>The body of a JSON string up to its closing quote, and the rest of the input.\<close>

function jsonBody :: "string \<Rightarrow> (string \<times> string) option" where
  "jsonBody s =
     (case s of
        [] \<Rightarrow> None
      | c # cs \<Rightarrow>
          if c = CHR 0x22 then Some ([], cs)
          else (case jsonChar s of
                  None \<Rightarrow> None
                | Some (x, rest) \<Rightarrow> map_option (\<lambda>(y, r). (x @ y, r)) (jsonBody rest)))"
  by pat_completeness auto
termination
  by (relation "measure length") (auto dest: jsonChar_shorter)

declare jsonBody.simps [simp del]

definition jsonSpace :: "char \<Rightarrow> bool" where
  "jsonSpace c = (c = CHR 0x20 \<or> c = CHR 0x09 \<or> c = CHR 0x0A \<or> c = CHR 0x0D)"

definition skipSpace :: "string \<Rightarrow> string" where
  "skipSpace = dropWhile jsonSpace"

text \<open>One element of a list of strings: a string, or null, which leaves the zero value.\<close>

definition jsonElem :: "string \<Rightarrow> (string \<times> string) option" where
  "jsonElem s =
     (case skipSpace s of
        [] \<Rightarrow> None
      | c # cs \<Rightarrow>
          if c = CHR 0x22 then jsonBody cs
          else if prefix ''null'' (c # cs) then Some ([], drop 4 (c # cs))
          else None)"

lemma jsonBody_shorter: "jsonBody s = Some (x, rest) \<Longrightarrow> length rest < length s"
proof (induction s arbitrary: x rest rule: jsonBody.induct)
  case (1 s)
  show ?case
  proof (cases s)
    case Nil
    with 1 show ?thesis by (simp add: jsonBody.simps)
  next
    case (Cons c cs)
    show ?thesis
    proof (cases "c = CHR 0x22")
      case True
      with 1 Cons show ?thesis by (simp add: jsonBody.simps)
    next
      case False
      with 1 Cons obtain y r z where "jsonChar s = Some (y, r)" "jsonBody r = Some (z, rest)"
        by (subst (asm) jsonBody.simps) (auto split: option.splits)
      with 1 Cons False show ?thesis using jsonChar_shorter [of s y r] by force
    qed
  qed
qed

lemma skipSpace_length: "length (skipSpace s) \<le> length s"
  by (simp add: skipSpace_def length_dropWhile_le)

lemma jsonElem_shorter:
  assumes "jsonElem s = Some (x, rest)"
  shows "length rest < length s"
proof -
  obtain c cs where cs: "skipSpace s = c # cs"
    using assms by (auto simp: jsonElem_def split: list.splits)
  then have "length (c # cs) \<le> length s"
    using skipSpace_length [of s] by simp
  moreover have "length rest < length (c # cs)"
    using assms cs jsonBody_shorter [of cs x rest]
    by (auto simp: jsonElem_def split: if_splits)
  ultimately show ?thesis by simp
qed

text \<open>The elements after an opening bracket or a comma, and what follows the closing bracket.\<close>

function jsonElems :: "string \<Rightarrow> (string list \<times> string) option" where
  "jsonElems s =
     (case jsonElem s of
        None \<Rightarrow> None
      | Some (x, rest) \<Rightarrow>
          (case skipSpace rest of
             [] \<Rightarrow> None
           | c # cs \<Rightarrow>
               if c = CHR '']'' then Some ([x], cs)
               else if c = CHR '','' then map_option (\<lambda>(xs, y). (x # xs, y)) (jsonElems cs)
               else None))"
  by pat_completeness auto
termination
proof (relation "measure length", goal_cases)
  case 1
  show ?case by simp
next
  case (2 s p x rest c cs)
  then have "length rest < length s" by (auto dest: jsonElem_shorter)
  moreover have "length (c # cs) \<le> length rest"
    using 2 skipSpace_length [of rest] by simp
  ultimately show ?case by simp
qed

declare jsonElems.simps [simp del]

text \<open>\<open>json.Unmarshal(data, &keys)\<close> for \<open>var keys []string\<close>; \<open>None\<close> is an error.\<close>

definition jsonUnmarshalStrings :: "string \<Rightarrow> string slice option" where
  "jsonUnmarshalStrings s =
     (case skipSpace s of
        [] \<Rightarrow> None
      | c # cs \<Rightarrow>
          if c = CHR ''['' then
            (case skipSpace cs of
               [] \<Rightarrow> None
             | d # ds \<Rightarrow>
                 if d = CHR '']'' then (if skipSpace ds = [] then Some (Some []) else None)
                 else (case jsonElems cs of
                         None \<Rightarrow> None
                       | Some (xs, rest) \<Rightarrow> if skipSpace rest = [] then Some (Some xs) else None))
          else if prefix ''null'' (c # cs) \<and> skipSpace (drop 4 (c # cs)) = [] then Some None
          else None)"

subsection \<open>The operator's functions\<close>

definition EncodeDataToB64Json :: "string list \<Rightarrow> string" where
  "EncodeDataToB64Json keys = b64Encode (jsonMarshalStrings keys)"

definition DecodeDataFromB64Json :: "string \<Rightarrow> goerr + string" where
  "DecodeDataFromB64Json data =
     (case b64Decode data of
        None \<Rightarrow> Inl (WrapErr ''base64 decode: '' (PlainErr ''illegal base64 data'') '''')
      | Some bs \<Rightarrow> Inr bs)"

definition GetPreviouslyAppliedAnnotationKeys :: "strmap \<Rightarrow> string \<Rightarrow> goerr + string slice" where
  "GetPreviouslyAppliedAnnotationKeys annotations annotationKeyName =
     (if isNil annotations then Inr None
      else (case glookup annotations annotationKeyName of
              None \<Rightarrow> Inr None
            | Some val \<Rightarrow>
                if val = '''' then Inr None
                else (case DecodeDataFromB64Json val of
                        Inl e \<Rightarrow> Inl (WrapErr (''failed to base64-decode '' @ quoted annotationKeyName @ '' annotation value: '') e '''')
                      | Inr bs \<Rightarrow>
                          (case jsonUnmarshalStrings bs of
                             None \<Rightarrow> Inl (WrapErr (''failed to unmarshal '' @ quoted annotationKeyName @ '' annotation value as JSON list: '')
                                        (PlainErr ''invalid JSON list of strings'') '''')
                           | Some keys \<Rightarrow> Inr keys))))"

section \<open>Lemmas\<close>

subsection \<open>Base64 round trip\<close>

lemma b64_char_val: "n < 64 \<Longrightarrow> b64Val (b64Char n) = Some n"
proof -
  have "\<forall>n\<in>set [0..<64]. b64Val (b64Char n) = Some n"
    by code_simp
  then show "n < 64 \<Longrightarrow> ?thesis" by auto
qed

lemma b64Char_plain:
  assumes "n < 64"
  shows "b64Char n \<noteq> CHR ''=''" "b64Char n \<noteq> CHR 0x0A" "b64Char n \<noteq> CHR 0x0D"
proof -
  have "\<forall>n\<in>set [0..<64]. b64Char n \<noteq> CHR ''='' \<and> b64Char n \<noteq> CHR 0x0A \<and> b64Char n \<noteq> CHR 0x0D"
    by code_simp
  with assms show "b64Char n \<noteq> CHR ''=''" "b64Char n \<noteq> CHR 0x0A" "b64Char n \<noteq> CHR 0x0D"
    by auto
qed

lemma of_char_less_256: "of_char c < (256::nat)"
proof -
  have "of_char c mod (256::nat) < 256" by simp
  then show ?thesis by simp
qed

lemma byteOf_of_char: "n mod 256 = of_char c \<Longrightarrow> byteOf n = c"
  by (simp add: byteOf_def)

text \<open>The three bytes of a group, each cut in two, put together again.\<close>

lemma sextets:
  fixes x y z :: nat
  assumes "x < 256" "y < 256" "z < 256"
  shows "x div 4 < 64" "x mod 4 * 16 + y div 16 < 64" "x mod 4 * 16 < 64"
    "y mod 16 * 4 + z div 64 < 64" "y mod 16 * 4 < 64"
    "x div 4 * 4 + (x mod 4 * 16 + y div 16) div 16 = x"
    "x div 4 * 4 + (x mod 4 * 16) div 16 = x"
    "((x mod 4 * 16 + y div 16) * 16 + (y mod 16 * 4 + z div 64) div 4) mod 256 = y"
    "((x mod 4 * 16 + y div 16) * 16 + (y mod 16 * 4) div 4) mod 256 = y"
    "((y mod 16 * 4 + z div 64) * 64 + z mod 64) mod 256 = z"
proof -
  have y: "y div 16 < 16" and z: "z div 64 < 4" using assms by auto
  have r: "x mod 4 < 4" "y mod 16 < 16" by auto
  show "x div 4 < 64" using assms by auto
  show "x mod 4 * 16 + y div 16 < 64" "x mod 4 * 16 < 64" using y r by linarith+
  show "y mod 16 * 4 + z div 64 < 64" "y mod 16 * 4 < 64" using z r by linarith+
  show "x div 4 * 4 + (x mod 4 * 16 + y div 16) div 16 = x" using y by simp
  show "x div 4 * 4 + (x mod 4 * 16) div 16 = x" by simp
  have "(x mod 4 * 16 + y div 16) * 16 + y mod 16 = x mod 4 * 256 + y"
    using div_mult_mod_eq [of y 16] by (simp add: algebra_simps)
  moreover have "(x mod 4 * 256 + y) mod 256 = y" using assms(2) by simp
  ultimately show "((x mod 4 * 16 + y div 16) * 16 + (y mod 16 * 4 + z div 64) div 4) mod 256 = y"
    "((x mod 4 * 16 + y div 16) * 16 + (y mod 16 * 4) div 4) mod 256 = y"
    using z by simp_all
  have "(y mod 16 * 4 + z div 64) * 64 + z mod 64 = y mod 16 * 256 + z"
    using div_mult_mod_eq [of z 64] by (simp add: algebra_simps)
  moreover have "(y mod 16 * 256 + z) mod 256 = z" using assms(3) by simp
  ultimately show "((y mod 16 * 4 + z div 64) * 64 + z mod 64) mod 256 = z" by simp
qed

lemma b64DecodeGroups_encode: "b64DecodeGroups (b64Encode s) = Some s"
proof (induction s rule: b64Encode.induct)
  case (2 a)
  show ?case
    using sextets [OF of_char_less_256 [of a] of_char_less_256 [of a] of_char_less_256 [of a]]
    by (simp add: Let_def b64_char_val byteOf_def)
next
  case (3 a b)
  show ?case
    using sextets [OF of_char_less_256 [of a] of_char_less_256 [of b] of_char_less_256 [of b]]
    by (simp add: Let_def b64_char_val b64Char_plain byteOf_def)
next
  case (4 a b c s)
  then show ?case
    using sextets [OF of_char_less_256 [of a] of_char_less_256 [of b] of_char_less_256 [of c]]
    by (simp add: Let_def b64_char_val b64Char_plain byteOf_def)
qed simp

lemma b64Encode_plain: "list_all (\<lambda>c. c \<noteq> CHR 0x0A \<and> c \<noteq> CHR 0x0D) (b64Encode s)"
proof (induction s rule: b64Encode.induct)
  case (2 a)
  show ?case
    using sextets(1,3) [OF of_char_less_256 [of a] of_char_less_256 [of a] of_char_less_256 [of a]]
    by (simp only: b64Encode.simps Let_def list.pred_inject) (simp add: b64Char_plain)
next
  case (3 a b)
  show ?case
    using sextets(1,2,5) [OF of_char_less_256 [of a] of_char_less_256 [of b] of_char_less_256 [of b]]
    by (simp only: b64Encode.simps Let_def list.pred_inject) (simp add: b64Char_plain)
next
  case (4 a b c s)
  then show ?case
    using sextets(1,2,4) [OF of_char_less_256 [of a] of_char_less_256 [of b] of_char_less_256 [of c]]
    by (simp only: b64Encode.simps Let_def list.pred_inject append_Cons append_Nil)
       (simp add: b64Char_plain)
qed simp

lemma b64_roundtrip: "b64Decode (b64Encode s) = Some s"
proof -
  have "filter (\<lambda>c. c \<noteq> CHR 0x0A \<and> c \<noteq> CHR 0x0D) (b64Encode s) = b64Encode s"
    using b64Encode_plain [of s] unfolding list_all_iff by (rule filter_True)
  then show ?thesis by (simp add: b64Decode_def b64DecodeGroups_encode)
qed

subsection \<open>JSON round trip\<close>

lemma hexVal_hexDigit: "n < 16 \<Longrightarrow> hexVal (hexDigit n) = Some n"
proof -
  have "\<forall>n\<in>set [0..<16]. hexVal (hexDigit n) = Some n"
    by code_simp
  then show "n < 16 \<Longrightarrow> ?thesis" by auto
qed

lemma hexVal_zero: "hexVal (CHR ''0'') = Some 0"
  by code_simp

lemma jsonUnicode_byte:
  assumes "of_char c < (128::nat)"
  shows "jsonUnicode (CHR ''0'' # CHR ''0'' # hexDigit (of_char c div 16) # hexDigit (of_char c mod 16) # t)
         = Some ([c], t)"
proof -
  have "of_char c div 16 < (16::nat)" using assms by auto
  moreover have "of_char c mod 16 < (16::nat)" by simp
  ultimately have "hex4 (CHR ''0'') (CHR ''0'') (hexDigit (of_char c div 16)) (hexDigit (of_char c mod 16))
      = Some (of_char c)"
    by (simp add: hex4_def hexVal_hexDigit hexVal_zero)
  with assms show ?thesis
    by (simp add: jsonUnicode_def isSurrogate_def utf8_def)
qed

lemma jsonChar_escape: "jsonChar (jsonEscape c @ t) = Some ([c], t)"
proof (cases "of_char c < (32::nat) \<or> c = CHR ''<'' \<or> c = CHR ''>'' \<or> c = CHR ''&''")
  case True
  then have "of_char c < (128::nat)" by auto
  with True show ?thesis
    by (auto simp: jsonEscape_def jsonChar_def jsonUnescape_def jsonUnicode_byte)
next
  case False
  then show ?thesis
    by (auto simp: jsonEscape_def jsonChar_def jsonUnescape_def)
qed

lemma jsonEscape_head: "\<exists>d ds. jsonEscape c = d # ds \<and> d \<noteq> CHR 0x22"
  by (simp add: jsonEscape_def)

lemma jsonBody_escape: "jsonBody (concat (map jsonEscape s) @ CHR 0x22 # rest) = Some (s, rest)"
proof (induction s)
  case Nil
  show ?case by (simp add: jsonBody.simps)
next
  case (Cons c s)
  let ?t = "concat (map jsonEscape s) @ CHR 0x22 # rest"
  obtain d ds where d: "jsonEscape c = d # ds" "d \<noteq> CHR 0x22"
    using jsonEscape_head by blast
  have "jsonBody (jsonEscape c @ ?t) = Some (c # s, rest)"
    using d Cons jsonChar_escape [of c ?t] by (subst jsonBody.simps) simp
  then show ?case by simp
qed

lemma jsonElem_string: "jsonElem (jsonString s @ t) = Some (s, t)"
  by (simp add: jsonElem_def jsonString_def skipSpace_def jsonSpace_def jsonBody_escape)

lemma jsonElems_marshal:
  "ks \<noteq> [] \<Longrightarrow> jsonElems (joinWith '','' (map jsonString ks) @ CHR '']'' # t) = Some (ks, t)"
proof (induction ks)
  case (Cons k ks)
  show ?case
  proof (cases ks)
    case Nil
    then show ?thesis
      by (subst jsonElems.simps) (simp add: jsonElem_string skipSpace_def jsonSpace_def)
  next
    case (Cons k' ks')
    let ?rest = "joinWith '','' (map jsonString ks) @ CHR '']'' # t"
    have IH: "jsonElems ?rest = Some (ks, t)" using Cons.IH Cons by simp
    have "joinWith '','' (map jsonString (k # ks)) @ CHR '']'' # t = jsonString k @ CHR '','' # ?rest"
      using Cons by simp
    then show ?thesis
      using IH by (subst jsonElems.simps) (simp add: jsonElem_string skipSpace_def jsonSpace_def)
  qed
qed simp

lemma json_roundtrip: "jsonUnmarshalStrings (jsonMarshalStrings ks) = Some (Some ks)"
proof (cases ks)
  case Nil
  then show ?thesis
    by (simp add: jsonMarshalStrings_def jsonUnmarshalStrings_def skipSpace_def jsonSpace_def)
next
  case (Cons k ks')
  let ?body = "joinWith '','' (map jsonString ks) @ [CHR '']'']"
  obtain bs where body: "?body = CHR 0x22 # bs"
    using Cons by (cases ks') (auto simp: jsonString_def)
  have "jsonElems ?body = Some (ks, [])"
    using Cons jsonElems_marshal [of ks "[]"] by simp
  with body show ?thesis
    by (simp add: jsonMarshalStrings_def jsonUnmarshalStrings_def skipSpace_def jsonSpace_def)
qed

lemma jsonMarshalStrings_nonempty: "jsonMarshalStrings ks \<noteq> []"
  by (simp add: jsonMarshalStrings_def)

lemma b64Encode_nonempty: "s \<noteq> [] \<Longrightarrow> b64Encode s \<noteq> []"
  by (cases s rule: b64Encode.cases) (simp_all add: Let_def)

lemma decode_encode: "DecodeDataFromB64Json (EncodeDataToB64Json ks) = Inr (jsonMarshalStrings ks)"
  by (simp add: DecodeDataFromB64Json_def EncodeDataToB64Json_def b64_roundtrip)

lemma previous_keys_of_encoded:
  assumes "glookup a k = Some (EncodeDataToB64Json ks)"
  shows "GetPreviouslyAppliedAnnotationKeys a k = Inr (Some ks)"
proof -
  have "\<not> isNil a" using assms by (cases a) auto
  moreover have "EncodeDataToB64Json ks \<noteq> []"
    by (simp add: EncodeDataToB64Json_def b64Encode_nonempty jsonMarshalStrings_nonempty)
  ultimately show ?thesis
    using assms by (simp add: GetPreviouslyAppliedAnnotationKeys_def decode_encode json_roundtrip)
qed

end
