(* ===== verification/Resource_Metadata.thy ===== *)
theory Resource_Metadata
  imports Kube_Types Annotation_Codec
begin

section \<open>Labels and annotations of managed resources\<close>

text \<open>
  The metadata half of \<^verbatim>\<open>pkg/controller/common/utils.go\<close> and of
  \<^verbatim>\<open>pkg/controller/external_secrets/install_external_secrets.go\<close>: which labels and annotations
  the operator puts on every resource (\<open>getResourceLabels\<close>, \<open>getResourceAnnotations\<close>), how they
  are merged into an object (\<open>ApplyResourceMetadata\<close>), how annotations dropped from the spec are
  found again and removed (\<open>DeletedAnnotationKeys\<close>, \<open>RemoveObsoleteAnnotations\<close>), how drift is
  detected (\<open>ObjectMetadataModified\<close>) and how the list of managed keys is kept on the custom
  resource (\<open>AddManagedMetadataAnnotation\<close>).
\<close>

record ResourceMetadata =
  rm_Labels :: strmap
  rm_Annotations :: strmap
  rm_DeletedAnnotationKeys :: "string list"

subsection \<open>Merging metadata into an object\<close>

definition UpdateResourceLabels :: "kobj \<Rightarrow> strmap \<Rightarrow> kobj" where
  "UpdateResourceLabels obj labels =
     mapMeta (\<lambda>m. m\<lparr>om_Labels := gcopy (makeIfNil (om_Labels m)) labels\<rparr>) obj"

definition UpdateResourceAnnotations :: "kobj \<Rightarrow> strmap \<Rightarrow> kobj" where
  "UpdateResourceAnnotations obj userAnnotations =
     mapMeta (\<lambda>m. m\<lparr>om_Annotations := gcopy (makeIfNil (om_Annotations m)) userAnnotations\<rparr>) obj"

definition ApplyResourceMetadata :: "kobj \<Rightarrow> ResourceMetadata \<Rightarrow> kobj" where
  "ApplyResourceMetadata obj metadata =
     UpdateResourceAnnotations (UpdateResourceLabels obj (rm_Labels metadata)) (rm_Annotations metadata)"

definition removeObsoleteAnnotations :: "strmap \<Rightarrow> string list \<Rightarrow> strmap" where
  "removeObsoleteAnnotations annotations deletedAnnots = fold gdelete deletedAnnots annotations"

definition RemoveObsoleteAnnotations :: "kobj \<Rightarrow> ResourceMetadata \<Rightarrow> kobj" where
  "RemoveObsoleteAnnotations obj md =
     (let ks = rm_DeletedAnnotationKeys md in
      if ks = [] then obj
      else
        (let obj' = mapMeta (\<lambda>m. m\<lparr>om_Annotations := removeObsoleteAnnotations (om_Annotations m) ks\<rparr>) obj in
         (case obj' of
            KDeployment d \<Rightarrow>
              KDeployment (d\<lparr>d_Spec := (d_Spec d)\<lparr>ds_Template := (ds_Template (d_Spec d))
                 \<lparr>pt_Annotations := removeObsoleteAnnotations (pt_Annotations (ds_Template (d_Spec d))) ks\<rparr>\<rparr>\<rparr>)
          | _ \<Rightarrow> obj')))"

subsection \<open>Drift of metadata\<close>

definition annotationMapsModified :: "strmap \<Rightarrow> strmap \<Rightarrow> string list \<Rightarrow> bool" where
  "annotationMapsModified desired fetched deletedAnnotationKeys =
     (list_ex (\<lambda>k. gget fetched k \<noteq> gget desired k) (gkeys desired) \<or>
      list_ex (\<lambda>k. ghas fetched k) deletedAnnotationKeys)"

definition ObjectMetadataModified :: "kobj \<Rightarrow> kobj \<Rightarrow> ResourceMetadata \<Rightarrow> bool" where
  "ObjectMetadataModified desired fetched metaState =
     (if \<not> geq (om_Labels (metaOf desired)) (om_Labels (metaOf fetched)) then True
      else annotationMapsModified (om_Annotations (metaOf desired)) (om_Annotations (metaOf fetched))
             (rm_DeletedAnnotationKeys metaState))"

subsection \<open>Tracking of managed keys on the custom resource\<close>

definition ManagedAnnotationsKey :: string where
  "ManagedAnnotationsKey = ''externalsecretsconfig.operator.openshift.io/managed-annotations''"

definition AddManagedMetadataAnnotation ::
  "kobj \<Rightarrow> string \<Rightarrow> ResourceMetadata \<Rightarrow> (goerr + bool) \<times> kobj" where
  "AddManagedMetadataAnnotation obj annotationKeyName md =
     (let a = makeIfNil (om_Annotations (metaOf obj));
          keys = sort (gkeys (rm_Annotations md)) in
      (case GetPreviouslyAppliedAnnotationKeys a annotationKeyName of
         Inl e \<Rightarrow> (Inl (WrapErr ''failed to read previously applied annotation keys: '' e ''''), obj)
       | Inr existingAnnotationKeys \<Rightarrow>
           (let needsUpdate = (length (elems existingAnnotationKeys) \<noteq> glen (rm_Annotations md) \<or>
                               rm_DeletedAnnotationKeys md \<noteq> []) in
            if needsUpdate
            then (Inr True,
                  mapMeta (\<lambda>m. m\<lparr>om_Annotations := gput annotationKeyName (EncodeDataToB64Json keys) a\<rparr>) obj)
            else (Inr False, obj))))"

definition controllerProcessedAnnotation :: string where
  "controllerProcessedAnnotation = ''operator.openshift.io/external-secrets-processed''"

definition containsProcessedAnnotation :: "ExternalSecretsConfig \<Rightarrow> bool" where
  "containsProcessedAnnotation esc = ghas (om_Annotations (esc_Meta esc)) controllerProcessedAnnotation"

definition addProcessedAnnotation :: "ExternalSecretsConfig \<Rightarrow> bool \<times> ExternalSecretsConfig" where
  "addProcessedAnnotation esc =
     (let annotations = makeIfNil (om_Annotations (esc_Meta esc)) in
      if \<not> ghas annotations controllerProcessedAnnotation
      then (True, esc\<lparr>esc_Meta := (esc_Meta esc)
              \<lparr>om_Annotations := gput controllerProcessedAnnotation ''true'' annotations\<rparr>\<rparr>)
      else (False, esc))"

subsection \<open>The metadata of one reconciliation\<close>

text \<open>
  A pattern of the label matcher, anchored at the start: a dot stands for any character but a
  line feed. The result is what follows the match.
\<close>

fun dotPrefix :: "string \<Rightarrow> string \<Rightarrow> string option" where
  "dotPrefix [] s = Some s"
| "dotPrefix (p # ps) [] = None"
| "dotPrefix (p # ps) (c # cs) =
     (if (p = CHR ''.'' \<and> c \<noteq> CHR 0x0A) \<or> p = c then dotPrefix ps cs else None)"

definition disallowedLabelMatcher :: "string \<Rightarrow> bool" where
  "disallowedLabelMatcher k =
     (dotPrefix ''app.kubernetes.io/'' k \<noteq> None \<or>
      dotPrefix ''external-secrets.io/'' k \<noteq> None \<or>
      dotPrefix ''rbac.authorization.k8s.io/'' k \<noteq> None \<or>
      dotPrefix ''servicebinding.io/controller'' k = Some [] \<or>
      dotPrefix ''app'' k = Some [])"

definition controllerDefaultResourceLabels :: "string \<Rightarrow> strmap" where
  "controllerDefaultResourceLabels imageVersion = GoMap
     [(''app'', ''external-secrets''),
      (''app.kubernetes.io/version'', imageVersion),
      (''app.kubernetes.io/managed-by'', ''external-secrets-operator''),
      (''app.kubernetes.io/part-of'', ''external-secrets-operator'')]"

definition IsESMSpecEmpty :: "ExternalSecretsManager option \<Rightarrow> bool" where
  "IsESMSpecEmpty esm =
     (case esm of None \<Rightarrow> False
      | Some e \<Rightarrow> \<not> (es_GlobalConfig (esm_Spec e) = None \<and> es_Features (esm_Spec e) = None))"

text \<open>\<open>for k, v := range src { if disallowed { continue }; dst[k] = v }\<close>\<close>

definition copyAllowedLabels :: "strmap \<Rightarrow> strmap \<Rightarrow> strmap" where
  "copyAllowedLabels dst src =
     gcopy dst (GoMap (filter (\<lambda>e. \<not> disallowedLabelMatcher (fst e)) (entries src)))"

definition getResourceLabels :: "string \<Rightarrow> ExternalSecretsManager \<Rightarrow> ExternalSecretsConfig \<Rightarrow> strmap" where
  "getResourceLabels imageVersion esm esc =
     (let l0 = GoMap [];
          l1 = (if IsESMSpecEmpty (Some esm)
                then (case es_GlobalConfig (esm_Spec esm) of
                        None \<Rightarrow> l0
                      | Some g \<Rightarrow> copyAllowedLabels l0 (gc_Labels g))
                else l0);
          l2 = (if glen (ctl_Labels (spec_ControllerConfig (esc_Spec esc))) \<noteq> 0
                then copyAllowedLabels l1 (ctl_Labels (spec_ControllerConfig (esc_Spec esc)))
                else l1)
      in gcopy l2 (controllerDefaultResourceLabels imageVersion))"

definition getResourceAnnotations :: "ExternalSecretsConfig \<Rightarrow> goerr + (strmap \<times> string list)" where
  "getResourceAnnotations esc =
     (let specA = ctl_Annotations (spec_ControllerConfig (esc_Spec esc));
          ann = (if isNil specA then GoMap [] else gcopy (GoMap []) specA) in
      (case GetPreviouslyAppliedAnnotationKeys (om_Annotations (esc_Meta esc)) ManagedAnnotationsKey of
         Inl e \<Rightarrow> Inl (WrapErr (''failed to get previously applied annotation keys for ''
                     @ om_Name (esc_Meta esc) @ '': '') e '''')
       | Inr previousAnnotations \<Rightarrow>
           Inr (ann, filter (\<lambda>k. \<not> ghas ann k) (elems previousAnnotations))))"

definition getResourceMetadata ::
  "string \<Rightarrow> ExternalSecretsManager \<Rightarrow> ExternalSecretsConfig \<Rightarrow> goerr + ResourceMetadata" where
  "getResourceMetadata imageVersion esm esc =
     (case getResourceAnnotations esc of
        Inl e \<Rightarrow> Inl e
      | Inr (ann, deleted) \<Rightarrow>
          Inr \<lparr>rm_Labels = getResourceLabels imageVersion esm esc, rm_Annotations = ann,
               rm_DeletedAnnotationKeys = deleted\<rparr>)"

subsection \<open>Mode switches\<close>

definition ParseBool :: "string \<Rightarrow> bool" where
  "ParseBool val = (val = ''true'')"

definition EvalMode :: "Mode \<Rightarrow> bool" where
  "EvalMode val = (val = Enabled)"

fun featureMode :: "Feature list \<Rightarrow> FeatureName \<Rightarrow> bool" where
  "featureMode [] name = False"
| "featureMode (f # fs) name = (if ft_Name f \<noteq> name then featureMode fs name else EvalMode (ft_Mode f))"

definition IsFeatureEnabled :: "ExternalSecretsManager option \<Rightarrow> FeatureName \<Rightarrow> bool" where
  "IsFeatureEnabled esm name =
     (case esm of None \<Rightarrow> False | Some e \<Rightarrow> featureMode (elems (es_Features (esm_Spec e))) name)"

definition certManagerConfig :: "ExternalSecretsConfig \<Rightarrow> CertManagerConfig option" where
  "certManagerConfig esc =
     Option.bind (ctl_CertProvider (spec_ControllerConfig (esc_Spec esc))) cpc_CertManager"

definition IsInjectCertManagerAnnotationEnabled :: "ExternalSecretsConfig \<Rightarrow> bool" where
  "IsInjectCertManagerAnnotationEnabled esc =
     (case certManagerConfig esc of None \<Rightarrow> False | Some c \<Rightarrow> ParseBool (cmc_InjectAnnotations c))"

definition isCertManagerConfigEnabled :: "ExternalSecretsConfig \<Rightarrow> bool" where
  "isCertManagerConfigEnabled esc =
     (case certManagerConfig esc of None \<Rightarrow> False | Some c \<Rightarrow> EvalMode (cmc_Mode c))"

definition isBitwardenConfigEnabled :: "ExternalSecretsConfig \<Rightarrow> bool" where
  "isBitwardenConfigEnabled esc =
     (case pl_Bitwarden (spec_Plugins (esc_Spec esc)) of None \<Rightarrow> False | Some b \<Rightarrow> EvalMode (bw_Mode b))"

definition CertManagerInjectCAFromAnnotation :: string where
  "CertManagerInjectCAFromAnnotation = ''cert-manager.io/inject-ca-from''"

definition CertManagerInjectCAFromAnnotationValue :: string where
  "CertManagerInjectCAFromAnnotationValue = ''external-secrets/external-secrets-webhook''"

definition withCertManagerAnnotation :: "ExternalSecretsConfig \<Rightarrow> ResourceMetadata \<Rightarrow> ResourceMetadata" where
  "withCertManagerAnnotation esc metadata =
     (let annotations = gcopy (GoMap []) (rm_Annotations metadata);
          annotations' = (if IsInjectCertManagerAnnotationEnabled esc
             then gput CertManagerInjectCAFromAnnotation CertManagerInjectCAFromAnnotationValue annotations
             else annotations)
      in metadata\<lparr>rm_Annotations := annotations'\<rparr>)"

subsection \<open>The operand namespace\<close>

definition namespaceLabelsNeedUpdate :: "objmeta \<Rightarrow> strmap \<Rightarrow> bool" where
  "namespaceLabelsNeedUpdate existing desiredLabels =
     (if isNil (om_Labels existing) \<and> glen desiredLabels > 0 then True
      else list_ex (\<lambda>k. gget (om_Labels existing) k \<noteq> gget desiredLabels k) (gkeys desiredLabels))"

definition namespaceAnnotationsNeedUpdate :: "objmeta \<Rightarrow> strmap \<Rightarrow> bool" where
  "namespaceAnnotationsNeedUpdate existing desiredAnnots =
     (if isNil (om_Annotations existing) \<and> glen desiredAnnots > 0 then True
      else list_ex (\<lambda>k. gget (om_Annotations existing) k \<noteq> gget desiredAnnots k) (gkeys desiredAnnots))"

text \<open>Whether the namespace needs an update, and the namespace as it is to be written.\<close>

definition resourceMetadataNeedsUpdate :: "objmeta \<Rightarrow> ResourceMetadata \<Rightarrow> bool \<times> objmeta" where
  "resourceMetadataNeedsUpdate existing md =
     (let labelsChanged = namespaceLabelsNeedUpdate existing (rm_Labels md);
          e1 = (if labelsChanged
                then existing\<lparr>om_Labels := gcopy (makeIfNil (om_Labels existing)) (rm_Labels md)\<rparr>
                else existing);
          annotsChanged = (namespaceAnnotationsNeedUpdate e1 (rm_Annotations md) \<or>
                           rm_DeletedAnnotationKeys md \<noteq> []);
          e2 = (if annotsChanged
                then metaOf (RemoveObsoleteAnnotations
                       (UpdateResourceAnnotations
                          (KNamespace (e1\<lparr>om_Annotations := makeIfNil (om_Annotations e1)\<rparr>)) (rm_Annotations md)) md)
                else e1)
      in (labelsChanged \<or> annotsChanged, e2))"

section \<open>Lemmas\<close>

lemma glookup_removeObsolete [gomap_simps]:
  "glookup (removeObsoleteAnnotations a ks) k = (if k \<in> set ks then None else glookup a k)"
  by (simp add: removeObsoleteAnnotations_def gm.lookup_remove_all)

lemma isNil_removeObsolete [simp]: "isNil (removeObsoleteAnnotations a ks) = isNil a"
  unfolding removeObsoleteAnnotations_def by (induction ks arbitrary: a) auto

lemma labels_ApplyResourceMetadata [simp]:
  "om_Labels (metaOf (ApplyResourceMetadata obj md)) =
     gcopy (makeIfNil (om_Labels (metaOf obj))) (rm_Labels md)"
  by (simp add: ApplyResourceMetadata_def UpdateResourceAnnotations_def UpdateResourceLabels_def)

lemma annotations_ApplyResourceMetadata [simp]:
  "om_Annotations (metaOf (ApplyResourceMetadata obj md)) =
     gcopy (makeIfNil (om_Annotations (metaOf obj))) (rm_Annotations md)"
  by (simp add: ApplyResourceMetadata_def UpdateResourceAnnotations_def UpdateResourceLabels_def)

lemma kindOf_ApplyResourceMetadata [simp]: "kindOf (ApplyResourceMetadata obj md) = kindOf obj"
  by (simp add: ApplyResourceMetadata_def UpdateResourceAnnotations_def UpdateResourceLabels_def)

lemma objectKey_ApplyResourceMetadata [simp]: "objectKey (ApplyResourceMetadata obj md) = objectKey obj"
  by (simp add: objectKey_def ApplyResourceMetadata_def UpdateResourceAnnotations_def UpdateResourceLabels_def)

lemma metaOf_RemoveObsoleteAnnotations:
  "metaOf (RemoveObsoleteAnnotations obj md) =
     (metaOf obj)\<lparr>om_Annotations := removeObsoleteAnnotations (om_Annotations (metaOf obj)) (rm_DeletedAnnotationKeys md)\<rparr>"
  by (cases obj) (simp_all add: RemoveObsoleteAnnotations_def removeObsoleteAnnotations_def Let_def)

lemma objectKey_RemoveObsoleteAnnotations [simp]:
  "objectKey (RemoveObsoleteAnnotations obj md) = objectKey obj"
  by (simp add: objectKey_def metaOf_RemoveObsoleteAnnotations)

lemma kindOf_RemoveObsoleteAnnotations [simp]: "kindOf (RemoveObsoleteAnnotations obj md) = kindOf obj"
  by (cases obj) (simp_all add: RemoveObsoleteAnnotations_def Let_def)

text \<open>What it means for annotation drift not to be reported.\<close>

lemma annotationMapsModified_False:
  "\<not> annotationMapsModified d f ks \<longleftrightarrow>
     (\<forall>k v. glookup d k = Some v \<longrightarrow> gget f k = v) \<and> (\<forall>k\<in>set ks. glookup f k = None)"
proof -
  have "(\<forall>k. glookup d k = None \<or> gget f k = gget d k) \<longleftrightarrow> (\<forall>k v. glookup d k = Some v \<longrightarrow> gget f k = v)"
    by (metis gget_def option.exhaust option.simps(5) option.distinct(1))
  then show ?thesis
    by (simp add: annotationMapsModified_def list_ex_iff set_gkeys ghas_def)
qed

lemma dotPrefix_self: "dotPrefix p (p @ s) = Some s"
  by (induction p) auto

lemma glookup_filtered:
  fixes m :: "'v gomap"
  shows "glookup (GoMap (filter (\<lambda>e. P (fst e)) (entries m))) k = (if P k then glookup m k else None)"
proof -
  have "map_of (filter (\<lambda>e. P (fst e)) es) k = (if P k then map_of es k else None)" for es :: "(string \<times> 'v) list"
    by (induction es) auto
  then show ?thesis by (simp add: glookup_def)
qed

lemma glookup_copyAllowedLabels [gomap_simps]:
  "glookup (copyAllowedLabels dst src) k =
     (if disallowedLabelMatcher k then glookup dst k
      else (case glookup src k of Some v \<Rightarrow> Some v | None \<Rightarrow> glookup dst k))"
  by (simp add: copyAllowedLabels_def glookup_gcopy glookup_filtered [of "\<lambda>x. \<not> disallowedLabelMatcher x"])

lemma set_default_labels:
  "set (gkeys (controllerDefaultResourceLabels v)) =
     {''app'', ''app.kubernetes.io/version'', ''app.kubernetes.io/managed-by'', ''app.kubernetes.io/part-of''}"
  by (auto simp: controllerDefaultResourceLabels_def gkeys_def)

lemma default_labels_disallowed:
  "glookup (controllerDefaultResourceLabels v) k \<noteq> None \<Longrightarrow> disallowedLabelMatcher k"
proof -
  assume "glookup (controllerDefaultResourceLabels v) k \<noteq> None"
  then have "k \<in> set (gkeys (controllerDefaultResourceLabels v))" by (simp add: set_gkeys)
  then show "disallowedLabelMatcher k"
    by (auto simp: set_default_labels disallowedLabelMatcher_def)
qed

lemma getResourceMetadata_annotations:
  assumes "getResourceMetadata ver esm esc = Inr md"
  shows "glookup (rm_Annotations md) = glookup (ctl_Annotations (spec_ControllerConfig (esc_Spec esc)))"
    and "\<exists>prev. GetPreviouslyAppliedAnnotationKeys (om_Annotations (esc_Meta esc)) ManagedAnnotationsKey = Inr prev \<and>
           rm_DeletedAnnotationKeys md = filter (\<lambda>k. \<not> ghas (rm_Annotations md) k) (elems prev)"
  using assms
  by (auto simp: getResourceMetadata_def getResourceAnnotations_def Let_def fun_eq_iff glookup_gcopy isNil_def
      split: sum.splits prod.splits if_splits option.splits gomap.splits)

text \<open>The annotation keys recorded on the custom resource, when they can be read.\<close>

definition trackedKeys :: "ExternalSecretsConfig \<Rightarrow> string list option" where
  "trackedKeys esc =
     (case GetPreviouslyAppliedAnnotationKeys (om_Annotations (esc_Meta esc)) ManagedAnnotationsKey of
        Inl e \<Rightarrow> None | Inr prev \<Rightarrow> Some (elems prev))"

lemma getResourceMetadata_deleted:
  assumes "getResourceMetadata ver esm esc = Inr md"
  shows "\<exists>prev. trackedKeys esc = Some prev \<and>
           rm_DeletedAnnotationKeys md =
             filter (\<lambda>k. \<not> ghas (ctl_Annotations (spec_ControllerConfig (esc_Spec esc))) k) prev"
  using getResourceMetadata_annotations [OF assms] by (auto simp: trackedKeys_def ghas_def)

lemma tracked_after_update:
  assumes "getResourceMetadata ver esm esc = Inr md" and "trackedKeys esc = Some prev" and "distinct prev"
    and "AddManagedMetadataAnnotation (KESC esc) ManagedAnnotationsKey md = (r, KESC esc')"
  shows "\<exists>changed ks. r = Inr changed \<and> trackedKeys esc' = Some ks \<and> distinct ks \<and>
           set ks = set (gkeys (ctl_Annotations (spec_ControllerConfig (esc_Spec esc))))"
proof -
  let ?ann = "ctl_Annotations (spec_ControllerConfig (esc_Spec esc))"
  from assms(2) obtain p0 where
    p0: "GetPreviouslyAppliedAnnotationKeys (om_Annotations (esc_Meta esc)) ManagedAnnotationsKey = Inr p0"
    and prev: "prev = elems p0"
    by (auto simp: trackedKeys_def split: sum.splits)
  have same: "GetPreviouslyAppliedAnnotationKeys (makeIfNil (om_Annotations (esc_Meta esc))) ManagedAnnotationsKey = Inr p0"
    using p0 by (cases "om_Annotations (esc_Meta esc)") (auto simp: GetPreviouslyAppliedAnnotationKeys_def makeIfNil_def)
  have lk: "glookup (rm_Annotations md) = glookup ?ann"
    using getResourceMetadata_annotations(1) [OF assms(1)] .
  have keys: "set (gkeys (rm_Annotations md)) = set (gkeys ?ann)" by (simp add: set_gkeys lk)
  have del: "rm_DeletedAnnotationKeys md = filter (\<lambda>k. \<not> ghas ?ann k) prev"
    using getResourceMetadata_deleted [OF assms(1)] assms(2) by auto
  show ?thesis
  proof (cases "length prev \<noteq> glen (rm_Annotations md) \<or> rm_DeletedAnnotationKeys md \<noteq> []")
    case True
    then have r: "r = Inr True" and "om_Annotations (esc_Meta esc') =
        gput ManagedAnnotationsKey (EncodeDataToB64Json (sort (gkeys (rm_Annotations md))))
          (makeIfNil (om_Annotations (esc_Meta esc)))"
      using assms(4) same prev by (auto simp: AddManagedMetadataAnnotation_def Let_def)
    then have "glookup (om_Annotations (esc_Meta esc')) ManagedAnnotationsKey =
        Some (EncodeDataToB64Json (sort (gkeys (rm_Annotations md))))"
      by (simp add: glookup_gput)
    then have "trackedKeys esc' = Some (sort (gkeys (rm_Annotations md)))"
      by (simp add: trackedKeys_def previous_keys_of_encoded)
    with r keys show ?thesis by auto
  next
    case False
    then have r: "r = Inr False" "esc' = esc"
      using assms(4) same prev by (auto simp: AddManagedMetadataAnnotation_def Let_def)
    from False have "length prev = glen (rm_Annotations md)" and "rm_DeletedAnnotationKeys md = []" by auto
    moreover then have "set prev \<subseteq> set (gkeys ?ann)"
      using del by (auto simp: set_gkeys ghas_def filter_empty_conv)
    moreover have "card (set (gkeys ?ann)) = glen (rm_Annotations md)"
      by (metis keys distinct_card distinct_gkeys glen_def)
    ultimately have "set prev = set (gkeys ?ann)"
      using assms(3) by (metis List.finite_set card_subset_eq distinct_card)
    with r assms(2,3) show ?thesis by auto
  qed
qed

lemma keys_agree_iff:
  "\<not> list_ex (\<lambda>k. gget m k \<noteq> gget d k) (gkeys d) \<longleftrightarrow> (\<forall>k v. glookup d k = Some v \<longrightarrow> gget m k = v)"
  using annotationMapsModified_False [of d m "[]"] by (simp add: annotationMapsModified_def)

lemma namespace_no_update:
  "\<not> namespaceLabelsNeedUpdate m d \<longleftrightarrow>
     (\<forall>k v. glookup d k = Some v \<longrightarrow> gget (om_Labels m) k = v) \<and> (isNil (om_Labels m) \<longrightarrow> glen d = 0)"
  "\<not> namespaceAnnotationsNeedUpdate m d \<longleftrightarrow>
     (\<forall>k v. glookup d k = Some v \<longrightarrow> gget (om_Annotations m) k = v) \<and> (isNil (om_Annotations m) \<longrightarrow> glen d = 0)"
  by (simp_all add: namespaceLabelsNeedUpdate_def namespaceAnnotationsNeedUpdate_def keys_agree_iff [symmetric])

text \<open>The two halves of the namespace update, as maps.\<close>

lemma resourceMetadataNeedsUpdate_maps:
  assumes "resourceMetadataNeedsUpdate existing md = (changed, updated)"
  defines "L \<equiv> namespaceLabelsNeedUpdate existing (rm_Labels md)"
    and "A \<equiv> namespaceAnnotationsNeedUpdate existing (rm_Annotations md) \<or> rm_DeletedAnnotationKeys md \<noteq> []"
  shows "om_Labels updated = (if L then gcopy (makeIfNil (om_Labels existing)) (rm_Labels md) else om_Labels existing)"
    and "om_Annotations updated =
      (if A then removeObsoleteAnnotations (gcopy (makeIfNil (om_Annotations existing)) (rm_Annotations md))
                   (rm_DeletedAnnotationKeys md)
       else om_Annotations existing)"
    and "changed = (L \<or> A)" and "\<not> changed \<Longrightarrow> updated = existing"
proof -
  have twice: "makeIfNil (makeIfNil m) = makeIfNil m" for m :: strmap
    by (cases m) (simp_all add: makeIfNil_def)
  have frame: "namespaceAnnotationsNeedUpdate (existing\<lparr>om_Labels := l\<rparr>) = namespaceAnnotationsNeedUpdate existing" for l
    by (rule ext) (simp add: namespaceAnnotationsNeedUpdate_def)
  show "om_Labels updated = (if L then gcopy (makeIfNil (om_Labels existing)) (rm_Labels md) else om_Labels existing)"
    and "om_Annotations updated =
      (if A then removeObsoleteAnnotations (gcopy (makeIfNil (om_Annotations existing)) (rm_Annotations md))
                   (rm_DeletedAnnotationKeys md)
       else om_Annotations existing)"
    and "changed = (L \<or> A)" and "\<not> changed \<Longrightarrow> updated = existing"
    using assms(1)
    by (auto simp: resourceMetadataNeedsUpdate_def Let_def L_def A_def metaOf_RemoveObsoleteAnnotations
        UpdateResourceAnnotations_def twice frame split: if_splits)
qed

subsection \<open>Sample resources\<close>

text \<open>A custom resource with two annotations in its specification, after its first reconciliation,
  and the same resource once one of them is dropped from the specification.\<close>

definition withAnnotations :: "strmap \<Rightarrow> ExternalSecretsConfig \<Rightarrow> ExternalSecretsConfig" where
  "withAnnotations a esc = esc\<lparr>esc_Spec := (esc_Spec esc)\<lparr>spec_ControllerConfig :=
     (spec_ControllerConfig (esc_Spec esc))\<lparr>ctl_Annotations := a\<rparr>\<rparr>\<rparr>"

definition annotatedESC :: ExternalSecretsConfig where
  "annotatedESC = withAnnotations (GoMap [(''team'', ''a''), (''owner'', ''b'')]) zeroESC"

definition trackedESC :: ExternalSecretsConfig where
  "trackedESC = annotatedESC\<lparr>esc_Meta := zeroMeta\<lparr>om_Annotations :=
     GoMap [(ManagedAnnotationsKey, EncodeDataToB64Json [''owner'', ''team''])]\<rparr>\<rparr>"

lemmas sample_defs = annotatedESC_def withAnnotations_def zeroESC_def zeroMeta_def zeroControllerConfig_def

section \<open>Properties\<close>

text \<open>
  C31. The labels of every managed resource, completely: the operator's own labels win; any other
  label that the matcher disallows is absent; a remaining label comes from the
  \<^verbatim>\<open>ExternalSecretsConfig\<close> when it is set there, otherwise from the global configuration of the
  \<^verbatim>\<open>ExternalSecretsManager\<close>.
\<close>

theorem resource_label_precedence:
  "glookup (getResourceLabels ver esm esc) k =
     (if glookup (controllerDefaultResourceLabels ver) k \<noteq> None
      then glookup (controllerDefaultResourceLabels ver) k
      else if disallowedLabelMatcher k then None
      else if glookup (ctl_Labels (spec_ControllerConfig (esc_Spec esc))) k \<noteq> None
      then glookup (ctl_Labels (spec_ControllerConfig (esc_Spec esc))) k
      else (case es_GlobalConfig (esm_Spec esm) of None \<Rightarrow> None | Some g \<Rightarrow> glookup (gc_Labels g) k))"
proof -
  have "glen (ctl_Labels (spec_ControllerConfig (esc_Spec esc))) = 0 \<Longrightarrow>
        glookup (ctl_Labels (spec_ControllerConfig (esc_Spec esc))) k = None"
    by (simp add: glen_0_lookup)
  then show ?thesis
    by (auto simp: getResourceLabels_def Let_def gomap_simps IsESMSpecEmpty_def split: option.splits)
qed

text \<open>
  C21. Annotations removed from the specification are never forgotten. When the keys recorded on the
  custom resource are readable and distinct, the bookkeeping at the end of a reconciliation leaves
  exactly the keys of the current specification recorded; so for any later version of the resource
  that carries the record on, the keys to delete are exactly those that were in the old
  specification and are not in the new one.
\<close>

theorem removed_annotations_are_tracked:
  assumes "getResourceMetadata ver esm esc = Inr md" and "trackedKeys esc = Some prev" and "distinct prev"
    and "AddManagedMetadataAnnotation (KESC esc) ManagedAnnotationsKey md = (r, KESC esc')"
    and "trackedKeys later = trackedKeys esc'"
    and "getResourceMetadata ver' esm' later = Inr md'"
  shows "set (rm_DeletedAnnotationKeys md') =
     {k. ghas (ctl_Annotations (spec_ControllerConfig (esc_Spec esc))) k \<and>
         \<not> ghas (ctl_Annotations (spec_ControllerConfig (esc_Spec later))) k}"
proof -
  from tracked_after_update [OF assms(1-4)] obtain ks where ks: "trackedKeys esc' = Some ks"
    "set ks = set (gkeys (ctl_Annotations (spec_ControllerConfig (esc_Spec esc))))"
    by auto
  with getResourceMetadata_deleted [OF assms(6)] assms(5) show ?thesis
    by (auto simp: set_gkeys ghas_def)
qed

theorem removed_annotations_are_tracked_witness:
  "set (rm_DeletedAnnotationKeys (projr (getResourceMetadata ''v1'' zeroESM
      (withAnnotations (GoMap [(''owner'', ''b'')]) trackedESC)))) = {''team''}"
proof -
  let ?later = "withAnnotations (GoMap [(''owner'', ''b'')]) trackedESC"
  let ?md = "projr (getResourceMetadata ''v1'' zeroESM annotatedESC)"
  let ?md' = "projr (getResourceMetadata ''v1'' zeroESM ?later)"
  have 1: "getResourceMetadata ''v1'' zeroESM annotatedESC = Inr ?md"
    by (simp add: getResourceMetadata_def getResourceAnnotations_def sample_defs GetPreviouslyAppliedAnnotationKeys_def)
  have 2: "trackedKeys annotatedESC = Some []"
    by (simp add: trackedKeys_def sample_defs GetPreviouslyAppliedAnnotationKeys_def)
  have 3: "AddManagedMetadataAnnotation (KESC annotatedESC) ManagedAnnotationsKey ?md = (Inr True, KESC trackedESC)"
    by (simp add: getResourceMetadata_def getResourceAnnotations_def sample_defs GetPreviouslyAppliedAnnotationKeys_def
        AddManagedMetadataAnnotation_def trackedESC_def gkeys_def glen_def gcopy_def gput_def makeIfNil_def less_list_code less_char_def)
  have tracked: "GetPreviouslyAppliedAnnotationKeys (om_Annotations (esc_Meta ?later)) ManagedAnnotationsKey = Inr (Some [''owner'', ''team''])"
    by (rule previous_keys_of_encoded) (simp add: withAnnotations_def trackedESC_def glookup_def)
  have 4: "trackedKeys ?later = trackedKeys trackedESC"
    by (simp add: trackedKeys_def withAnnotations_def)
  have 5: "getResourceMetadata ''v1'' zeroESM ?later = Inr ?md'"
    by (simp add: getResourceMetadata_def getResourceAnnotations_def Let_def tracked)
  show ?thesis
    using removed_annotations_are_tracked [OF 1 2 _ 3 4 5]
    by (auto simp: withAnnotations_def annotatedESC_def ghas_def glookup_def split: if_splits)
qed

text \<open>
  C32. The operand namespace is merged, never replaced. After \<^verbatim>\<open>resourceMetadataNeedsUpdate\<close> every
  desired label and annotation reads as desired, no deleted key is left, and every other label and
  annotation is as it was. An unchanged verdict leaves the namespace untouched, and the updated
  namespace needs no further update for the same labels and annotations.
\<close>

theorem namespace_metadata_merged:
  assumes "resourceMetadataNeedsUpdate existing md = (changed, updated)"
    and "\<forall>k\<in>set (rm_DeletedAnnotationKeys md). \<not> ghas (rm_Annotations md) k"
  shows "(\<forall>k v. glookup (rm_Labels md) k = Some v \<longrightarrow> gget (om_Labels updated) k = v) \<and>
    (\<forall>k v. glookup (rm_Annotations md) k = Some v \<longrightarrow> gget (om_Annotations updated) k = v) \<and>
    (\<forall>k\<in>set (rm_DeletedAnnotationKeys md). \<not> ghas (om_Annotations updated) k) \<and>
    (\<forall>k. \<not> ghas (rm_Labels md) k \<longrightarrow> glookup (om_Labels updated) k = glookup (om_Labels existing) k) \<and>
    (\<forall>k. \<not> ghas (rm_Annotations md) k \<and> k \<notin> set (rm_DeletedAnnotationKeys md) \<longrightarrow>
       glookup (om_Annotations updated) k = glookup (om_Annotations existing) k) \<and>
    (\<not> changed \<longrightarrow> updated = existing) \<and>
    resourceMetadataNeedsUpdate updated (md\<lparr>rm_DeletedAnnotationKeys := []\<rparr>) = (False, updated)"
proof -
  note maps = resourceMetadataNeedsUpdate_maps [OF assms(1)]
  have disj: "glookup (rm_Annotations md) k = Some v \<Longrightarrow> k \<notin> set (rm_DeletedAnnotationKeys md)" for k v
    using assms(2) by (auto simp: ghas_def)
  have labels: "\<forall>k v. glookup (rm_Labels md) k = Some v \<longrightarrow> gget (om_Labels updated) k = v"
    using namespace_no_update(1) [of existing "rm_Labels md"]
    by (auto simp: maps(1) gget_def glookup_gcopy)
  have annots: "\<forall>k v. glookup (rm_Annotations md) k = Some v \<longrightarrow> gget (om_Annotations updated) k = v"
    using namespace_no_update(2) [of existing "rm_Annotations md"]
    by (auto simp: maps(2) gget_def glookup_gcopy glookup_removeObsolete dest: disj)
  have gone: "\<forall>k\<in>set (rm_DeletedAnnotationKeys md). \<not> ghas (om_Annotations updated) k"
    by (auto simp: maps(2) ghas_def glookup_removeObsolete)
  have frame: "\<not> ghas (rm_Labels md) k \<Longrightarrow> glookup (om_Labels updated) k = glookup (om_Labels existing) k"
    "\<not> ghas (rm_Annotations md) k \<and> k \<notin> set (rm_DeletedAnnotationKeys md) \<Longrightarrow>
       glookup (om_Annotations updated) k = glookup (om_Annotations existing) k" for k
    by (auto simp: maps(1,2) ghas_def glookup_gcopy glookup_removeObsolete)
  have "\<not> namespaceLabelsNeedUpdate updated (rm_Labels md)"
    using labels namespace_no_update(1) [of existing "rm_Labels md"]
    by (auto simp: namespace_no_update maps(1) isNil_gcopy)
  moreover have "\<not> namespaceAnnotationsNeedUpdate updated (rm_Annotations md)"
    using annots namespace_no_update(2) [of existing "rm_Annotations md"]
    by (auto simp: namespace_no_update maps(2) isNil_gcopy)
  ultimately have "resourceMetadataNeedsUpdate updated (md\<lparr>rm_DeletedAnnotationKeys := []\<rparr>) = (False, updated)"
    by (simp add: resourceMetadataNeedsUpdate_def Let_def)
  with labels annots gone frame maps(4) show ?thesis by blast
qed

theorem namespace_metadata_merged_witness:
  "gget (om_Labels (snd (resourceMetadataNeedsUpdate
     (zeroMeta\<lparr>om_Labels := GoMap [(''env'', ''prod''), (''app'', ''x'')], om_Annotations := GoMap [(''old'', ''1'')]\<rparr>)
     \<lparr>rm_Labels = GoMap [(''app'', ''external-secrets'')], rm_Annotations = NilMap, rm_DeletedAnnotationKeys = [''old'']\<rparr>))) ''app''
   = ''external-secrets''"
proof -
  let ?e = "zeroMeta\<lparr>om_Labels := GoMap [(''env'', ''prod''), (''app'', ''x'')], om_Annotations := GoMap [(''old'', ''1'')]\<rparr>"
  let ?md = "\<lparr>rm_Labels = GoMap [(''app'', ''external-secrets'')], rm_Annotations = NilMap, rm_DeletedAnnotationKeys = [''old'']\<rparr>"
  have "resourceMetadataNeedsUpdate ?e ?md = (True, snd (resourceMetadataNeedsUpdate ?e ?md))" by code_simp
  from namespace_metadata_merged [OF this] show ?thesis by (simp add: ghas_def glookup_def)
qed

end
