(* ===== verification/Drift.thy ===== *)
theory Drift
  imports Complex_Main Resource_Metadata "HOL-Library.Multiset"
begin

section \<open>Drift detection: \<^verbatim>\<open>HasObjectChanged\<close> in \<^verbatim>\<open>pkg/controller/common/utils.go\<close>\<close>

text \<open>
  The comparison of a desired object with the one fetched from the API server, one function per
  kind, in the order of the source. \<open>reflect.DeepEqual\<close> is equality, with \<open>geq\<close> on maps. A nil
  dereference and the explicit panics are \<open>Panic\<close> results. \<open>slices.SortFunc\<close> is a sort by key;
  it is not stable, so results on elements with equal names are not claimed below.
  The lemmas show that an object never drifts from itself (a reconciled cluster is left alone),
  what an unreported deployment has in common with the desired one, that comparisons meant to be
  insensitive to order or representation are so, and which difference goes unreported.
\<close>

subsection \<open>Comparisons shared by the kinds\<close>

definition emptyAwareSliceEqual :: "'a slice \<Rightarrow> 'a slice \<Rightarrow> bool" where
  "emptyAwareSliceEqual desired fetched =
     (if elems desired = [] \<and> elems fetched = [] then True else desired = fetched)"

definition emptyAwareMapEqual :: "'v gomap \<Rightarrow> 'v gomap \<Rightarrow> bool" where
  "emptyAwareMapEqual desired fetched =
     (if glen desired = 0 \<and> glen fetched = 0 then True else geq desired fetched)"

definition slicesEqualUnordered :: "('a \<Rightarrow> string) \<Rightarrow> 'a list \<Rightarrow> 'a list \<Rightarrow> bool" where
  "slicesEqualUnordered key desired fetched =
     (if length desired \<noteq> length fetched then False
      else if desired = [] then True
      else sort_key key desired = sort_key key fetched)"

definition envVarsEqual :: "EnvVar list \<Rightarrow> EnvVar list \<Rightarrow> bool" where
  "envVarsEqual = slicesEqualUnordered ev_Name"

definition volumeMountsEqual :: "VolumeMount list \<Rightarrow> VolumeMount list \<Rightarrow> bool" where
  "volumeMountsEqual = slicesEqualUnordered vm_Name"

text \<open>\<open>resource.Quantity.Equal\<close>: equality of the numbers \<open>value * 10 ^ scale\<close>.\<close>

definition quantityEqual :: "Quantity \<Rightarrow> Quantity \<Rightarrow> bool" where
  "quantityEqual a b =
     (let s = min (q_scale a) (q_scale b) in
      q_value a * 10 ^ nat (q_scale a - s) = q_value b * 10 ^ nat (q_scale b - s))"

definition resourceListEqual :: "ResourceList \<Rightarrow> ResourceList \<Rightarrow> bool" where
  "resourceListEqual desired fetched =
     (if glen desired = 0 \<and> glen fetched = 0 then True
      else if glen desired \<noteq> glen fetched then False
      else list_all (\<lambda>name. case (glookup desired name, glookup fetched name) of
                (Some desiredQty, Some fetchedQty) \<Rightarrow> quantityEqual desiredQty fetchedQty
              | _ \<Rightarrow> False) (gkeys desired))"

definition resourceRequirementsEqual :: "ResourceRequirements \<Rightarrow> ResourceRequirements \<Rightarrow> bool" where
  "resourceRequirementsEqual desired fetched =
     (resourceListEqual (rr_Limits desired) (rr_Limits fetched) \<and>
      resourceListEqual (rr_Requests desired) (rr_Requests fetched) \<and>
      emptyAwareSliceEqual (rr_Claims desired) (rr_Claims fetched))"

definition portProtocolOrDefault :: "string \<Rightarrow> string" where
  "portProtocolOrDefault p = (if p = '''' then ''TCP'' else p)"

definition probeModified :: "Probe option \<Rightarrow> Probe option \<Rightarrow> bool" where
  "probeModified desired fetched =
     (case (desired, fetched) of
        (None, None) \<Rightarrow> False
      | (Some d, Some f) \<Rightarrow>
          (case (pr_HTTPGet d, pr_HTTPGet f) of
             (None, None) \<Rightarrow> False
           | (Some dg, Some fg) \<Rightarrow> hg_Path dg \<noteq> hg_Path fg
           | _ \<Rightarrow> True)
      | _ \<Rightarrow> True)"

definition labelSelectorEqual :: "LabelSelector \<Rightarrow> LabelSelector \<Rightarrow> bool" where
  "labelSelectorEqual a b =
     (geq (ls_MatchLabels a) (ls_MatchLabels b) \<and> ls_MatchExpressions a = ls_MatchExpressions b)"

definition selectorEqual :: "LabelSelector option \<Rightarrow> LabelSelector option \<Rightarrow> bool" where
  "selectorEqual a b =
     (case (a, b) of (None, None) \<Rightarrow> True | (Some x, Some y) \<Rightarrow> labelSelectorEqual x y | _ \<Rightarrow> False)"

subsection \<open>Volumes and containers\<close>

text \<open>The three source checks of one iteration of the loop in \<open>volumesEqual\<close>.\<close>

definition volumeSourceEqual :: "Volume \<Rightarrow> Volume \<Rightarrow> bool" where
  "volumeSourceEqual desiredVol fetchedVol =
     ((case v_ConfigMap desiredVol of None \<Rightarrow> True
       | Some dc \<Rightarrow> (case v_ConfigMap fetchedVol of None \<Rightarrow> False
                     | Some fc \<Rightarrow> cmvs_Name dc = cmvs_Name fc)) \<and>
      (case v_Secret desiredVol of None \<Rightarrow> True
       | Some dsec \<Rightarrow> (case v_Secret fetchedVol of None \<Rightarrow> False
                     | Some fsec \<Rightarrow> svs_SecretName dsec = svs_SecretName fsec \<and> svs_Items dsec = svs_Items fsec)) \<and>
      (v_EmptyDir desiredVol \<noteq> None \<longrightarrow> v_EmptyDir fetchedVol \<noteq> None))"

definition volumesEqual :: "Volume list \<Rightarrow> Volume list \<Rightarrow> bool" where
  "volumesEqual desired fetched =
     (if desired = [] \<and> fetched = [] then True
      else if length desired \<noteq> length fetched then False
      else list_all (\<lambda>desiredVol. case lastByKey v_Name fetched (v_Name desiredVol) of
                None \<Rightarrow> False
              | Some fetchedVol \<Rightarrow> volumeSourceEqual desiredVol fetchedVol) desired)"

definition portMatches :: "ContainerPort \<Rightarrow> ContainerPort \<Rightarrow> bool" where
  "portMatches fetchedPort desiredPort =
     (cp_ContainerPort fetchedPort = cp_ContainerPort desiredPort \<and>
      portProtocolOrDefault (cp_Protocol fetchedPort) = portProtocolOrDefault (cp_Protocol desiredPort) \<and>
      cp_Name fetchedPort = cp_Name desiredPort)"

definition containerSpecModified :: "Container \<Rightarrow> Container \<Rightarrow> bool" where
  "containerSpecModified desiredContainer fetchedContainer =
     (if c_Args desiredContainer \<noteq> c_Args fetchedContainer \<or>
         c_Name desiredContainer \<noteq> c_Name fetchedContainer \<or>
         c_Image desiredContainer \<noteq> c_Image fetchedContainer \<or>
         c_ImagePullPolicy desiredContainer \<noteq> c_ImagePullPolicy fetchedContainer then True
      else if \<not> envVarsEqual (c_Env desiredContainer) (c_Env fetchedContainer) then True
      else if length (c_Ports desiredContainer) \<noteq> length (c_Ports fetchedContainer) then True
      else if \<not> list_all (\<lambda>fetchedPort. list_ex (portMatches fetchedPort) (c_Ports desiredContainer))
                 (c_Ports fetchedContainer) then True
      else if probeModified (c_ReadinessProbe desiredContainer) (c_ReadinessProbe fetchedContainer) then True
      else if probeModified (c_LivenessProbe desiredContainer) (c_LivenessProbe fetchedContainer) then True
      else if c_SecurityContext desiredContainer \<noteq> None \<and>
              c_SecurityContext desiredContainer \<noteq> c_SecurityContext fetchedContainer then True
      else if \<not> volumeMountsEqual (c_VolumeMounts desiredContainer) (c_VolumeMounts fetchedContainer) then True
      else if \<not> resourceRequirementsEqual (c_Resources desiredContainer) (c_Resources fetchedContainer) then True
      else False)"

definition containersModified :: "Container list \<Rightarrow> Container list \<Rightarrow> bool" where
  "containersModified desired fetched =
     (if length desired \<noteq> length fetched then True
      else list_ex (\<lambda>desiredContainer. case lastByKey c_Name fetched (c_Name desiredContainer) of
                None \<Rightarrow> True
              | Some fetchedContainer \<Rightarrow> containerSpecModified desiredContainer fetchedContainer) desired)"

subsection \<open>One comparison per kind\<close>

definition certificateSpecModified :: "Certificate \<Rightarrow> Certificate \<Rightarrow> bool" where
  "certificateSpecModified desired fetched =
     (\<not> (cert_SecretName desired = cert_SecretName fetched \<and> cert_IssuerRef desired = cert_IssuerRef fetched \<and>
         cert_DNSNames desired = cert_DNSNames fetched \<and> cert_RenewBefore desired = cert_RenewBefore fetched \<and>
         cert_Duration desired = cert_Duration fetched \<and> cert_Other desired = cert_Other fetched))"

definition deploymentSpecModified :: "Deployment \<Rightarrow> Deployment \<Rightarrow> ResourceMetadata \<Rightarrow> bool" where
  "deploymentSpecModified desired fetched metaState =
     (let d = d_Spec desired; f = d_Spec fetched;
          dt = ds_Template d; ft = ds_Template f;
          dp = pt_Spec dt; fp = pt_Spec ft in
      if ds_Replicas d \<noteq> ds_Replicas f then True
      else if \<not> selectorEqual (ds_Selector d) (ds_Selector f) then True
      else if dst_Type (ds_Strategy d) \<noteq> '''' \<and> ds_Strategy d \<noteq> ds_Strategy f then True
      else if ds_MinReadySeconds d \<noteq> ds_MinReadySeconds f then True
      else if ds_Paused d \<noteq> ds_Paused f then True
      else if ds_ProgressDeadlineSeconds d \<noteq> None \<and> ds_ProgressDeadlineSeconds d \<noteq> ds_ProgressDeadlineSeconds f then True
      else if (ps_ServiceAccountName dp \<noteq> ps_ServiceAccountName fp \<or> ps_AutomountServiceAccountToken dp \<noteq> None) \<and>
              ps_AutomountServiceAccountToken dp \<noteq> ps_AutomountServiceAccountToken fp then True
      else if ps_DNSPolicy dp \<noteq> '''' \<and> ps_DNSPolicy dp \<noteq> ps_DNSPolicy fp then True
      else if ps_HostNetwork dp \<noteq> ps_HostNetwork fp then True
      else if \<not> emptyAwareMapEqual (pt_Labels dt) (pt_Labels ft) then True
      else if annotationMapsModified (pt_Annotations dt) (pt_Annotations ft) (rm_DeletedAnnotationKeys metaState) then True
      else if \<not> volumesEqual (ps_Volumes dp) (ps_Volumes fp) then True
      else if \<not> emptyAwareMapEqual (ps_NodeSelector dp) (ps_NodeSelector fp) then True
      else if ps_Affinity dp \<noteq> ps_Affinity fp then True
      else if \<not> emptyAwareSliceEqual (ps_Tolerations dp) (ps_Tolerations fp) then True
      else if \<not> emptyAwareSliceEqual (ps_TopologySpreadConstraints dp) (ps_TopologySpreadConstraints fp) then True
      else if ds_RevisionHistoryLimit d \<noteq> None \<and> ds_RevisionHistoryLimit d \<noteq> ds_RevisionHistoryLimit f then True
      else if containersModified (ps_Containers dp) (ps_Containers fp) then True
      else if containersModified (ps_InitContainers dp) (ps_InitContainers fp) then True
      else False)"

definition serviceSpecModified :: "Service \<Rightarrow> Service \<Rightarrow> bool" where
  "serviceSpecModified desired fetched =
     (svc_Type desired \<noteq> svc_Type fetched \<or> svc_Ports desired \<noteq> svc_Ports fetched \<or>
      \<not> geq (svc_Selector desired) (svc_Selector fetched))"

definition networkPolicySpecModified :: "NetworkPolicyObj \<Rightarrow> NetworkPolicyObj \<Rightarrow> bool" where
  "networkPolicySpecModified desired fetched =
     (\<not> labelSelectorEqual (np_PodSelector desired) (np_PodSelector fetched) \<or>
      np_PolicyTypes desired \<noteq> np_PolicyTypes fetched \<or>
      np_Ingress desired \<noteq> np_Ingress fetched \<or> np_Egress desired \<noteq> np_Egress fetched)"

definition rbacRoleRulesModified :: "RoleObj \<Rightarrow> RoleObj \<Rightarrow> bool" where
  "rbacRoleRulesModified desired fetched = (role_Rules desired \<noteq> role_Rules fetched)"

definition rbacRoleBindingRefModified :: "BindingObj \<Rightarrow> BindingObj \<Rightarrow> bool" where
  "rbacRoleBindingRefModified desired fetched = (rb_RoleRef desired \<noteq> rb_RoleRef fetched)"

definition rbacRoleBindingSubjectsModified :: "BindingObj \<Rightarrow> BindingObj \<Rightarrow> bool" where
  "rbacRoleBindingSubjectsModified desired fetched = (rb_Subjects desired \<noteq> rb_Subjects fetched)"

text \<open>
  One pair of webhooks. The operands of the disjunction are evaluated from left to right;
  reading \<open>ClientConfig.Service.Name\<close> of a webhook without a service is a nil dereference.
\<close>

definition webhookModified :: "ValidatingWebhook \<Rightarrow> ValidatingWebhook \<Rightarrow> (goerr, bool) result" where
  "webhookModified desiredWh fetchedWh =
     (if wh_SideEffects desiredWh \<noteq> wh_SideEffects fetchedWh \<or>
         wh_TimeoutSeconds desiredWh \<noteq> wh_TimeoutSeconds fetchedWh \<or>
         wh_AdmissionReviewVersions desiredWh \<noteq> wh_AdmissionReviewVersions fetchedWh then Ret True
      else (case (wh_ClientService desiredWh, wh_ClientService fetchedWh) of
              (Some dsvc, Some fsvc) \<Rightarrow>
                 Ret (whs_Name dsvc \<noteq> whs_Name fsvc \<or> whs_Path dsvc \<noteq> whs_Path fsvc \<or>
                      wh_Rules desiredWh \<noteq> wh_Rules fetchedWh)
            | _ \<Rightarrow> Panic ''nil pointer dereference''))"

fun webhooksModified :: "(string \<Rightarrow> ValidatingWebhook option) \<Rightarrow> ValidatingWebhook list \<Rightarrow> (goerr, bool) result" where
  "webhooksModified fetchedWebhooksMap [] = Ret False"
| "webhooksModified fetchedWebhooksMap (desiredWh # rest) =
     (case fetchedWebhooksMap (wh_Name desiredWh) of
        None \<Rightarrow> Ret True
      | Some fetchedWh \<Rightarrow>
          (case webhookModified desiredWh fetchedWh of
             Ret False \<Rightarrow> webhooksModified fetchedWebhooksMap rest
           | r \<Rightarrow> r))"

definition validatingWebHookSpecModified :: "WebhookConfig \<Rightarrow> WebhookConfig \<Rightarrow> (goerr, bool) result" where
  "validatingWebHookSpecModified desired fetched =
     (if length (whc_Webhooks desired) \<noteq> length (whc_Webhooks fetched) then Ret True
      else webhooksModified (lastByKey wh_Name (whc_Webhooks fetched)) (whc_Webhooks desired))"

definition objectSpecModified :: "kobj \<Rightarrow> kobj \<Rightarrow> ResourceMetadata \<Rightarrow> (goerr, bool) result" where
  "objectSpecModified desired fetched metaState =
     (case (desired, fetched) of
        (KCertificate d, KCertificate f) \<Rightarrow> Ret (certificateSpecModified d f)
      | (KClusterRole d, KClusterRole f) \<Rightarrow> Ret (rbacRoleRulesModified d f)
      | (KClusterRoleBinding d, KClusterRoleBinding f) \<Rightarrow>
          Ret (rbacRoleBindingRefModified d f \<or> rbacRoleBindingSubjectsModified d f)
      | (KDeployment d, KDeployment f) \<Rightarrow> Ret (deploymentSpecModified d f metaState)
      | (KRole d, KRole f) \<Rightarrow> Ret (rbacRoleRulesModified d f)
      | (KRoleBinding d, KRoleBinding f) \<Rightarrow>
          Ret (rbacRoleBindingRefModified d f \<or> rbacRoleBindingSubjectsModified d f)
      | (KService d, KService f) \<Rightarrow> Ret (serviceSpecModified d f)
      | (KNetworkPolicy d, KNetworkPolicy f) \<Rightarrow> Ret (networkPolicySpecModified d f)
      | (KWebhookConfig d, KWebhookConfig f) \<Rightarrow> validatingWebHookSpecModified d f
      | (KServiceAccount d, KServiceAccount f) \<Rightarrow> Ret False
      | _ \<Rightarrow> Panic (''unsupported object type: '' @ kindOf desired))"

definition HasObjectChanged :: "kobj \<Rightarrow> kobj \<Rightarrow> ResourceMetadata \<Rightarrow> (goerr, bool) result" where
  "HasObjectChanged desired fetched metaState =
     (if kindOf desired \<noteq> kindOf fetched then Panic ''both objects to be compared must be of same type''
      else (case objectSpecModified desired fetched metaState of
              Ret objectModified \<Rightarrow> Ret (objectModified \<or> ObjectMetadataModified desired fetched metaState)
            | r \<Rightarrow> r))"

section \<open>Lemmas\<close>

named_theorems drift_simps \<open>reflexivity of the comparisons\<close>

lemma emptyAware_refl [simp, drift_simps]: "emptyAwareSliceEqual a a" "emptyAwareMapEqual m m"
  by (simp_all add: emptyAwareSliceEqual_def emptyAwareMapEqual_def)

lemma emptyAwareMapEqual_iff: "emptyAwareMapEqual a b \<longleftrightarrow> (glen a = 0 \<and> glen b = 0) \<or> geq a b"
  by (simp add: emptyAwareMapEqual_def)

lemma emptyAwareMapEqual_lookup: "emptyAwareMapEqual a b \<Longrightarrow> glookup a = glookup b"
  by (auto simp: emptyAwareMapEqual_iff geq_iff glen_0_lookup)

lemma emptyAwareSliceEqual_elems: "emptyAwareSliceEqual a b \<longleftrightarrow> elems a = elems b"
  by (cases a; cases b) (auto simp: emptyAwareSliceEqual_def)

lemma slicesEqualUnordered_refl [simp, drift_simps]: "slicesEqualUnordered key a a"
  by (simp add: slicesEqualUnordered_def)

lemma short_list_of_mset:
  assumes "mset xs = mset ys" and "length ys \<le> 1"
  shows "xs = ys"
proof (cases ys)
  case (Cons y zs)
  with assms have "mset xs = {#y#}" and "ys = [y]" by auto
  then show ?thesis by simp
qed (use assms in simp)

text \<open>Sorting by name forgets exactly the order, as long as names are distinct.\<close>

lemma sort_key_determined:
  fixes key :: "'a \<Rightarrow> 'k::linorder"
  assumes "distinct (map key a)" and "mset a = mset b"
  shows "sort_key key a = sort_key key b"
proof (rule properties_for_sort_key)
  show "mset (sort_key key b) = mset a" using assms(2) by simp
  show "sorted (map key (sort_key key b))" by simp
  fix k
  let ?P = "\<lambda>x. key k = key x"
  have "mset (filter ?P (sort_key key b)) = mset (filter ?P a)" using assms(2) by (simp add: mset_filter)
  moreover have "length (filter ?P a) \<le> 1"
    using assms(1) by (induction a) (auto simp: filter_empty_conv)
  ultimately show "filter ?P (sort_key key b) = filter ?P a"
    by (rule short_list_of_mset)
qed

lemma slicesEqualUnordered_mset: "slicesEqualUnordered key a b \<Longrightarrow> mset a = mset b"
  by (auto simp: slicesEqualUnordered_def split: if_splits) (metis mset_sort)

lemma slicesEqualUnordered_iff_mset:
  "distinct (map key a) \<Longrightarrow> slicesEqualUnordered key a b \<longleftrightarrow> mset a = mset b"
  using slicesEqualUnordered_mset [of key a b] sort_key_determined [of key a b]
  by (auto simp: slicesEqualUnordered_def dest: mset_eq_length)

subsection \<open>Quantities\<close>

definition quantityValue :: "Quantity \<Rightarrow> rat" where
  "quantityValue q = of_int (q_value q) * 10 powi (q_scale q)"

lemma quantityEqual_iff: "quantityEqual a b \<longleftrightarrow> quantityValue a = quantityValue b"
proof -
  define s where "s = min (q_scale a) (q_scale b)"
  have scale: "quantityValue q = of_int (q_value q * 10 ^ nat (q_scale q - s)) * 10 powi s"
    if "s \<le> q_scale q" for q
  proof -
    have "(10::rat) powi (q_scale q) = 10 powi (q_scale q - s) * 10 powi s"
      by (simp flip: power_int_add)
    with that show ?thesis by (simp add: quantityValue_def power_int_def)
  qed
  have "quantityValue a = quantityValue b \<longleftrightarrow>
      (of_int (q_value a * 10 ^ nat (q_scale a - s)) :: rat) = of_int (q_value b * 10 ^ nat (q_scale b - s))"
    using scale [of a] scale [of b] by (simp add: s_def)
  then show ?thesis by (simp only: of_int_eq_iff) (simp add: quantityEqual_def Let_def s_def)
qed

lemma quantityEqual_refl [simp, drift_simps]: "quantityEqual q q"
  by (simp add: quantityEqual_iff)

lemma glen_card: "glen m = card (set (gkeys m))"
  by (simp add: glen_def distinct_card)

lemma resourceListEqual_iff:
  "resourceListEqual a b \<longleftrightarrow>
     (\<forall>n. map_option quantityValue (glookup a n) = map_option quantityValue (glookup b n))"
proof
  assume eq: "resourceListEqual a b"
  have len: "glen a = glen b" using eq by (auto simp: resourceListEqual_def split: if_splits)
  have at: "\<exists>p q. glookup a n = Some p \<and> glookup b n = Some q \<and> quantityValue p = quantityValue q"
    if "n \<in> set (gkeys a)" for n
  proof -
    from that obtain p where p: "glookup a n = Some p" by (auto simp: set_gkeys)
    from that have "glen a \<noteq> 0" by (auto simp: glen_def)
    with eq that have "case (glookup a n, glookup b n) of (Some p, Some q) \<Rightarrow> quantityEqual p q | _ \<Rightarrow> False"
      by (auto simp: resourceListEqual_def list_all_iff split: if_splits)
    with p show ?thesis by (auto simp: quantityEqual_iff split: option.splits)
  qed
  then have "set (gkeys a) \<subseteq> set (gkeys b)" by (auto simp: set_gkeys)
  with len have same: "set (gkeys a) = set (gkeys b)" by (simp add: glen_card card_subset_eq)
  show "\<forall>n. map_option quantityValue (glookup a n) = map_option quantityValue (glookup b n)"
  proof
    fix n
    show "map_option quantityValue (glookup a n) = map_option quantityValue (glookup b n)"
    proof (cases "n \<in> set (gkeys a)")
      case True
      from at [OF this] show ?thesis by auto
    next
      case False
      moreover with same have "n \<notin> set (gkeys b)" by simp
      ultimately show ?thesis by (simp add: set_gkeys)
    qed
  qed
next
  assume eq: "\<forall>n. map_option quantityValue (glookup a n) = map_option quantityValue (glookup b n)"
  then have "\<forall>n. glookup a n = None \<longleftrightarrow> glookup b n = None" by (metis option.map_disc_iff)
  then have "set (gkeys a) = set (gkeys b)" by (auto simp: set_gkeys)
  then have len: "glen a = glen b" by (simp add: glen_card)
  have "\<exists>p q. glookup a n = Some p \<and> glookup b n = Some q \<and> quantityEqual p q" if "n \<in> set (gkeys a)" for n
  proof -
    from that obtain p where "glookup a n = Some p" by (auto simp: set_gkeys)
    moreover with eq obtain q where "glookup b n = Some q" "quantityValue p = quantityValue q"
      by (metis map_option_eq_Some)
    ultimately show ?thesis by (simp add: quantityEqual_iff)
  qed
  with len show "resourceListEqual a b" by (fastforce simp: resourceListEqual_def list_all_iff)
qed

lemma resourceRequirementsEqual_refl [simp, drift_simps]: "resourceRequirementsEqual r r"
  by (simp add: resourceRequirementsEqual_def resourceListEqual_iff)

subsection \<open>An object compared with itself\<close>

lemma probeModified_refl [simp, drift_simps]: "\<not> probeModified p p"
  by (simp add: probeModified_def split: option.splits)

lemma selectorEqual_refl [simp, drift_simps]: "labelSelectorEqual a a" "selectorEqual s s"
  by (simp_all add: selectorEqual_def labelSelectorEqual_def split: option.splits)

lemma containerSpecModified_refl [simp, drift_simps]: "\<not> containerSpecModified c c"
proof -
  have "list_all (\<lambda>p. list_ex (portMatches p) ps) ps" for ps
    by (auto simp: list_all_iff list_ex_iff portMatches_def)
  then show ?thesis by (simp add: containerSpecModified_def envVarsEqual_def volumeMountsEqual_def)
qed

lemma containersModified_refl: "distinct (map c_Name cs) \<Longrightarrow> \<not> containersModified cs cs"
  by (auto simp: containersModified_def list_ex_iff lastByKey_distinct)

lemma volumesEqual_refl: "distinct (map v_Name vs) \<Longrightarrow> volumesEqual vs vs"
  by (auto simp: volumesEqual_def list_all_iff lastByKey_distinct volumeSourceEqual_def split: option.splits)

lemma webhooksModified_refl:
  assumes "\<And>w. w \<in> set ws \<Longrightarrow> m (wh_Name w) = Some w \<and> wh_ClientService w \<noteq> None"
  shows "webhooksModified m ws = Ret False"
  using assms
proof (induction ws)
  case (Cons w ws)
  then obtain sv where "m (wh_Name w) = Some w" and "wh_ClientService w = Some sv" by auto
  with Cons show ?case by (simp add: webhookModified_def)
qed simp

text \<open>
  What the manifests of the operator guarantee: the object is of a kind the comparison supports,
  and containers, volumes and webhooks have distinct names.
\<close>

fun comparable :: "kobj \<Rightarrow> bool" where
  "comparable (KDeployment d) =
     (let p = pt_Spec (ds_Template (d_Spec d)) in
      distinct (map c_Name (ps_Containers p)) \<and> distinct (map c_Name (ps_InitContainers p)) \<and>
      distinct (map v_Name (ps_Volumes p)))"
| "comparable (KWebhookConfig w) =
     (distinct (map wh_Name (whc_Webhooks w)) \<and> list_all (\<lambda>x. wh_ClientService x \<noteq> None) (whc_Webhooks w))"
| "comparable x = (kindOf x \<in> {''Certificate'', ''ClusterRole'', ''ClusterRoleBinding'', ''Role'', ''RoleBinding'',
     ''Service'', ''NetworkPolicy'', ''ServiceAccount''})"

text \<open>The annotations of the pod template, which the deployment comparison looks at too.\<close>

fun templateAnnotations :: "kobj \<Rightarrow> strmap" where
  "templateAnnotations (KDeployment d) = pt_Annotations (ds_Template (d_Spec d))"
| "templateAnnotations x = NilMap"

lemma deploymentSpecModified_self:
  assumes "comparable (KDeployment d)"
    and "\<forall>k\<in>set (rm_DeletedAnnotationKeys md). glookup (pt_Annotations (ds_Template (d_Spec d))) k = None"
  shows "\<not> deploymentSpecModified d (d\<lparr>d_Meta := m\<rparr>) md"
proof -
  let ?a = "pt_Annotations (ds_Template (d_Spec d))"
  have "\<not> annotationMapsModified ?a ?a (rm_DeletedAnnotationKeys md)"
    using assms(2) by (simp add: annotationMapsModified_False gget_def)
  then show ?thesis
    using assms(1) by (simp add: deploymentSpecModified_def Let_def containersModified_refl volumesEqual_refl)
qed

lemma objectSpecModified_self:
  assumes "comparable d" and "\<forall>k\<in>set (rm_DeletedAnnotationKeys md). glookup (templateAnnotations d) k = None"
  shows "objectSpecModified d (mapMeta g d) md = Ret False"
proof (cases d)
  case (KDeployment x)
  with assms deploymentSpecModified_self [of x md] show ?thesis by (simp add: objectSpecModified_def)
next
  case (KWebhookConfig x)
  with assms(1) have "webhooksModified (lastByKey wh_Name (whc_Webhooks x)) (whc_Webhooks x) = Ret False"
    by (intro webhooksModified_refl) (auto simp: lastByKey_distinct list_all_iff)
  with KWebhookConfig show ?thesis by (simp add: objectSpecModified_def validatingWebHookSpecModified_def)
qed (use assms(1) in \<open>simp_all add: objectSpecModified_def certificateSpecModified_def rbacRoleRulesModified_def
      rbacRoleBindingRefModified_def rbacRoleBindingSubjectsModified_def serviceSpecModified_def networkPolicySpecModified_def\<close>)

lemma reconciled_object_undrifted:
  assumes "comparable d"
    and "om_Labels (metaOf f) = om_Labels (metaOf d)" and "f = mapMeta (\<lambda>_. metaOf f) d"
    and "\<forall>k v. glookup (om_Annotations (metaOf d)) k = Some v \<longrightarrow> glookup (om_Annotations (metaOf f)) k = Some v"
    and "\<forall>k\<in>set (rm_DeletedAnnotationKeys md).
           glookup (om_Annotations (metaOf f)) k = None \<and> glookup (templateAnnotations d) k = None"
  shows "HasObjectChanged d f md = Ret False"
proof -
  have kind: "kindOf d = kindOf f" using assms(3) by (metis kindOf_mapMeta)
  have spec: "objectSpecModified d f md = Ret False"
    using objectSpecModified_self [of d md "\<lambda>_. metaOf f"] assms(1,3,5) by simp
  have "\<not> ObjectMetadataModified d f md"
    using assms(2,4,5) by (simp add: ObjectMetadataModified_def annotationMapsModified_False gget_def)
  with kind spec show ?thesis by (simp add: HasObjectChanged_def)
qed

text \<open>A deployment with one container.\<close>

definition sampleDeployment :: "string \<Rightarrow> Deployment" where
  "sampleDeployment serviceAccount = zeroDeployment\<lparr>d_Spec := (d_Spec zeroDeployment)\<lparr>ds_Template :=
     (ds_Template (d_Spec zeroDeployment))\<lparr>pt_Spec := zeroPodSpec\<lparr>ps_ServiceAccountName := serviceAccount,
       ps_Containers := [zeroContainer\<lparr>c_Name := ''external-secrets'', c_Image := ''quay.io/es:1''\<rparr>]\<rparr>\<rparr>\<rparr>\<rparr>"

text \<open>A desired container has its live counterpart when no drift is reported.\<close>

lemma undrifted_container:
  assumes "\<not> deploymentSpecModified d f md" and "c \<in> set (ps_Containers (pt_Spec (ds_Template (d_Spec d))))"
  obtains c' where "c' \<in> set (ps_Containers (pt_Spec (ds_Template (d_Spec f))))" and "\<not> containerSpecModified c c'"
proof -
  from assms(1) have "\<not> containersModified (ps_Containers (pt_Spec (ds_Template (d_Spec d)))) (ps_Containers (pt_Spec (ds_Template (d_Spec f))))"
    by (auto simp: deploymentSpecModified_def Let_def split: if_splits)
  with assms(2) obtain c' where c': "lastByKey c_Name (ps_Containers (pt_Spec (ds_Template (d_Spec f)))) (c_Name c) = Some c'"
    and same: "\<not> containerSpecModified c c'"
    by (auto simp: containersModified_def list_ex_iff split: if_splits option.splits)
  show ?thesis by (rule that [OF lastByKey_SomeD(1) [OF c'] same])
qed

lemma unmodified_container:
  assumes "\<not> containerSpecModified c c'"
  shows "c_Name c' = c_Name c \<and> c_Image c' = c_Image c \<and> c_Args c' = c_Args c \<and>
     (c_SecurityContext c \<noteq> None \<longrightarrow> c_SecurityContext c' = c_SecurityContext c)"
  using assms by (auto simp: containerSpecModified_def split: if_splits)

section \<open>Properties\<close>

text \<open>
  C12. A reconciled object is left alone. When the object on the server is the desired one up to
  server-owned metadata (resource version, generation, finalizers, deletion time) and further
  annotations, carries no deleted annotation key and its names are distinct, no change is
  reported, so no update is sent: reconciliation does not loop.
\<close>

theorem reconciled_object_not_reported:
  assumes "comparable d"
    and "om_Labels (metaOf f) = om_Labels (metaOf d)" and "f = mapMeta (\<lambda>_. metaOf f) d"
    and "\<forall>k v. glookup (om_Annotations (metaOf d)) k = Some v \<longrightarrow> glookup (om_Annotations (metaOf f)) k = Some v"
    and "\<forall>k\<in>set (rm_DeletedAnnotationKeys md).
           glookup (om_Annotations (metaOf f)) k = None \<and> glookup (templateAnnotations d) k = None"
  shows "HasObjectChanged d f md = Ret False"
  using assms by (rule reconciled_object_undrifted)

theorem reconciled_object_not_reported_witness:
  "HasObjectChanged (KDeployment (sampleDeployment ''external-secrets''))
     (mapMeta (\<lambda>m. m\<lparr>om_ResourceVersion := ''42'', om_Annotations :=
          GoMap [(''deployment.kubernetes.io/revision'', ''3'')]\<rparr>) (KDeployment (sampleDeployment ''external-secrets'')))
     \<lparr>rm_Labels = NilMap, rm_Annotations = NilMap, rm_DeletedAnnotationKeys = [''team'']\<rparr> = Ret False"
  by (rule reconciled_object_not_reported)
     (simp_all add: sampleDeployment_def zeroDeployment_def zeroPodSpec_def zeroMeta_def glookup_def)

text \<open>
  C11. An unreported deployment runs what was asked for. When no change is reported between two
  deployments, they have the same replica count, the same labels and pod labels, the same node
  selector, tolerations and affinity, and every desired container has a container of the same name
  on the server with the same image, arguments, the same environment variables and volume mounts
  up to order, numerically the same resources, and the desired security context if one is set;
  every managed annotation reads as desired and no deleted one is left.
\<close>

theorem unreported_deployment_agrees:
  assumes "HasObjectChanged (KDeployment d) (KDeployment f) md = Ret False"
    and "c \<in> set (ps_Containers (pt_Spec (ds_Template (d_Spec d))))"
  shows "ds_Replicas (d_Spec f) = ds_Replicas (d_Spec d) \<and>
    glookup (om_Labels (d_Meta f)) = glookup (om_Labels (d_Meta d)) \<and>
    glookup (pt_Labels (ds_Template (d_Spec f))) = glookup (pt_Labels (ds_Template (d_Spec d))) \<and>
    glookup (ps_NodeSelector (pt_Spec (ds_Template (d_Spec f)))) = glookup (ps_NodeSelector (pt_Spec (ds_Template (d_Spec d)))) \<and>
    elems (ps_Tolerations (pt_Spec (ds_Template (d_Spec f)))) = elems (ps_Tolerations (pt_Spec (ds_Template (d_Spec d)))) \<and>
    ps_Affinity (pt_Spec (ds_Template (d_Spec f))) = ps_Affinity (pt_Spec (ds_Template (d_Spec d))) \<and>
    (\<forall>k v. glookup (om_Annotations (d_Meta d)) k = Some v \<longrightarrow> gget (om_Annotations (d_Meta f)) k = v) \<and>
    (\<forall>k\<in>set (rm_DeletedAnnotationKeys md). \<not> ghas (om_Annotations (d_Meta f)) k) \<and>
    (\<exists>c'\<in>set (ps_Containers (pt_Spec (ds_Template (d_Spec f)))).
       c_Name c' = c_Name c \<and> c_Image c' = c_Image c \<and> c_Args c' = c_Args c \<and>
       mset (c_Env c') = mset (c_Env c) \<and> mset (c_VolumeMounts c') = mset (c_VolumeMounts c) \<and>
       (\<forall>n. map_option quantityValue (glookup (rr_Limits (c_Resources c')) n) =
            map_option quantityValue (glookup (rr_Limits (c_Resources c)) n)) \<and>
       (\<forall>n. map_option quantityValue (glookup (rr_Requests (c_Resources c')) n) =
            map_option quantityValue (glookup (rr_Requests (c_Resources c)) n)) \<and>
       (c_SecurityContext c \<noteq> None \<longrightarrow> c_SecurityContext c' = c_SecurityContext c))"
proof -
  let ?dp = "pt_Spec (ds_Template (d_Spec d))" and ?fp = "pt_Spec (ds_Template (d_Spec f))"
  have spec: "\<not> deploymentSpecModified d f md" and meta: "\<not> ObjectMetadataModified (KDeployment d) (KDeployment f) md"
    using assms(1) by (auto simp: HasObjectChanged_def objectSpecModified_def)
  from undrifted_container [OF spec assms(2)] obtain c' where live: "c' \<in> set (ps_Containers ?fp)"
    and same: "\<not> containerSpecModified c c'" by blast
  note live
  moreover have "mset (c_Env c') = mset (c_Env c)" and "mset (c_VolumeMounts c') = mset (c_VolumeMounts c)"
    using same by (auto simp: containerSpecModified_def envVarsEqual_def volumeMountsEqual_def
        dest: slicesEqualUnordered_mset split: if_splits)
  moreover have "resourceListEqual (rr_Limits (c_Resources c)) (rr_Limits (c_Resources c'))"
    and "resourceListEqual (rr_Requests (c_Resources c)) (rr_Requests (c_Resources c'))"
    using same by (auto simp: containerSpecModified_def resourceRequirementsEqual_def split: if_splits)
  moreover have "c_Name c' = c_Name c \<and> c_Image c' = c_Image c \<and> c_Args c' = c_Args c \<and>
      (c_SecurityContext c \<noteq> None \<longrightarrow> c_SecurityContext c' = c_SecurityContext c)"
    by (rule unmodified_container [OF same])
  moreover have "ds_Replicas (d_Spec f) = ds_Replicas (d_Spec d)" and "ps_Affinity ?fp = ps_Affinity ?dp"
    and "emptyAwareMapEqual (pt_Labels (ds_Template (d_Spec d))) (pt_Labels (ds_Template (d_Spec f)))"
    and "emptyAwareMapEqual (ps_NodeSelector ?dp) (ps_NodeSelector ?fp)"
    and "emptyAwareSliceEqual (ps_Tolerations ?dp) (ps_Tolerations ?fp)"
    using spec by (auto simp: deploymentSpecModified_def Let_def split: if_splits)
  moreover have "glookup (om_Labels (d_Meta f)) = glookup (om_Labels (d_Meta d))"
    and "\<not> annotationMapsModified (om_Annotations (d_Meta d)) (om_Annotations (d_Meta f)) (rm_DeletedAnnotationKeys md)"
    using meta by (auto simp: ObjectMetadataModified_def geq_iff split: if_splits)
  ultimately show ?thesis
    by (auto simp: annotationMapsModified_False ghas_def resourceListEqual_iff emptyAwareSliceEqual_elems
        dest!: emptyAwareMapEqual_lookup)
qed

theorem unreported_deployment_agrees_witness:
  "c_Image (hd (ps_Containers (pt_Spec (ds_Template (d_Spec (sampleDeployment ''external-secrets'')))))) = ''quay.io/es:1''"
proof -
  let ?d = "sampleDeployment ''external-secrets''"
  let ?md = "\<lparr>rm_Labels = NilMap, rm_Annotations = NilMap, rm_DeletedAnnotationKeys = []\<rparr>"
  have "HasObjectChanged (KDeployment ?d) (KDeployment ?d) ?md = Ret False" by code_simp
  from unreported_deployment_agrees [OF this, of "hd (ps_Containers (pt_Spec (ds_Template (d_Spec ?d))))"]
  show ?thesis by (simp add: sampleDeployment_def zeroDeployment_def zeroPodSpec_def)
qed

text \<open>
  Comparisons that ignore order and representation do so exactly: two lists of environment
  variables with distinct names, or of volume mounts with distinct names, count as equal precisely
  when they hold the same elements, and two resource lists precisely when they name the same
  resources with numerically equal quantities, however the quantities are written.
\<close>

theorem unordered_comparisons_exact:
  "(distinct (map ev_Name e) \<longrightarrow> (envVarsEqual e e' \<longleftrightarrow> mset e = mset e')) \<and>
   (distinct (map vm_Name m) \<longrightarrow> (volumeMountsEqual m m' \<longleftrightarrow> mset m = mset m')) \<and>
   (resourceListEqual r r' \<longleftrightarrow>
      (\<forall>n. map_option quantityValue (glookup r n) = map_option quantityValue (glookup r' n)))"
  by (simp add: envVarsEqual_def volumeMountsEqual_def slicesEqualUnordered_iff_mset resourceListEqual_iff)

theorem unordered_comparisons_exact_witness:
  "envVarsEqual
     [\<lparr>ev_Name = ''A'', ev_Value = ''1'', ev_ValueFrom = None\<rparr>, \<lparr>ev_Name = ''B'', ev_Value = ''2'', ev_ValueFrom = None\<rparr>]
     [\<lparr>ev_Name = ''B'', ev_Value = ''2'', ev_ValueFrom = None\<rparr>, \<lparr>ev_Name = ''A'', ev_Value = ''1'', ev_ValueFrom = None\<rparr>] \<and>
   resourceListEqual (GoMap [(''cpu'', \<lparr>q_value = 1000, q_scale = - 3, q_str = ''1000m''\<rparr>)])
     (GoMap [(''cpu'', \<lparr>q_value = 1, q_scale = 0, q_str = ''1''\<rparr>)])"
proof
  let ?a = "\<lparr>ev_Name = ''A'', ev_Value = ''1'', ev_ValueFrom = None\<rparr>"
  let ?b = "\<lparr>ev_Name = ''B'', ev_Value = ''2'', ev_ValueFrom = None\<rparr>"
  show "envVarsEqual [?a, ?b] [?b, ?a]"
    using unordered_comparisons_exact [of "[?a, ?b]" "[?b, ?a]"] by (simp add: add_mset_commute)
  let ?r = "GoMap [(''cpu'', \<lparr>q_value = 1000, q_scale = - 3, q_str = ''1000m''\<rparr>)]"
  let ?r' = "GoMap [(''cpu'', \<lparr>q_value = 1, q_scale = 0, q_str = ''1''\<rparr>)]"
  show "resourceListEqual ?r ?r'"
    using unordered_comparisons_exact [of "[]" "[]" "[]" "[]" ?r ?r']
    by (simp add: glookup_def quantityValue_def power_int_minus)
qed

text \<open>
  A changed service account goes unreported. If somebody changes the service account of a
  deployment's pods on the server and nothing else, and the deployment's names are distinct and
  its annotations carry no deleted key, no change is reported: the name is only consulted to
  decide whether the automount flag is compared.
\<close>

theorem service_account_change_unreported:
  assumes "comparable (KDeployment d)"
    and "f = d\<lparr>d_Spec := (d_Spec d)\<lparr>ds_Template := (ds_Template (d_Spec d))\<lparr>pt_Spec :=
               (pt_Spec (ds_Template (d_Spec d)))\<lparr>ps_ServiceAccountName := other\<rparr>\<rparr>\<rparr>\<rparr>"
    and "\<forall>k\<in>set (rm_DeletedAnnotationKeys md).
           glookup (om_Annotations (d_Meta d)) k = None \<and> glookup (pt_Annotations (ds_Template (d_Spec d))) k = None"
  shows "HasObjectChanged (KDeployment d) (KDeployment f) md = Ret False"
proof -
  have "\<not> annotationMapsModified a a (rm_DeletedAnnotationKeys md)"
    if "\<forall>k\<in>set (rm_DeletedAnnotationKeys md). glookup a k = None" for a
    using that by (simp add: annotationMapsModified_False gget_def)
  with assms show ?thesis
    by (simp add: HasObjectChanged_def objectSpecModified_def ObjectMetadataModified_def
        deploymentSpecModified_def Let_def containersModified_refl volumesEqual_refl)
qed

theorem service_account_change_unreported_witness:
  "HasObjectChanged (KDeployment (sampleDeployment ''external-secrets'')) (KDeployment (sampleDeployment ''attacker''))
     \<lparr>rm_Labels = NilMap, rm_Annotations = NilMap, rm_DeletedAnnotationKeys = []\<rparr> = Ret False"
  by (rule service_account_change_unreported [where other = "''attacker''"])
     (simp_all add: sampleDeployment_def zeroDeployment_def zeroPodSpec_def)

end
