(* ===== verification/Reconciler_Core.thy ===== *)
theory Reconciler_Core
  imports Kube_Client Drift
begin

section \<open>The reconciler and its create-or-update engine\<close>

text \<open>
  The state and environment of \<^verbatim>\<open>Reconciler\<close> (\<^verbatim>\<open>pkg/controller/external_secrets/controller.go\<close>),
  the helpers of \<^verbatim>\<open>pkg/controller/external_secrets/utils.go\<close> that create, restore or patch one
  resource, the \<^verbatim>\<open>Decode*ObjBytes\<close> functions of \<^verbatim>\<open>pkg/controller/common/utils.go\<close>, and the pattern
  that every \<^verbatim>\<open>createOrApply*\<close> function follows: look the resource up, create it when the cache does
  not show it, compare, strip obsolete annotations, update, record an event.

  The lemmas show what a successful pass leaves on the server (the desired object, not drifting)
  and that nothing else is touched, for every client that meets the contract of \<open>api_client\<close>.
\<close>

subsection \<open>State and environment\<close>

record event =
  evt_Type :: string
  evt_Reason :: string
  evt_Message :: string

text \<open>
  The mutable fields of the reconciler and the custom resource in memory: \<open>rs_now\<close> is the flag of
  the once gate, \<open>rs_ESC\<close> the \<^verbatim>\<open>*ExternalSecretsConfig\<close> that the functions pass around and mutate.
\<close>

record 's rstate =
  rs_kube :: 's
  rs_events :: "event list"
  rs_proxyConfig :: "ProxyConfig option"
  rs_esm :: ExternalSecretsManager
  rs_now :: bool
  rs_ESC :: ExternalSecretsConfig

text \<open>
  What does not change: the cached and the uncached client, the process environment, the installed
  optional resources, the TLS arguments resolved at start-up, and the code outside the repository:
  the bundled assets (generated) and \<^verbatim>\<open>runtime.Decode\<close>, \<^verbatim>\<open>net/url\<close> parsing (scheme and host of a
  URL), duration parsing and printing, the validation functions of Kubernetes, the PEM decoder
  (block type, bytes and rest), the X.509 parser, the JSON decoder and encoder, the strict
  decoder of a Deployment, its JSON image and the decoder into an existing value, the strategic
  merge patch, and the errors of the accessors of \<^verbatim>\<open>unstructured\<close> (fields, value found, type expected).
\<close>

record x509cert =
  x_IsCA :: bool
  x_KeyUsage :: nat
  x_Subject :: string

record 's env =
  e_Client :: "'s client"
  e_Uncached :: "'s client"
  e_Getenv :: "string \<Rightarrow> string"
  e_OptionalResources :: "string list"
  e_TLSArgs :: "string list"
  e_Asset :: "string \<Rightarrow> string option"
  e_Decode :: "string \<Rightarrow> kobj option"
  e_ParseRequestURI :: "string \<Rightarrow> (string \<times> string) option"
  e_ParseURL :: "string \<Rightarrow> (string \<times> string) option"
  e_ParseDuration :: "string \<Rightarrow> int option"
  e_DurationString :: "int \<Rightarrow> string"
  e_ValidateResources :: "ResourceRequirements \<Rightarrow> goerr option"
  e_ValidateLabels :: "strmap \<Rightarrow> goerr option"
  e_ValidateAffinity :: "blob \<Rightarrow> goerr option"
  e_ValidateTolerations :: "blob list \<Rightarrow> goerr option"
  e_PemDecode :: "string \<Rightarrow> (string \<times> string \<times> string) option"
  e_ParseCertificate :: "string \<Rightarrow> goerr + x509cert"
  e_JsonUnmarshal :: "string \<Rightarrow> goerr + json"
  e_JsonMarshal :: "json \<Rightarrow> string"
  e_StrictDecodeDeployment :: "string \<Rightarrow> goerr option"
  e_MarshalDeployment :: "Deployment \<Rightarrow> goerr + string"
  e_StrategicMergePatch :: "string \<Rightarrow> string \<Rightarrow> goerr + string"
  e_UnmarshalDeployment :: "string \<Rightarrow> Deployment \<Rightarrow> goerr + Deployment"
  e_AccessorErr :: "string list \<Rightarrow> json \<Rightarrow> string \<Rightarrow> goerr"
  e_GVK :: string

type_synonym ('s, 'a) recon = "(goerr, 's rstate, 'a) prog"

text \<open>A client call made by the reconciler.\<close>

definition onKube :: "(goerr, 's, 'a) prog \<Rightarrow> ('s, 'a) recon" where
  "onKube m = (\<lambda>s. case m (rs_kube s) of (r, k) \<Rightarrow> (r, s\<lparr>rs_kube := k\<rparr>))"

definition Eventf :: "string \<Rightarrow> string \<Rightarrow> string \<Rightarrow> ('s, unit) recon" where
  "Eventf typ reason message = (\<lambda>s. (Ret (), s\<lparr>rs_events := rs_events s @
     [\<lparr>evt_Type = typ, evt_Reason = reason, evt_Message = message\<rparr>]\<rparr>))"

definition readState :: "('s rstate \<Rightarrow> 'a) \<Rightarrow> ('s, 'a) recon" where
  "readState f = (\<lambda>s. (Ret (f s), s))"

definition setESC :: "ExternalSecretsConfig \<Rightarrow> ('s, unit) recon" where
  "setESC esc = (\<lambda>s. (Ret (), s\<lparr>rs_ESC := esc\<rparr>))"

text \<open>\<open>if cond { r.eventRecorder.Eventf(...) }\<close>\<close>

definition eventIf :: "bool \<Rightarrow> string \<Rightarrow> string \<Rightarrow> string \<Rightarrow> ('s, unit) recon" where
  "eventIf c typ reason message = (if c then Eventf typ reason message else gret ())"

subsection \<open>Names and namespaces\<close>

definition externalsecretsCommonName :: string where "externalsecretsCommonName = ''external-secrets''"
definition OperandDefaultNamespace :: string where "OperandDefaultNamespace = externalsecretsCommonName"
definition ExternalSecretsOperatorCommonName :: string where
  "ExternalSecretsOperatorCommonName = ''external-secrets-operator''"
definition ManagedResourceLabelKey :: string where "ManagedResourceLabelKey = ''app''"
definition ManagedResourceLabelValue :: string where "ManagedResourceLabelValue = ''external-secrets''"
definition WatchedResourceLabelKey :: string where
  "WatchedResourceLabelKey = ''externalsecretsconfig.operator.openshift.io/watching''"
definition WatchedResourceLabelValue :: string where "WatchedResourceLabelValue = ''true''"

definition getNamespace :: "ExternalSecretsConfig \<Rightarrow> string" where
  "getNamespace esc = OperandDefaultNamespace"

definition updateNamespace :: "kobj \<Rightarrow> ExternalSecretsConfig \<Rightarrow> kobj" where
  "updateNamespace obj esc = mapMeta (\<lambda>m. m\<lparr>om_Namespace := getNamespace esc\<rparr>) obj"

text \<open>\<open>fmt.Sprintf("%s/%s", obj.GetNamespace(), obj.GetName())\<close>\<close>

definition nsName :: "kobj \<Rightarrow> string" where
  "nsName obj = om_Namespace (metaOf obj) @ ''/'' @ om_Name (metaOf obj)"

subsection \<open>Assets\<close>

text \<open>
  \<open>common.DecodeXObjBytes(assets.MustAsset(name))\<close>: a panic when the asset is missing, does not
  decode or decodes to another kind.
\<close>

definition decodeAs :: "'s env \<Rightarrow> string \<Rightarrow> string \<Rightarrow> ('e, kobj) result" where
  "decodeAs env kind assetName =
     (case e_Asset env assetName of
        None \<Rightarrow> Panic (''asset: Asset('' @ assetName @ '')'')
      | Some objBytes \<Rightarrow>
          (case e_Decode env objBytes of
             None \<Rightarrow> Panic ''decode''
           | Some obj \<Rightarrow> if kindOf obj \<noteq> kind then Panic (''decoded object is not a '' @ kind) else Ret obj))"

definition DecodeCertificateObjBytes :: "'s env \<Rightarrow> string \<Rightarrow> ('e, kobj) result" where
  "DecodeCertificateObjBytes env = decodeAs env ''Certificate''"
definition DecodeClusterRoleObjBytes :: "'s env \<Rightarrow> string \<Rightarrow> ('e, kobj) result" where
  "DecodeClusterRoleObjBytes env = decodeAs env ''ClusterRole''"
definition DecodeClusterRoleBindingObjBytes :: "'s env \<Rightarrow> string \<Rightarrow> ('e, kobj) result" where
  "DecodeClusterRoleBindingObjBytes env = decodeAs env ''ClusterRoleBinding''"
definition DecodeDeploymentObjBytes :: "'s env \<Rightarrow> string \<Rightarrow> ('e, kobj) result" where
  "DecodeDeploymentObjBytes env = decodeAs env ''Deployment''"
definition DecodeRoleObjBytes :: "'s env \<Rightarrow> string \<Rightarrow> ('e, kobj) result" where
  "DecodeRoleObjBytes env = decodeAs env ''Role''"
definition DecodeRoleBindingObjBytes :: "'s env \<Rightarrow> string \<Rightarrow> ('e, kobj) result" where
  "DecodeRoleBindingObjBytes env = decodeAs env ''RoleBinding''"
definition DecodeSecretObjBytes :: "'s env \<Rightarrow> string \<Rightarrow> ('e, kobj) result" where
  "DecodeSecretObjBytes env = decodeAs env ''Secret''"
definition DecodeServiceObjBytes :: "'s env \<Rightarrow> string \<Rightarrow> ('e, kobj) result" where
  "DecodeServiceObjBytes env = decodeAs env ''Service''"
definition DecodeServiceAccountObjBytes :: "'s env \<Rightarrow> string \<Rightarrow> ('e, kobj) result" where
  "DecodeServiceAccountObjBytes env = decodeAs env ''ServiceAccount''"
definition DecodeValidatingWebhookConfigurationObjBytes :: "'s env \<Rightarrow> string \<Rightarrow> ('e, kobj) result" where
  "DecodeValidatingWebhookConfigurationObjBytes env = decodeAs env ''ValidatingWebhookConfiguration''"
definition DecodeNetworkPolicyObjBytes :: "'s env \<Rightarrow> string \<Rightarrow> ('e, kobj) result" where
  "DecodeNetworkPolicyObjBytes env = decodeAs env ''NetworkPolicy''"

text \<open>A result that does not touch the state, as a call.\<close>

definition lift :: "('e, 'a) result \<Rightarrow> ('e, 's, 'a) prog" where
  "lift r = (\<lambda>s. (r, s))"

subsection \<open>Creating, restoring and patching one resource\<close>

definition createWithFallback :: "'s env \<Rightarrow> kobj \<Rightarrow> ResourceMetadata \<Rightarrow> string \<Rightarrow> ('s, unit) recon" where
  "createWithFallback env desired resourceMetadata resourceName =
     (let kind = kindOf desired in
      (\<lambda>s. case onKube (cl_Create (e_Client env) desired) s of
         (Ret _, s1) \<Rightarrow> Eventf ''Normal'' ''Reconciled'' (kind @ '' resource '' @ resourceName @ '' created'') s1
       | (Panic p, s1) \<Rightarrow> (Panic p, s1)
       | (Err err, s1) \<Rightarrow>
           if \<not> IsAlreadyExists err
           then (Err (fromClientErr err (''failed to create '' @ kind @ '' '' @ resourceName)), s1)
           else andThen
             (onErr (onKube (UpdateWithRetry (e_Uncached env) (RemoveObsoleteAnnotations desired resourceMetadata)))
                (\<lambda>e. gerr (fromClientErr e (''failed to restore '' @ kind @ '' '' @ resourceName @ '' to desired state''))))
             (\<lambda>_. Eventf ''Normal'' ''Reconciled'' (kind @ '' resource '' @ resourceName @ '' restored to desired state'')) s1))"

definition patchResourceMetadata :: "'s env \<Rightarrow> kobj \<Rightarrow> ResourceMetadata \<Rightarrow> ('s, unit) recon" where
  "patchResourceMetadata env desired resourceMetadata =
     (let desired' = RemoveObsoleteAnnotations desired resourceMetadata;
          annotations = makeIfNil (om_Annotations (metaOf desired'));
          labels = makeIfNil (om_Labels (metaOf desired'))
      in andThen (onKube (cl_Patch (e_Client env) desired' (AddMetadata labels annotations))) (\<lambda>_. gret ()))"

definition createWithMetadataFallback :: "'s env \<Rightarrow> kobj \<Rightarrow> ResourceMetadata \<Rightarrow> string \<Rightarrow> ('s, unit) recon" where
  "createWithMetadataFallback env desired resourceMetadata resourceName =
     (let kind = kindOf desired in
      (\<lambda>s. case onKube (cl_Create (e_Client env) desired) s of
         (Ret _, s1) \<Rightarrow> Eventf ''Normal'' ''Reconciled'' (kind @ '' resource '' @ resourceName @ '' created'') s1
       | (Panic p, s1) \<Rightarrow> (Panic p, s1)
       | (Err err, s1) \<Rightarrow>
           if \<not> IsAlreadyExists err
           then (Err (fromClientErr err (''failed to create '' @ kind @ '' '' @ resourceName)), s1)
           else andThen
             (onErr (patchResourceMetadata env desired resourceMetadata)
                (\<lambda>e. gerr (fromClientErr e (''failed to patch '' @ kind @ '' '' @ resourceName @ '' metadata''))))
             (\<lambda>_. Eventf ''Normal'' ''Reconciled'' (kind @ '' resource '' @ resourceName @ '' restored to desired state'')) s1))"

text \<open>
  The body shared by the \<^verbatim>\<open>createOrApply*\<close> functions, from the existence check to the last event,
  with the texts that differ: the message of a failed check, the warning when a resource exists
  during the first reconciliation, the message of a failed update, the event of an update.
\<close>

definition applyObject :: "'s env \<Rightarrow> kobj \<Rightarrow> ResourceMetadata \<Rightarrow> string \<Rightarrow> bool \<Rightarrow>
    string \<Rightarrow> string \<Rightarrow> string \<Rightarrow> string \<Rightarrow> ('s, unit) recon" where
  "applyObject env desired md name recon checkMsg existsMsg updateMsg updatedMsg =
     andThen (onErr (onKube (Exists (e_Client env) (kindOf desired) (objectKey desired)))
                (\<lambda>err. gerr (fromClientErr err checkMsg)))
       (\<lambda>exist. case exist of
          None \<Rightarrow> createWithFallback env desired md name
        | Some fetched \<Rightarrow>
            andThen (eventIf recon ''Warning'' ''ResourceAlreadyExists'' existsMsg)
              (\<lambda>_. andThen (lift (HasObjectChanged desired fetched md))
                (\<lambda>changed. if \<not> changed then gret ()
                  else andThen (onErr (onKube (UpdateWithRetry (e_Client env) (RemoveObsoleteAnnotations desired md)))
                         (\<lambda>err. gerr (fromClientErr err updateMsg)))
                       (\<lambda>_. Eventf ''Normal'' ''Reconciled'' updatedMsg))))"

subsection \<open>Reading through the cache and labelling referenced resources\<close>

definition getWithCacheFallback :: "'s env \<Rightarrow> string \<Rightarrow> nsname \<Rightarrow> ('s, kobj) recon" where
  "getWithCacheFallback env kind key =
     onErr (onKube (cl_Get (e_Client env) kind key))
       (\<lambda>err. if \<not> IsNotFound err then gerr err else onKube (cl_Get (e_Uncached env) kind key))"

definition updateWatchLabel :: "'s env \<Rightarrow> string \<Rightarrow> nsname \<Rightarrow> ('s, unit) recon" where
  "updateWatchLabel env kind key =
     retryOnConflict (andThen (getWithCacheFallback env kind key)
       (\<lambda>obj. if \<not> isNil (om_Labels (metaOf obj)) \<and> gget (om_Labels (metaOf obj)) WatchedResourceLabelKey = WatchedResourceLabelValue
         then gret ()
         else andThen (onErr (onKube (cl_Patch (e_Uncached env)
                   (mapMeta (\<lambda>m. m\<lparr>om_Labels := gput WatchedResourceLabelKey WatchedResourceLabelValue (makeIfNil (om_Labels m))\<rparr>) obj)
                   (MergeMetadata [(WatchedResourceLabelKey, WatchedResourceLabelValue)] [])))
                (\<lambda>err. gerr (WrapErr (''failed to patch watch label on '' @ quoted (nsnameString key) @ '': '') err '''')))
              (\<lambda>_. gret ())))"

definition hasManagedOrWatchLabel :: "strmap \<Rightarrow> bool" where
  "hasManagedOrWatchLabel labels =
     (if isNil labels then False
      else gget labels ManagedResourceLabelKey = ManagedResourceLabelValue \<or>
           gget labels WatchedResourceLabelKey = WatchedResourceLabelValue)"

definition isManagedResource :: "kobj option \<Rightarrow> bool" where
  "isManagedResource object = (case object of None \<Rightarrow> False
     | Some o1 \<Rightarrow> \<not> isNil (om_Labels (metaOf o1)) \<and> gget (om_Labels (metaOf o1)) ManagedResourceLabelKey = ManagedResourceLabelValue)"

definition isManagedOrWatchedResource :: "kobj option \<Rightarrow> bool" where
  "isManagedOrWatchedResource object = (case object of None \<Rightarrow> False | Some o1 \<Rightarrow> hasManagedOrWatchLabel (om_Labels (metaOf o1)))"

datatype watchevent =
    CreateEvent "kobj option"
  | UpdateEvent "kobj option" "kobj option"
  | DeleteEvent "kobj option"
  | GenericEvent "kobj option"

fun labelMatchPredicate :: "(kobj option \<Rightarrow> bool) \<Rightarrow> watchevent \<Rightarrow> bool" where
  "labelMatchPredicate match (CreateEvent o1) = match o1"
| "labelMatchPredicate match (UpdateEvent old new) = (match old \<or> match new)"
| "labelMatchPredicate match (DeleteEvent o1) = match o1"
| "labelMatchPredicate match (GenericEvent o1) = match o1"

subsection \<open>Status of the custom resource\<close>

definition updateStatus :: "'s env \<Rightarrow> ExternalSecretsConfig \<Rightarrow> ('s, unit) recon" where
  "updateStatus env changed =
     (let key = objectKey (KESC changed); q = quoted (nsnameString key) in
      retryOnConflict
        (andThen (onErr (onKube (cl_Get (e_Client env) ''ExternalSecretsConfig'' key))
             (\<lambda>err. gerr (WrapErr (''failed to fetch externalsecretsconfigs.operator.openshift.io '' @ q @ '' for status update: '') err '''')))
           (\<lambda>current. andThen (onErr (onKube (cl_StatusUpdate (e_Client env) (withStatusOf (KESC changed) current)))
               (\<lambda>err. gerr (WrapErr (''failed to update externalsecretsconfigs.operator.openshift.io '' @ q @ '' status: '') err '''')))
             (\<lambda>_. gret ()))))"

definition updateCondition :: "'s env \<Rightarrow> ExternalSecretsConfig \<Rightarrow> goerr option \<Rightarrow> ('s, unit) recon" where
  "updateCondition env esc prependErr =
     onErr (updateStatus env esc)
       (\<lambda>err. let errUpdate = WrapErr (''failed to update '' @ om_Namespace (esc_Meta esc) @ ''/'' @ om_Name (esc_Meta esc) @ '' status: '') err '''' in
          case prependErr of
            Some p \<Rightarrow> gerr (AggregateErr [p, errUpdate])
          | None \<Rightarrow> gerr errUpdate)"

section \<open>Lemmas\<close>

lemma onKube_eq: "onKube m s = (r, s') \<longleftrightarrow> (\<exists>k. m (rs_kube s) = (r, k) \<and> s' = s\<lparr>rs_kube := k\<rparr>)"
  by (auto simp: onKube_def split: prod.splits)

lemma Eventf_eq [simp]: "rs_kube (snd (Eventf a b c s)) = rs_kube s" "fst (Eventf a b c s) = Ret ()"
  by (simp_all add: Eventf_def)

lemma eventIf_eq [simp]: "rs_kube (snd (eventIf x a b c s)) = rs_kube s" "fst (eventIf x a b c s) = Ret ()"
  by (simp_all add: eventIf_def)

lemma lift_apply [simp]: "lift r s = (r, s)"
  by (simp add: lift_def)

lemma readState_apply [simp]: "readState f s = (Ret (f s), s)"
  by (simp add: readState_def)

lemma gdelete_absent: "glookup m k = None \<Longrightarrow> gdelete k m = m"
  by (cases m) (auto simp: gdelete_def glookup_def map_of_eq_None_iff filter_id_conv image_iff)

lemma removeObsolete_absent:
  "(\<forall>k\<in>set ks. glookup m k = None) \<Longrightarrow> removeObsoleteAnnotations m ks = m"
  unfolding removeObsoleteAnnotations_def by (induction ks) (simp_all add: gdelete_absent)

text \<open>The desired object carries none of the annotation keys that are to be removed.\<close>

definition freeOfDeleted :: "kobj \<Rightarrow> ResourceMetadata \<Rightarrow> bool" where
  "freeOfDeleted obj md \<longleftrightarrow> (\<forall>k\<in>set (rm_DeletedAnnotationKeys md).
     glookup (om_Annotations (metaOf obj)) k = None \<and> glookup (templateAnnotations obj) k = None)"

lemma RemoveObsoleteAnnotations_free:
  assumes "freeOfDeleted obj md"
  shows "RemoveObsoleteAnnotations obj md = obj"
  using assms
  by (cases obj) (simp_all add: RemoveObsoleteAnnotations_def freeOfDeleted_def removeObsolete_absent Let_def)

lemma stored_undrifted:
  assumes "comparable d" and "freeOfDeleted d md" and "sameUpToServer d f"
  shows "HasObjectChanged d f md = Ret False"
proof -
  from assms(3) obtain rv g t where f: "f = mapMeta (\<lambda>m. m\<lparr>om_ResourceVersion := rv, om_Generation := g, om_DeletionTimestamp := t\<rparr>) d"
    by (auto simp: sameUpToServer_def)
  have "f = mapMeta (\<lambda>_. metaOf f) d" unfolding f by (cases d) simp_all
  with assms(1,2) show ?thesis
    by (intro reconciled_object_undrifted) (simp_all add: f freeOfDeleted_def)
qed

text \<open>The resources the operator compares have no status of their own in the model.\<close>

lemma withStatusOf_comparable [simp]: "comparable d \<Longrightarrow> withStatusOf cur d = d"
  by (cases d) (simp_all add: withStatusOf_def split: kobj.splits)

definition notDeleting :: "kobj option \<Rightarrow> bool" where
  "notDeleting x \<longleftrightarrow> (case x of None \<Rightarrow> True | Some cur \<Rightarrow> \<not> deleting cur)"

lemma afterUpdate_notDeleting: "notDeleting (Some cur) \<Longrightarrow> afterUpdate cur o1 o2 = Some o2"
  by (simp add: afterUpdate_def notDeleting_def)

lemma objid_RemoveObsoleteAnnotations [simp]: "objid (RemoveObsoleteAnnotations o1 md) = objid o1"
  by (cases o1) (simp_all add: RemoveObsoleteAnnotations_def objid_def objectKey_def Let_def)

text \<open>
  The reconciler with two clients of one API server. \<open>cached\<close> may miss objects, \<open>direct\<close> is the
  client that bypasses the cache; both may fail at any call.
\<close>

locale operator_env =
  cached: api_client "e_Client env" objs wf + direct: api_client "e_Uncached env" objs wf
  for env :: "'s env" and objs :: "'s \<Rightarrow> objid \<Rightarrow> kobj option" and wf :: "'s \<Rightarrow> bool"
begin

text \<open>
  What one call may do to the cluster: nothing outside the given object, and when it succeeds on an
  object that is not being deleted, the object is there and satisfies \<open>Q\<close>. An object that is applied
  ends in one of three ways: it was found without drift, it was created, or it was updated.
\<close>

definition leaves :: "(kobj \<Rightarrow> bool) \<Rightarrow> kobj \<Rightarrow> 's rstate \<Rightarrow> (goerr, unit) result \<Rightarrow> 's rstate \<Rightarrow> bool" where
  "leaves Q d s r s' \<longleftrightarrow> wf (rs_kube s') \<and>
     (\<forall>i. i \<noteq> objid d \<longrightarrow> objs (rs_kube s') i = objs (rs_kube s) i) \<and>
     (r = Ret () \<longrightarrow> notDeleting (objs (rs_kube s) (objid d)) \<longrightarrow> (\<exists>f. objs (rs_kube s') (objid d) = Some f \<and> Q f))"

definition established :: "kobj \<Rightarrow> ResourceMetadata \<Rightarrow> (kobj \<Rightarrow> bool) \<Rightarrow> bool" where
  "established d md Q \<longleftrightarrow> (\<forall>f. HasObjectChanged d f md = Ret False \<longrightarrow> Q f) \<and> (\<forall>f. sameUpToServer d f \<longrightarrow> Q f) \<and>
     (\<forall>cur f. acceptedUpdate cur (RemoveObsoleteAnnotations d md) f \<longrightarrow> Q f)"

lemma update_leaves:
  assumes "established d md Q" and "objs (rs_kube s) (objid d) = Some cur" and "acceptedUpdate cur (RemoveObsoleteAnnotations d md) o2"
    and "notDeleting (objs (rs_kube s) (objid d))"
  shows "afterUpdate cur (RemoveObsoleteAnnotations d md) o2 = Some o2 \<and> Q o2"
  using assms by (auto simp: established_def afterUpdate_notDeleting)

lemma createWithFallback_leaves:
  assumes "wf (rs_kube s)" and "established d md Q" and "createWithFallback env d md name s = (r, s')"
  shows "leaves Q d s r s'"
proof -
  obtain r1 k1 where c: "cl_Create (e_Client env) d (rs_kube s) = (r1, k1)" by force
  show ?thesis
  proof (cases r1)
    case (Ret f)
    with cached.create_Ret [OF assms(1)] c
    have f: "sameUpToServer d f" "objs k1 = (objs (rs_kube s))(objid d \<mapsto> f)" "wf k1" by auto
    moreover have "r = Ret ()" "rs_kube s' = k1"
      using assms(3) c Ret by (auto simp: createWithFallback_def Let_def onKube_def Eventf_def)
    ultimately show ?thesis using assms(2) by (simp add: leaves_def established_def)
  next
    case (Err e)
    with cached.create_Err [OF assms(1)] c have k1: "objs k1 = objs (rs_kube s)" "wf k1" by auto
    show ?thesis
    proof (cases "IsAlreadyExists e")
      case False
      with assms(3) c Err k1 show ?thesis
        by (auto simp: createWithFallback_def Let_def onKube_def leaves_def)
    next
      case True
      obtain r2 k2 where u: "UpdateWithRetry (e_Uncached env) (RemoveObsoleteAnnotations d md) k1 = (r2, k2)" by force
      have s': "r = (case r2 of Ret _ \<Rightarrow> Ret () | Err e \<Rightarrow> Err (fromClientErr e (''failed to restore '' @ kindOf d @ '' '' @ name @ '' to desired state'')) | Panic p \<Rightarrow> Panic p)"
        "rs_kube s' = k2"
        using assms(3) c Err True u
        by (auto simp: createWithFallback_def Let_def onKube_def andThen_def onErr_def Eventf_def split: result.splits)
      from direct.UpdateWithRetry_cases [OF k1(2) u] show ?thesis
        using s' k1(1) update_leaves [OF assms(2), of s] by (auto simp: leaves_def)
    qed
  qed (use cached.create_noPanic c in auto)
qed

lemma applyObject_leaves:
  assumes "wf (rs_kube s)" and "established d md Q"
    and "applyObject env d md name recon m1 m2 m3 m4 s = (r, s')"
  shows "leaves Q d s r s'"
proof -
  obtain re k1 where e: "Exists (e_Client env) (kindOf d) (objectKey d) (rs_kube s) = (re, k1)" by force
  from cached.Exists_cases [OF assms(1) e]
  have k1: "objs k1 = objs (rs_kube s)" "wf k1"
    and cases: "(\<exists>o1. re = Ret (Some o1) \<and> objs (rs_kube s) (objid d) = Some o1) \<or> re = Ret None \<or> (\<exists>e. re = Err e)"
    by (auto simp: objid_def)
  from cases show ?thesis
  proof (elim disjE exE conjE)
    fix f assume f: "re = Ret (Some f)" "objs (rs_kube s) (objid d) = Some f"
    obtain s1 where ev: "eventIf recon ''Warning'' ''ResourceAlreadyExists'' m2 (s\<lparr>rs_kube := k1\<rparr>) = (Ret (), s1)"
      and ks1: "rs_kube s1 = k1"
      by (cases recon) (auto simp: eventIf_def Eventf_def)
    show ?thesis
    proof (cases "HasObjectChanged d f md")
      case (Ret changed)
      show ?thesis
      proof (cases changed)
        case False
        with assms(3) e f ev Ret have "r = Ret ()" "s' = s1"
          by (auto simp: applyObject_def andThen_def onErr_def onKube_def)
        with k1 f Ret False ks1 assms(2) show ?thesis by (simp add: leaves_def established_def)
      next
        case True
        obtain r2 k2 where u: "UpdateWithRetry (e_Client env) (RemoveObsoleteAnnotations d md) k1 = (r2, k2)" by force
        have s': "r = (case r2 of Ret _ \<Rightarrow> Ret () | Err e \<Rightarrow> Err (fromClientErr e m3) | Panic p \<Rightarrow> Panic p)"
          "rs_kube s' = k2"
          using assms(3) e f ev Ret True u ks1
          by (auto simp: applyObject_def andThen_def onErr_def onKube_def Eventf_def split: result.splits)
        from cached.UpdateWithRetry_cases [OF k1(2) u] show ?thesis
          using s' k1(1) update_leaves [OF assms(2), of s] by (auto simp: leaves_def)
      qed
    next
      case (Err x)
      with assms(3) e f ev have "r = Err x" "s' = s1"
        by (auto simp: applyObject_def andThen_def onErr_def onKube_def)
      with k1 ks1 show ?thesis by (simp add: leaves_def)
    next
      case (Panic x)
      with assms(3) e f ev have "r = Panic x" "s' = s1"
        by (auto simp: applyObject_def andThen_def onErr_def onKube_def)
      with k1 ks1 show ?thesis by (simp add: leaves_def)
    qed
  next
    assume "re = Ret None"
    with assms(3) e have "createWithFallback env d md name (s\<lparr>rs_kube := k1\<rparr>) = (r, s')"
      by (auto simp: applyObject_def andThen_def onErr_def onKube_def)
    from createWithFallback_leaves [OF _ assms(2) this] k1 show ?thesis by (simp add: leaves_def)
  next
    fix x assume "re = Err x"
    with assms(3) e k1 show ?thesis by (auto simp: applyObject_def andThen_def onErr_def onKube_def leaves_def)
  qed
qed

text \<open>The object does not drift.\<close>

definition achieves :: "kobj \<Rightarrow> ResourceMetadata \<Rightarrow> 's rstate \<Rightarrow> (goerr, unit) result \<Rightarrow> 's rstate \<Rightarrow> bool" where
  "achieves d md s r s' \<longleftrightarrow> wf (rs_kube s') \<and>
     (\<forall>i. i \<noteq> objid d \<longrightarrow> objs (rs_kube s') i = objs (rs_kube s) i) \<and>
     (r = Ret () \<longrightarrow> notDeleting (objs (rs_kube s) (objid d)) \<longrightarrow>
        (\<exists>f. objs (rs_kube s') (objid d) = Some f \<and> HasObjectChanged d f md = Ret False))"

lemma established_undrifted:
  assumes "comparable d" and "freeOfDeleted d md"
  shows "established d md (\<lambda>f. HasObjectChanged d f md = Ret False)"
  unfolding established_def RemoveObsoleteAnnotations_free [OF assms(2)]
  using stored_undrifted [OF assms] assms(1) by (auto simp: acceptedUpdate_def)

lemma applyObject_achieves:
  assumes "wf (rs_kube s)" and "comparable d" and "freeOfDeleted d md"
    and "applyObject env d md name recon m1 m2 m3 m4 s = (r, s')"
  shows "achieves d md s r s'"
  using applyObject_leaves [OF assms(1) established_undrifted [OF assms(2,3)] assms(4)]
  by (simp add: achieves_def leaves_def)

end

subsection \<open>Progress on a server without faults\<close>

lemma memUpdate_progress:
  assumes "memWf k" and "mem_faults k = []" and "memLookup k (objid d) = Some cur" and "v cur"
    and "notDeleting (memLookup k (objid d))" and "comparable d"
  shows "\<exists>f k'. UpdateWithRetry (memClient v) d k = (Ret f, k') \<and> sameUpToServer d f \<and>
           memLookup k' (objid d) = Some f \<and> memWf k' \<and> mem_faults k' = []"
proof -
  have g: "memGet v (kindOf d) (objectKey d) k = (Ret cur, k)"
    using assms by (simp add: memGet_def withFault_def objid_def)
  let ?d = "setResourceVersion (getResourceVersion cur) d"
  have rv: "getResourceVersion ?d = getResourceVersion cur"
    by (simp add: getResourceVersion_def setResourceVersion_def)
  let ?o = "mapMeta (\<lambda>m. m\<lparr>om_DeletionTimestamp := om_DeletionTimestamp (metaOf cur)\<rparr>) ?d"
  obtain r k' where st: "memStore ?o k = (r, k')" by force
  from memStore_cases [OF assms(1) st] obtain f where
    f: "r = Ret f" "sameUpToServer d f" "memLookup k' = (memLookup k)(objid d \<mapsto> f)" "memWf k'" by auto
  have "mem_faults k' = []" using st assms(2) by (auto simp: memStore_def Let_def)
  moreover have "memUpdate ?d k = (Ret f, k')"
    using assms(2,3,5,6) rv st f(1) by (simp add: memUpdate_def withFault_def notDeleting_def)
  then have "updateAttempt (memClient v) d k = (Ret f, k')"
    using g by (simp add: updateAttempt_def Let_def memClient_def andThen_def onErr_def)
  then have "UpdateWithRetry (memClient v) d k = (Ret f, k')"
    by (simp add: UpdateWithRetry_def retryOnConflict_def retry_first_success)
  ultimately show ?thesis using f by auto
qed

lemma mem_Exists:
  assumes "mem_faults k = []"
  shows "Exists (memClient v) kind key k =
    (Ret (case memLookup k (kind, key) of Some f \<Rightarrow> if v f then Some f else None | None \<Rightarrow> None), k)"
proof -
  have "IsNotFound notFoundErr" by code_simp
  with assms show ?thesis
    by (simp add: Exists_def memClient_def memGet_def withFault_def andThen_def onErr_def split: option.splits)
qed

lemma createWithFallback_progress:
  assumes "e_Client env = memClient v" and "e_Uncached env = memClient (\<lambda>_. True)"
    and "memWf (rs_kube s)" and "mem_faults (rs_kube s) = []" and "freeOfDeleted d md"
    and "notDeleting (memLookup (rs_kube s) (objid d))" and "comparable d"
  shows "\<exists>s' f. createWithFallback env d md n s = (Ret (), s') \<and> sameUpToServer d f \<and>
      memLookup (rs_kube s') (objid d) = Some f \<and> memWf (rs_kube s') \<and> mem_faults (rs_kube s') = []"
proof (cases "memLookup (rs_kube s) (objid d)")
  case None
  obtain r k where st: "memStore d (rs_kube s) = (r, k)" by force
  from memStore_cases [OF assms(3) st] obtain f where f: "r = Ret f" "sameUpToServer d f"
    "memLookup k = (memLookup (rs_kube s))(objid d \<mapsto> f)" "memWf k" by auto
  have "mem_faults k = []" using st assms(4) by (auto simp: memStore_def Let_def)
  with f None st assms(1,4) show ?thesis
    by (simp add: createWithFallback_def Let_def onKube_def memClient_def memCreate_def withFault_def Eventf_def)
next
  case (Some cur)
  have "IsAlreadyExists alreadyExistsErr" by code_simp
  moreover obtain f k where f: "UpdateWithRetry (memClient (\<lambda>_. True)) d (rs_kube s) = (Ret f, k)" "sameUpToServer d f"
    "memLookup k (objid d) = Some f" "memWf k" "mem_faults k = []"
    using memUpdate_progress [OF assms(3,4) Some, of "\<lambda>_. True"] assms(6,7) by auto
  ultimately show ?thesis
    using Some assms(1,2,4)
    by (simp add: createWithFallback_def Let_def onKube_def memClient_def [of v] memCreate_def withFault_def
        RemoveObsoleteAnnotations_free [OF assms(5)] andThen_def onErr_def Eventf_def)
qed

lemma applyObject_quiet:
  assumes "e_Client env = memClient v" and "mem_faults (rs_kube s) = []"
    and "memLookup (rs_kube s) (objid d) = Some f" and "v f" and "HasObjectChanged d f md = Ret False"
  shows "\<exists>s'. applyObject env d md n recon m1 m2 m3 m4 s = (Ret (), s') \<and> rs_kube s' = rs_kube s"
  using assms
  by (cases recon) (auto simp: applyObject_def andThen_def onErr_def onKube_def mem_Exists objid_def eventIf_def Eventf_def)

lemma applyObject_progress:
  assumes env: "e_Client env = memClient v" "e_Uncached env = memClient (\<lambda>_. True)"
    and mem: "memWf (rs_kube s)" "mem_faults (rs_kube s) = []"
    and free: "freeOfDeleted d md" and nd: "notDeleting (memLookup (rs_kube s) (objid d))" and cmp: "comparable d"
    and noPanic: "\<And>f. kindOf f = kindOf d \<Longrightarrow> \<exists>b. HasObjectChanged d f md = Ret b"
  shows "\<exists>s' f. applyObject env d md n recon m1 m2 m3 m4 s = (Ret (), s') \<and>
      memLookup (rs_kube s') (objid d) = Some f \<and> memWf (rs_kube s') \<and> mem_faults (rs_kube s') = [] \<and>
      (sameUpToServer d f \<or> v f \<and> HasObjectChanged d f md = Ret False)"
proof (cases "\<exists>cur. memLookup (rs_kube s) (objid d) = Some cur \<and> v cur")
  case False
  then have "Exists (memClient v) (kindOf d) (objectKey d) (rs_kube s) = (Ret None, rs_kube s)"
    using mem(2) by (auto simp: mem_Exists objid_def split: option.splits)
  with env(1) have "applyObject env d md n recon m1 m2 m3 m4 s = createWithFallback env d md n s"
    by (simp add: applyObject_def andThen_def onErr_def onKube_def)
  with createWithFallback_progress [OF env mem free nd cmp, of n] show ?thesis by auto
next
  case True
  then obtain cur where cur: "memLookup (rs_kube s) (objid d) = Some cur" "v cur" by blast
  then have ex: "Exists (memClient v) (kindOf d) (objectKey d) (rs_kube s) = (Ret (Some cur), rs_kube s)"
    using mem(2) by (simp add: mem_Exists objid_def)
  have "objid cur = objid d" using memWf_lookup [OF mem(1) cur(1)] .
  then obtain b where b: "HasObjectChanged d cur md = Ret b" using noPanic [of cur] by (auto simp: objid_def)
  show ?thesis
  proof (cases b)
    case False
    with applyObject_quiet [OF env(1) mem(2) cur, of md n recon m1 m2 m3 m4] b cur mem show ?thesis by metis
  next
    case True
    obtain f k where u: "UpdateWithRetry (memClient v) d (rs_kube s) = (Ret f, k)" "sameUpToServer d f"
      "memLookup k (objid d) = Some f" "memWf k" "mem_faults k = []"
      using memUpdate_progress [of "rs_kube s" d cur v] mem cur nd cmp by auto
    with env(1) ex b True show ?thesis
      by (cases recon) (simp_all add: applyObject_def andThen_def onErr_def onKube_def eventIf_def Eventf_def
          RemoveObsoleteAnnotations_free [OF free])
  qed
qed

subsection \<open>A sample environment\<close>

text \<open>
  The in-memory server behind a cache filtered by the managed label, and stand-ins for the code
  outside the repository: an asset's bytes are its name, and a name decodes to an object of the
  kind and name it spells.
\<close>

definition managedVisible :: "kobj \<Rightarrow> bool" where
  "managedVisible o1 = (gget (om_Labels (metaOf o1)) ManagedResourceLabelKey = ManagedResourceLabelValue)"

definition sampleContainer :: "string \<Rightarrow> Container" where
  "sampleContainer n = zeroContainer\<lparr>c_Name := n\<rparr>"

definition sampleDecode :: "string \<Rightarrow> kobj option" where
  "sampleDecode bytes =
     (let file = last (splitChar (CHR ''/'') bytes);
          kind = takeWhile (\<lambda>c. c \<noteq> CHR ''_'') file;
          name = takeWhile (\<lambda>c. c \<noteq> CHR ''.'') (drop (Suc (length kind)) file);
          meta = zeroMeta\<lparr>om_Name := name\<rparr> in
      if kind = ''service'' then Some (KService \<lparr>svc_Meta = meta, svc_Type = ''ClusterIP'', svc_Ports = None, svc_Selector = NilMap\<rparr>)
      else if kind = ''serviceaccount'' then Some (KServiceAccount meta)
      else if kind = ''clusterrole'' then Some (KClusterRole \<lparr>role_Meta = meta, role_Rules = None\<rparr>)
      else if kind = ''role'' then Some (KRole \<lparr>role_Meta = meta, role_Rules = None\<rparr>)
      else if kind = ''secret'' then Some (KSecret \<lparr>sec_Meta = meta, sec_Data = JNull\<rparr>)
      else if kind = ''deployment'' then Some (KDeployment (zeroDeployment\<lparr>d_Meta := meta, d_Spec := (d_Spec zeroDeployment)
              \<lparr>ds_Template := (ds_Template (d_Spec zeroDeployment))\<lparr>pt_Spec := zeroPodSpec\<lparr>ps_Containers := [sampleContainer name]\<rparr>\<rparr>\<rparr>\<rparr>))
      else None)"

definition sampleParseURL :: "string \<Rightarrow> (string \<times> string) option" where
  "sampleParseURL u = (let scheme = takeWhile (\<lambda>c. c \<noteq> CHR '':'') u in
     if prefix ''://'' (drop (length scheme) u) then Some (scheme, drop (length scheme + 3) u) else None)"

definition sampleEnv :: "memserver env" where
  "sampleEnv = \<lparr>e_Client = memClient managedVisible, e_Uncached = memClient (\<lambda>_. True),
     e_Getenv = (\<lambda>n. if n = ''RELATED_IMAGE_EXTERNAL_SECRETS'' then ''quay.io/es:1''
                     else if n = ''RELATED_IMAGE_BITWARDEN_SDK_SERVER'' then ''quay.io/bw:1'' else ''''),
     e_OptionalResources = [], e_TLSArgs = [], e_Asset = Some, e_Decode = sampleDecode,
     e_ParseRequestURI = sampleParseURL, e_ParseURL = sampleParseURL,
     e_ParseDuration = (\<lambda>_. None), e_DurationString = (\<lambda>_. ''0s''),
     e_ValidateResources = (\<lambda>_. None), e_ValidateLabels = (\<lambda>_. None), e_ValidateAffinity = (\<lambda>_. None),
     e_ValidateTolerations = (\<lambda>_. None), e_PemDecode = (\<lambda>_. None),
     e_ParseCertificate = (\<lambda>_. Inl (PlainErr ''malformed certificate'')),
     e_JsonUnmarshal = (\<lambda>_. Inr (JObj [])), e_JsonMarshal = (\<lambda>_. ''''),
     e_StrictDecodeDeployment = (\<lambda>_. None), e_MarshalDeployment = (\<lambda>_. Inr ''{}''),
     e_StrategicMergePatch = (\<lambda>o1 p. Inr p), e_UnmarshalDeployment = (\<lambda>_ d. Inr d),
     e_AccessorErr = (\<lambda>fs v t. PlainErr (''accessor error: expected '' @ t)),
     e_GVK = ''/, Kind=''\<rparr>"

definition emptyServer :: memserver where
  "emptyServer = \<lparr>mem_objects = [], mem_version = 0, mem_faults = []\<rparr>"

definition sampleState :: "memserver rstate" where
  "sampleState = \<lparr>rs_kube = emptyServer, rs_events = [], rs_proxyConfig = None, rs_esm = zeroESM, rs_now = False, rs_ESC = zeroESC\<rparr>"

lemma sampleEnv_clients:
  "e_Client sampleEnv = memClient managedVisible" "e_Uncached sampleEnv = memClient (\<lambda>_. True)"
  by (simp_all add: sampleEnv_def)

lemma sampleEnv_ok: "operator_env sampleEnv memLookup memWf"
  unfolding operator_env_def sampleEnv_clients using mem.api_client_axioms by blast

lemma emptyServer_ok: "memWf emptyServer" "mem_faults emptyServer = []"
  by (simp_all add: memWf_def emptyServer_def)

definition sampleService :: kobj where
  "sampleService = KService \<lparr>svc_Meta = zeroMeta\<lparr>om_Name := ''metrics'', om_Labels := GoMap [(''app'', ''external-secrets'')]\<rparr>,
     svc_Type = ''ClusterIP'', svc_Ports = None, svc_Selector = NilMap\<rparr>"

definition sampleMetadata :: ResourceMetadata where
  "sampleMetadata = \<lparr>rm_Labels = GoMap [(''app'', ''external-secrets'')], rm_Annotations = GoMap [], rm_DeletedAnnotationKeys = []\<rparr>"

lemma sampleService_ok:
  "comparable sampleService" "freeOfDeleted sampleService sampleMetadata"
  "kindOf f = kindOf sampleService \<Longrightarrow> \<exists>b. HasObjectChanged sampleService f sampleMetadata = Ret b"
  "sameUpToServer sampleService f \<Longrightarrow> managedVisible f"
proof -
  show "comparable sampleService" "freeOfDeleted sampleService sampleMetadata"
    by (simp_all add: sampleService_def freeOfDeleted_def sampleMetadata_def)
  show "kindOf f = kindOf sampleService \<Longrightarrow> \<exists>b. HasObjectChanged sampleService f sampleMetadata = Ret b"
    by (cases f) (simp_all add: sampleService_def HasObjectChanged_def objectSpecModified_def)
  show "sameUpToServer sampleService f \<Longrightarrow> managedVisible f"
    by (auto simp: sameUpToServer_def managedVisible_def sampleService_def gget_def glookup_def
        ManagedResourceLabelKey_def ManagedResourceLabelValue_def)
qed

lemma sampleState_ok: "memWf (rs_kube sampleState)" "mem_faults (rs_kube sampleState) = []"
  by (simp_all add: sampleState_def emptyServer_ok)

lemma sampleState_new: "notDeleting (memLookup (rs_kube sampleState) i)"
  by (simp add: sampleState_def emptyServer_def memLookup_def notDeleting_def)

section \<open>Properties\<close>





end
