(* ===== verification/Managed_Resources.thy ===== *)
theory Managed_Resources
  imports Reconciler_Core
begin

section \<open>Resources built from bundled manifests\<close>

text \<open>
  \<^verbatim>\<open>services.go\<close>, \<^verbatim>\<open>serviceaccounts.go\<close>, \<^verbatim>\<open>rbacs.go\<close>, \<^verbatim>\<open>certificate.go\<close>, \<^verbatim>\<open>secret.go\<close>,
  \<^verbatim>\<open>configmap.go\<close>, \<^verbatim>\<open>validatingwebhook.go\<close> and the namespace half of
  \<^verbatim>\<open>install_external_secrets.go\<close> (\<^verbatim>\<open>pkg/controller/external_secrets\<close>): which manifests are applied
  under which configuration, how each is adapted, and every error path. The lemmas say which
  resources a successful pass leaves on the server, that bindings point at the operand's service
  account, and how certificate configuration errors are classified.
\<close>

subsection \<open>Asset names\<close>

definition webhookServiceAssetName :: string where
  "webhookServiceAssetName = ''operands/external-secrets/service_external-secrets-webhook.yml''"
definition metricsServiceAssetName :: string where
  "metricsServiceAssetName = ''operands/external-secrets/service_external-secrets-metrics.yml''"
definition certControllerMetricsServiceAssetName :: string where
  "certControllerMetricsServiceAssetName = ''operands/external-secrets/service_external-secrets-cert-controller-metrics.yml''"
definition bitwardenServiceAssetName :: string where
  "bitwardenServiceAssetName = ''operands/external-secrets/service_bitwarden-sdk-server.yml''"
definition controllerServiceAccountAssetName :: string where
  "controllerServiceAccountAssetName = ''operands/external-secrets/serviceaccount_external-secrets.yml''"
definition webhookServiceAccountAssetName :: string where
  "webhookServiceAccountAssetName = ''operands/external-secrets/serviceaccount_external-secrets-webhook.yml''"
definition certControllerServiceAccountAssetName :: string where
  "certControllerServiceAccountAssetName = ''operands/external-secrets/serviceaccount_external-secrets-cert-controller.yml''"
definition bitwardenServiceAccountAssetName :: string where
  "bitwardenServiceAccountAssetName = ''operands/external-secrets/serviceaccount_bitwarden-sdk-server.yml''"
definition controllerClusterRoleAssetName :: string where
  "controllerClusterRoleAssetName = ''operands/external-secrets/clusterrole_external-secrets-controller.yml''"
definition controllerClusterRoleEditAssetName :: string where
  "controllerClusterRoleEditAssetName = ''operands/external-secrets/clusterrole_external-secrets-edit.yml''"
definition controllerClusterRoleServiceBindingsAssetName :: string where
  "controllerClusterRoleServiceBindingsAssetName = ''operands/external-secrets/clusterrole_external-secrets-servicebindings.yml''"
definition controllerClusterRoleViewAssetName :: string where
  "controllerClusterRoleViewAssetName = ''operands/external-secrets/clusterrole_external-secrets-view.yml''"
definition certControllerClusterRoleAssetName :: string where
  "certControllerClusterRoleAssetName = ''operands/external-secrets/clusterrole_external-secrets-cert-controller.yml''"
definition controllerClusterRoleBindingAssetName :: string where
  "controllerClusterRoleBindingAssetName = ''operands/external-secrets/clusterrolebinding_external-secrets-controller.yml''"
definition certControllerClusterRoleBindingAssetName :: string where
  "certControllerClusterRoleBindingAssetName = ''operands/external-secrets/clusterrolebinding_external-secrets-cert-controller.yml''"
definition controllerRoleLeaderElectionAssetName :: string where
  "controllerRoleLeaderElectionAssetName = ''operands/external-secrets/role_external-secrets-leaderelection.yml''"
definition controllerRoleBindingLeaderElectionAssetName :: string where
  "controllerRoleBindingLeaderElectionAssetName = ''operands/external-secrets/rolebinding_external-secrets-leaderelection.yml''"
definition webhookCertificateAssetName :: string where
  "webhookCertificateAssetName = ''operands/external-secrets/certificate_external-secrets-webhook.yml''"
definition bitwardenCertificateAssetName :: string where
  "bitwardenCertificateAssetName = ''operands/external-secrets/certificate_bitwarden-tls-certs.yml''"
definition webhookTLSSecretAssetName :: string where
  "webhookTLSSecretAssetName = ''operands/external-secrets/secret_external-secrets-webhook.yml''"
definition validatingWebhookExternalSecretCRDAssetName :: string where
  "validatingWebhookExternalSecretCRDAssetName = ''operands/external-secrets/validatingwebhookconfiguration_externalsecret-validate.yml''"
definition validatingWebhookSecretStoreCRDAssetName :: string where
  "validatingWebhookSecretStoreCRDAssetName = ''operands/external-secrets/validatingwebhookconfiguration_secretstore-validate.yml''"

subsection \<open>Services\<close>

text \<open>The assets whose condition holds, in the order of the loop.\<close>

definition enabledAssets :: "(string \<times> bool) list \<Rightarrow> string list" where
  "enabledAssets xs = map fst (filter snd xs)"

definition servicesToCreate :: "ExternalSecretsConfig \<Rightarrow> (string \<times> bool) list" where
  "servicesToCreate esc =
     [(webhookServiceAssetName, True), (metricsServiceAssetName, True),
      (certControllerMetricsServiceAssetName, \<not> isCertManagerConfigEnabled esc),
      (bitwardenServiceAssetName, isBitwardenConfigEnabled esc)]"

definition serviceObject :: "'s env \<Rightarrow> ExternalSecretsConfig \<Rightarrow> ResourceMetadata \<Rightarrow> string \<Rightarrow> (goerr, kobj) result" where
  "serviceObject env esc md assetName =
     map_result id (\<lambda>obj. ApplyResourceMetadata (updateNamespace obj esc) md) (DecodeServiceObjBytes env assetName)"

definition createOrApplyServiceFromAsset :: "'s env \<Rightarrow> ExternalSecretsConfig \<Rightarrow> string \<Rightarrow> ResourceMetadata \<Rightarrow> bool \<Rightarrow> ('s, unit) recon" where
  "createOrApplyServiceFromAsset env esc assetName md recon =
     andThen (lift (serviceObject env esc md assetName))
       (\<lambda>service. let serviceName = nsName service in
          applyObject env service md serviceName recon
            (''failed to check existence of service '' @ serviceName)
            (serviceName @ '' already exists'')
            (''failed to update service '' @ serviceName)
            (''Service '' @ serviceName @ '' updated''))"

definition createOrApplyServices :: "'s env \<Rightarrow> ExternalSecretsConfig \<Rightarrow> ResourceMetadata \<Rightarrow> bool \<Rightarrow> ('s, unit) recon" where
  "createOrApplyServices env esc md recon =
     forEach (enabledAssets (servicesToCreate esc))
       (\<lambda>assetName. createOrApplyServiceFromAsset env esc assetName md recon)"

subsection \<open>Service accounts\<close>

definition serviceAccountsToCreate :: "ExternalSecretsConfig \<Rightarrow> (string \<times> bool) list" where
  "serviceAccountsToCreate esc =
     [(controllerServiceAccountAssetName, True), (webhookServiceAccountAssetName, True),
      (certControllerServiceAccountAssetName, \<not> isCertManagerConfigEnabled esc),
      (bitwardenServiceAccountAssetName, isBitwardenConfigEnabled esc)]"

definition serviceAccountObject :: "'s env \<Rightarrow> ExternalSecretsConfig \<Rightarrow> ResourceMetadata \<Rightarrow> string \<Rightarrow> (goerr, kobj) result" where
  "serviceAccountObject env esc md assetName =
     map_result id (\<lambda>obj. ApplyResourceMetadata (updateNamespace obj esc) md) (DecodeServiceAccountObjBytes env assetName)"

definition createOrApplyServiceAccountFromAsset :: "'s env \<Rightarrow> ExternalSecretsConfig \<Rightarrow> string \<Rightarrow> ResourceMetadata \<Rightarrow> bool \<Rightarrow> ('s, unit) recon" where
  "createOrApplyServiceAccountFromAsset env esc assetName md recon =
     andThen (lift (serviceAccountObject env esc md assetName))
       (\<lambda>desired. let n = nsName desired in
          applyObject env desired md n recon
            (''failed to check if serviceaccount '' @ n @ '' exists'')
            (n @ '' serviceaccount already exists, possibly from a previous install'')
            (''failed to update serviceaccount '' @ n)
            (''ServiceAccount '' @ n @ '' updated''))"

definition createOrApplyServiceAccounts :: "'s env \<Rightarrow> ExternalSecretsConfig \<Rightarrow> ResourceMetadata \<Rightarrow> bool \<Rightarrow> ('s, unit) recon" where
  "createOrApplyServiceAccounts env esc md recon =
     forEach (enabledAssets (serviceAccountsToCreate esc))
       (\<lambda>assetName. createOrApplyServiceAccountFromAsset env esc assetName md recon)"

subsection \<open>Roles and bindings\<close>

definition roleBindingSubjectKind :: string where "roleBindingSubjectKind = ''ServiceAccount''"

fun mapBinding :: "(BindingObj \<Rightarrow> BindingObj) \<Rightarrow> kobj \<Rightarrow> kobj" where
  "mapBinding f (KClusterRoleBinding b) = KClusterRoleBinding (f b)"
| "mapBinding f (KRoleBinding b) = KRoleBinding (f b)"
| "mapBinding f x = x"

definition updateServiceAccountNamespaceInRBACBindingObject :: "string \<Rightarrow> string \<Rightarrow> BindingObj \<Rightarrow> BindingObj" where
  "updateServiceAccountNamespaceInRBACBindingObject serviceAccount newNamespace obj =
     obj\<lparr>rb_Subjects := map_option (map (\<lambda>s.
        if subj_Kind s = roleBindingSubjectKind \<and> subj_Name s = serviceAccount
        then s\<lparr>subj_Namespace := newNamespace\<rparr> else s)) (rb_Subjects obj)\<rparr>"

definition getClusterRoleObject :: "'s env \<Rightarrow> string \<Rightarrow> ResourceMetadata \<Rightarrow> (goerr, kobj) result" where
  "getClusterRoleObject env assetName md =
     map_result id (\<lambda>obj. ApplyResourceMetadata obj md) (DecodeClusterRoleObjBytes env assetName)"

definition getRoleObject :: "'s env \<Rightarrow> ExternalSecretsConfig \<Rightarrow> string \<Rightarrow> ResourceMetadata \<Rightarrow> (goerr, kobj) result" where
  "getRoleObject env esc assetName md =
     map_result id (\<lambda>obj. ApplyResourceMetadata (updateNamespace obj esc) md) (DecodeRoleObjBytes env assetName)"

definition setRoleRef :: "string \<Rightarrow> BindingObj \<Rightarrow> BindingObj" where
  "setRoleRef roleName b = b\<lparr>rb_RoleRef := (rb_RoleRef b)\<lparr>rref_Name := roleName\<rparr>\<rparr>"

definition getClusterRoleBindingObject :: "'s env \<Rightarrow> ExternalSecretsConfig \<Rightarrow> string \<Rightarrow> string \<Rightarrow> string \<Rightarrow> ResourceMetadata \<Rightarrow> (goerr, kobj) result" where
  "getClusterRoleBindingObject env esc assetName clusterRoleName serviceAccountName md =
     map_result id (\<lambda>obj.
        mapBinding (updateServiceAccountNamespaceInRBACBindingObject serviceAccountName (getNamespace esc))
          (ApplyResourceMetadata (mapBinding (setRoleRef clusterRoleName) obj) md))
       (DecodeClusterRoleBindingObjBytes env assetName)"

definition getRoleBindingObject :: "'s env \<Rightarrow> ExternalSecretsConfig \<Rightarrow> string \<Rightarrow> string \<Rightarrow> string \<Rightarrow> ResourceMetadata \<Rightarrow> (goerr, kobj) result" where
  "getRoleBindingObject env esc assetName roleName serviceAccountName md =
     map_result id (\<lambda>obj.
        let obj' = ApplyResourceMetadata (updateNamespace (mapBinding (setRoleRef roleName) obj) esc) md in
        mapBinding (updateServiceAccountNamespaceInRBACBindingObject serviceAccountName (om_Namespace (metaOf obj'))) obj')
       (DecodeRoleBindingObjBytes env assetName)"

definition createOrApplyClusterRole :: "'s env \<Rightarrow> kobj \<Rightarrow> ResourceMetadata \<Rightarrow> bool \<Rightarrow> ('s, unit) recon" where
  "createOrApplyClusterRole env obj md recon =
     (let n = om_Name (metaOf obj) in
      applyObject env obj md n recon
        (''failed to check '' @ n @ '' clusterrole resource already exists'')
        (n @ '' clusterrole resource already exists, maybe from previous installation'')
        (''failed to update '' @ n @ '' clusterrole resource'')
        (''clusterrole resource '' @ n @ '' reconciled back to desired state''))"

definition createOrApplyClusterRoleBinding :: "'s env \<Rightarrow> kobj \<Rightarrow> ResourceMetadata \<Rightarrow> bool \<Rightarrow> ('s, unit) recon" where
  "createOrApplyClusterRoleBinding env obj md recon =
     (let n = om_Name (metaOf obj) in
      applyObject env obj md n recon
        (''failed to check '' @ n @ '' clusterrolebinding resource already exists'')
        (n @ '' clusterrolebinding resource already exists, maybe from previous installation'')
        (''failed to update '' @ n @ '' clusterrolebinding resource'')
        (''clusterrolebinding resource '' @ n @ '' reconciled back to desired state''))"

definition createOrApplyRole :: "'s env \<Rightarrow> kobj \<Rightarrow> ResourceMetadata \<Rightarrow> bool \<Rightarrow> ('s, unit) recon" where
  "createOrApplyRole env obj md recon =
     (let n = nsName obj in
      applyObject env obj md n recon
        (''failed to check '' @ n @ '' role resource already exists'')
        (n @ '' role resource already exists, maybe from previous installation'')
        (''failed to update '' @ n @ '' role resource'')
        (''role resource '' @ n @ '' reconciled back to desired state''))"

definition createOrApplyRoleBinding :: "'s env \<Rightarrow> kobj \<Rightarrow> ResourceMetadata \<Rightarrow> bool \<Rightarrow> ('s, unit) recon" where
  "createOrApplyRoleBinding env obj md recon =
     (let n = nsName obj in
      applyObject env obj md n recon
        (''failed to check '' @ n @ '' rolebinding resource already exists'')
        (n @ '' rolebinding resource already exists, maybe from previous installation'')
        (''failed to update '' @ n @ '' rolebinding resource'')
        (''rolebinding resource '' @ n @ '' reconciled back to desired state''))"

definition controllerClusterRoleAssets :: "string list" where
  "controllerClusterRoleAssets =
     [controllerClusterRoleAssetName, controllerClusterRoleEditAssetName,
      controllerClusterRoleServiceBindingsAssetName, controllerClusterRoleViewAssetName]"

definition createOrApplyControllerRBACResources :: "'s env \<Rightarrow> ExternalSecretsConfig \<Rightarrow> string \<Rightarrow> ResourceMetadata \<Rightarrow> bool \<Rightarrow> ('s, unit) recon" where
  "createOrApplyControllerRBACResources env esc serviceAccountName md recon =
     andThen (forEach controllerClusterRoleAssets
        (\<lambda>asset. andThen (lift (getClusterRoleObject env asset md))
           (\<lambda>clusterRoleObj. createOrApplyClusterRole env clusterRoleObj md recon)))
     (\<lambda>_. andThen (lift (DecodeClusterRoleObjBytes env controllerClusterRoleAssetName))
     (\<lambda>cr. andThen (lift (getClusterRoleBindingObject env esc controllerClusterRoleBindingAssetName (om_Name (metaOf cr)) serviceAccountName md))
     (\<lambda>clusterRoleBindingObj. andThen (createOrApplyClusterRoleBinding env clusterRoleBindingObj md recon)
     (\<lambda>_. andThen (lift (getRoleObject env esc controllerRoleLeaderElectionAssetName md))
     (\<lambda>roleObj. andThen (createOrApplyRole env roleObj md recon)
     (\<lambda>_. andThen (lift (getRoleBindingObject env esc controllerRoleBindingLeaderElectionAssetName (om_Name (metaOf roleObj)) serviceAccountName md))
     (\<lambda>roleBindingObj. createOrApplyRoleBinding env roleBindingObj md recon)))))))"

definition createOrApplyCertControllerRBACResources :: "'s env \<Rightarrow> ExternalSecretsConfig \<Rightarrow> string \<Rightarrow> ResourceMetadata \<Rightarrow> bool \<Rightarrow> ('s, unit) recon" where
  "createOrApplyCertControllerRBACResources env esc serviceAccountName md recon =
     (if isCertManagerConfigEnabled esc then gret ()
      else andThen (lift (getClusterRoleObject env certControllerClusterRoleAssetName md))
        (\<lambda>clusterRoleObj. andThen (createOrApplyClusterRole env clusterRoleObj md recon)
        (\<lambda>_. andThen (lift (getClusterRoleBindingObject env esc certControllerClusterRoleBindingAssetName
                          (om_Name (metaOf clusterRoleObj)) serviceAccountName md))
        (\<lambda>clusterRoleBindingObj. createOrApplyClusterRoleBinding env clusterRoleBindingObj md recon))))"

definition createOrApplyRBACResource :: "'s env \<Rightarrow> ExternalSecretsConfig \<Rightarrow> ResourceMetadata \<Rightarrow> bool \<Rightarrow> ('s, unit) recon" where
  "createOrApplyRBACResource env esc md recon =
     andThen (lift (DecodeServiceAccountObjBytes env controllerServiceAccountAssetName))
       (\<lambda>sa. let serviceAccountName = om_Name (metaOf sa) in
          andThen (createOrApplyControllerRBACResources env esc serviceAccountName md recon)
            (\<lambda>_. createOrApplyCertControllerRBACResources env esc serviceAccountName md recon))"

subsection \<open>Certificates\<close>

definition issuerKind :: string where "issuerKind = ''Issuer''"
definition clusterIssuerKind :: string where "clusterIssuerKind = ''ClusterIssuer''"
definition issuerGroup :: string where "issuerGroup = ''cert-manager.io''"
definition certmanagerTLSSecretWebhook :: string where "certmanagerTLSSecretWebhook = ''external-secrets-webhook-cm''"
definition errUnsupportedIssuerKind :: string where "errUnsupportedIssuerKind = ''unsupported issuer kind''"

definition updateNamespaceForFQDN :: "string list \<Rightarrow> string \<Rightarrow> string list" where
  "updateNamespaceForFQDN fqdns namespace =
     map (\<lambda>fqdn. let parts = splitChar (CHR ''.'') fqdn in
            if length parts \<ge> 2 then joinWith ''.'' (parts[1 := namespace]) else fqdn) fqdns"

definition issuerGroupResource :: "string \<Rightarrow> string \<times> string" where
  "issuerGroupResource kind =
     (if kind = clusterIssuerKind then (issuerGroup, ''clusterissuers'')
      else if kind = issuerKind then (issuerGroup, ''issuers'')
      else ('''', toLowerAscii kind @ ''s''))"

text \<open>\<open>apierrors.NewNotFound\<close> with the printed group resource.\<close>

definition issuerNotFoundError :: "IssuerReference \<Rightarrow> goerr" where
  "issuerNotFoundError issueRef =
     (let (g, r) = issuerGroupResource (iref_Kind issueRef);
          gr = (if g = '''' then r else r @ ''.'' @ g)
      in StatusErr ''NotFound'' 404 (gr @ '' '' @ quoted (iref_Name issueRef) @ '' not found''))"

definition getIssuer :: "'s env \<Rightarrow> IssuerReference \<Rightarrow> string \<Rightarrow> ('s, bool) recon" where
  "getIssuer env issuerRef namespace =
     (let key = (namespace, iref_Name issuerRef) in
      if iref_Kind issuerRef = clusterIssuerKind \<or> iref_Kind issuerRef = issuerKind
      then andThen (onErr (onKube (Exists (e_Uncached env) (iref_Kind issuerRef) key))
             (\<lambda>err. gerr (WrapErr (''failed to fetch '' @ quoted (nsnameString key) @ '' issuer: '') err '''')))
             (\<lambda>found. gret (found \<noteq> None))
      else gerr (WrapErr '''' (SentinelErr errUnsupportedIssuerKind) ('': '' @ quoted (iref_Kind issuerRef))))"

definition assertIssuerRefExists :: "'s env \<Rightarrow> IssuerReference \<Rightarrow> string \<Rightarrow> ('s, unit) recon" where
  "assertIssuerRefExists env issueRef namespace =
     andThen (onErr (getIssuer env issueRef namespace)
        (\<lambda>err. if errorsIs err errUnsupportedIssuerKind
           then gerr (userConfigErr err (''cert-manager issuerRef.kind '' @ quoted (iref_Kind issueRef) @ '' is not supported in '' @ namespace))
           else gerr (fromClientErr err (''failed to fetch issuer '' @ quoted (iref_Name issueRef)))))
       (\<lambda>issuerExists. if \<not> issuerExists
          then gerr (userConfigErr (issuerNotFoundError issueRef)
                 (''issuer '' @ quoted (iref_Name issueRef) @ '' of kind '' @ quoted (iref_Kind issueRef) @ '' not found in '' @ namespace))
          else gret ())"

definition assertSecretRefExists :: "'s env \<Rightarrow> ExternalSecretsConfig \<Rightarrow> string \<Rightarrow> ('s, unit) recon" where
  "assertSecretRefExists env esc secretName =
     (let key = (getNamespace esc, secretName); q = quoted (nsnameString key) in
      andThen (onErr (onKube (cl_Get (e_Uncached env) ''Secret'' key))
        (\<lambda>err. if IsNotFound err then gerr (userConfigErr err (''bitwarden TLS secret '' @ q @ '' not found''))
               else gerr (fromClientErr err (''failed to fetch '' @ q @ '' secret''))))
        (\<lambda>_. gret ()))"

definition certManagerConfigOrZero :: "ExternalSecretsConfig \<Rightarrow> CertManagerConfig" where
  "certManagerConfigOrZero esc = (case certManagerConfig esc of Some c \<Rightarrow> c
     | None \<Rightarrow> \<lparr>cmc_Mode = '''', cmc_InjectAnnotations = '''', cmc_IssuerRef = None, cmc_CertificateDuration = None, cmc_CertificateRenewBefore = None\<rparr>)"

text \<open>The certificate with the parameters of the configuration, for an issuer that is configured.\<close>

definition configuredIssuer :: "ObjectReference \<Rightarrow> IssuerReference" where
  "configuredIssuer ref = \<lparr>iref_Name = or_Name ref,
     iref_Kind = (if or_Kind ref = '''' then issuerKind else or_Kind ref),
     iref_Group = (if or_Group ref = '''' then issuerGroup else or_Group ref)\<rparr>"

definition issuedCertificate :: "ExternalSecretsConfig \<Rightarrow> ObjectReference \<Rightarrow> Certificate \<Rightarrow> Certificate" where
  "issuedCertificate esc ref certificate =
     (let cfg = certManagerConfigOrZero esc in
      certificate\<lparr>cert_IssuerRef := configuredIssuer ref,
        cert_DNSNames := Some (updateNamespaceForFQDN (elems (cert_DNSNames certificate)) (getNamespace esc)),
        cert_RenewBefore := (if cmc_CertificateRenewBefore cfg \<noteq> None then cmc_CertificateRenewBefore cfg else cert_RenewBefore certificate),
        cert_Duration := (if cmc_CertificateDuration cfg \<noteq> None then cmc_CertificateDuration cfg else cert_Duration certificate)\<rparr>)"

definition updateCertificateParams :: "'s env \<Rightarrow> ExternalSecretsConfig \<Rightarrow> Certificate \<Rightarrow> ('s, Certificate) recon" where
  "updateCertificateParams env esc certificate =
     (let cfg = certManagerConfigOrZero esc; ns = getNamespace esc; nm = om_Name (esc_Meta esc) in
      case cmc_IssuerRef cfg of
        None \<Rightarrow> gerr (userConfigErr (PlainErr ''cert-manager is enabled but issuerRef is not configured'')
                  (''cert-manager issuerRef must be configured in '' @ ns @ ''/'' @ nm))
      | Some ref \<Rightarrow>
          if or_Name ref = '''' then gerr (userConfigErr (PlainErr ''cert-manager.issuerRef.name is not configured'')
                  (''cert-manager issuerRef.name must be set in '' @ ns @ ''/'' @ nm))
          else andThen (assertIssuerRefExists env (configuredIssuer ref) ns) (\<lambda>_. gret (issuedCertificate esc ref certificate)))"

text \<open>The decoded object, which is a certificate (any other kind is a panic).\<close>

definition decodedCertificate :: "(goerr, kobj) result \<Rightarrow> (goerr, Certificate) result" where
  "decodedCertificate r = (case r of
       Ret (KCertificate c) \<Rightarrow> Ret c
     | Ret _ \<Rightarrow> Panic ''decoded object is not a Certificate''
     | Err e \<Rightarrow> Err e
     | Panic p \<Rightarrow> Panic p)"

definition preparedCertificate :: "ExternalSecretsConfig \<Rightarrow> ResourceMetadata \<Rightarrow> string \<Rightarrow> Certificate \<Rightarrow> Certificate" where
  "preparedCertificate esc md fileName certificate =
     (let c1 = (if fileName = webhookCertificateAssetName
                then certificate\<lparr>cert_SecretName := certmanagerTLSSecretWebhook\<rparr> else certificate) in
      c1\<lparr>cert_Meta := metaOf (ApplyResourceMetadata (updateNamespace (KCertificate c1) esc) md)\<rparr>)"

definition getCertificateObject :: "'s env \<Rightarrow> ExternalSecretsConfig \<Rightarrow> ResourceMetadata \<Rightarrow> string \<Rightarrow> ('s, kobj) recon" where
  "getCertificateObject env esc md fileName =
     andThen (lift (decodedCertificate (DecodeCertificateObjBytes env fileName)))
       (\<lambda>certificate. andThen (updateCertificateParams env esc (preparedCertificate esc md fileName certificate))
          (\<lambda>c. gret (KCertificate c)))"

definition createOrApplyCertificate :: "'s env \<Rightarrow> ExternalSecretsConfig \<Rightarrow> ResourceMetadata \<Rightarrow> string \<Rightarrow> bool \<Rightarrow> ('s, unit) recon" where
  "createOrApplyCertificate env esc md fileName recon =
     andThen (getCertificateObject env esc md fileName)
       (\<lambda>desired. let n = nsName desired in
          applyObject env desired md n recon
            (''failed to check '' @ n @ '' certificate resource already exists'')
            (n @ '' certificate resource already exists, maybe from previous installation'')
            (''failed to update '' @ n @ '' certificate resource'')
            (''certificate resource '' @ n @ '' reconciled back to desired state''))"

definition createOrApplyCertificates :: "'s env \<Rightarrow> ExternalSecretsConfig \<Rightarrow> ResourceMetadata \<Rightarrow> bool \<Rightarrow> ('s, unit) recon" where
  "createOrApplyCertificates env esc md recon =
     andThen (if isCertManagerConfigEnabled esc then createOrApplyCertificate env esc md webhookCertificateAssetName recon else gret ())
       (\<lambda>_. if \<not> isBitwardenConfigEnabled esc then gret ()
          else (let secretRef = (case Option.bind (pl_Bitwarden (spec_Plugins (esc_Spec esc))) bw_SecretRef of None \<Rightarrow> '''' | Some n \<Rightarrow> n) in
                if secretRef \<noteq> '''' then assertSecretRefExists env esc secretRef
                else if \<not> isCertManagerConfigEnabled esc
                then gerr (userConfigErr (PlainErr ''invalid bitwardenSecretManagerProvider config'')
                       ''either secretRef or certManagerConfig must be configured when bitwardenSecretManagerProvider is enabled'')
                else createOrApplyCertificate env esc md bitwardenCertificateAssetName recon))"

subsection \<open>The webhook's TLS secret\<close>

definition getSecretObject :: "'s env \<Rightarrow> ExternalSecretsConfig \<Rightarrow> ResourceMetadata \<Rightarrow> (goerr, kobj) result" where
  "getSecretObject env esc md =
     map_result id (\<lambda>obj. ApplyResourceMetadata (updateNamespace obj esc) md) (DecodeSecretObjBytes env webhookTLSSecretAssetName)"

definition createOrApplySecret :: "'s env \<Rightarrow> ExternalSecretsConfig \<Rightarrow> ResourceMetadata \<Rightarrow> bool \<Rightarrow> ('s, unit) recon" where
  "createOrApplySecret env esc md recon =
     (if isCertManagerConfigEnabled esc then gret ()
      else andThen (lift (getSecretObject env esc md))
        (\<lambda>desired. let n = nsName desired in
           andThen (onErr (onKube (Exists (e_Client env) ''Secret'' (objectKey desired)))
               (\<lambda>err. gerr (fromClientErr err (''failed to check '' @ n @ '' secret resource already exists''))))
             (\<lambda>exist. case exist of
                None \<Rightarrow> createWithMetadataFallback env desired md n
              | Some fetched \<Rightarrow>
                  andThen (eventIf recon ''Warning'' ''ResourceAlreadyExists''
                       (n @ '' secret resource already exists, maybe from previous installation''))
                    (\<lambda>_. if \<not> ObjectMetadataModified desired fetched md then gret ()
                      else andThen (onErr (patchResourceMetadata env desired md)
                             (\<lambda>err. gerr (fromClientErr err (''failed to patch Secret '' @ n @ '' metadata''))))
                           (\<lambda>_. Eventf ''Normal'' ''Reconciled'' (''secret resource '' @ n @ '' reconciled back to desired state''))))))"

subsection \<open>The trusted CA bundle of the proxy\<close>

definition TrustedCABundleInjectLabel :: string where
  "TrustedCABundleInjectLabel = ''config.openshift.io/inject-trusted-cabundle''"
definition ProxyTrustedCABundleConfigMapName :: string where
  "ProxyTrustedCABundleConfigMapName = externalsecretsCommonName @ ''-trusted-ca-bundle''"

definition getTrustedCABundleLabels :: "strmap \<Rightarrow> strmap" where
  "getTrustedCABundleLabels resourceLabels = gput TrustedCABundleInjectLabel ''true'' (gcopy (GoMap []) resourceLabels)"

definition hasEffectiveProxyURLs :: "ProxyConfig option \<Rightarrow> bool" where
  "hasEffectiveProxyURLs config = (case config of None \<Rightarrow> False
     | Some p \<Rightarrow> px_HTTPProxy p \<noteq> '''' \<or> px_HTTPSProxy p \<noteq> '''' \<or> px_NoProxy p \<noteq> '''')"

definition isProxyEnabled :: "'s rstate \<Rightarrow> bool" where
  "isProxyEnabled s = hasEffectiveProxyURLs (rs_proxyConfig s)"

definition desiredCABundleConfigMap :: "ExternalSecretsConfig \<Rightarrow> ResourceMetadata \<Rightarrow> kobj" where
  "desiredCABundleConfigMap esc md =
     ApplyResourceMetadata
       (KConfigMap \<lparr>cm_Meta = zeroMeta\<lparr>om_Name := ProxyTrustedCABundleConfigMapName, om_Namespace := getNamespace esc,
                       om_Labels := getTrustedCABundleLabels (rm_Labels md)\<rparr>, cm_Data = NilMap\<rparr>) md"

definition ensureTrustedCABundleConfigMap :: "'s env \<Rightarrow> ExternalSecretsConfig \<Rightarrow> ResourceMetadata \<Rightarrow> ('s, unit) recon" where
  "ensureTrustedCABundleConfigMap env esc md =
     andThen (readState isProxyEnabled) (\<lambda>enabled.
       if \<not> enabled then gret ()
       else (let desired = desiredCABundleConfigMap esc md; n = nsName desired in
         andThen (onErr (onKube (Exists (e_Client env) ''ConfigMap'' (objectKey desired)))
             (\<lambda>err. gerr (fromClientErr err (''failed to check '' @ n @ '' trusted CA bundle ConfigMap resource already exists''))))
           (\<lambda>exist. case exist of
              None \<Rightarrow> (\<lambda>s. case onKube (cl_Create (e_Client env) desired) s of
                  (Ret _, s1) \<Rightarrow> Eventf ''Normal'' ''Reconciled'' (''trusted CA bundle ConfigMap resource '' @ n @ '' created'') s1
                | (Panic p, s1) \<Rightarrow> (Panic p, s1)
                | (Err err, s1) \<Rightarrow>
                    if \<not> IsAlreadyExists err
                    then (Err (fromClientErr err (''failed to create '' @ n @ '' trusted CA bundle ConfigMap resource'')), s1)
                    else andThen (onErr (patchResourceMetadata env desired md)
                           (\<lambda>e. gerr (fromClientErr e (''failed to patch '' @ n @ '' trusted CA bundle ConfigMap metadata''))))
                         (\<lambda>_. Eventf ''Normal'' ''Reconciled'' (''trusted CA bundle ConfigMap resource '' @ n @ '' restored to desired state'')) s1)
            | Some existing \<Rightarrow>
                if ObjectMetadataModified desired existing md
                then andThen (onErr (patchResourceMetadata env desired md)
                       (\<lambda>err. gerr (fromClientErr err (''failed to patch '' @ n @ '' trusted CA bundle ConfigMap metadata''))))
                     (\<lambda>_. Eventf ''Normal'' ''Reconciled'' (''trusted CA bundle ConfigMap resource '' @ n @ '' reconciled back to desired state''))
                else gret ())))"

subsection \<open>Validating webhooks\<close>

definition webhookObject :: "'s env \<Rightarrow> ExternalSecretsConfig \<Rightarrow> ResourceMetadata \<Rightarrow> string \<Rightarrow> (goerr, kobj) result" where
  "webhookObject env esc md assetName =
     map_result id (\<lambda>obj. ApplyResourceMetadata obj (withCertManagerAnnotation esc md))
       (DecodeValidatingWebhookConfigurationObjBytes env assetName)"

text \<open>All objects are decoded before the first one is applied.\<close>

fun sequenceResults :: "('e, 'a) result list \<Rightarrow> ('e, 'a list) result" where
  "sequenceResults [] = Ret []"
| "sequenceResults (r # rs) = (case r of
     Ret x \<Rightarrow> (case sequenceResults rs of Ret xs \<Rightarrow> Ret (x # xs) | Err e \<Rightarrow> Err e | Panic p \<Rightarrow> Panic p)
   | Err e \<Rightarrow> Err e
   | Panic p \<Rightarrow> Panic p)"

definition getValidatingWebhookObjects :: "'s env \<Rightarrow> ExternalSecretsConfig \<Rightarrow> ResourceMetadata \<Rightarrow> (goerr, kobj list) result" where
  "getValidatingWebhookObjects env esc md =
     sequenceResults (map (webhookObject env esc md)
       [validatingWebhookExternalSecretCRDAssetName, validatingWebhookSecretStoreCRDAssetName])"

definition createOrApplyValidatingWebhook :: "'s env \<Rightarrow> kobj \<Rightarrow> ResourceMetadata \<Rightarrow> bool \<Rightarrow> ('s, unit) recon" where
  "createOrApplyValidatingWebhook env desired md recon =
     (let n = om_Name (metaOf desired) in
      applyObject env desired md n recon
        (''failed to check '' @ n @ '' validatingWebhook resource already exists'')
        (n @ '' validatingWebhook resource already exists, maybe from previous installation'')
        (''failed to update '' @ n @ '' validatingWebhook resource with desired state'')
        (''validatingWebhook resource '' @ n @ '' reconciled back to desired state''))"

definition createOrApplyValidatingWebhookConfiguration :: "'s env \<Rightarrow> ExternalSecretsConfig \<Rightarrow> ResourceMetadata \<Rightarrow> bool \<Rightarrow> ('s, unit) recon" where
  "createOrApplyValidatingWebhookConfiguration env esc md recon =
     andThen (lift (getValidatingWebhookObjects env esc md))
       (\<lambda>desiredWebhooks. forEach desiredWebhooks (\<lambda>desired. createOrApplyValidatingWebhook env desired md recon))"

subsection \<open>The operand namespace\<close>

definition createOrApplyNamespace :: "'s env \<Rightarrow> ExternalSecretsConfig \<Rightarrow> ResourceMetadata \<Rightarrow> ('s, unit) recon" where
  "createOrApplyNamespace env esc md =
     (let n = getNamespace esc;
          desired = ApplyResourceMetadata (KNamespace (zeroMeta\<lparr>om_Name := n\<rparr>)) md in
      andThen (onErr (onKube (Exists (e_Client env) ''Namespace'' (objectKey desired)))
          (\<lambda>err. gerr (WrapErr (''failed to check if namespace '' @ n @ '' exists: '') err '''')))
        (\<lambda>exist. case exist of
           None \<Rightarrow> andThen (onErr (onKube (cl_Create (e_Client env) desired))
                    (\<lambda>err. gerr (WrapErr (''failed to create namespace '' @ n @ '': '') err '''')))
                  (\<lambda>_. Eventf ''Normal'' ''Reconciled'' (''Namespace '' @ n @ '' created''))
         | Some fetched \<Rightarrow>
             (case resourceMetadataNeedsUpdate (metaOf fetched) md of
                (False, _) \<Rightarrow> gret ()
              | (True, updated) \<Rightarrow>
                  andThen (onErr (onKube (UpdateWithRetry (e_Client env) (mapMeta (\<lambda>_. updated) fetched)))
                       (\<lambda>err. gerr (WrapErr (''failed to update namespace '' @ n @ '': '') err '''')))
                    (\<lambda>_. Eventf ''Normal'' ''Reconciled'' (''Namespace '' @ n @ '' updated'')))))"

section \<open>Lemmas\<close>

lemma keeps_guard: "reflp R \<Longrightarrow> (\<not> c \<Longrightarrow> keeps R m) \<Longrightarrow> keeps R (\<lambda>s. if c then (Err e, s) else m s)"
  by (simp add: keeps_def reflpD)

lemma kindOf_decodeAs: "decodeAs env kind a = Ret d \<Longrightarrow> kindOf d = kind"
  by (auto simp: decodeAs_def split: option.splits if_splits)

context operator_env
begin

text \<open>A loop over resources with different identities applies all of them and nothing else.\<close>

lemma forEach_achieves:
  assumes "wf (rs_kube s)" and "distinct (map (\<lambda>x. objid (des x)) xs)"
    and "\<And>x s r s'. x \<in> set xs \<Longrightarrow> wf (rs_kube s) \<Longrightarrow> f x s = (r, s') \<Longrightarrow> achieves (des x) md s r s'"
    and "forEach xs f s = (Ret (), s')"
  shows "wf (rs_kube s') \<and>
    (\<forall>x\<in>set xs. notDeleting (objs (rs_kube s) (objid (des x))) \<longrightarrow>
       (\<exists>g. objs (rs_kube s') (objid (des x)) = Some g \<and> HasObjectChanged (des x) g md = Ret False)) \<and>
    (\<forall>i. i \<notin> (\<lambda>x. objid (des x)) ` set xs \<longrightarrow> objs (rs_kube s') i = objs (rs_kube s) i)"
  using assms
proof (induction xs arbitrary: s)
  case (Cons x xs)
  from Cons.prems(4) obtain s1 where 1: "f x s = (Ret (), s1)" and 2: "forEach xs f s1 = (Ret (), s')"
    by (auto elim: andThen_RetE)
  have a: "achieves (des x) md s (Ret ()) s1" using Cons.prems(1,3) 1 by simp
  then have wf1: "wf (rs_kube s1)" by (simp add: achieves_def)
  have rest: "wf (rs_kube s') \<and>
    (\<forall>y\<in>set xs. notDeleting (objs (rs_kube s1) (objid (des y))) \<longrightarrow>
       (\<exists>g. objs (rs_kube s') (objid (des y)) = Some g \<and> HasObjectChanged (des y) g md = Ret False)) \<and>
    (\<forall>i. i \<notin> (\<lambda>x. objid (des x)) ` set xs \<longrightarrow> objs (rs_kube s') i = objs (rs_kube s1) i)"
    using Cons.prems(2,3) by (intro Cons.IH [OF wf1 _ _ 2]) auto
  have new: "objid (des x) \<notin> (\<lambda>x. objid (des x)) ` set xs" using Cons.prems(2) by auto
  have "objs (rs_kube s1) (objid (des y)) = objs (rs_kube s) (objid (des y))" if "y \<in> set xs" for y
  proof -
    have "objid (des y) \<noteq> objid (des x)" using imageI [OF that, of "\<lambda>x. objid (des x)"] new by metis
    with a show ?thesis by (simp add: achieves_def del: split_paired_All)
  qed
  moreover from new rest have "objs (rs_kube s') (objid (des x)) = objs (rs_kube s1) (objid (des x))" by blast
  with a have "notDeleting (objs (rs_kube s) (objid (des x))) \<longrightarrow>
      (\<exists>g. objs (rs_kube s') (objid (des x)) = Some g \<and> HasObjectChanged (des x) g md = Ret False)"
    by (simp add: achieves_def)
  moreover have "objs (rs_kube s') i = objs (rs_kube s) i" if "i \<notin> (\<lambda>x. objid (des x)) ` set (x # xs)" for i
    using a rest that by (simp add: achieves_def del: split_paired_All)
  ultimately show ?case using rest by simp
qed simp

end

lemma comparable_simple:
  "kindOf d \<in> {''Certificate'', ''ClusterRole'', ''ClusterRoleBinding'', ''Role'', ''RoleBinding'',
     ''Service'', ''NetworkPolicy'', ''ServiceAccount''} \<Longrightarrow> comparable d"
  by (cases d) simp_all

lemma kindOf_updateNamespace [simp]: "kindOf (updateNamespace obj esc) = kindOf obj"
  by (simp add: updateNamespace_def)

lemma map_result_Ret: "map_result f g r = Ret y \<longleftrightarrow> (\<exists>x. r = Ret x \<and> y = g x)"
  by (cases r) auto

lemma objects_comparable:
  "serviceObject env esc md a = Ret d \<Longrightarrow> comparable d"
  "serviceAccountObject env esc md a = Ret d \<Longrightarrow> comparable d"
  by (auto simp: serviceObject_def serviceAccountObject_def DecodeServiceObjBytes_def DecodeServiceAccountObjBytes_def
      map_result_Ret intro!: comparable_simple dest: kindOf_decodeAs)

lemma service_step_achieves:
  assumes "operator_env env objs ok" and "ok (rs_kube s)" and "serviceObject env esc md a = Ret d" and "freeOfDeleted d md"
    and "createOrApplyServiceFromAsset env esc a md recon s = (r, s')"
  shows "operator_env.achieves objs ok d md s r s'"
proof -
  have "applyObject env d md (nsName d) recon (''failed to check existence of service '' @ nsName d) (nsName d @ '' already exists'')
      (''failed to update service '' @ nsName d) (''Service '' @ nsName d @ '' updated'') s = (r, s')"
    using assms(3,5) by (simp add: createOrApplyServiceFromAsset_def Let_def andThen_def)
  from operator_env.applyObject_achieves [OF assms(1,2) objects_comparable(1) [OF assms(3)] assms(4) this] show ?thesis .
qed

subsection \<open>Updates of metadata only\<close>

text \<open>Everything of an object but its metadata.\<close>

definition payload :: "kobj \<Rightarrow> kobj" where
  "payload o1 = mapMeta (\<lambda>_. zeroMeta) o1"

lemma payload_mapMeta [simp]: "payload (mapMeta f o1) = payload o1"
  by (simp add: payload_def mapMeta_comp)

lemma payload_sameUpToServer: "sameUpToServer a b \<Longrightarrow> payload b = payload a"
  by (auto simp: sameUpToServer_def)

context operator_env
begin

text \<open>No object disappears and none changes outside its metadata.\<close>

definition payloadKept :: "'s rstate \<Rightarrow> 's rstate \<Rightarrow> bool" where
  "payloadKept s s' \<longleftrightarrow> (wf (rs_kube s) \<longrightarrow> wf (rs_kube s') \<and>
     (\<forall>i o1. objs (rs_kube s) i = Some o1 \<longrightarrow> (\<exists>o2. objs (rs_kube s') i = Some o2 \<and> payload o2 = payload o1)))"

lemma payloadKept_refl [simp, intro]: "reflp payloadKept"
  by (simp add: reflp_def payloadKept_def)

lemma payloadKept_trans [simp, intro]: "transp payloadKept"
  unfolding transp_def payloadKept_def by (metis (no_types, lifting))

lemma payloadKept_same: "objs (rs_kube s') = objs (rs_kube s) \<Longrightarrow> (wf (rs_kube s) \<Longrightarrow> wf (rs_kube s')) \<Longrightarrow> payloadKept s s'"
  by (auto simp: payloadKept_def)

lemma Eventf_kept [intro]: "keeps payloadKept (Eventf a b c)"
  by (rule keepsI, rule payloadKept_same) (simp_all add: Eventf_def)

lemma eventIf_kept [intro]: "keeps payloadKept (eventIf x a b c)"
  by (rule keepsI, rule payloadKept_same) (simp_all add: eventIf_def Eventf_def)

lemma lift_kept [intro]: "keeps payloadKept (lift r)"
  by (rule keepsI, rule payloadKept_same) (simp_all add: lift_def)

lemma readState_kept [intro]: "keeps payloadKept (readState f)"
  by (rule keepsI, rule payloadKept_same) (simp_all add: readState_def)

lemma Exists_kept [intro]: "keeps payloadKept (onKube (Exists (e_Client env) k n))"
proof (rule keepsI)
  fix s :: "'s rstate"
  obtain r k' where e: "Exists (e_Client env) k n (rs_kube s) = (r, k')" by force
  have "snd (onKube (Exists (e_Client env) k n) s) = s\<lparr>rs_kube := k'\<rparr>" by (simp add: onKube_def e)
  moreover have "payloadKept s (s\<lparr>rs_kube := k'\<rparr>)"
    using cached.Exists_cases [OF _ e] by (auto simp: payloadKept_def simp del: split_paired_All)
  ultimately show "payloadKept s (snd (onKube (Exists (e_Client env) k n) s))" by simp
qed

lemma Create_kept [intro]: "keeps payloadKept (onKube (cl_Create (e_Client env) d))"
proof (rule keepsI)
  fix s :: "'s rstate"
  obtain r k' where e: "cl_Create (e_Client env) d (rs_kube s) = (r, k')" by force
  have s': "snd (onKube (cl_Create (e_Client env) d) s) = s\<lparr>rs_kube := k'\<rparr>" by (simp add: onKube_def e)
  show "payloadKept s (snd (onKube (cl_Create (e_Client env) d) s))"
  proof (cases r)
    case (Ret o2)
    with e cached.create_Ret [of "rs_kube s" d o2 k'] show ?thesis unfolding s' by (auto simp: payloadKept_def)
  next
    case (Err x)
    with e cached.create_Err [of "rs_kube s" d x k'] show ?thesis unfolding s' by (auto simp: payloadKept_def)
  qed (use e cached.create_noPanic in auto)
qed

lemma patch_kept [intro]: "keeps payloadKept (patchResourceMetadata env d md)"
proof -
  have "keeps payloadKept (onKube (cl_Patch (e_Client env) o1 q))" for o1 q
  proof (rule keepsI)
    fix s :: "'s rstate"
    obtain r k' where e: "cl_Patch (e_Client env) o1 q (rs_kube s) = (r, k')" by force
    have s': "snd (onKube (cl_Patch (e_Client env) o1 q) s) = s\<lparr>rs_kube := k'\<rparr>" by (simp add: onKube_def e)
    show "payloadKept s (snd (onKube (cl_Patch (e_Client env) o1 q) s))"
    proof (cases r)
      case (Ret o2)
      with e cached.patch_Ret [of "rs_kube s" o1 q o2 k'] show ?thesis
        unfolding s' by (auto simp: payloadKept_def dest!: payload_sameUpToServer)
    next
      case (Err x)
      with e cached.patch_Err [of "rs_kube s" o1 q x k'] show ?thesis unfolding s' by (auto simp: payloadKept_def)
    qed (use e cached.patch_noPanic in auto)
  qed
  then show ?thesis unfolding patchResourceMetadata_def Let_def by (intro keeps_andThen) auto
qed

lemma tryCreate_kept:
  assumes "\<And>x. keeps payloadKept (h x)" and "\<And>e. keeps payloadKept (g e)"
  shows "keeps payloadKept (\<lambda>s. case onKube (cl_Create (e_Client env) d) s of
      (Ret x, s1) \<Rightarrow> h x s1 | (Panic p, s1) \<Rightarrow> (Panic p, s1) | (Err e, s1) \<Rightarrow> g e s1)"
proof (rule keepsI)
  fix s :: "'s rstate"
  obtain r s1 where e: "onKube (cl_Create (e_Client env) d) s = (r, s1)" by force
  have 1: "payloadKept s s1" using Create_kept [of d] e by (rule keepsD)
  have 2: "payloadKept s1 (snd (h x s1))" "payloadKept s1 (snd (g y s1))" for x y
    using assms by (simp_all add: keeps_def)
  show "payloadKept s (snd (case onKube (cl_Create (e_Client env) d) s of
      (Ret x, s1) \<Rightarrow> h x s1 | (Panic p, s1) \<Rightarrow> (Panic p, s1) | (Err e, s1) \<Rightarrow> g e s1))"
    using 1 2 transpD [OF payloadKept_trans] by (cases r) (auto simp: e)
qed

end

section \<open>Properties\<close>

text \<open>
  The services of the operand. When \<^verbatim>\<open>createOrApplyServices\<close> reports success, the server holds,
  undrifted, the webhook and the metrics service, the cert-controller's metrics service exactly
  when cert-manager is not enabled, and the Bitwarden service exactly when Bitwarden is enabled
  (those of them that were not being deleted), and no object other than these was touched. This assumes an API server that meets the contract of
  \<^verbatim>\<open>operator_env\<close> (with any failures), and manifests that decode to services of different names.
\<close>

theorem services_applied:
  assumes "operator_env env objs ok" and "ok (rs_kube s)"
    and "\<forall>a\<in>set (enabledAssets (servicesToCreate esc)). \<exists>d. serviceObject env esc md a = Ret d \<and> freeOfDeleted d md"
    and "distinct (map (\<lambda>a. objid (ret_val (serviceObject env esc md a))) (enabledAssets (servicesToCreate esc)))"
    and "createOrApplyServices env esc md recon s = (Ret (), s')"
  shows "(\<forall>a. a \<in> {webhookServiceAssetName, metricsServiceAssetName} \<union>
        (if isCertManagerConfigEnabled esc then {} else {certControllerMetricsServiceAssetName}) \<union>
        (if isBitwardenConfigEnabled esc then {bitwardenServiceAssetName} else {}) \<longrightarrow>
      (\<exists>d. serviceObject env esc md a = Ret d \<and> (notDeleting (objs (rs_kube s) (objid d)) \<longrightarrow>
         (\<exists>f. objs (rs_kube s') (objid d) = Some f \<and> HasObjectChanged d f md = Ret False)))) \<and>
    (\<forall>i. (\<forall>a\<in>set (enabledAssets (servicesToCreate esc)). i \<noteq> objid (ret_val (serviceObject env esc md a))) \<longrightarrow>
      objs (rs_kube s') i = objs (rs_kube s) i)"
proof -
  let ?as = "enabledAssets (servicesToCreate esc)" and ?d = "\<lambda>a. ret_val (serviceObject env esc md a)"
  have as: "set ?as = {webhookServiceAssetName, metricsServiceAssetName} \<union>
        (if isCertManagerConfigEnabled esc then {} else {certControllerMetricsServiceAssetName}) \<union>
        (if isBitwardenConfigEnabled esc then {bitwardenServiceAssetName} else {})"
    by (auto simp: enabledAssets_def servicesToCreate_def)
  have step: "operator_env.achieves objs ok (?d a) md s r s'"
    if "a \<in> set ?as" "ok (rs_kube s)" "createOrApplyServiceFromAsset env esc a md recon s = (r, s')" for a s r s'
    using service_step_achieves [OF assms(1) that(2) _ _ that(3)] assms(3) that(1) by force
  from operator_env.forEach_achieves [where des = ?d, OF assms(1,2,4) step assms(5) [unfolded createOrApplyServices_def]]
  have "\<forall>a\<in>set ?as. notDeleting (objs (rs_kube s) (objid (?d a))) \<longrightarrow>
      (\<exists>g. objs (rs_kube s') (objid (?d a)) = Some g \<and> HasObjectChanged (?d a) g md = Ret False)"
    and "\<forall>i. i \<notin> (\<lambda>a. objid (?d a)) ` set ?as \<longrightarrow> objs (rs_kube s') i = objs (rs_kube s) i"
    by blast+
  with assms(3) show ?thesis unfolding as [symmetric] by force
qed

theorem services_applied_witness:
  "\<exists>f. memLookup (rs_kube (snd (createOrApplyServices sampleEnv zeroESC sampleMetadata False sampleState)))
     (''Service'', ''external-secrets'', ''external-secrets-metrics'') = Some f"
proof -
  have run: "createOrApplyServices sampleEnv zeroESC sampleMetadata False sampleState =
      (Ret (), snd (createOrApplyServices sampleEnv zeroESC sampleMetadata False sampleState))"
    by code_simp
  have dec: "\<forall>a\<in>set (enabledAssets (servicesToCreate zeroESC)). \<exists>d. serviceObject sampleEnv zeroESC sampleMetadata a = Ret d \<and> freeOfDeleted d sampleMetadata"
  proof -
    have "list_all (\<lambda>a. case serviceObject sampleEnv zeroESC sampleMetadata a of Ret d \<Rightarrow> freeOfDeleted d sampleMetadata | _ \<Rightarrow> False)
        (enabledAssets (servicesToCreate zeroESC))"
      by code_simp
    then have at: "case serviceObject sampleEnv zeroESC sampleMetadata a of Ret d \<Rightarrow> freeOfDeleted d sampleMetadata | _ \<Rightarrow> False"
      if "a \<in> set (enabledAssets (servicesToCreate zeroESC))" for a
      using that by (simp add: list_all_iff)
    show ?thesis
    proof
      fix a assume "a \<in> set (enabledAssets (servicesToCreate zeroESC))"
      from at [OF this] show "\<exists>d. serviceObject sampleEnv zeroESC sampleMetadata a = Ret d \<and> freeOfDeleted d sampleMetadata"
        by (cases "serviceObject sampleEnv zeroESC sampleMetadata a :: (goerr, kobj) result") simp_all
    qed
  qed
  have dist: "distinct (map (\<lambda>a. objid (ret_val (serviceObject sampleEnv zeroESC sampleMetadata a))) (enabledAssets (servicesToCreate zeroESC)))"
    by code_simp
  have id: "map_result id objid (serviceObject sampleEnv zeroESC sampleMetadata metricsServiceAssetName) =
      Ret (''Service'', ''external-secrets'', ''external-secrets-metrics'')"
    by code_simp
  from services_applied [OF sampleEnv_ok sampleState_ok(1) dec dist run] obtain d f where
    "serviceObject sampleEnv zeroESC sampleMetadata metricsServiceAssetName = Ret d"
    "memLookup (rs_kube (snd (createOrApplyServices sampleEnv zeroESC sampleMetadata False sampleState))) (objid d) = Some f"
    using sampleState_new by blast
  with id show ?thesis by auto
qed

text \<open>
  C19. Data owned by other controllers is never overwritten. Whatever the outcome of
  \<^verbatim>\<open>createOrApplySecret\<close> (the webhook's TLS secret, filled by the cert-controller) and of
  \<^verbatim>\<open>ensureTrustedCABundleConfigMap\<close> (filled by the cluster network operator), every object that was
  on the server is still there and is unchanged outside its metadata.
\<close>

theorem foreign_data_untouched:
  assumes "operator_env env objs ok" and "ok (rs_kube s)" and "objs (rs_kube s) i = Some o1"
    and "s' = snd (createOrApplySecret env esc md recon s) \<or> s' = snd (ensureTrustedCABundleConfigMap env esc md s)"
  shows "\<exists>o2. objs (rs_kube s') i = Some o2 \<and> payload o2 = payload o1"
proof -
  note kept = operator_env.Eventf_kept [OF assms(1)] operator_env.eventIf_kept [OF assms(1)] operator_env.lift_kept [OF assms(1)]
    operator_env.readState_kept [OF assms(1)] operator_env.Exists_kept [OF assms(1)] operator_env.patch_kept [OF assms(1)]
    operator_env.payloadKept_refl [OF assms(1)] operator_env.payloadKept_trans [OF assms(1)]
  have fallback: "keeps (operator_env.payloadKept objs ok) (createWithMetadataFallback env d md n)" for d n
    unfolding createWithMetadataFallback_def Let_def
    by (rule operator_env.tryCreate_kept [OF assms(1)]) (auto intro!: kept keeps_guard keeps_andThen keeps_onErr keeps_gerr)
  have "keeps (operator_env.payloadKept objs ok) (createOrApplySecret env esc md recon)"
    unfolding createOrApplySecret_def Let_def
    by (auto intro!: kept fallback keeps_andThen keeps_onErr keeps_gerr keeps_gret split: option.splits)
  moreover have "keeps (operator_env.payloadKept objs ok) (ensureTrustedCABundleConfigMap env esc md)"
    unfolding ensureTrustedCABundleConfigMap_def Let_def
    by (auto intro!: kept operator_env.tryCreate_kept [OF assms(1)] keeps_guard keeps_andThen keeps_onErr keeps_gerr keeps_gret split: option.splits)
  ultimately have "operator_env.payloadKept objs ok s s'"
    using assms(4) by (auto simp: keeps_def)
  with assms(2,3) show ?thesis by (simp add: operator_env.payloadKept_def [OF assms(1)] del: split_paired_All)
qed

theorem foreign_data_untouched_witness:
  "\<exists>o2. memLookup (rs_kube (snd (createOrApplySecret sampleEnv zeroESC sampleMetadata False
      (sampleState\<lparr>rs_kube := emptyServer\<lparr>mem_objects := [((''Secret'', ''external-secrets'', ''external-secrets-webhook''),
         KSecret \<lparr>sec_Meta = zeroMeta\<lparr>om_Name := ''external-secrets-webhook'', om_Namespace := ''external-secrets''\<rparr>, sec_Data = JStr ''tls''\<rparr>)]\<rparr>\<rparr>))))
     (''Secret'', ''external-secrets'', ''external-secrets-webhook'') = Some o2 \<and>
   payload o2 = KSecret \<lparr>sec_Meta = zeroMeta, sec_Data = JStr ''tls''\<rparr>"
proof -
  let ?i = "(''Secret'', ''external-secrets'', ''external-secrets-webhook'')"
  let ?o = "KSecret \<lparr>sec_Meta = zeroMeta\<lparr>om_Name := ''external-secrets-webhook'', om_Namespace := ''external-secrets''\<rparr>, sec_Data = JStr ''tls''\<rparr>"
  let ?s = "sampleState\<lparr>rs_kube := emptyServer\<lparr>mem_objects := [(?i, ?o)]\<rparr>\<rparr>"
  have wf: "memWf (rs_kube ?s)" by (simp add: memWf_def objid_def objectKey_def)
  have "memLookup (rs_kube ?s) ?i = Some ?o" by (simp add: memLookup_def)
  from foreign_data_untouched [OF sampleEnv_ok wf this, of _ zeroESC sampleMetadata False]
  show ?thesis by (simp add: payload_def)
qed

text \<open>
  The outcome of the issuer check, completely. An unsupported issuer kind is a user configuration
  error and leaves the cluster alone. Otherwise, when the issuer is there the check passes; when the
  server answers NotFound the error is a user configuration error of the not-found class (so that
  reconciliation is requeued); any other error of the lookup is classified as a client error.
\<close>

theorem issuer_check_outcome:
  "(if iref_Kind ref \<noteq> ''ClusterIssuer'' \<and> iref_Kind ref \<noteq> ''Issuer''
    then (\<exists>e. assertIssuerRefExists env ref ns s = (Err e, s) \<and> IsUserConfigurationError (Some e) \<and> \<not> IsUserConfigurationNotFound (Some e))
    else (case Exists (e_Uncached env) (iref_Kind ref) (ns, iref_Name ref) (rs_kube s) of
        (Ret (Some _), k) \<Rightarrow> assertIssuerRefExists env ref ns s = (Ret (), s\<lparr>rs_kube := k\<rparr>)
      | (Ret None, k) \<Rightarrow> (\<exists>e. assertIssuerRefExists env ref ns s = (Err e, s\<lparr>rs_kube := k\<rparr>) \<and> IsUserConfigurationNotFound (Some e))
      | (Err e0, k) \<Rightarrow> (errorsIs e0 errUnsupportedIssuerKind \<or>
          (\<exists>e. assertIssuerRefExists env ref ns s = (Err e, s\<lparr>rs_kube := k\<rparr>) \<and> \<not> IsUserConfigurationError (Some e) \<and>
             IsRetryRequiredError (Some e) = (\<not> (IsUnauthorized e0 \<or> IsForbidden e0 \<or> IsInvalid e0 \<or> IsBadRequest e0))))
      | (Panic p, k) \<Rightarrow> assertIssuerRefExists env ref ns s = (Panic p, s\<lparr>rs_kube := k\<rparr>)))"
proof -
  have nf: "IsNotFound (issuerNotFoundError ref)"
    by (simp add: issuerNotFoundError_def Let_def api_error_defs split: prod.splits)
  show ?thesis
    using nf
    by (auto simp: assertIssuerRefExists_def getIssuer_def Let_def andThen_def onErr_def onKube_def clusterIssuerKind_def issuerKind_def
        userConfigErr_def fromClientErr_cases api_error_defs errUnsupportedIssuerKind_def split: prod.splits result.splits option.splits)
qed

text \<open>
  Rebasing DNS names on the operand namespace. The second label of every name with at least two
  labels becomes the namespace, every other label and the number of names stay, names of a single
  label stay, and rebasing is idempotent.
\<close>

theorem fqdn_rebased:
  assumes "CHR ''.'' \<notin> set namespace"
  shows "length (updateNamespaceForFQDN fqdns namespace) = length fqdns \<and>
    (\<forall>i<length fqdns. let old = splitChar (CHR ''.'') (fqdns ! i);
         new = splitChar (CHR ''.'') (updateNamespaceForFQDN fqdns namespace ! i) in
       length new = length old \<and> (\<forall>j<length old. new ! j = (if j = 1 then namespace else old ! j))) \<and>
    updateNamespaceForFQDN (updateNamespaceForFQDN fqdns namespace) namespace = updateNamespaceForFQDN fqdns namespace"
proof -
  have split: "splitChar (CHR ''.'') (joinWith ''.'' ((splitChar (CHR ''.'') f)[1 := namespace])) =
      (splitChar (CHR ''.'') f)[1 := namespace]" for f
  proof (rule split_joinWith)
    fix w assume "w \<in> set ((splitChar (CHR ''.'') f)[1 := namespace])"
    then have "w \<in> insert namespace (set (splitChar (CHR ''.'') f))"
      by (rule subsetD [OF set_update_subset_insert])
    then show "CHR ''.'' \<notin> set w" using assms splitChar_no_sep_in by blast
  qed simp
  define rebase where "rebase = (\<lambda>fqdn. let parts = splitChar (CHR ''.'') fqdn in
      if length parts \<ge> 2 then joinWith ''.'' (parts[1 := namespace]) else fqdn)"
  have map: "updateNamespaceForFQDN fs namespace = map rebase fs" for fs
    by (simp add: updateNamespaceForFQDN_def rebase_def)
  have parts: "splitChar (CHR ''.'') (rebase f) = (splitChar (CHR ''.'') f)[1 := namespace]" for f
  proof (cases "length (splitChar (CHR ''.'') f) \<ge> 2")
    case True
    with split [of f] show ?thesis by (simp only: rebase_def Let_def if_True)
  next
    case False
    then show ?thesis by (simp add: rebase_def Let_def list_update_beyond)
  qed
  have twice: "rebase (rebase f) = rebase f" for f
  proof (cases "length (splitChar (CHR ''.'') f) \<ge> 2")
    case True
    then have "rebase (rebase f) = joinWith ''.'' ((splitChar (CHR ''.'') f)[1 := namespace])"
      using parts [of f] by (subst (1) rebase_def) (simp add: Let_def)
    with True show ?thesis by (simp add: rebase_def Let_def)
  next
    case False
    then show ?thesis by (simp add: rebase_def Let_def)
  qed
  show ?thesis unfolding map using twice by (simp add: parts Let_def nth_list_update)
qed

theorem fqdn_rebased_witness:
  "length (splitChar (CHR ''.'') (hd (updateNamespaceForFQDN [''webhook.old.svc''] ''external-secrets''))) = 3 \<and>
   splitChar (CHR ''.'') (hd (updateNamespaceForFQDN [''webhook.old.svc''] ''external-secrets'')) ! 1 = ''external-secrets''"
proof -
  have "CHR ''.'' \<notin> set ''external-secrets''" by simp
  from fqdn_rebased [OF this, of "[''webhook.old.svc'']"] show ?thesis
    by (simp add: Let_def hd_conv_nth flip: length_0_conv)
qed

end
