(* ===== verification/Operand_Args.thy ===== *)
theory Operand_Args
  imports Reconcile_Errors
begin

section \<open>Container arguments: \<^verbatim>\<open>pkg/controller/external_secrets/deployments.go\<close>\<close>

text \<open>
  The parser of the \<^verbatim>\<open>OPERAND_*_ARGS\<close> environment variables and the merge of argument lists. The
  separator is the regular expression \<^verbatim>\<open>,+\s*--\<close>: a run of commas, white space, two dashes. A
  match can only start at a comma, is determined by it (commas, then white space, then the dashes
  are disjoint), and starts at the first comma of a run, so the leftmost-first search of Go is the
  left-to-right scan below.
\<close>

subsection \<open>Flags\<close>

definition argFlagKey :: "string \<Rightarrow> string" where
  "argFlagKey arg =
     (if \<not> prefix ''--'' arg then ''''
      else if CHR ''='' \<in> set arg then takeWhile (\<lambda>c. c \<noteq> CHR ''='') arg
      else arg)"

subsection \<open>Parsing\<close>

text \<open>\<open>\s\<close> of Go's regular expressions.\<close>

definition reSpace :: "char \<Rightarrow> bool" where
  "reSpace c = (c \<in> {CHR 0x09, CHR 0x0A, CHR 0x0C, CHR 0x0D, CHR 0x20})"

text \<open>A separator at the head of the string: what follows it.\<close>

definition matchSeparator :: "string \<Rightarrow> string option" where
  "matchSeparator s =
     (case s of
        [] \<Rightarrow> None
      | c # _ \<Rightarrow>
          if c \<noteq> CHR '','' then None
          else (let rest = dropWhile reSpace (dropWhile (\<lambda>c. c = CHR '','') s) in
                if prefix ''--'' rest then Some (drop 2 rest) else None))"

lemma matchSeparator_shorter: "matchSeparator s = Some r \<Longrightarrow> length r < length s"
proof -
  assume a: "matchSeparator s = Some r"
  then obtain c cs where s: "s = c # cs" by (cases s) (auto simp: matchSeparator_def)
  let ?rest = "dropWhile reSpace (dropWhile (\<lambda>c. c = CHR '','') s)"
  have "length ?rest \<le> length (dropWhile (\<lambda>c. c = CHR '','') s)" by (rule length_dropWhile_le)
  also have "\<dots> \<le> length s" by (rule length_dropWhile_le)
  finally have "length ?rest \<le> length s" .
  with a s show ?thesis by (auto simp: matchSeparator_def Let_def split: if_splits)
qed

text \<open>\<open>operandArgsEnvSeparator.Split(raw, -1)\<close>\<close>

function splitSeparator :: "string \<Rightarrow> string list" where
  "splitSeparator s =
     (case matchSeparator s of
        Some rest \<Rightarrow> [] # splitSeparator rest
      | None \<Rightarrow> (case s of
           [] \<Rightarrow> [[]]
         | c # cs \<Rightarrow> (case splitSeparator cs of [] \<Rightarrow> [[c]] | w # ws \<Rightarrow> (c # w) # ws)))"
  by pat_completeness auto
termination
  by (relation "measure length") (auto dest: matchSeparator_shorter)

declare splitSeparator.simps [simp del]

definition invalidArg :: "string \<Rightarrow> string \<Rightarrow> goerr" where
  "invalidArg part msg = userConfigErr (PlainErr (''argument '' @ quoted part @ msg)) ''invalid custom arg override''"

text \<open>The body of the loop for one part: skipped (\<open>None\<close>), an argument or an error.\<close>

definition parseArgPart :: "string \<Rightarrow> goerr + string option" where
  "parseArgPart part0 =
     (let part = trimSpace (trimRightComma (trimSpace part0)) in
      if part = '''' then Inr None
      else if \<not> prefix ''--'' part \<or> part = ''--'' then Inl (invalidArg part '' must start with --'')
      else
        (let part' = (if CHR ''='' \<notin> set part \<and> CHR '','' \<in> set part
                      then trimSpace (takeWhile (\<lambda>c. c \<noteq> CHR '','') part) else part) in
         if part' = ''--'' then Inl (invalidArg part' '' must start with --'')
         else if argFlagKey part' = ''--'' then Inl (invalidArg part' '' must include a flag name after --'')
         else Inr (Some part')))"

fun parseArgParts :: "string list \<Rightarrow> goerr + string list" where
  "parseArgParts [] = Inr []"
| "parseArgParts (p # ps) =
     (case parseArgPart p of
        Inl e \<Rightarrow> Inl e
      | Inr a \<Rightarrow> (case parseArgParts ps of
           Inl e \<Rightarrow> Inl e
         | Inr as \<Rightarrow> Inr (case a of None \<Rightarrow> as | Some x \<Rightarrow> x # as)))"

definition parseOperandArgsEnv :: "string \<Rightarrow> goerr + string list" where
  "parseOperandArgsEnv raw0 =
     (let raw = trimSpace raw0 in
      if raw = '''' then Inr []
      else (case splitSeparator raw of
              [] \<Rightarrow> Inr []
            | p # ps \<Rightarrow> parseArgParts (p # map (\<lambda>q. ''--'' @ q) ps)))"

subsection \<open>Merging\<close>

text \<open>\<open>for i, arg := range base { if key := argFlagKey(arg); key != "" { keyIndex[key] = i } }\<close>\<close>

fun indexFlags :: "nat \<Rightarrow> string list \<Rightarrow> (string \<rightharpoonup> nat) \<Rightarrow> (string \<rightharpoonup> nat)" where
  "indexFlags i [] m = m"
| "indexFlags i (arg # args) m =
     indexFlags (Suc i) args (if argFlagKey arg \<noteq> '''' then m(argFlagKey arg \<mapsto> i) else m)"

fun mergeArg :: "(string \<rightharpoonup> nat) \<times> string list \<Rightarrow> string \<Rightarrow> (string \<rightharpoonup> nat) \<times> string list" where
  "mergeArg (keyIndex, result) override =
     (let key = argFlagKey override in
      if key = '''' then (keyIndex, result)
      else (case keyIndex key of
              Some idx \<Rightarrow> (keyIndex, result[idx := override])
            | None \<Rightarrow> (keyIndex(key \<mapsto> length result), result @ [override])))"

definition mergeArgs :: "string list \<Rightarrow> string list \<Rightarrow> string list" where
  "mergeArgs base overrides = snd (foldl mergeArg (indexFlags 0 base (\<lambda>_. None), base) overrides)"

text \<open>On slices: an empty override list returns \<open>base\<close> itself; a clone of nil to which nothing is
  appended stays nil.\<close>

definition mergeContainerArgs :: "string slice \<Rightarrow> string slice \<Rightarrow> string slice" where
  "mergeContainerArgs base overrides =
     (if elems overrides = [] then base
      else (let result = mergeArgs (elems base) (elems overrides) in
            if base = None \<and> result = [] then None else Some result))"

section \<open>Lemmas\<close>

subsection \<open>Merging\<close>

lemma lastByKey_append:
  fixes key :: "'b \<Rightarrow> string"
  shows "lastByKey key (xs @ ys) k = (case lastByKey key ys k of Some y \<Rightarrow> Some y | None \<Rightarrow> lastByKey key xs k)"
proof -
  have "find P (us @ vs) = (case find P us of Some y \<Rightarrow> Some y | None \<Rightarrow> find P vs)" for P and us vs :: "'b list"
    by (induction us) auto
  then show ?thesis by (simp add: lastByKey_def split: option.split)
qed

lemma lastByKey_Cons:
  "lastByKey key (x # xs) k =
     (case lastByKey key xs k of Some y \<Rightarrow> Some y | None \<Rightarrow> if key x = k then Some x else None)"
  using lastByKey_append [of key "[x]" xs k] by (simp add: lastByKey_def split: option.splits)

lemma lastByKey_single [simp]: "lastByKey key [x] k = (if key x = k then Some x else None)"
  by (simp add: lastByKey_def)

lemma lastByKey_Nil [simp]: "lastByKey key [] k = None"
  by (simp add: lastByKey_def)

lemma lastByKey_None: "lastByKey key xs k = None \<longleftrightarrow> (\<forall>x\<in>set xs. key x \<noteq> k)"
  by (auto simp: lastByKey_def find_None_iff)

text \<open>The index points at the last argument with each flag.\<close>

definition indexOk :: "(string \<rightharpoonup> nat) \<Rightarrow> string list \<Rightarrow> bool" where
  "indexOk m args \<longleftrightarrow>
     (\<forall>k i. m k = Some i \<longrightarrow> i < length args \<and> argFlagKey (args ! i) = k \<and> k \<noteq> '''' \<and>
        (\<forall>j. i < j \<and> j < length args \<longrightarrow> argFlagKey (args ! j) \<noteq> k)) \<and>
     (\<forall>a\<in>set args. argFlagKey a \<noteq> '''' \<longrightarrow> m (argFlagKey a) \<noteq> None)"

lemma indexOk_snoc:
  assumes "indexOk m args"
  shows "indexOk (if argFlagKey a \<noteq> '''' then m(argFlagKey a \<mapsto> length args) else m) (args @ [a])"
  using assms unfolding indexOk_def
  by (auto simp: nth_append less_Suc_eq split: if_splits)

lemma indexOk_indexFlags:
  "indexOk m pre \<Longrightarrow> indexOk (indexFlags (length pre) args m) (pre @ args)"
proof (induction args arbitrary: m pre)
  case (Cons a args)
  have "indexOk (indexFlags (length (pre @ [a])) args (if argFlagKey a \<noteq> '''' then m(argFlagKey a \<mapsto> length pre) else m)) ((pre @ [a]) @ args)"
    by (rule Cons.IH) (rule indexOk_snoc [OF Cons.prems])
  then show ?case by simp
qed simp

lemma lastByKey_update_last:
  assumes "i < length xs" and "key (xs ! i) = k0" and "key y = k0"
    and "\<And>j. i < j \<Longrightarrow> j < length xs \<Longrightarrow> key (xs ! j) \<noteq> k0"
  shows "lastByKey key (xs[i := y]) k = (if k = k0 then Some y else lastByKey key xs k)"
proof -
  have later: "lastByKey key (drop (Suc i) xs) k0 = None"
    unfolding lastByKey_None
  proof
    fix x assume "x \<in> set (drop (Suc i) xs)"
    then obtain d where "d < length xs - Suc i" "x = xs ! (Suc i + d)"
      by (auto simp: in_set_conv_nth)
    then show "key x \<noteq> k0" using assms(4) [of "Suc i + d"] by simp
  qed
  have xs: "xs = take i xs @ xs ! i # drop (Suc i) xs" using assms(1) by (rule id_take_nth_drop)
  have "lastByKey key (xs[i := y]) k = lastByKey key (take i xs @ [y] @ drop (Suc i) xs) k"
    using assms(1) by (simp add: upd_conv_take_nth_drop)
  moreover have "lastByKey key xs k = lastByKey key (take i xs @ [xs ! i] @ drop (Suc i) xs) k"
    using xs by simp
  ultimately show ?thesis
    using later assms(2,3) by (auto simp: lastByKey_append lastByKey_Cons split: option.splits)
qed

text \<open>One override, on a well-indexed list.\<close>

lemma mergeArg_step:
  assumes ok: "indexOk m args" and eq: "mergeArg (m, args) ov = (m', args')"
  shows "indexOk m' args'"
    and "k \<noteq> '''' \<Longrightarrow> lastByKey argFlagKey args' k = (if argFlagKey ov = k then Some ov else lastByKey argFlagKey args k)"
    and "\<exists>app. map argFlagKey args' = map argFlagKey args @ app \<and> (\<forall>k\<in>set app. k \<noteq> '''')"
    and "filter (\<lambda>a. argFlagKey a = '''') args' = filter (\<lambda>a. argFlagKey a = '''') args"
proof -
  let ?key = "argFlagKey ov"
  consider (skip) "?key = ''''" | (upd) idx where "?key \<noteq> ''''" "m ?key = Some idx" | (app) "?key \<noteq> ''''" "m ?key = None"
    by (cases "m ?key") auto
  then have all: "indexOk m' args' \<and>
      (k \<noteq> '''' \<longrightarrow> lastByKey argFlagKey args' k = (if argFlagKey ov = k then Some ov else lastByKey argFlagKey args k)) \<and>
      (\<exists>app. map argFlagKey args' = map argFlagKey args @ app \<and> (\<forall>k\<in>set app. k \<noteq> '''')) \<and>
      filter (\<lambda>a. argFlagKey a = '''') args' = filter (\<lambda>a. argFlagKey a = '''') args"
  proof cases
    case skip
    with eq ok show ?thesis by auto
  next
    case (upd idx)
    then have m': "m' = m" "args' = args[idx := ov]" using eq by (auto simp: Let_def)
    have idx: "idx < length args" "argFlagKey (args ! idx) = ?key"
      "\<And>j. idx < j \<Longrightarrow> j < length args \<Longrightarrow> argFlagKey (args ! j) \<noteq> ?key"
      using ok upd(2) by (auto simp: indexOk_def)
    have keys: "map argFlagKey args' = map argFlagKey args"
      using idx(1,2) by (simp add: m' map_update list_update_same_conv)
    have nth: "argFlagKey (args' ! j) = argFlagKey (args ! j)" if "j < length args" for j
      using keys that by (metis length_map nth_map)
    have "indexOk m' args'"
      using ok unfolding indexOk_def m'(1)
    proof (intro conjI allI impI ballI; elim conjE)
      fix a assume a: "a \<in> set args'" "argFlagKey a \<noteq> ''''"
        and all: "\<forall>a\<in>set args. argFlagKey a \<noteq> '''' \<longrightarrow> m (argFlagKey a) \<noteq> None"
      from a(1) have "argFlagKey a \<in> set (map argFlagKey args)" using keys by (metis list.set_map imageI)
      with all a(2) show "m (argFlagKey a) \<noteq> None" by auto
    qed (use nth keys in \<open>auto simp: m'(2)\<close>)
    moreover have "filter (\<lambda>a. argFlagKey a = '''') args' = filter (\<lambda>a. argFlagKey a = '''') args"
      using idx(1,2) upd(1) unfolding m'(2)
      by (subst (2) id_take_nth_drop [OF idx(1)]) (simp add: upd_conv_take_nth_drop)
    ultimately show ?thesis
      using lastByKey_update_last [OF idx(1,2) refl idx(3), of k] keys by (auto simp: m'(2))
  next
    case app
    then have m': "m' = m(?key \<mapsto> length args)" "args' = args @ [ov]" using eq by (auto simp: Let_def)
    have "indexOk m' args'" using indexOk_snoc [OF ok, of ov] app(1) by (simp add: m')
    moreover have "map argFlagKey args' = map argFlagKey args @ [?key]" by (simp add: m'(2))
    ultimately show ?thesis
      using app(1) by (auto simp: m'(2) lastByKey_append)
  qed
  then show "indexOk m' args'"
    and "k \<noteq> '''' \<Longrightarrow> lastByKey argFlagKey args' k = (if argFlagKey ov = k then Some ov else lastByKey argFlagKey args k)"
    and "\<exists>app. map argFlagKey args' = map argFlagKey args @ app \<and> (\<forall>k\<in>set app. k \<noteq> '''')"
    and "filter (\<lambda>a. argFlagKey a = '''') args' = filter (\<lambda>a. argFlagKey a = '''') args"
    by blast+
qed

lemma mergeArg_fold:
  assumes "indexOk m args" and "foldl mergeArg (m, args) ovs = (m', args')"
  shows "indexOk m' args'"
    and "k \<noteq> '''' \<Longrightarrow> lastByKey argFlagKey args' k =
       (case lastByKey argFlagKey ovs k of Some v \<Rightarrow> Some v | None \<Rightarrow> lastByKey argFlagKey args k)"
    and "\<exists>app. map argFlagKey args' = map argFlagKey args @ app \<and> (\<forall>k\<in>set app. k \<noteq> '''')"
    and "filter (\<lambda>a. argFlagKey a = '''') args' = filter (\<lambda>a. argFlagKey a = '''') args"
proof -
  have "indexOk m' args' \<and>
      (k \<noteq> '''' \<longrightarrow> lastByKey argFlagKey args' k =
         (case lastByKey argFlagKey ovs k of Some v \<Rightarrow> Some v | None \<Rightarrow> lastByKey argFlagKey args k)) \<and>
      (\<exists>app. map argFlagKey args' = map argFlagKey args @ app \<and> (\<forall>k\<in>set app. k \<noteq> '''')) \<and>
      filter (\<lambda>a. argFlagKey a = '''') args' = filter (\<lambda>a. argFlagKey a = '''') args"
    using assms
  proof (induction ovs arbitrary: m args)
    case (Cons ov ovs)
    obtain m1 args1 where one: "mergeArg (m, args) ov = (m1, args1)" by fastforce
    note step = mergeArg_step [OF Cons.prems(1) one]
    have rest: "foldl mergeArg (m1, args1) ovs = (m', args')" using Cons.prems(2) one by simp
    note IH = Cons.IH [OF step(1) rest]
    have "lastByKey argFlagKey (ov # ovs) k = (case lastByKey argFlagKey ovs k of
        Some v \<Rightarrow> Some v | None \<Rightarrow> if argFlagKey ov = k then Some ov else None)"
      by (rule lastByKey_Cons)
    with IH step(2) have "k \<noteq> '''' \<longrightarrow> lastByKey argFlagKey args' k =
        (case lastByKey argFlagKey (ov # ovs) k of Some v \<Rightarrow> Some v | None \<Rightarrow> lastByKey argFlagKey args k)"
      by (auto split: option.splits)
    moreover have "\<exists>app. map argFlagKey args' = map argFlagKey args @ app \<and> (\<forall>k\<in>set app. k \<noteq> '''')"
    proof -
      obtain a1 a2 where "map argFlagKey args1 = map argFlagKey args @ a1" "\<forall>k\<in>set a1. k \<noteq> ''''"
        "map argFlagKey args' = map argFlagKey args1 @ a2" "\<forall>k\<in>set a2. k \<noteq> ''''"
        using IH step(3) by blast
      then show ?thesis by (intro exI [of _ "a1 @ a2"]) auto
    qed
    ultimately show ?case using IH step(4) by simp
  qed simp
  then show "indexOk m' args'"
    and "k \<noteq> '''' \<Longrightarrow> lastByKey argFlagKey args' k =
       (case lastByKey argFlagKey ovs k of Some v \<Rightarrow> Some v | None \<Rightarrow> lastByKey argFlagKey args k)"
    and "\<exists>app. map argFlagKey args' = map argFlagKey args @ app \<and> (\<forall>k\<in>set app. k \<noteq> '''')"
    and "filter (\<lambda>a. argFlagKey a = '''') args' = filter (\<lambda>a. argFlagKey a = '''') args"
    by blast+
qed

lemma indexOk_base: "indexOk (indexFlags 0 base (\<lambda>_. None)) base"
  using indexOk_indexFlags [of "\<lambda>_. None" "[]" base] by (simp add: indexOk_def)

lemma mergeArgs_laws:
  shows "k \<noteq> '''' \<Longrightarrow> lastByKey argFlagKey (mergeArgs base ovs) k =
       (case lastByKey argFlagKey ovs k of Some v \<Rightarrow> Some v | None \<Rightarrow> lastByKey argFlagKey base k)"
    and "take (length base) (map argFlagKey (mergeArgs base ovs)) = map argFlagKey base"
    and "filter (\<lambda>a. argFlagKey a = '''') (mergeArgs base ovs) = filter (\<lambda>a. argFlagKey a = '''') base"
proof -
  obtain m' args' where f: "foldl mergeArg (indexFlags 0 base (\<lambda>_. None), base) ovs = (m', args')"
    by fastforce
  note laws = mergeArg_fold [OF indexOk_base f]
  show "k \<noteq> '''' \<Longrightarrow> lastByKey argFlagKey (mergeArgs base ovs) k =
       (case lastByKey argFlagKey ovs k of Some v \<Rightarrow> Some v | None \<Rightarrow> lastByKey argFlagKey base k)"
    using laws(2) by (simp add: mergeArgs_def f)
  show "take (length base) (map argFlagKey (mergeArgs base ovs)) = map argFlagKey base"
    using laws(3) by (auto simp: mergeArgs_def f)
  show "filter (\<lambda>a. argFlagKey a = '''') (mergeArgs base ovs) = filter (\<lambda>a. argFlagKey a = '''') base"
    using laws(4) by (simp add: mergeArgs_def f)
qed

subsection \<open>Trimming\<close>

text \<open>Trimming removes a prefix and a suffix; it does not touch a string that starts and ends with
  no white space.\<close>

lemma stripAny_drop: "\<exists>n. stripAny encs s = drop n s"
proof (induction encs s rule: stripAny.induct)
  case (1 encs s)
  show ?case
  proof (cases "find (\<lambda>p. p \<noteq> [] \<and> prefix p s) encs")
    case None
    then show ?thesis by (subst stripAny.simps) (auto intro: exI [of _ 0])
  next
    case (Some p)
    with 1 obtain n where "stripAny encs (drop (length p) s) = drop n (drop (length p) s)" by blast
    with Some show ?thesis by (subst stripAny.simps) auto
  qed
qed

lemma stripAny_id: "(\<And>p. p \<in> set encs \<Longrightarrow> p \<noteq> [] \<Longrightarrow> \<not> prefix p s) \<Longrightarrow> stripAny encs s = s"
proof -
  assume "\<And>p. p \<in> set encs \<Longrightarrow> p \<noteq> [] \<Longrightarrow> \<not> prefix p s"
  then have "find (\<lambda>p. p \<noteq> [] \<and> prefix p s) encs = None" by (auto simp: find_None_iff)
  then show ?thesis by (subst stripAny.simps) simp
qed

lemma trimSpace_take:
  assumes "\<And>p. p \<in> set spaceEncodings \<Longrightarrow> \<not> prefix p s"
  shows "\<exists>n. trimSpace s = take n s"
proof -
  have "stripAny spaceEncodings s = s" using assms by (intro stripAny_id) auto
  moreover obtain n where "stripAny (map rev spaceEncodings) (rev s) = drop n (rev s)"
    using stripAny_drop by blast
  ultimately show ?thesis by (auto simp: trimSpace_def rev_drop)
qed

lemma trimSpace_id:
  assumes "\<And>p. p \<in> set spaceEncodings \<Longrightarrow> \<not> prefix p s \<and> \<not> suffix p s"
  shows "trimSpace s = s"
proof -
  have "stripAny (map rev spaceEncodings) (rev s) = rev s"
    using assms by (intro stripAny_id) (auto simp: suffix_to_prefix)
  moreover have "stripAny spaceEncodings s = s" using assms by (intro stripAny_id) auto
  ultimately show ?thesis by (simp add: trimSpace_def)
qed

text \<open>White space has no dashes, so trimming keeps a leading \<^verbatim>\<open>--\<close>.\<close>

lemma stripAny_keeps_end:
  assumes "\<And>p. p \<in> set encs \<Longrightarrow> CHR ''-'' \<notin> set p"
  shows "\<exists>v. stripAny encs (u @ ''--'') = v @ ''--''"
proof (induction "length u" arbitrary: u rule: less_induct)
  case less
  show ?case
  proof (cases "find (\<lambda>p. p \<noteq> [] \<and> prefix p (u @ ''--'')) encs")
    case None
    then show ?thesis by (subst stripAny.simps) auto
  next
    case (Some p)
    then have p: "p \<in> set encs" "p \<noteq> []" "prefix p (u @ ''--'')"
      by (auto simp: find_Some_iff)
    have "prefix p u"
      using p(3) assms [OF p(1)] by (auto simp: prefix_append prefix_Cons split: if_splits)
    then obtain w where u: "u = p @ w" by (auto simp: prefix_def)
    with p(2) less [of w] have "\<exists>v. stripAny encs (w @ ''--'') = v @ ''--''" by simp
    with Some u show ?thesis by (subst stripAny.simps) simp
  qed
qed

lemma spaceEncodings_no_dash: "p \<in> set spaceEncodings \<Longrightarrow> CHR ''-'' \<notin> set p \<and> \<not> prefix p (CHR ''-'' # s)"
  by (auto simp: spaceEncodings_def)

lemma trimSpace_keeps_dashes: "\<exists>v. trimSpace (''--'' @ s) = ''--'' @ v"
proof -
  have "stripAny spaceEncodings (''--'' @ s) = ''--'' @ s"
    using spaceEncodings_no_dash by (intro stripAny_id) auto
  moreover obtain v where "stripAny (map rev spaceEncodings) (rev s @ ''--'') = v @ ''--''"
    using stripAny_keeps_end [of "map rev spaceEncodings"] spaceEncodings_no_dash by fastforce
  ultimately show ?thesis by (auto simp: trimSpace_def intro: exI [of _ "rev v"])
qed

subsection \<open>Parsing\<close>

lemma argFlagKey_dashes: "prefix ''--'' a \<Longrightarrow> prefix ''--'' (argFlagKey a)"
  by (auto simp: argFlagKey_def prefix_def)

lemma parseArgPart_sound:
  assumes "parseArgPart p = Inr (Some a)"
  shows "prefix ''--'' a \<and> prefix ''--'' (argFlagKey a) \<and> argFlagKey a \<noteq> ''--''"
proof -
  define part where "part = trimSpace (trimRightComma (trimSpace p))"
  note part = assms [unfolded parseArgPart_def Let_def part_def [symmetric]]
  have dashes: "prefix ''--'' part" using part by (auto split: if_splits)
  then obtain t where "part = ''--'' @ t" by (auto simp: prefix_def)
  then have "takeWhile (\<lambda>c. c \<noteq> CHR '','') part = ''--'' @ takeWhile (\<lambda>c. c \<noteq> CHR '','') t" by simp
  then have "prefix ''--'' (trimSpace (takeWhile (\<lambda>c. c \<noteq> CHR '','') part))"
    using trimSpace_keeps_dashes by (metis prefix_def)
  with part dashes have "prefix ''--'' a" "argFlagKey a \<noteq> ''--''"
    by (auto split: if_splits)
  then show ?thesis using argFlagKey_dashes by blast
qed

lemma parseArgParts_sound:
  "parseArgParts ps = Inr as \<Longrightarrow> a \<in> set as \<Longrightarrow> \<exists>p\<in>set ps. parseArgPart p = Inr (Some a)"
  by (induction ps arbitrary: as) (auto split: sum.splits option.splits)

subsection \<open>Printing and parsing back\<close>

fun sepFree :: "string \<Rightarrow> bool" where
  "sepFree [] = True"
| "sepFree (c # cs) = (matchSeparator (c # cs) = None \<and> sepFree cs)"

text \<open>The arguments that survive being written into the variable: a named flag, no separator
  inside, no trailing comma or white space, and no comma unless the flag has a value.\<close>

definition plainArg :: "string \<Rightarrow> bool" where
  "plainArg a \<longleftrightarrow> prefix ''--'' a \<and> argFlagKey a \<noteq> ''--'' \<and> sepFree a \<and>
     last a \<noteq> CHR '','' \<and> list_all (\<lambda>p. \<not> suffix p a) spaceEncodings \<and>
     (CHR ''='' \<in> set a \<or> CHR '','' \<notin> set a)"

lemma plainArg_dashes:
  assumes "plainArg a"
  obtains b where "a = ''--'' @ b" and "b \<noteq> []" and "last b \<noteq> CHR '',''" and "\<not> reSpace (last b)" and "sepFree b"
proof -
  from assms obtain b where a: "a = ''--'' @ b" by (auto simp: plainArg_def prefix_def)
  have "b \<noteq> []" using assms a by (auto simp: plainArg_def argFlagKey_def)
  moreover have "\<not> reSpace (last b)"
  proof
    assume "reSpace (last b)"
    then have "[last b] \<in> set spaceEncodings" by (auto simp: reSpace_def spaceEncodings_def)
    moreover have "suffix [last b] a" using \<open>b \<noteq> []\<close> a
      by (metis append_butlast_last_id append_assoc suffix_def)
    ultimately show False using assms by (auto simp: plainArg_def list_all_iff)
  qed
  moreover have "last b \<noteq> CHR '',''" "sepFree b" using assms a \<open>b \<noteq> []\<close> by (auto simp: plainArg_def)
  ultimately show ?thesis using that a by blast
qed

lemma dropWhile_append_last:
  "u \<noteq> [] \<Longrightarrow> \<not> P (last u) \<Longrightarrow> dropWhile P (u @ w) = dropWhile P u @ w \<and> dropWhile P u \<noteq> [] \<and> last (dropWhile P u) = last u"
  by (induction u) auto

lemma matchSeparator_append:
  assumes "u \<noteq> []" "last u \<noteq> CHR '',''" "\<not> reSpace (last u)" "matchSeparator u = None"
  shows "matchSeparator (u @ CHR '','' # w) = None"
proof -
  let ?c = "\<lambda>c. c = CHR '',''"
  note d1 = dropWhile_append_last [of u ?c "CHR '','' # w", OF assms(1,2)]
  note d2 = dropWhile_append_last [of "dropWhile ?c u" reSpace "CHR '','' # w"]
  let ?r = "dropWhile reSpace (dropWhile ?c u)"
  have r: "dropWhile reSpace (dropWhile ?c (u @ CHR '','' # w)) = ?r @ CHR '','' # w" "?r \<noteq> []"
    using d1 d2 assms(3) by auto
  then have "prefix ''--'' (?r @ CHR '','' # w) \<longleftrightarrow> prefix ''--'' ?r"
    by (cases ?r rule: list.exhaust; cases "tl ?r") auto
  moreover obtain c cs where "u = c # cs" using assms(1) by (cases u) auto
  ultimately show ?thesis
    using assms(4) r by (auto simp: matchSeparator_def Let_def split: if_splits)
qed

lemma splitSeparator_sepFree: "sepFree u \<Longrightarrow> splitSeparator u = [u]"
proof (induction u)
  case (Cons c cs)
  then show ?case by (subst splitSeparator.simps) simp
qed (subst splitSeparator.simps, simp add: matchSeparator_def)

lemma splitSeparator_append:
  assumes "u \<noteq> []" "last u \<noteq> CHR '',''" "\<not> reSpace (last u)" "sepFree u" "list_all reSpace ws"
  shows "splitSeparator (u @ CHR '','' # ws @ ''--'' @ v) = u # splitSeparator v"
  using assms(1-4)
proof (induction u)
  case (Cons c cs)
  let ?tail = "CHR '','' # ws @ ''--'' @ v"
  have here: "matchSeparator ((c # cs) @ ?tail) = None"
    using Cons.prems by (intro matchSeparator_append) auto
  show ?case
  proof (cases "cs = []")
    case True
    have ws: "dropWhile reSpace (ws @ ''--'' @ v) = ''--'' @ v"
      using assms(5) by (induction ws) (auto simp: reSpace_def)
    have "\<not> prefix '','' (ws @ ''--'' @ v)"
      using assms(5) by (cases ws) (auto simp: reSpace_def)
    then have "dropWhile (\<lambda>c. c = CHR '','') ?tail = ws @ ''--'' @ v"
      by (cases "ws @ ''--'' @ v") auto
    with ws have "matchSeparator ?tail = Some v" by (simp add: matchSeparator_def Let_def)
    then have "splitSeparator ?tail = [] # splitSeparator v" by (subst splitSeparator.simps) simp
    with True here show ?thesis by (subst splitSeparator.simps) simp
  next
    case False
    with Cons have "splitSeparator (cs @ ?tail) = cs # splitSeparator v" by simp
    with here show ?thesis by (subst splitSeparator.simps) simp
  qed
qed simp

text \<open>What the scan leaves of the arguments joined by a comma and white space.\<close>

lemma split_joined:
  assumes "list_all plainArg (a # as)" and "list_all reSpace ws"
  shows "splitSeparator (joinWith (CHR '','' # ws) (a # as)) = a # map (drop 2) as"
    and "\<exists>b. a = ''--'' @ b \<and> splitSeparator (b @ concat (map (\<lambda>x. CHR '','' # ws @ x) as)) = b # map (drop 2) as"
proof -
  have join: "joinWith (CHR '','' # ws) (a # as) = a @ concat (map (\<lambda>x. CHR '','' # ws @ x) as)" for a as
    by (induction as arbitrary: a) auto
  have "splitSeparator (u @ concat (map (\<lambda>x. CHR '','' # ws @ x) as)) = u # map (drop 2) as"
    if "list_all plainArg as" "u \<noteq> []" "last u \<noteq> CHR '',''" "\<not> reSpace (last u)" "sepFree u" for u as
    using that
  proof (induction as arbitrary: u)
    case (Cons x xs)
    then obtain b where b: "x = ''--'' @ b" "b \<noteq> []" "last b \<noteq> CHR '',''" "\<not> reSpace (last b)" "sepFree b"
      by (auto elim: plainArg_dashes)
    have "splitSeparator (u @ CHR '','' # ws @ ''--'' @ (b @ concat (map (\<lambda>x. CHR '','' # ws @ x) xs))) =
        u # splitSeparator (b @ concat (map (\<lambda>x. CHR '','' # ws @ x) xs))"
      using Cons.prems assms(2) by (intro splitSeparator_append) auto
    with Cons.IH [of b] Cons.prems(1) b show ?case by simp
  qed (simp add: splitSeparator_sepFree)
  note scan = this
  from assms(1) obtain b where b: "a = ''--'' @ b" "b \<noteq> []" "last b \<noteq> CHR '',''" "\<not> reSpace (last b)" "sepFree b"
    by (auto elim: plainArg_dashes)
  moreover have "sepFree a" using assms(1) by (simp add: plainArg_def)
  ultimately show "splitSeparator (joinWith (CHR '','' # ws) (a # as)) = a # map (drop 2) as"
    using scan [of as a] assms(1) by (simp add: join)
  show "\<exists>b. a = ''--'' @ b \<and> splitSeparator (b @ concat (map (\<lambda>x. CHR '','' # ws @ x) as)) = b # map (drop 2) as"
    using scan [of as b] b assms(1) by auto
qed

lemma plainArg_trim:
  assumes "plainArg a"
  shows "trimSpace a = a" and "trimRightComma a = a" and "a \<noteq> []"
proof -
  obtain b where b: "a = ''--'' @ b" using plainArg_dashes [OF assms] by blast
  show "trimSpace a = a"
    using assms spaceEncodings_no_dash b
    by (intro trimSpace_id) (auto simp: plainArg_def list_all_iff)
  show "a \<noteq> []" using b by simp
  with assms show "trimRightComma a = a" by (simp add: plainArg_def trimRightComma_no_comma)
qed

lemma parse_plainArg: "plainArg a \<Longrightarrow> parseArgPart a = Inr (Some a)"
proof -
  assume a: "plainArg a"
  have "a \<noteq> ''--''" using a by (auto simp: plainArg_def argFlagKey_def)
  moreover have "trimSpace a = a" "trimRightComma a = a" "a \<noteq> []" by (rule plainArg_trim [OF a])+
  ultimately show ?thesis using a by (auto simp: parseArgPart_def Let_def plainArg_def)
qed

lemma parse_plainArgs: "list_all plainArg as \<Longrightarrow> parseArgParts as = Inr as"
  by (induction as) (simp_all add: parse_plainArg)

lemma plainArg_redash: "list_all plainArg as \<Longrightarrow> map ((@) ''--'') (map (drop 2) as) = as"
  by (induction as) (auto elim: plainArg_dashes)

lemma joined_untrimmed:
  assumes "list_all plainArg (a # as)"
  shows "trimSpace (joinWith sep (a # as)) = joinWith sep (a # as)" and "joinWith sep (a # as) \<noteq> []"
proof -
  have "list_all plainArg (a # as) \<Longrightarrow> \<exists>u x. joinWith sep (a # as) = u @ x \<and> plainArg x" for a as
  proof (induction as arbitrary: a)
    case Nil
    then show ?case by (intro exI [of _ "[]"] exI [of _ a]) simp
  next
    case (Cons b bs)
    then obtain u x where "joinWith sep (b # bs) = u @ x" "plainArg x" by (metis list.pred_inject(2))
    then show ?case by (intro exI [of _ "a @ sep @ u"] exI [of _ x]) simp
  qed
  with assms obtain u x where x: "joinWith sep (a # as) = u @ x" "plainArg x" by blast
  obtain b where b: "a = ''--'' @ b" using assms by (auto elim: plainArg_dashes)
  have hd: "\<exists>w. joinWith sep (a # as) = CHR ''-'' # w" using b by (cases as) auto
  obtain d where d: "x = ''--'' @ d" using x(2) by (auto elim: plainArg_dashes)
  show "trimSpace (joinWith sep (a # as)) = joinWith sep (a # as)"
  proof (rule trimSpace_id)
    fix p assume p: "p \<in> set spaceEncodings"
    have "\<not> suffix p (joinWith sep (a # as))"
      using x d p spaceEncodings_no_dash [OF p]
      by (auto simp: plainArg_def list_all_iff suffix_append)
    with hd p spaceEncodings_no_dash show "\<not> prefix p (joinWith sep (a # as)) \<and> \<not> suffix p (joinWith sep (a # as))"
      by metis
  qed
  show "joinWith sep (a # as) \<noteq> []" using hd by auto
qed

section \<open>Properties\<close>

text \<open>C34. Every argument that the parser accepts starts with two dashes and names a flag.\<close>

theorem parsed_args_are_flags:
  assumes "parseOperandArgsEnv raw = Inr as" and "a \<in> set as"
  shows "prefix ''--'' a \<and> argFlagKey a \<noteq> ''--'' \<and> argFlagKey a \<noteq> ''''"
proof -
  obtain ps where "parseArgParts ps = Inr as"
    using assms by (auto simp: parseOperandArgsEnv_def Let_def simp del: parseArgParts.simps(2) split: if_splits list.splits)
  with assms(2) obtain p where "parseArgPart p = Inr (Some a)" using parseArgParts_sound by blast
  then show ?thesis using parseArgPart_sound by (fastforce simp: prefix_def)
qed

theorem parsed_args_are_flags_witness:
  "prefix ''--'' ''--concurrent=4'' \<and> argFlagKey ''--concurrent=4'' \<noteq> ''--'' \<and> argFlagKey ''--concurrent=4'' \<noteq> ''''"
proof (rule parsed_args_are_flags)
  show "parseOperandArgsEnv '' --concurrent=4,, --loglevel=a,b, '' = Inr [''--concurrent=4'', ''--loglevel=a,b'']"
    by code_simp
qed simp

text \<open>C33. Arguments written into the variable, separated by a comma and optional white space,
  are read back unchanged.\<close>

theorem operand_args_roundtrip:
  assumes "list_all plainArg as" and "list_all reSpace ws"
  shows "parseOperandArgsEnv (joinWith (CHR '','' # ws) as) = Inr as"
proof (cases as)
  case Nil
  have "trimSpace [] = []" by code_simp
  with Nil show ?thesis by (simp add: parseOperandArgsEnv_def Let_def)
next
  case (Cons b bs)
  with assms have "list_all plainArg (b # bs)" by simp
  note raw = joined_untrimmed [OF this, of "CHR '','' # ws"] and split = split_joined(1) [OF this assms(2)]
  have "map ((@) ''--'') (map (drop 2) bs) = bs" using assms(1) Cons by (intro plainArg_redash) simp
  with raw split parse_plainArgs [OF assms(1)] Cons show ?thesis
    by (simp add: parseOperandArgsEnv_def Let_def del: parseArgParts.simps(2) map_map)
qed

theorem operand_args_roundtrip_witness:
  "parseOperandArgsEnv ''--concurrent=4, --loglevel=a,b, --enable-leader-election'' =
     Inr [''--concurrent=4'', ''--loglevel=a,b'', ''--enable-leader-election'']"
proof -
  have "list_all plainArg [''--concurrent=4'', ''--loglevel=a,b'', ''--enable-leader-election'']"
    and "list_all reSpace '' ''" by code_simp+
  from operand_args_roundtrip [OF this] show ?thesis by simp
qed

text \<open>C35. Merging override arguments into a container's arguments: for every flag the last
  override wins, flags that are not overridden keep their value, every base argument stays at its
  position (so no flag moves), and positional arguments are neither changed nor added.\<close>

theorem merge_container_args_overrides:
  assumes "k \<noteq> ''''"
  shows "lastByKey argFlagKey (elems (mergeContainerArgs base overrides)) k =
       (case lastByKey argFlagKey (elems overrides) k of
          Some v \<Rightarrow> Some v | None \<Rightarrow> lastByKey argFlagKey (elems base) k) \<and>
     take (length (elems base)) (map argFlagKey (elems (mergeContainerArgs base overrides))) = map argFlagKey (elems base) \<and>
     filter (\<lambda>a. argFlagKey a = '''') (elems (mergeContainerArgs base overrides)) =
       filter (\<lambda>a. argFlagKey a = '''') (elems base)"
proof -
  have "elems (mergeContainerArgs base overrides) = mergeArgs (elems base) (elems overrides)"
    by (auto simp: mergeContainerArgs_def Let_def mergeArgs_def)
  then show ?thesis using mergeArgs_laws assms by simp
qed

theorem merge_container_args_overrides_witness:
  "lastByKey argFlagKey (elems (mergeContainerArgs (Some [''webhook'', ''--port=1'']) (Some [''--port=2'', ''--v'']))) ''--port'' = Some ''--port=2''"
proof -
  have "lastByKey argFlagKey (elems (Some [''--port=2'', ''--v''])) ''--port'' = Some ''--port=2''" by code_simp
  with merge_container_args_overrides [of "''--port''" "Some [''webhook'', ''--port=1'']" "Some [''--port=2'', ''--v'']"]
  show ?thesis by simp
qed

end
