(* ===== verification/Advanced_Overrides.thy ===== *)
theory Advanced_Overrides
  imports Reconciler_Core Operand_Args
begin

section \<open>Deployment overrides: \<^verbatim>\<open>pkg/controller/external_secrets/advanced_overrides.go\<close>\<close>

text \<open>
  The user's strategic merge patch of a component's Deployment: the container name is filled in,
  every path is checked against an allowlist, the patch is applied and the arguments are merged.
  A \<^verbatim>\<open>map[string]any\<close> is the entry list of a JSON object, with distinct keys.
\<close>

type_synonym jsonmap = "(string \<times> json) list"

definition allowedPodSpecFields :: "string list" where
  "allowedPodSpecFields = [''affinity'', ''tolerations'', ''nodeSelector'', ''topologySpreadConstraints'', ''containers'']"

definition allowedContainerFields :: "string list" where
  "allowedContainerFields = [''name'', ''args'', ''resources'']"

subsection \<open>Accessors of unstructured objects\<close>

text \<open>\<open>unstructured.NestedFieldNoCopy\<close>: an error, not found, or the value; the second argument
  holds the fields already passed.\<close>

fun NestedFieldNoCopy :: "'s env \<Rightarrow> string list \<Rightarrow> json \<Rightarrow> string list \<Rightarrow> goerr + json option" where
  "NestedFieldNoCopy env passed val [] = Inr (Some val)"
| "NestedFieldNoCopy env passed val (f # fs) =
     (case val of
        JNull \<Rightarrow> Inr None
      | JObj m \<Rightarrow> (case map_of m f of None \<Rightarrow> Inr None | Some v \<Rightarrow> NestedFieldNoCopy env (passed @ [f]) v fs)
      | _ \<Rightarrow> Inl (e_AccessorErr env (passed @ [f]) val ''map[string]interface{}''))"

definition NestedMap :: "'s env \<Rightarrow> jsonmap \<Rightarrow> string \<Rightarrow> goerr + jsonmap option" where
  "NestedMap env obj f =
     (case NestedFieldNoCopy env [] (JObj obj) [f] of
        Inl e \<Rightarrow> Inl e
      | Inr None \<Rightarrow> Inr None
      | Inr (Some v) \<Rightarrow> (case v of JObj m \<Rightarrow> Inr (Some m) | _ \<Rightarrow> Inl (e_AccessorErr env [f] v ''map[string]interface{}'')))"

definition NestedSlice :: "'s env \<Rightarrow> jsonmap \<Rightarrow> string \<Rightarrow> goerr + json list option" where
  "NestedSlice env obj f =
     (case NestedFieldNoCopy env [] (JObj obj) [f] of
        Inl e \<Rightarrow> Inl e
      | Inr None \<Rightarrow> Inr None
      | Inr (Some v) \<Rightarrow> (case v of JArr xs \<Rightarrow> Inr (Some xs) | _ \<Rightarrow> Inl (e_AccessorErr env [f] v ''[]interface{}'')))"

text \<open>\<open>name, _, _ := unstructured.NestedString(cMap, f)\<close>: empty unless a string is there.\<close>

definition NestedString :: "jsonmap \<Rightarrow> string \<Rightarrow> string" where
  "NestedString obj f = (case map_of obj f of Some (JStr s) \<Rightarrow> s | _ \<Rightarrow> '''')"

subsection \<open>Errors\<close>

definition malformedFieldError :: "string \<Rightarrow> goerr \<Rightarrow> goerr" where
  "malformedFieldError fldPath cause =
     userConfigErr (PlainErr (fldPath @ '': Invalid value: null: '' @ errText cause))
       (''advancedOverrides field '' @ quoted fldPath @ '' is malformed'')"

definition forbiddenFieldError :: "string \<Rightarrow> string \<Rightarrow> goerr" where
  "forbiddenFieldError fldPath hint =
     userConfigErr (PlainErr (fldPath @ '': Forbidden: field is not allowed in advancedOverrides'' @
                              (if hint \<noteq> '''' then ''; '' @ hint else '''')))
       ''advancedOverrides contains a disallowed field''"

definition firstClassHint :: "string \<Rightarrow> string" where
  "firstClassHint key =
     (if key = ''replicas'' then ''use the first-class deploymentConfigs.replicas field instead''
      else if key = ''revisionHistoryLimit'' then ''use the first-class deploymentConfigs.revisionHistoryLimit field instead''
      else if key = ''selector'' then ''spec.selector is operator-managed and cannot be overridden''
      else if key = ''env'' then ''use the first-class spec.controllerConfig.componentConfigs.overrideEnv field instead''
      else '''')"

subsection \<open>Validation\<close>

definition validateAllowedFields :: "'s env \<Rightarrow> jsonmap \<Rightarrow> string \<Rightarrow> string \<Rightarrow>
    (string \<Rightarrow> bool) \<Rightarrow> (string \<Rightarrow> string) option \<Rightarrow> goerr + jsonmap" where
  "validateAllowedFields env parent fieldName fldPath allowed hint =
     (case NestedMap env parent fieldName of
        Inl err \<Rightarrow> Inl (malformedFieldError fldPath err)
      | Inr None \<Rightarrow> Inr []
      | Inr (Some m) \<Rightarrow>
          (case find (\<lambda>kv. \<not> allowed (fst kv)) m of
             Some (key, _) \<Rightarrow> Inl (forbiddenFieldError (fldPath @ ''.'' @ key) (case hint of None \<Rightarrow> '''' | Some h \<Rightarrow> h key))
           | None \<Rightarrow> Inr m))"

definition validateContainer :: "string \<Rightarrow> string \<Rightarrow> json \<Rightarrow> goerr option" where
  "validateContainer containerPath validContainerName entry =
     (case entry of
        JObj cMap \<Rightarrow>
          (let name = NestedString cMap ''name'' in
           if name = ''''
           then Some (userConfigErr (PlainErr (containerPath @ ''.name: Required value: container name is required in advancedOverrides''))
                  ''each container entry in advancedOverrides must specify a name'')
           else if name \<noteq> validContainerName
           then Some (userConfigErr (PlainErr (containerPath @ ''.name: Invalid value: '' @ quoted name @
                    '': must match the component container '' @ quoted validContainerName))
                  (''advancedOverrides container name must match the component container '' @ quoted validContainerName))
           else (case find (\<lambda>kv. \<not> List.member allowedContainerFields (fst kv)) cMap of
                   Some (key, _) \<Rightarrow> Some (forbiddenFieldError (containerPath @ ''.'' @ key) (firstClassHint key))
                 | None \<Rightarrow> None))
      | _ \<Rightarrow> None)"

fun validateContainers :: "nat \<Rightarrow> string \<Rightarrow> json list \<Rightarrow> goerr option" where
  "validateContainers i validContainerName [] = None"
| "validateContainers i validContainerName (entry # es) =
     (case validateContainer (''spec.template.spec.containers['' @ showNat i @ '']'') validContainerName entry of
        Some e \<Rightarrow> Some e
      | None \<Rightarrow> validateContainers (Suc i) validContainerName es)"

definition validateOverridePaths :: "'s env \<Rightarrow> string \<Rightarrow> jsonmap \<Rightarrow> string \<Rightarrow> goerr option" where
  "validateOverridePaths env rawBytes raw validContainerName =
     (case e_StrictDecodeDeployment env rawBytes of
        Some err \<Rightarrow> Some (userConfigErr err ''advancedOverrides contains invalid deployment fields'')
      | None \<Rightarrow>
     (case find (\<lambda>kv. fst kv \<noteq> ''spec'') raw of
        Some (key, _) \<Rightarrow> Some (forbiddenFieldError key '''')
      | None \<Rightarrow>
     (case validateAllowedFields env raw ''spec'' ''spec'' (\<lambda>key. key = ''template'') (Some firstClassHint) of
        Inl err \<Rightarrow> Some err
      | Inr specMap \<Rightarrow>
     (case validateAllowedFields env specMap ''template'' ''spec.template'' (\<lambda>key. key = ''spec'')
             (Some (\<lambda>_. ''use the first-class annotations/labels fields instead'')) of
        Inl err \<Rightarrow> Some err
      | Inr tmplMap \<Rightarrow>
     (case validateAllowedFields env tmplMap ''spec'' ''spec.template.spec'' (List.member allowedPodSpecFields) None of
        Inl err \<Rightarrow> Some err
      | Inr podSpecMap \<Rightarrow>
     (case NestedSlice env podSpecMap ''containers'' of
        Inl err \<Rightarrow> Some (malformedFieldError ''spec.template.spec.containers'' err)
      | Inr None \<Rightarrow> None
      | Inr (Some containers) \<Rightarrow> validateContainers 0 validContainerName containers))))))"

subsection \<open>Container names\<close>

text \<open>In-place change of the value at a path of nested maps.\<close>

fun modifyAt :: "string list \<Rightarrow> (json \<Rightarrow> json) \<Rightarrow> json \<Rightarrow> json" where
  "modifyAt [] g v = g v"
| "modifyAt (f # fs) g (JObj m) = JObj (map (\<lambda>(k, v). (k, if k = f then modifyAt fs g v else v)) m)"
| "modifyAt (f # fs) g v = v"

definition lacksName :: "json \<Rightarrow> bool" where
  "lacksName entry = (case entry of JObj cMap \<Rightarrow> map_of cMap ''name'' = None | _ \<Rightarrow> False)"

definition withName :: "string \<Rightarrow> json \<Rightarrow> json" where
  "withName containerName entry =
     (case entry of
        JObj cMap \<Rightarrow> if map_of cMap ''name'' = None then JObj (cMap @ [(''name'', JStr containerName)]) else entry
      | _ \<Rightarrow> entry)"

abbreviation containersPath :: "string list" where
  "containersPath \<equiv> [''spec'', ''template'', ''spec'', ''containers'']"

definition injectContainerName :: "'s env \<Rightarrow> json \<Rightarrow> string \<Rightarrow> json \<times> bool" where
  "injectContainerName env raw containerName =
     (case NestedFieldNoCopy env [] raw containersPath of
        Inr (Some (JArr containers)) \<Rightarrow>
          if containers = [] then (raw, False)
          else (modifyAt containersPath (\<lambda>_. JArr (map (withName containerName) containers)) raw,
                list_ex lacksName containers)
      | _ \<Rightarrow> (raw, False))"

subsection \<open>Applying\<close>

definition containerIndex :: "Deployment \<Rightarrow> string \<Rightarrow> nat option" where
  "containerIndex deployment name =
     (let cs = ps_Containers (pt_Spec (ds_Template (d_Spec deployment))) in
      find (\<lambda>i. c_Name (cs ! i) = name) [0..<length cs])"

definition strategicMergePatchDeployment :: "'s env \<Rightarrow> Deployment \<Rightarrow> string \<Rightarrow> goerr + Deployment" where
  "strategicMergePatchDeployment env deployment patchBytes =
     (case e_MarshalDeployment env deployment of
        Inl err \<Rightarrow> Inl (WrapErr ''failed to marshal deployment: '' err '''')
      | Inr original \<Rightarrow>
     (case e_StrategicMergePatch env original patchBytes of
        Inl err \<Rightarrow> Inl (WrapErr ''strategic merge patch failed: '' err '''')
      | Inr patched \<Rightarrow>
     (case e_UnmarshalDeployment env patched zeroDeployment of
        Inl err \<Rightarrow> Inl (WrapErr ''failed to unmarshal patched deployment: '' err '''')
      | Inr result \<Rightarrow> Inr result)))"

definition updContainers :: "(Container list \<Rightarrow> Container list) \<Rightarrow> Deployment \<Rightarrow> Deployment" where
  "updContainers f d = d\<lparr>d_Spec := (d_Spec d)\<lparr>ds_Template := (ds_Template (d_Spec d))
     \<lparr>pt_Spec := (pt_Spec (ds_Template (d_Spec d)))\<lparr>ps_Containers := f (ps_Containers (pt_Spec (ds_Template (d_Spec d))))\<rparr>\<rparr>\<rparr>\<rparr>"

text \<open>\<open>json.Unmarshal\<close> into a \<^verbatim>\<open>map[string]any\<close>: an object, or null for the nil map.\<close>

definition unmarshalMap :: "'s env \<Rightarrow> string \<Rightarrow> goerr + jsonmap" where
  "unmarshalMap env bytes =
     (case e_JsonUnmarshal env bytes of
        Inl err \<Rightarrow> Inl err
      | Inr (JObj m) \<Rightarrow> Inr m
      | Inr JNull \<Rightarrow> Inr []
      | Inr _ \<Rightarrow> Inl (PlainErr ''json: cannot unmarshal into Go value of type map[string]interface {}''))"

fun mapEntries :: "json \<Rightarrow> jsonmap" where
  "mapEntries (JObj m) = m"
| "mapEntries _ = []"

definition applyAdvancedOverrides :: "'s env \<Rightarrow> Deployment \<Rightarrow> string option option \<Rightarrow> string \<Rightarrow> goerr + Deployment" where
  "applyAdvancedOverrides env deployment overrides containerName =
     (case overrides of
        None \<Rightarrow> Inr deployment
      | Some None \<Rightarrow> Inr deployment
      | Some (Some bytes0) \<Rightarrow>
     (case unmarshalMap env bytes0 of
        Inl err \<Rightarrow> Inl (userConfigErr err ''advancedOverrides contains invalid JSON'')
      | Inr raw0 \<Rightarrow>
     (let (raw, injected) = injectContainerName env (JObj raw0) containerName;
          bytes = (if injected then e_JsonMarshal env raw else bytes0) in
      case validateOverridePaths env bytes (mapEntries raw) containerName of
        Some err \<Rightarrow> Inl err
      | None \<Rightarrow>
     (let originalArgs = (case containerIndex deployment containerName of
            None \<Rightarrow> None
          | Some idx \<Rightarrow> c_Args (ps_Containers (pt_Spec (ds_Template (d_Spec deployment))) ! idx)) in
      case strategicMergePatchDeployment env deployment bytes of
        Inl err \<Rightarrow> Inl (userConfigErr err ''failed to apply advancedOverrides strategic merge patch'')
      | Inr patched \<Rightarrow>
          Inr (case containerIndex patched containerName of
                 None \<Rightarrow> patched
               | Some idx \<Rightarrow> updContainers (\<lambda>cs. cs[idx := (cs ! idx)\<lparr>c_Args := mergeContainerArgs originalArgs (c_Args (cs ! idx))\<rparr>]) patched)))))"

section \<open>Lemmas\<close>

lemma find_not_None: "find (\<lambda>x. \<not> P x) xs = None \<longleftrightarrow> list_all P xs"
  by (induction xs) auto

lemma find_not_Some: "find (\<lambda>x. \<not> P x) xs = Some y \<Longrightarrow> \<not> list_all P xs"
  by (metis find_not_None option.distinct(1))

lemma NestedMap_eq:
  "NestedMap env obj f = (case map_of obj f of None \<Rightarrow> Inr None | Some (JObj m) \<Rightarrow> Inr (Some m)
     | Some v \<Rightarrow> Inl (e_AccessorErr env [f] v ''map[string]interface{}''))"
  by (simp add: NestedMap_def split: option.splits json.splits)

lemma NestedSlice_eq:
  "NestedSlice env obj f = (case map_of obj f of None \<Rightarrow> Inr None | Some (JArr m) \<Rightarrow> Inr (Some m)
     | Some v \<Rightarrow> Inl (e_AccessorErr env [f] v ''[]interface{}''))"
  by (simp add: NestedSlice_def split: option.splits json.splits)

text \<open>The specification: what a patch may contain. An absent level is allowed; a present one is an
  object with allowed keys only.\<close>

definition objectWith :: "jsonmap \<Rightarrow> string \<Rightarrow> (string \<Rightarrow> bool) \<Rightarrow> bool" where
  "objectWith parent f allowed \<longleftrightarrow>
     (case map_of parent f of None \<Rightarrow> True | Some (JObj m) \<Rightarrow> list_all (\<lambda>kv. allowed (fst kv)) m | Some _ \<Rightarrow> False)"

definition childMap :: "jsonmap \<Rightarrow> string \<Rightarrow> jsonmap" where
  "childMap parent f = (case map_of parent f of Some (JObj m) \<Rightarrow> m | _ \<Rightarrow> [])"

definition permittedContainer :: "string \<Rightarrow> json \<Rightarrow> bool" where
  "permittedContainer containerName entry \<longleftrightarrow>
     (case entry of
        JObj m \<Rightarrow> map_of m ''name'' = Some (JStr containerName) \<and> containerName \<noteq> '''' \<and>
                  list_all (\<lambda>kv. List.member allowedContainerFields (fst kv)) m
      | _ \<Rightarrow> True)"

definition permittedPatch :: "string \<Rightarrow> jsonmap \<Rightarrow> bool" where
  "permittedPatch containerName raw \<longleftrightarrow>
     list_all (\<lambda>kv. fst kv = ''spec'') raw \<and>
     objectWith raw ''spec'' (\<lambda>k. k = ''template'') \<and>
     objectWith (childMap raw ''spec'') ''template'' (\<lambda>k. k = ''spec'') \<and>
     (let podSpec = childMap (childMap raw ''spec'') ''template'' in
      objectWith podSpec ''spec'' (List.member allowedPodSpecFields) \<and>
      (case map_of (childMap podSpec ''spec'') ''containers'' of
         None \<Rightarrow> True
       | Some (JArr cs) \<Rightarrow> list_all (permittedContainer containerName) cs
       | Some _ \<Rightarrow> False))"

lemma validateAllowedFields_Inr:
  "validateAllowedFields env parent f p allowed hint = Inr m \<longleftrightarrow> objectWith parent f allowed \<and> m = childMap parent f"
  by (auto simp: validateAllowedFields_def NestedMap_eq objectWith_def childMap_def find_not_None
      dest: find_not_Some split: option.splits json.splits)

lemma validateAllowedFields_cases:
  "(\<exists>e. validateAllowedFields env parent f p allowed hint = Inl e) \<and> \<not> objectWith parent f allowed \<or>
   validateAllowedFields env parent f p allowed hint = Inr (childMap parent f) \<and> objectWith parent f allowed"
  using validateAllowedFields_Inr [of env parent f p allowed hint "childMap parent f"]
  by (cases "validateAllowedFields env parent f p allowed hint") (auto simp: validateAllowedFields_Inr)

lemma validateContainer_None: "validateContainer p n entry = None \<longleftrightarrow> permittedContainer n entry"
  by (auto simp: validateContainer_def permittedContainer_def NestedString_def Let_def find_not_None
      dest: find_not_Some split: json.splits option.splits if_splits)

lemma validateContainers_None: "validateContainers i n es = None \<longleftrightarrow> list_all (permittedContainer n) es"
proof (induction es arbitrary: i)
  case (Cons e es)
  let ?p = "''spec.template.spec.containers['' @ showNat i @ '']''"
  show ?case
  proof (cases "validateContainer ?p n e")
    case None
    with Cons validateContainer_None [of ?p n e] show ?thesis by simp
  next
    case (Some err)
    with validateContainer_None [of ?p n e] show ?thesis by simp
  qed
qed simp

lemma validateOverridePaths_None:
  "validateOverridePaths env bytes raw n = None \<longleftrightarrow>
     e_StrictDecodeDeployment env bytes = None \<and> permittedPatch n raw"
proof (cases "e_StrictDecodeDeployment env bytes \<noteq> None \<or> find (\<lambda>kv. fst kv \<noteq> ''spec'') raw \<noteq> None")
  case True
  then show ?thesis
    by (auto simp: validateOverridePaths_def permittedPatch_def find_not_None [of "\<lambda>kv. fst kv = ''spec''"]
        dest: find_not_Some split: option.splits)
next
  case False
  then have top: "e_StrictDecodeDeployment env bytes = None" "find (\<lambda>kv. fst kv \<noteq> ''spec'') raw = None"
    "list_all (\<lambda>kv. fst kv = ''spec'') raw" by (auto simp: find_not_None)
  show ?thesis
    using validateAllowedFields_cases [of env raw "''spec''" "''spec''" "\<lambda>k. k = ''template''" "Some firstClassHint"]
      validateAllowedFields_cases [of env "childMap raw ''spec''" "''template''" "''spec.template''" "\<lambda>k. k = ''spec''"
        "Some (\<lambda>_. ''use the first-class annotations/labels fields instead'')"]
      validateAllowedFields_cases [of env "childMap (childMap raw ''spec'') ''template''" "''spec''" "''spec.template.spec''"
        "List.member allowedPodSpecFields" None]
    by (elim disjE exE conjE)
       (simp_all add: validateOverridePaths_def permittedPatch_def top NestedSlice_eq validateContainers_None Let_def
         split: option.splits json.splits)
qed

text \<open>The value at a path of object keys.\<close>

fun jsonAt :: "json \<Rightarrow> string list \<Rightarrow> json option" where
  "jsonAt v [] = Some v"
| "jsonAt (JObj m) (f # fs) = (case map_of m f of None \<Rightarrow> None | Some v \<Rightarrow> jsonAt v fs)"
| "jsonAt _ (f # fs) = None"

definition isObject :: "json \<Rightarrow> bool" where
  "isObject v = (case v of JObj _ \<Rightarrow> True | _ \<Rightarrow> False)"

lemma objectWith_child:
  assumes "objectWith parent f allowed" and "jsonAt (JObj parent) (f # fs) = Some v"
  shows "jsonAt (JObj (childMap parent f)) fs = Some v"
  using assms by (auto simp: objectWith_def childMap_def split: option.splits json.splits)

lemma objectWith_allowed:
  assumes "objectWith parent f allowed" and "jsonAt (JObj (childMap parent f)) (g # gs) = Some v"
  shows "allowed g"
  using assms
  by (auto simp: objectWith_def childMap_def list_all_iff dest!: map_of_SomeD split: option.splits json.splits)

lemma permitted_confined:
  assumes "permittedPatch n raw" and "jsonAt (JObj raw) path = Some v"
  shows "(prefix path [''spec'', ''template'', ''spec''] \<and> isObject v) \<or>
    (\<exists>f rest. path = [''spec'', ''template'', ''spec''] @ f # rest \<and> f \<in> set allowedPodSpecFields)"
proof (cases path)
  case Nil
  with assms show ?thesis by (auto simp: isObject_def)
next
  case (Cons k1 p1)
  have o: "objectWith raw ''spec'' (\<lambda>k. k = ''template'')"
    "objectWith (childMap raw ''spec'') ''template'' (\<lambda>k. k = ''spec'')"
    "objectWith (childMap (childMap raw ''spec'') ''template'') ''spec'' (List.member allowedPodSpecFields)"
    using assms(1) by (auto simp: permittedPatch_def Let_def)
  have k1: "k1 = ''spec''"
    using assms Cons by (auto simp: permittedPatch_def list_all_iff dest!: map_of_SomeD split: option.splits)
  with assms(2) Cons have v1: "jsonAt (JObj (childMap raw ''spec'')) p1 = Some v"
    using objectWith_child [OF o(1)] by blast
  show ?thesis
  proof (cases p1)
    case Nil
    with v1 Cons k1 show ?thesis by (auto simp: isObject_def)
  next
    case (Cons k2 p2)
    with v1 have k2: "k2 = ''template''" using objectWith_allowed [OF o(1)] by blast
    with v1 Cons have v2: "jsonAt (JObj (childMap (childMap raw ''spec'') ''template'')) p2 = Some v"
      using objectWith_child [OF o(2)] by blast
    show ?thesis
    proof (cases p2)
      case Nil
      with v2 Cons k1 k2 \<open>path = k1 # p1\<close> show ?thesis by (auto simp: isObject_def)
    next
      case (Cons k3 p3)
      with v2 have k3: "k3 = ''spec''" using objectWith_allowed [OF o(2)] by blast
      with v2 Cons have v3: "jsonAt (JObj (childMap (childMap (childMap raw ''spec'') ''template'') ''spec'')) p3 = Some v"
        using objectWith_child [OF o(3)] by blast
      have path: "path = [''spec'', ''template'', ''spec''] @ p3"
        using \<open>path = k1 # p1\<close> \<open>p1 = k2 # p2\<close> Cons k1 k2 k3 by simp
      show ?thesis
      proof (cases p3)
        case Nil
        with v3 path show ?thesis by (auto simp: isObject_def)
      next
        case (Cons k4 p4)
        with v3 have "k4 \<in> set allowedPodSpecFields" using objectWith_allowed [OF o(3)] by fastforce
        with path Cons show ?thesis by blast
      qed
    qed
  qed
qed

lemma applyAdvancedOverrides_InrE:
  assumes "applyAdvancedOverrides env d (Some (Some bytes0)) n = Inr d'"
  obtains raw0 raw injected bytes patched where
    "unmarshalMap env bytes0 = Inr raw0" and "injectContainerName env (JObj raw0) n = (raw, injected)"
    and "validateOverridePaths env bytes (mapEntries raw) n = None"
    and "strategicMergePatchDeployment env d bytes = Inr patched"
    and "d' = (case containerIndex patched n of None \<Rightarrow> patched
       | Some idx \<Rightarrow> updContainers (\<lambda>cs. cs[idx := (cs ! idx)\<lparr>c_Args := mergeContainerArgs
            (case containerIndex d n of None \<Rightarrow> None | Some i \<Rightarrow> c_Args (ps_Containers (pt_Spec (ds_Template (d_Spec d))) ! i))
            (c_Args (cs ! idx))\<rparr>]) patched)"
  using assms that
  by (auto simp: applyAdvancedOverrides_def Let_def split: sum.splits option.splits prod.splits)

lemma updContainers_containers [simp]:
  "ps_Containers (pt_Spec (ds_Template (d_Spec (updContainers f d)))) = f (ps_Containers (pt_Spec (ds_Template (d_Spec d))))"
  by (simp add: updContainers_def)

lemma containerIndex_SomeD:
  "containerIndex d n = Some i \<Longrightarrow> i < length (ps_Containers (pt_Spec (ds_Template (d_Spec d)))) \<and>
     c_Name (ps_Containers (pt_Spec (ds_Template (d_Spec d))) ! i) = n"
  by (auto simp: containerIndex_def Let_def find_Some_iff)

lemma containerIndex_update:
  assumes "\<And>c. c_Name (g c) = c_Name c"
  shows "containerIndex (updContainers (\<lambda>cs. cs[i := g (cs ! i)]) d) n = containerIndex d n"
proof -
  let ?cs = "ps_Containers (pt_Spec (ds_Template (d_Spec d)))"
  have "c_Name (?cs[i := g (?cs ! i)] ! j) = c_Name (?cs ! j)" if "j < length ?cs" for j
    using that assms by (cases "i = j") auto
  then have "find (\<lambda>j. c_Name (?cs[i := g (?cs ! i)] ! j) = n) [0..<length ?cs] = find (\<lambda>j. c_Name (?cs ! j) = n) [0..<length ?cs]"
    by (intro find_cong) auto
  then show ?thesis by (simp add: containerIndex_def Let_def)
qed

section \<open>Properties\<close>

text \<open>A patch with arguments for the core controller, and an environment that decodes it.\<close>

definition patchJson :: json where
  "patchJson = JObj [(''spec'', JObj [(''template'', JObj [(''spec'', JObj
     [(''containers'', JArr [JObj [(''args'', JArr [JStr ''--concurrent=4''])]])])])])]"

definition patchEnv :: "memserver env" where
  "patchEnv = sampleEnv\<lparr>e_JsonUnmarshal := (\<lambda>_. Inr patchJson),
     e_UnmarshalDeployment := (\<lambda>_ d. Inr (updContainers (\<lambda>_. [zeroContainer\<lparr>c_Name := ''external-secrets'', c_Args := Some [''--concurrent=4'']\<rparr>]) d))\<rparr>"

definition patchTarget :: Deployment where
  "patchTarget = updContainers (\<lambda>_. [zeroContainer\<lparr>c_Name := ''external-secrets'', c_Args := Some [''--concurrent=1'', ''--loglevel=info'']\<rparr>]) zeroDeployment"

text \<open>C7. An override that is accepted passes the strict decoder and, once container names are
  filled in, touches nothing outside the allowlist: every path in it ends inside the pod spec's
  affinity, tolerations, node selector, topology spread constraints or containers, no level above
  is null or otherwise not an object, and each container entry is the component's own container
  with no field but its name, arguments and resources.\<close>

theorem accepted_overrides_confined:
  assumes "applyAdvancedOverrides env d (Some (Some bytes0)) containerName = Inr d'"
  shows "\<exists>raw0 raw injected. unmarshalMap env bytes0 = Inr raw0 \<and>
     injectContainerName env (JObj raw0) containerName = (raw, injected) \<and>
     (\<forall>path v. jsonAt (JObj (mapEntries raw)) path = Some v \<longrightarrow>
        (prefix path [''spec'', ''template'', ''spec''] \<and> isObject v) \<or>
        (\<exists>f rest. path = [''spec'', ''template'', ''spec''] @ f # rest \<and> f \<in> set allowedPodSpecFields)) \<and>
     (\<forall>v. jsonAt (JObj (mapEntries raw)) containersPath = Some v \<longrightarrow>
        (\<exists>cs. v = JArr cs \<and> list_all (permittedContainer containerName) cs))"
proof -
  from assms obtain raw0 raw injected bytes where r: "unmarshalMap env bytes0 = Inr raw0"
    "injectContainerName env (JObj raw0) containerName = (raw, injected)"
    and ok: "validateOverridePaths env bytes (mapEntries raw) containerName = None"
    by (rule applyAdvancedOverrides_InrE)
  from ok have p: "permittedPatch containerName (mapEntries raw)" by (simp add: validateOverridePaths_None)
  have "\<exists>cs. v = JArr cs \<and> list_all (permittedContainer containerName) cs"
    if "jsonAt (JObj (mapEntries raw)) containersPath = Some v" for v
    using p that
    by (auto simp: permittedPatch_def Let_def childMap_def objectWith_def split: option.splits json.splits)
  with r permitted_confined [OF p] show ?thesis by blast
qed

theorem accepted_overrides_confined_witness:
  "\<exists>raw0 raw injected. unmarshalMap patchEnv ''{}'' = Inr raw0 \<and>
     injectContainerName patchEnv (JObj raw0) ''external-secrets'' = (raw, injected) \<and>
     (\<forall>v. jsonAt (JObj (mapEntries raw)) containersPath = Some v \<longrightarrow>
        (\<exists>cs. v = JArr cs \<and> list_all (permittedContainer ''external-secrets'') cs))"
proof -
  define d' where "d' = projr (applyAdvancedOverrides patchEnv patchTarget (Some (Some ''{}'')) ''external-secrets'')"
  have "applyAdvancedOverrides patchEnv patchTarget (Some (Some ''{}'')) ''external-secrets'' = Inr d'"
    unfolding d'_def by code_simp
  from accepted_overrides_confined [OF this] show ?thesis by blast
qed

text \<open>C8. Validation is exact: an override is refused if and only if the strict decoder refuses it
  or it leaves the permitted shape.\<close>

theorem override_validation_exact:
  "validateOverridePaths env bytes raw containerName = None \<longleftrightarrow>
     e_StrictDecodeDeployment env bytes = None \<and> permittedPatch containerName raw"
  by (rule validateOverridePaths_None)



end
