(* ===== verification/Pod_Template.thy ===== *)
theory Pod_Template
  imports Managed_Resources Advanced_Overrides
begin

section \<open>Pod templates: the pure part of \<^verbatim>\<open>pkg/controller/external_secrets/deployments.go\<close>\<close>

text \<open>
  The functions that edit a Deployment in memory: labels and annotations of the pod template,
  container arguments, images and security contexts, volumes and mounts, environment variables,
  the scheduling and resource settings with their precedence, and the proxy settings. A function
  that takes a \<^verbatim>\<open>*Deployment\<close> and mutates it maps the old value to the new one.
\<close>

subsection \<open>Names\<close>

definition OperandCoreControllerContainer :: string where "OperandCoreControllerContainer = externalsecretsCommonName"
definition OperandWebhookContainer :: string where "OperandWebhookContainer = ''webhook''"
definition OperandCertControllerContainer :: string where "OperandCertControllerContainer = ''cert-controller''"
definition OperandBitwardenContainer :: string where "OperandBitwardenContainer = ''bitwarden-sdk-server''"
definition UnsafeAllowGenericTargetsArg :: string where
  "UnsafeAllowGenericTargetsArg = ''--unsafe-allow-generic-targets=true''"
definition LeaderElectionArg :: string where "LeaderElectionArg = ''--enable-leader-election=true''"
definition ProxyTrustedCABundleVolumeName :: string where "ProxyTrustedCABundleVolumeName = ''trusted-ca-bundle''"
definition ProxyTrustedCABundleMountPath :: string where "ProxyTrustedCABundleMountPath = ''/etc/pki/tls/certs''"
definition UserCABundleVolumeName :: string where "UserCABundleVolumeName = ''user-ca-bundle''"
definition UserCABundleMountPath :: string where "UserCABundleMountPath = ''/etc/pki/tls/user-certs''"
definition UserCABundleKeyPath :: string where "UserCABundleKeyPath = ''ca-bundle.crt''"
definition SSLCertDirEnvVar :: string where "SSLCertDirEnvVar = ''SSL_CERT_DIR''"
definition SSLCertDirValue :: string where
  "SSLCertDirValue = ''/etc/pki/tls/user-certs:/etc/pki/tls/certs:/etc/ssl/certs''"
definition httpProxyEnvVar :: string where "httpProxyEnvVar = ''HTTP_PROXY''"
definition httpsProxyEnvVar :: string where "httpsProxyEnvVar = ''HTTPS_PROXY''"
definition noProxyEnvVar :: string where "noProxyEnvVar = ''NO_PROXY''"
definition httpProxyEnvVarLowercase :: string where "httpProxyEnvVarLowercase = ''http_proxy''"
definition httpsProxyEnvVarLowercase :: string where "httpsProxyEnvVarLowercase = ''https_proxy''"
definition noProxyEnvVarLowercase :: string where "noProxyEnvVarLowercase = ''no_proxy''"

lemmas operand_name_defs =
  externalsecretsCommonName_def OperandCoreControllerContainer_def OperandWebhookContainer_def
  OperandCertControllerContainer_def OperandBitwardenContainer_def

lemmas proxy_var_defs =
  httpProxyEnvVar_def httpsProxyEnvVar_def noProxyEnvVar_def
  httpProxyEnvVarLowercase_def httpsProxyEnvVarLowercase_def noProxyEnvVarLowercase_def

subsection \<open>Access\<close>

abbreviation podSpec :: "Deployment \<Rightarrow> PodSpec" where
  "podSpec d \<equiv> pt_Spec (ds_Template (d_Spec d))"

definition updPodSpec :: "(PodSpec \<Rightarrow> PodSpec) \<Rightarrow> Deployment \<Rightarrow> Deployment" where
  "updPodSpec f d = d\<lparr>d_Spec := (d_Spec d)\<lparr>ds_Template := (ds_Template (d_Spec d))\<lparr>pt_Spec := f (podSpec d)\<rparr>\<rparr>\<rparr>"

definition updTemplate :: "(PodTemplate \<Rightarrow> PodTemplate) \<Rightarrow> Deployment \<Rightarrow> Deployment" where
  "updTemplate f d = d\<lparr>d_Spec := (d_Spec d)\<lparr>ds_Template := f (ds_Template (d_Spec d))\<rparr>\<rparr>"

text \<open>\<open>for i := range ...Containers { f(&...Containers[i]) }\<close>, then the same for the init containers.\<close>

definition mapAllContainers :: "(Container \<Rightarrow> Container) \<Rightarrow> Deployment \<Rightarrow> Deployment" where
  "mapAllContainers f = updPodSpec (\<lambda>p. p\<lparr>ps_Containers := map f (ps_Containers p), ps_InitContainers := map f (ps_InitContainers p)\<rparr>)"

text \<open>The first container of that name.\<close>

definition onContainer :: "string \<Rightarrow> (Container \<Rightarrow> Container) \<Rightarrow> Deployment \<Rightarrow> Deployment" where
  "onContainer name f = updContainers (updateFirst (\<lambda>c. c_Name c = name) f)"

subsection \<open>Log level\<close>

definition getLogLevel :: "ExternalSecretsConfig \<Rightarrow> ExternalSecretsManager option \<Rightarrow> string" where
  "getLogLevel esc esm =
     (let own = cc_LogLevel (ac_Common (spec_ApplicationConfig (esc_Spec esc)));
          global = (case esm of None \<Rightarrow> 0 | Some m \<Rightarrow>
             (case es_GlobalConfig (esm_Spec m) of None \<Rightarrow> 0 | Some g \<Rightarrow> cc_LogLevel (gc_Common g)));
          logLevel = (if own \<noteq> 0 then own else if global \<noteq> 0 then global else 1)
      in if logLevel = 0 then ''info'' else if logLevel = 1 then ''warn'' else if logLevel = 2 then ''error''
         else if logLevel = 4 \<or> logLevel = 5 then ''debug'' else ''info'')"

definition getOperatingNamespace :: "ExternalSecretsConfig \<Rightarrow> string" where
  "getOperatingNamespace esc = ac_OperatingNamespace (spec_ApplicationConfig (esc_Spec esc))"

definition normalizeDurationArg :: "'s env \<Rightarrow> string \<Rightarrow> string" where
  "normalizeDurationArg env raw = (case e_ParseDuration env raw of None \<Rightarrow> raw | Some d \<Rightarrow> e_DurationString env d)"

subsection \<open>Template metadata\<close>

definition updatePodTemplateLabels :: "Deployment \<Rightarrow> strmap \<Rightarrow> Deployment" where
  "updatePodTemplateLabels deployment labels =
     (if glen labels = 0 then deployment
      else updTemplate (\<lambda>t. let l = (if glen (pt_Labels t) = 0 then GoMap [] else pt_Labels t)
                            in t\<lparr>pt_Labels := gcopy l labels\<rparr>) deployment)"

definition updatePodTemplateAnnotations :: "Deployment \<Rightarrow> strmap \<Rightarrow> Deployment" where
  "updatePodTemplateAnnotations deployment annotations =
     (if glen annotations = 0 then deployment
      else updTemplate (\<lambda>t. let l = (if glen (pt_Annotations t) = 0 then GoMap [] else pt_Annotations t)
                            in t\<lparr>pt_Annotations := gcopy l annotations\<rparr>) deployment)"

subsection \<open>Container arguments, images and security contexts\<close>

definition hardenedSecurityContext :: SecurityContext where
  "hardenedSecurityContext = \<lparr>sc_AllowPrivilegeEscalation = Some False,
     sc_Capabilities = Some \<lparr>caps_Add = None, caps_Drop = Some [''ALL'']\<rparr>,
     sc_ReadOnlyRootFilesystem = Some True, sc_RunAsNonRoot = Some True, sc_RunAsUser = None,
     sc_SeccompProfile = Some ''RuntimeDefault'', sc_Other = JNull\<rparr>"

definition updateContainerSecurityContext :: "Container \<Rightarrow> Container" where
  "updateContainerSecurityContext container = container\<lparr>c_SecurityContext := Some hardenedSecurityContext\<rparr>"

definition featureContainerArgs :: "FeatureName \<Rightarrow> string option" where
  "featureContainerArgs name = (if name = UnsafeAllowGenericTargets then Some UnsafeAllowGenericTargetsArg else None)"

fun updateOptionalFeatures :: "ExternalSecretsManager \<Rightarrow> string list \<Rightarrow> FeatureName list \<Rightarrow> string list" where
  "updateOptionalFeatures esm containerArgs [] = containerArgs"
| "updateOptionalFeatures esm containerArgs (featureName # supportedFeatures) =
     (if \<not> IsFeatureEnabled (Some esm) featureName then updateOptionalFeatures esm containerArgs supportedFeatures
      else (case featureContainerArgs featureName of
              None \<Rightarrow> updateOptionalFeatures esm containerArgs supportedFeatures
            | Some arg \<Rightarrow> updateOptionalFeatures esm (containerArgs @ [arg]) supportedFeatures))"

definition setArgsAndImage :: "string slice \<Rightarrow> string \<Rightarrow> Container \<Rightarrow> Container" where
  "setArgsAndImage args img c = updateContainerSecurityContext (c\<lparr>c_Args := args, c_Image := img\<rparr>)"

definition controllerArgs :: "'s env \<Rightarrow> ExternalSecretsManager \<Rightarrow> ExternalSecretsConfig \<Rightarrow> string \<Rightarrow> string list" where
  "controllerArgs env esm esc logLevel =
     (let args = [''--concurrent=1'', ''--metrics-addr=:8080'', ''--loglevel='' @ logLevel,
                  ''--zap-time-encoding=epoch'', LeaderElectionArg, ''--enable-push-secret-reconciler=true''];
          namespace = getOperatingNamespace esc;
          scoped = (if namespace \<noteq> ''''
             then args @ [''--namespace='' @ namespace, ''--enable-cluster-store-reconciler=false'',
                          ''--enable-cluster-external-secret-reconciler=false'']
             else args @ [''--enable-cluster-store-reconciler=true'', ''--enable-cluster-external-secret-reconciler=true''])
      in updateOptionalFeatures esm scoped [UnsafeAllowGenericTargets] @ e_TLSArgs env)"

definition updateContainerSpec :: "'s env \<Rightarrow> ExternalSecretsManager \<Rightarrow> Deployment \<Rightarrow> ExternalSecretsConfig \<Rightarrow>
    string \<Rightarrow> string \<Rightarrow> Deployment" where
  "updateContainerSpec env esm deployment esc img logLevel =
     onContainer OperandCoreControllerContainer (setArgsAndImage (Some (controllerArgs env esm esc logLevel)) img) deployment"

definition updateWebhookContainerSpec :: "'s env \<Rightarrow> Deployment \<Rightarrow> string \<Rightarrow> string \<Rightarrow> string \<Rightarrow> Deployment" where
  "updateWebhookContainerSpec env deployment img logLevel checkInterval =
     (let args = [''webhook'', ''--dns-name=external-secrets-webhook.'' @ om_Namespace (d_Meta deployment) @ ''.svc'',
                  ''--port=10250'', ''--cert-dir=/tmp/certs'', ''--check-interval='' @ checkInterval,
                  ''--metrics-addr=:8080'', ''--healthz-addr=:8081'', ''--loglevel='' @ logLevel,
                  ''--zap-time-encoding=epoch''] @ e_TLSArgs env
      in onContainer ''webhook'' (setArgsAndImage (Some args) img) deployment)"

definition updateCertControllerContainerSpec :: "'s env \<Rightarrow> Deployment \<Rightarrow> string \<Rightarrow> string \<Rightarrow> Deployment" where
  "updateCertControllerContainerSpec env deployment img logLevel =
     (let namespace = om_Namespace (d_Meta deployment);
          args = [''certcontroller'', ''--crd-requeue-interval=5m'', ''--service-name=external-secrets-webhook'',
                  ''--service-namespace='' @ namespace, ''--secret-name=external-secrets-webhook'',
                  ''--secret-namespace='' @ namespace, ''--metrics-addr=:8080'', ''--healthz-addr=:8081'',
                  ''--loglevel='' @ logLevel, ''--zap-time-encoding=epoch'', ''--enable-partial-cache=true'',
                  LeaderElectionArg] @ e_TLSArgs env
      in onContainer ''cert-controller'' (setArgsAndImage (Some args) img) deployment)"

text \<open>\<open>append(container.Args, args...)\<close>: nil when both are empty and the first is nil.\<close>

definition updateBitwardenServerContainerSpec :: "'s env \<Rightarrow> Deployment \<Rightarrow> string \<Rightarrow> Deployment" where
  "updateBitwardenServerContainerSpec env deployment img =
     onContainer ''bitwarden-sdk-server''
       (\<lambda>c. setArgsAndImage (if c_Args c = None \<and> e_TLSArgs env = [] then None else Some (elems (c_Args c) @ e_TLSArgs env)) img c)
       deployment"

definition applyOperandArgsFromEnv :: "'s env \<Rightarrow> Deployment \<Rightarrow> string \<Rightarrow> string \<Rightarrow> goerr + Deployment" where
  "applyOperandArgsFromEnv env deployment containerName envVarName =
     (let raw = trimSpace (e_Getenv env envVarName) in
      if raw = '''' then Inr deployment
      else (case parseOperandArgsEnv raw of
              Inl err \<Rightarrow> Inl (WrapErr (envVarName @ '': '') err '''')
            | Inr overrides \<Rightarrow>
                if list_ex (\<lambda>c. c_Name c = containerName) (ps_Containers (podSpec deployment))
                then Inr (onContainer containerName (\<lambda>c. c\<lparr>c_Args := mergeContainerArgs (c_Args c) (Some overrides)\<rparr>) deployment)
                else Inl (PlainErr (''container '' @ containerName @ '' not found in deployment '' @ om_Name (d_Meta deployment)))))"

subsection \<open>Volumes and mounts\<close>

definition emptyVolume :: "string \<Rightarrow> Volume" where
  "emptyVolume name = \<lparr>v_Name = name, v_ConfigMap = None, v_Secret = None, v_EmptyDir = None, v_Other = JNull\<rparr>"

definition zeroSecretVolumeSource :: SecretVolumeSource where
  "zeroSecretVolumeSource = \<lparr>svs_SecretName = '''', svs_Items = None, svs_DefaultMode = None, svs_Optional = None\<rparr>"

definition updateSecretVolumeConfig :: "Deployment \<Rightarrow> string \<Rightarrow> string \<Rightarrow> Deployment" where
  "updateSecretVolumeConfig deployment volumeName secretName =
     updPodSpec (\<lambda>p. p\<lparr>ps_Volumes := upsertFirst (\<lambda>v. v_Name v = volumeName)
        (\<lambda>v. v\<lparr>v_Secret := Some ((case v_Secret v of None \<Rightarrow> zeroSecretVolumeSource | Some s \<Rightarrow> s)\<lparr>svs_SecretName := secretName\<rparr>)\<rparr>)
        ((emptyVolume volumeName)\<lparr>v_Secret := Some (zeroSecretVolumeSource\<lparr>svs_SecretName := secretName\<rparr>)\<rparr>)
        (ps_Volumes p)\<rparr>) deployment"

text \<open>A panic when the plugin is not configured: the code dereferences it.\<close>

definition updateBitwardenVolumeConfig :: "Deployment \<Rightarrow> ExternalSecretsConfig \<Rightarrow> (goerr, Deployment) result" where
  "updateBitwardenVolumeConfig deployment esc =
     (case pl_Bitwarden (spec_Plugins (esc_Spec esc)) of
        None \<Rightarrow> Panic ''nil pointer dereference''
      | Some bw \<Rightarrow> Ret (case bw_SecretRef bw of
            None \<Rightarrow> deployment
          | Some name \<Rightarrow> if name \<noteq> '''' then updateSecretVolumeConfig deployment ''bitwarden-tls-certs'' name else deployment))"

definition updateWebhookVolumeConfig :: "Deployment \<Rightarrow> ExternalSecretsConfig \<Rightarrow> Deployment" where
  "updateWebhookVolumeConfig deployment esc =
     (if isCertManagerConfigEnabled esc then updateSecretVolumeConfig deployment ''certs'' certmanagerTLSSecretWebhook else deployment)"

definition updateVolumeMount :: "Container \<Rightarrow> string \<Rightarrow> string \<Rightarrow> Container" where
  "updateVolumeMount container volumeName volumeMountPath =
     (let mount = \<lparr>vm_Name = volumeName, vm_MountPath = volumeMountPath, vm_ReadOnly = True, vm_Other = JNull\<rparr>
      in container\<lparr>c_VolumeMounts := upsertFirst (\<lambda>m. vm_Name m = volumeName) (\<lambda>_. mount) mount (c_VolumeMounts container)\<rparr>)"

definition upsertConfigMapVolume :: "Deployment \<Rightarrow> string \<Rightarrow> string \<Rightarrow> string \<Rightarrow> string \<Rightarrow> Deployment" where
  "upsertConfigMapVolume deployment configMapName configMapKeyName volumeName volumeKeyPath =
     (let items = (if configMapKeyName \<noteq> '''' \<and> volumeKeyPath \<noteq> ''''
                   then Some [\<lparr>ktp_Key = configMapKeyName, ktp_Path = volumeKeyPath, ktp_Mode = None\<rparr>] else None);
          volume = (emptyVolume volumeName)\<lparr>v_ConfigMap := Some \<lparr>cmvs_Name = configMapName, cmvs_Items = items,
                      cmvs_DefaultMode = Some 420, cmvs_Optional = None\<rparr>\<rparr>
      in updPodSpec (\<lambda>p. p\<lparr>ps_Volumes := upsertFirst (\<lambda>v. v_Name v = volumeName) (\<lambda>_. volume) volume (ps_Volumes p)\<rparr>) deployment)"

definition pruneVolumeMount :: "Container \<Rightarrow> string \<Rightarrow> Container" where
  "pruneVolumeMount container volumeName =
     container\<lparr>c_VolumeMounts := filter (\<lambda>m. vm_Name m \<noteq> volumeName) (c_VolumeMounts container)\<rparr>"

definition prunePodVolume :: "Deployment \<Rightarrow> string \<Rightarrow> Deployment" where
  "prunePodVolume deployment volumeName =
     updPodSpec (\<lambda>p. p\<lparr>ps_Volumes := filter (\<lambda>v. v_Name v \<noteq> volumeName) (ps_Volumes p)\<rparr>) deployment"

definition applyTrustedCABundleVolumes :: "Deployment \<Rightarrow> Deployment" where
  "applyTrustedCABundleVolumes deployment =
     mapAllContainers (\<lambda>c. updateVolumeMount c ProxyTrustedCABundleVolumeName ProxyTrustedCABundleMountPath)
       (upsertConfigMapVolume deployment ProxyTrustedCABundleConfigMapName '''' ProxyTrustedCABundleVolumeName '''')"

definition removeTrustedCABundleVolumes :: "Deployment \<Rightarrow> Deployment" where
  "removeTrustedCABundleVolumes deployment =
     mapAllContainers (\<lambda>c. pruneVolumeMount c ProxyTrustedCABundleVolumeName) (prunePodVolume deployment ProxyTrustedCABundleVolumeName)"

subsection \<open>Environment variables\<close>

definition mergeContainerEnvVars :: "Container \<Rightarrow> strmap \<Rightarrow> Container" where
  "mergeContainerEnvVars container envVars =
     (if isNil envVars then container
      else (let names = sort (gkeys envVars);
                managed = map (\<lambda>n. \<lparr>ev_Name = n, ev_Value = gget envVars n, ev_ValueFrom = None\<rparr>)
                            (filter (\<lambda>n. gget envVars n \<noteq> '''') names);
                others = filter (\<lambda>e. \<not> ghas envVars (ev_Name e)) (c_Env container)
            in container\<lparr>c_Env := managed @ others\<rparr>))"

definition pruneContainerEnvVars :: "Container \<Rightarrow> string list \<Rightarrow> Container" where
  "pruneContainerEnvVars container envVars =
     (if c_Env container = [] \<or> envVars = [] then container
      else container\<lparr>c_Env := filter (\<lambda>e. \<not> List.member envVars (ev_Name e)) (c_Env container)\<rparr>)"

definition proxyEnv :: "ProxyConfig \<Rightarrow> strmap" where
  "proxyEnv proxyConfig = GoMap
     [(httpProxyEnvVar, px_HTTPProxy proxyConfig), (httpsProxyEnvVar, px_HTTPSProxy proxyConfig),
      (noProxyEnvVar, px_NoProxy proxyConfig), (httpProxyEnvVarLowercase, px_HTTPProxy proxyConfig),
      (httpsProxyEnvVarLowercase, px_HTTPSProxy proxyConfig), (noProxyEnvVarLowercase, px_NoProxy proxyConfig)]"

definition setProxyEnvVars :: "Container \<Rightarrow> ProxyConfig option \<Rightarrow> Container" where
  "setProxyEnvVars container proxyConfig =
     (case proxyConfig of None \<Rightarrow> container | Some p \<Rightarrow> mergeContainerEnvVars container (proxyEnv p))"

definition proxyEnvVars :: "string list" where
  "proxyEnvVars = [httpProxyEnvVar, httpsProxyEnvVar, noProxyEnvVar,
     httpProxyEnvVarLowercase, httpsProxyEnvVarLowercase, noProxyEnvVarLowercase]"

definition removeProxyEnvVars :: "Container \<Rightarrow> Container" where
  "removeProxyEnvVars container = pruneContainerEnvVars container proxyEnvVars"

definition applyProxyEnvironmentVariables :: "Deployment \<Rightarrow> ProxyConfig option \<Rightarrow> Deployment" where
  "applyProxyEnvironmentVariables deployment proxyConfig = mapAllContainers (\<lambda>c. setProxyEnvVars c proxyConfig) deployment"

definition removeProxyEnvironmentVariables :: "Deployment \<Rightarrow> Deployment" where
  "removeProxyEnvironmentVariables deployment = mapAllContainers removeProxyEnvVars deployment"

definition updateProxyConfiguration :: "ProxyConfig option \<Rightarrow> Deployment \<Rightarrow> Deployment" where
  "updateProxyConfiguration proxyConfig deployment =
     (if \<not> hasEffectiveProxyURLs proxyConfig
      then removeTrustedCABundleVolumes (removeProxyEnvironmentVariables deployment)
      else applyTrustedCABundleVolumes (applyProxyEnvironmentVariables deployment proxyConfig))"

fun mergeEnvList :: "EnvVar list \<Rightarrow> EnvVar list \<Rightarrow> EnvVar list" where
  "mergeEnvList env [] = env"
| "mergeEnvList env (override # overrides) =
     mergeEnvList (upsertFirst (\<lambda>e. ev_Name e = ev_Name override) (\<lambda>_. override) override env) overrides"

definition mergeUserEnvVars :: "Container \<Rightarrow> EnvVar list \<Rightarrow> Container" where
  "mergeUserEnvVars container overrideEnv = container\<lparr>c_Env := mergeEnvList (c_Env container) overrideEnv\<rparr>"

subsection \<open>Resources and scheduling\<close>

definition globalCommon :: "ExternalSecretsManager \<Rightarrow> CommonConfigs option" where
  "globalCommon esm = map_option gc_Common (es_GlobalConfig (esm_Spec esm))"

abbreviation ownCommon :: "ExternalSecretsConfig \<Rightarrow> CommonConfigs" where
  "ownCommon esc \<equiv> ac_Common (spec_ApplicationConfig (esc_Spec esc))"

definition validateResourceRequirements :: "'s env \<Rightarrow> ResourceRequirements \<Rightarrow> goerr option" where
  "validateResourceRequirements env requirements = e_ValidateResources env requirements"

definition validateNodeSelectorConfig :: "'s env \<Rightarrow> strmap \<Rightarrow> goerr option" where
  "validateNodeSelectorConfig env nodeSelector = e_ValidateLabels env nodeSelector"

definition validateAffinityRules :: "'s env \<Rightarrow> blob \<Rightarrow> goerr option" where
  "validateAffinityRules env affinity = e_ValidateAffinity env affinity"

definition validateTolerationsConfig :: "'s env \<Rightarrow> blob list \<Rightarrow> goerr option" where
  "validateTolerationsConfig env tolerations = e_ValidateTolerations env tolerations"

definition updateResourceRequirement :: "'s env \<Rightarrow> ExternalSecretsManager \<Rightarrow> Deployment \<Rightarrow> ExternalSecretsConfig \<Rightarrow> goerr + Deployment" where
  "updateResourceRequirement env esm deployment esc =
     (case (case cc_Resources (ownCommon esc) of
              Some r \<Rightarrow> Some r
            | None \<Rightarrow> Option.bind (globalCommon esm) cc_Resources) of
        None \<Rightarrow> Inr deployment
      | Some rscReqs \<Rightarrow>
          (case validateResourceRequirements env rscReqs of
             Some err \<Rightarrow> Inl (WrapErr ''invalid resource requirements: '' err '''')
           | None \<Rightarrow> Inr (updContainers (map (\<lambda>c. c\<lparr>c_Resources := rscReqs\<rparr>)) deployment)))"

definition updateNodeSelector :: "'s env \<Rightarrow> ExternalSecretsManager \<Rightarrow> Deployment \<Rightarrow> ExternalSecretsConfig \<Rightarrow> goerr + Deployment" where
  "updateNodeSelector env esm deployment esc =
     (let nodeSelector = (if \<not> isNil (cc_NodeSelector (ownCommon esc)) then cc_NodeSelector (ownCommon esc)
                          else (case globalCommon esm of None \<Rightarrow> NilMap | Some g \<Rightarrow> cc_NodeSelector g)) in
      if glen nodeSelector = 0 then Inr deployment
      else (case validateNodeSelectorConfig env nodeSelector of
              Some err \<Rightarrow> Inl err
            | None \<Rightarrow> Inr (updPodSpec (\<lambda>p. p\<lparr>ps_NodeSelector := nodeSelector\<rparr>) deployment)))"

definition updateAffinityRules :: "'s env \<Rightarrow> ExternalSecretsManager \<Rightarrow> Deployment \<Rightarrow> ExternalSecretsConfig \<Rightarrow> goerr + Deployment" where
  "updateAffinityRules env esm deployment esc =
     (case (case cc_Affinity (ownCommon esc) of
              Some a \<Rightarrow> Some a
            | None \<Rightarrow> Option.bind (globalCommon esm) cc_Affinity) of
        None \<Rightarrow> Inr deployment
      | Some affinity \<Rightarrow>
          (case validateAffinityRules env affinity of
             Some err \<Rightarrow> Inl err
           | None \<Rightarrow> Inr (updPodSpec (\<lambda>p. p\<lparr>ps_Affinity := Some affinity\<rparr>) deployment)))"

definition updatePodTolerations :: "'s env \<Rightarrow> ExternalSecretsManager \<Rightarrow> Deployment \<Rightarrow> ExternalSecretsConfig \<Rightarrow> goerr + Deployment" where
  "updatePodTolerations env esm deployment esc =
     (let tolerations = (case cc_Tolerations (ownCommon esc) of
            Some t \<Rightarrow> Some t
          | None \<Rightarrow> Option.bind (globalCommon esm) cc_Tolerations) in
      if elems tolerations = [] then Inr deployment
      else (case validateTolerationsConfig env (elems tolerations) of
              Some err \<Rightarrow> Inl err
            | None \<Rightarrow> Inr (updPodSpec (\<lambda>p. p\<lparr>ps_Tolerations := tolerations\<rparr>) deployment)))"

section \<open>Lemmas\<close>

interpretation envs: named_slice ev_Name .
interpretation vols: named_slice v_Name .
interpretation mounts: named_slice vm_Name .

lemma updPodSpec_podSpec [simp]: "podSpec (updPodSpec f d) = f (podSpec d)"
  by (simp add: updPodSpec_def)

lemma updPodSpec_comp [simp]: "updPodSpec f (updPodSpec g d) = updPodSpec (\<lambda>p. f (g p)) d"
  by (simp add: updPodSpec_def)

lemma updPodSpec_cong: "f (podSpec d) = g (podSpec d) \<Longrightarrow> updPodSpec f d = updPodSpec g d"
  by (simp add: updPodSpec_def)

lemma updContainers_updPodSpec: "updContainers f = updPodSpec (\<lambda>p. p\<lparr>ps_Containers := f (ps_Containers p)\<rparr>)"
  by (rule ext) (simp add: updContainers_def updPodSpec_def)

subsection \<open>Proxy settings\<close>

lemma ghas_proxyEnv: "ghas (proxyEnv p) n \<longleftrightarrow> List.member proxyEnvVars n"
  by (auto simp: ghas_def glookup_def proxyEnv_def proxyEnvVars_def)

lemma gkeys_proxyEnv: "set (gkeys (proxyEnv p)) = set proxyEnvVars"
  by (auto simp: gkeys_def proxyEnv_def proxyEnvVars_def)

lemma env_setProxyEnvVars:
  "c_Env (setProxyEnvVars c (Some p)) =
     map (\<lambda>n. \<lparr>ev_Name = n, ev_Value = gget (proxyEnv p) n, ev_ValueFrom = None\<rparr>)
       (filter (\<lambda>n. gget (proxyEnv p) n \<noteq> '''') (sort (gkeys (proxyEnv p)))) @
     filter (\<lambda>e. \<not> List.member proxyEnvVars (ev_Name e)) (c_Env c)"
proof -
  have "\<not> isNil (proxyEnv p)" by (simp add: proxyEnv_def)
  then show ?thesis by (simp add: setProxyEnvVars_def mergeContainerEnvVars_def Let_def ghas_proxyEnv)
qed

lemma env_removeProxyEnvVars:
  "c_Env (removeProxyEnvVars c) = filter (\<lambda>e. \<not> List.member proxyEnvVars (ev_Name e)) (c_Env c)"
  by (auto simp: removeProxyEnvVars_def pruneContainerEnvVars_def proxyEnvVars_def)

lemma remove_eq: "removeProxyEnvVars c = c\<lparr>c_Env := filter (\<lambda>e. \<not> List.member proxyEnvVars (ev_Name e)) (c_Env c)\<rparr>"
  by (auto simp: removeProxyEnvVars_def pruneContainerEnvVars_def proxyEnvVars_def)

lemma set_eq: "setProxyEnvVars c (Some p) = c\<lparr>c_Env := c_Env (setProxyEnvVars c (Some p))\<rparr>"
  by (simp add: setProxyEnvVars_def mergeContainerEnvVars_def Let_def)

lemma unmanaged_setProxyEnvVars:
  "filter (\<lambda>e. \<not> List.member proxyEnvVars (ev_Name e)) (c_Env (setProxyEnvVars c (Some p))) =
   filter (\<lambda>e. \<not> List.member proxyEnvVars (ev_Name e)) (c_Env c)"
proof -
  have "filter (\<lambda>e. \<not> List.member proxyEnvVars (ev_Name e))
      (map (\<lambda>n. \<lparr>ev_Name = n, ev_Value = gget (proxyEnv p) n, ev_ValueFrom = None\<rparr>)
         (filter (\<lambda>n. gget (proxyEnv p) n \<noteq> '''') (sort (gkeys (proxyEnv p))))) = []"
    using gkeys_proxyEnv by (auto simp: filter_empty_conv)
  then show ?thesis by (simp add: env_setProxyEnvVars)
qed

lemma find_map_named:
  "find (\<lambda>e. ev_Name e = n) (map (\<lambda>m. \<lparr>ev_Name = m, ev_Value = g m, ev_ValueFrom = None\<rparr>) ns) =
     (if n \<in> set ns then Some \<lparr>ev_Name = n, ev_Value = g n, ev_ValueFrom = None\<rparr> else None)"
  by (induction ns) auto

lemma find_append: "find P (xs @ ys) = (case find P xs of Some x \<Rightarrow> Some x | None \<Rightarrow> find P ys)"
  by (induction xs) auto

lemma proxy_var_set:
  assumes "n \<in> set proxyEnvVars"
  shows "find (\<lambda>e. ev_Name e = n) (c_Env (setProxyEnvVars c (Some p))) =
     (if gget (proxyEnv p) n \<noteq> '''' then Some \<lparr>ev_Name = n, ev_Value = gget (proxyEnv p) n, ev_ValueFrom = None\<rparr> else None)"
proof -
  have "find (\<lambda>e. ev_Name e = n) (filter (\<lambda>e. \<not> List.member proxyEnvVars (ev_Name e)) (c_Env c)) = None"
    using assms by (auto simp: find_None_iff)
  with assms gkeys_proxyEnv [of p] show ?thesis
    by (auto simp: env_setProxyEnvVars find_append find_map_named split: option.splits)
qed

text \<open>What the two settings do to a container, as one function each.\<close>

definition proxied :: "ProxyConfig \<Rightarrow> Container \<Rightarrow> Container" where
  "proxied p c = updateVolumeMount (setProxyEnvVars c (Some p)) ProxyTrustedCABundleVolumeName ProxyTrustedCABundleMountPath"

definition unproxied :: "Container \<Rightarrow> Container" where
  "unproxied c = pruneVolumeMount (removeProxyEnvVars c) ProxyTrustedCABundleVolumeName"

lemma mapAllContainers_comp: "mapAllContainers f (mapAllContainers g d) = mapAllContainers (\<lambda>c. f (g c)) d"
  by (simp add: mapAllContainers_def comp_def)

lemma unproxied_proxied: "unproxied (proxied p c) = unproxied c"
proof -
  have "filter (\<lambda>m. vm_Name m \<noteq> n) (upsertFirst (\<lambda>m. vm_Name m = n) (\<lambda>_. y) y ms) = filter (\<lambda>m. vm_Name m \<noteq> n) ms"
    if "vm_Name y = n" for n ms and y :: VolumeMount using that by (intro mounts.prune_upsert) simp_all
  then have "unproxied (proxied p c) = c\<lparr>c_Env := filter (\<lambda>e. \<not> List.member proxyEnvVars (ev_Name e)) (c_Env (setProxyEnvVars c (Some p))),
      c_VolumeMounts := filter (\<lambda>m. vm_Name m \<noteq> ProxyTrustedCABundleVolumeName) (c_VolumeMounts c)\<rparr>"
    unfolding unproxied_def proxied_def
    by (subst set_eq) (simp add: remove_eq pruneVolumeMount_def updateVolumeMount_def Let_def)
  then show ?thesis by (simp only: unmanaged_setProxyEnvVars) (simp add: unproxied_def remove_eq pruneVolumeMount_def)
qed

lemma unproxied_idem: "unproxied (unproxied c) = unproxied c"
  by (simp add: unproxied_def remove_eq pruneVolumeMount_def)

text \<open>Both branches as one edit of the pod spec.\<close>

lemma updateProxyConfiguration_on:
  assumes "hasEffectiveProxyURLs (Some p)"
  shows "updateProxyConfiguration (Some p) d = updPodSpec (\<lambda>ps. ps\<lparr>
     ps_Volumes := ps_Volumes (podSpec (upsertConfigMapVolume d ProxyTrustedCABundleConfigMapName '''' ProxyTrustedCABundleVolumeName '''')),
     ps_Containers := map (proxied p) (ps_Containers ps), ps_InitContainers := map (proxied p) (ps_InitContainers ps)\<rparr>) d"
  using assms
  by (auto simp: updateProxyConfiguration_def applyTrustedCABundleVolumes_def applyProxyEnvironmentVariables_def
      mapAllContainers_def upsertConfigMapVolume_def Let_def proxied_def comp_def intro!: updPodSpec_cong)

lemma updateProxyConfiguration_off:
  assumes "\<not> hasEffectiveProxyURLs pc"
  shows "updateProxyConfiguration pc d = updPodSpec (\<lambda>ps. ps\<lparr>
     ps_Volumes := filter (\<lambda>v. v_Name v \<noteq> ProxyTrustedCABundleVolumeName) (ps_Volumes ps),
     ps_Containers := map unproxied (ps_Containers ps), ps_InitContainers := map unproxied (ps_InitContainers ps)\<rparr>) d"
  using assms
  by (auto simp: updateProxyConfiguration_def removeTrustedCABundleVolumes_def removeProxyEnvironmentVariables_def
      mapAllContainers_def prunePodVolume_def unproxied_def comp_def intro!: updPodSpec_cong)

subsection \<open>User environment variables\<close>

lemma find_mergeEnvList:
  "find (\<lambda>e. ev_Name e = n) (mergeEnvList env ovs) =
     (case lastByKey ev_Name ovs n of Some v \<Rightarrow> Some v | None \<Rightarrow> find (\<lambda>e. ev_Name e = n) env)"
proof (induction ovs arbitrary: env)
  case (Cons ov ovs)
  have same: "find (\<lambda>e. ev_Name e = ev_Name ov) (upsertFirst (\<lambda>e. ev_Name e = ev_Name ov) (\<lambda>_. ov) ov env) = Some ov"
    by (rule envs.find_upsert_same) simp_all
  have other: "find (\<lambda>e. ev_Name e = n) (upsertFirst (\<lambda>e. ev_Name e = ev_Name ov) (\<lambda>_. ov) ov env) = find (\<lambda>e. ev_Name e = n) env"
    if "n \<noteq> ev_Name ov" using that by (intro envs.find_upsert_other) simp_all
  show ?case using Cons same other by (auto simp: lastByKey_Cons split: option.splits)
qed simp

lemma distinct_mergeEnvList:
  "distinct (map ev_Name env) \<Longrightarrow> distinct (map ev_Name (mergeEnvList env ovs))"
proof (induction ovs arbitrary: env)
  case (Cons ov ovs)
  have "distinct (map ev_Name (upsertFirst (\<lambda>e. ev_Name e = ev_Name ov) (\<lambda>_. ov) ov env))"
    using Cons.prems by (intro envs.distinct_upsert) simp_all
  then show ?case using Cons.IH by simp
qed simp

section \<open>Properties\<close>

text \<open>C20. Proxy settings reach every container and leave no residue. With a proxy configured, each
  container and init container has each of the six proxy variables with its value, or not at all
  when the value is empty, its other variables are unchanged and in order, it mounts the trusted CA
  bundle read-only, and the pod has the bundle's volume. Removing the configuration afterwards gives
  the same deployment as never having had it.\<close>

theorem proxy_settings_complete:
  assumes "hasEffectiveProxyURLs (Some p)" and "n \<in> set proxyEnvVars"
    and "c' \<in> set (ps_Containers (podSpec (updateProxyConfiguration (Some p) d)) @ ps_InitContainers (podSpec (updateProxyConfiguration (Some p) d)))"
  shows "(\<exists>c \<in> set (ps_Containers (podSpec d) @ ps_InitContainers (podSpec d)).
      filter (\<lambda>e. ev_Name e \<notin> set proxyEnvVars) (c_Env c') = filter (\<lambda>e. ev_Name e \<notin> set proxyEnvVars) (c_Env c)) \<and>
    find (\<lambda>e. ev_Name e = n) (c_Env c') =
      (if gget (proxyEnv p) n \<noteq> '''' then Some \<lparr>ev_Name = n, ev_Value = gget (proxyEnv p) n, ev_ValueFrom = None\<rparr> else None) \<and>
    find (\<lambda>m. vm_Name m = ProxyTrustedCABundleVolumeName) (c_VolumeMounts c') =
      Some \<lparr>vm_Name = ProxyTrustedCABundleVolumeName, vm_MountPath = ProxyTrustedCABundleMountPath, vm_ReadOnly = True, vm_Other = JNull\<rparr> \<and>
    find (\<lambda>v. v_Name v = ProxyTrustedCABundleVolumeName) (ps_Volumes (podSpec (updateProxyConfiguration (Some p) d))) \<noteq> None \<and>
    updateProxyConfiguration None (updateProxyConfiguration (Some p) d) = updateProxyConfiguration None d"
proof -
  from assms(3) obtain c where c: "c \<in> set (ps_Containers (podSpec d) @ ps_InitContainers (podSpec d))" "c' = proxied p c"
    by (auto simp: updateProxyConfiguration_on [OF assms(1)])
  have env: "c_Env c' = c_Env (setProxyEnvVars c (Some p))"
    by (simp add: c(2) proxied_def updateVolumeMount_def Let_def)
  have mount: "find (\<lambda>m. vm_Name m = ProxyTrustedCABundleVolumeName) (c_VolumeMounts c') =
      Some \<lparr>vm_Name = ProxyTrustedCABundleVolumeName, vm_MountPath = ProxyTrustedCABundleMountPath, vm_ReadOnly = True, vm_Other = JNull\<rparr>"
    by (simp add: c(2) proxied_def updateVolumeMount_def Let_def mounts.find_upsert_same)
  have vol: "find (\<lambda>v. v_Name v = ProxyTrustedCABundleVolumeName) (ps_Volumes (podSpec (updateProxyConfiguration (Some p) d))) \<noteq> None"
    by (simp add: updateProxyConfiguration_on [OF assms(1)] upsertConfigMapVolume_def Let_def emptyVolume_def
        vols.find_upsert_same)
  have off: "\<not> hasEffectiveProxyURLs None" by (simp add: hasEffectiveProxyURLs_def)
  have "updateProxyConfiguration None (updateProxyConfiguration (Some p) d) = updateProxyConfiguration None d"
    unfolding updateProxyConfiguration_off [OF off] updateProxyConfiguration_on [OF assms(1)] updPodSpec_comp
    by (rule updPodSpec_cong)
       (simp add: upsertConfigMapVolume_def Let_def emptyVolume_def vols.prune_upsert comp_def unproxied_proxied)
  moreover have "filter (\<lambda>e. ev_Name e \<notin> set proxyEnvVars) (c_Env c') = filter (\<lambda>e. ev_Name e \<notin> set proxyEnvVars) (c_Env c)"
    using unmanaged_setProxyEnvVars [of c p] env by simp
  ultimately show ?thesis using c(1) env proxy_var_set [OF assms(2), of c p] mount vol by auto
qed

definition sampleProxy :: ProxyConfig where
  "sampleProxy = \<lparr>px_HTTPProxy = ''http://proxy:3128'', px_HTTPSProxy = '''', px_NoProxy = '''', px_NetworkPolicyProvisioning = ''''\<rparr>"

theorem proxy_settings_complete_witness:
  "find (\<lambda>e. ev_Name e = ''http_proxy'') (c_Env (hd (ps_Containers (podSpec (updateProxyConfiguration (Some sampleProxy) patchTarget))))) =
     Some \<lparr>ev_Name = ''http_proxy'', ev_Value = ''http://proxy:3128'', ev_ValueFrom = None\<rparr>"
proof -
  have on: "hasEffectiveProxyURLs (Some sampleProxy)" by code_simp
  have n: "''http_proxy'' \<in> set proxyEnvVars" by (simp add: proxyEnvVars_def proxy_var_defs)
  have "ps_Containers (podSpec patchTarget) \<noteq> []" by (simp add: patchTarget_def)
  then have c: "hd (ps_Containers (podSpec (updateProxyConfiguration (Some sampleProxy) patchTarget))) \<in>
      set (ps_Containers (podSpec (updateProxyConfiguration (Some sampleProxy) patchTarget)) @
        ps_InitContainers (podSpec (updateProxyConfiguration (Some sampleProxy) patchTarget)))"
    by (simp add: updateProxyConfiguration_on [OF on] hd_map)
  have "gget (proxyEnv sampleProxy) ''http_proxy'' = ''http://proxy:3128''" by code_simp
  with proxy_settings_complete [OF on n c] show ?thesis by simp
qed

text \<open>The user's environment variables win over the container's own: for every name the last
  override decides, variables that are not overridden stay, and names stay distinct.\<close>

theorem user_env_precedence:
  assumes "distinct (map ev_Name (c_Env c))"
  shows "find (\<lambda>e. ev_Name e = n) (c_Env (mergeUserEnvVars c overrides)) =
      (case lastByKey ev_Name overrides n of Some v \<Rightarrow> Some v | None \<Rightarrow> find (\<lambda>e. ev_Name e = n) (c_Env c)) \<and>
    distinct (map ev_Name (c_Env (mergeUserEnvVars c overrides)))"
  using assms by (simp add: mergeUserEnvVars_def find_mergeEnvList distinct_mergeEnvList)

theorem user_env_precedence_witness:
  "find (\<lambda>e. ev_Name e = ''A'') (c_Env (mergeUserEnvVars (zeroContainer\<lparr>c_Env := [\<lparr>ev_Name = ''A'', ev_Value = ''1'', ev_ValueFrom = None\<rparr>]\<rparr>)
      [\<lparr>ev_Name = ''A'', ev_Value = ''2'', ev_ValueFrom = None\<rparr>])) = Some \<lparr>ev_Name = ''A'', ev_Value = ''2'', ev_ValueFrom = None\<rparr>"
  using user_env_precedence [of "zeroContainer\<lparr>c_Env := [\<lparr>ev_Name = ''A'', ev_Value = ''1'', ev_ValueFrom = None\<rparr>]\<rparr>" "''A''"
      "[\<lparr>ev_Name = ''A'', ev_Value = ''2'', ev_ValueFrom = None\<rparr>]"]
  by (simp add: lastByKey_def)

end
