(* ===== verification/Once_Gate.thy ===== *)
theory Once_Gate
  imports Go_Prelude
begin

section \<open>The resettable once gate: \<^verbatim>\<open>Now\<close> in \<^verbatim>\<open>pkg/controller/common/utils.go\<close>\<close>

text \<open>
  \<^verbatim>\<open>Now\<close> is \<^verbatim>\<open>sync.Once\<close> with a \<^verbatim>\<open>Reset\<close>: a mutex and an atomic word. Any number of goroutines
  call \<open>Do\<close> and \<open>Reset\<close> concurrently; each atomic action (a load, a store, a lock, an unlock, the
  start and the end of the function) is one step of the relation below, so that every interleaving
  is a sequence of steps. The invariant gives mutual exclusion, at most one call of the function
  between two resets, and that \<open>Do\<close> returns only after the call has ended.
\<close>

type_synonym thread = nat

text \<open>Where a goroutine is: outside, or before the named action of \<open>Do\<close> or \<open>Reset\<close>.\<close>

datatype pc =
    Idle
  | DoFirstLoad      \<comment> \<open>\<open>if n.done.Load() == 0\<close>\<close>
  | DoLock           \<comment> \<open>\<open>n.Lock()\<close>\<close>
  | DoSecondLoad     \<comment> \<open>the load under the lock\<close>
  | DoCall           \<comment> \<open>\<open>f()\<close> is running\<close>
  | DoStore          \<comment> \<open>the deferred \<open>n.done.Store(1)\<close>\<close>
  | DoUnlock         \<comment> \<open>the deferred \<open>n.Unlock()\<close>\<close>
  | DoReturned       \<comment> \<open>\<open>Do\<close> is about to return\<close>
  | ResetLock
  | ResetStore
  | ResetUnlock

record Now =
  now_done :: bool
  now_mutex :: "thread option"
  now_pc :: "thread \<Rightarrow> pc"
  now_calls :: nat       \<comment> \<open>calls of the function since the last reset\<close>
  now_ended :: bool      \<comment> \<open>such a call has ended\<close>

definition nowInit :: Now where
  "nowInit = \<lparr>now_done = False, now_mutex = None, now_pc = (\<lambda>_. Idle), now_calls = 0, now_ended = False\<rparr>"

abbreviation goto :: "thread \<Rightarrow> pc \<Rightarrow> Now \<Rightarrow> Now" where
  "goto t p n \<equiv> n\<lparr>now_pc := (now_pc n)(t := p)\<rparr>"

text \<open>The actions of one goroutine inside \<open>Do\<close> and inside \<open>Reset\<close>.\<close>

inductive Now_Do :: "thread \<Rightarrow> Now \<Rightarrow> Now \<Rightarrow> bool" for t :: thread where
  do_enter: "now_pc n t = Idle \<Longrightarrow> Now_Do t n (goto t DoFirstLoad n)"
| do_fast: "now_pc n t = DoFirstLoad \<Longrightarrow> now_done n \<Longrightarrow> Now_Do t n (goto t DoReturned n)"
| do_slow: "now_pc n t = DoFirstLoad \<Longrightarrow> \<not> now_done n \<Longrightarrow> Now_Do t n (goto t DoLock n)"
| do_lock: "now_pc n t = DoLock \<Longrightarrow> now_mutex n = None \<Longrightarrow>
    Now_Do t n (goto t DoSecondLoad (n\<lparr>now_mutex := Some t\<rparr>))"
| do_lost: "now_pc n t = DoSecondLoad \<Longrightarrow> now_done n \<Longrightarrow> Now_Do t n (goto t DoUnlock n)"
| do_call: "now_pc n t = DoSecondLoad \<Longrightarrow> \<not> now_done n \<Longrightarrow>
    Now_Do t n (goto t DoCall (n\<lparr>now_calls := Suc (now_calls n)\<rparr>))"
| do_end: "now_pc n t = DoCall \<Longrightarrow> Now_Do t n (goto t DoStore (n\<lparr>now_ended := True\<rparr>))"
| do_store: "now_pc n t = DoStore \<Longrightarrow> Now_Do t n (goto t DoUnlock (n\<lparr>now_done := True\<rparr>))"
| do_unlock: "now_pc n t = DoUnlock \<Longrightarrow> Now_Do t n (goto t DoReturned (n\<lparr>now_mutex := None\<rparr>))"
| do_return: "now_pc n t = DoReturned \<Longrightarrow> Now_Do t n (goto t Idle n)"

inductive Now_Reset :: "thread \<Rightarrow> Now \<Rightarrow> Now \<Rightarrow> bool" for t :: thread where
  reset_enter: "now_pc n t = Idle \<Longrightarrow> Now_Reset t n (goto t ResetLock n)"
| reset_lock: "now_pc n t = ResetLock \<Longrightarrow> now_mutex n = None \<Longrightarrow>
    Now_Reset t n (goto t ResetStore (n\<lparr>now_mutex := Some t\<rparr>))"
| reset_store: "now_pc n t = ResetStore \<Longrightarrow>
    Now_Reset t n (goto t ResetUnlock (n\<lparr>now_done := False, now_calls := 0, now_ended := False\<rparr>))"
| reset_unlock: "now_pc n t = ResetUnlock \<Longrightarrow> Now_Reset t n (goto t Idle (n\<lparr>now_mutex := None\<rparr>))"

inductive reachable :: "Now \<Rightarrow> bool" where
  start: "reachable nowInit"
| step_do: "reachable n \<Longrightarrow> Now_Do t n n' \<Longrightarrow> reachable n'"
| step_reset: "reachable n \<Longrightarrow> Now_Reset t n n' \<Longrightarrow> reachable n'"

text \<open>What one goroutine alone does, as the reconcilers use the gate.\<close>

definition nowDo :: "bool \<Rightarrow> ('e, 's, unit) prog \<Rightarrow> ('e, 's, bool) prog" where
  "nowDo done f = (if done then gret True else andThen f (\<lambda>_. gret True))"

section \<open>Lemmas\<close>

inductive_cases Now_DoE: "Now_Do t n n'"
inductive_cases Now_ResetE: "Now_Reset t n n'"

definition locked :: "pc set" where
  "locked = {DoSecondLoad, DoCall, DoStore, DoUnlock, ResetStore, ResetUnlock}"

text \<open>The goroutines that hold the mutex are exactly those between a lock and its unlock, and the
  call count follows the flag and the goroutine inside the call.\<close>

definition nowInv :: "Now \<Rightarrow> bool" where
  "nowInv n \<longleftrightarrow>
     (\<forall>t. now_pc n t \<in> locked \<longleftrightarrow> now_mutex n = Some t) \<and>
     now_calls n = (if now_done n \<or> (\<exists>t. now_pc n t \<in> {DoCall, DoStore}) then 1 else 0) \<and>
     (now_ended n \<longleftrightarrow> now_done n \<or> (\<exists>t. now_pc n t \<in> {DoStore})) \<and>
     (\<forall>t. now_pc n t \<in> {DoCall, DoStore} \<longrightarrow> \<not> now_done n) \<and>
     (\<forall>t. now_pc n t \<in> {DoUnlock} \<longrightarrow> now_done n)"

lemma nowInv_init: "nowInv nowInit"
  by (simp add: nowInv_def nowInit_def locked_def)

lemma holder_unique:
  "nowInv n \<Longrightarrow> now_pc n t \<in> locked \<Longrightarrow> now_pc n u \<in> locked \<Longrightarrow> u = t"
  by (metis nowInv_def option.inject)

text \<open>While one goroutine holds the mutex, no other is inside the call.\<close>

lemma others_outside:
  "nowInv n \<Longrightarrow> now_pc n t \<in> locked \<Longrightarrow> u \<noteq> t \<Longrightarrow> now_pc n u \<noteq> DoCall \<and> now_pc n u \<noteq> DoStore \<and> now_pc n u \<noteq> DoUnlock"
  using holder_unique [of n t u] by (auto simp: locked_def)

lemma none_inside:
  assumes "nowInv n" and "now_pc n t \<in> {DoSecondLoad, ResetStore, ResetUnlock}"
  shows "now_pc n u \<noteq> DoCall" and "now_pc n u \<noteq> DoStore" and "now_pc n u \<noteq> DoUnlock"
    and "u \<noteq> t \<Longrightarrow> now_pc n u \<notin> locked"
proof -
  have t: "now_pc n t \<in> locked" using assms(2) by (auto simp: locked_def)
  have "now_pc n u \<noteq> DoCall \<and> now_pc n u \<noteq> DoStore \<and> now_pc n u \<noteq> DoUnlock"
  proof (cases "u = t")
    case True
    with assms(2) show ?thesis by auto
  next
    case False
    with others_outside [OF assms(1) t] show ?thesis by simp
  qed
  then show "now_pc n u \<noteq> DoCall" and "now_pc n u \<noteq> DoStore" and "now_pc n u \<noteq> DoUnlock" by simp_all
  show "now_pc n u \<notin> locked" if "u \<noteq> t" using holder_unique [OF assms(1) t, of u] that by blast
qed

lemma none_inside_unlocked:
  "nowInv n \<Longrightarrow> now_mutex n = None \<Longrightarrow> now_pc n u \<noteq> DoCall \<and> now_pc n u \<noteq> DoStore \<and> now_pc n u \<noteq> DoUnlock"
  by (auto simp: nowInv_def locked_def)

lemma nowInv_move:
  assumes "nowInv n" and "now_pc n t \<notin> locked" and "p \<notin> locked"
  shows "nowInv (goto t p n)"
proof -
  let ?pc = "(now_pc n)(t := p)"
  have at: "?pc u \<in> Q \<longleftrightarrow> now_pc n u \<in> Q" if "Q \<subseteq> locked" for u Q
    using assms(2,3) that by auto
  have "?pc u \<in> {DoCall, DoStore} \<longleftrightarrow> now_pc n u \<in> {DoCall, DoStore}"
    and "?pc u \<in> {DoStore} \<longleftrightarrow> now_pc n u \<in> {DoStore}"
    and "?pc u \<in> {DoUnlock} \<longleftrightarrow> now_pc n u \<in> {DoUnlock}"
    and "?pc u \<in> locked \<longleftrightarrow> now_pc n u \<in> locked" for u
    by (rule at, simp add: locked_def)+
  with assms(1) show ?thesis
    unfolding nowInv_def by (simp del: insert_iff fun_upd_apply)
qed

lemma nowInv_do:
  assumes "Now_Do t n n'" and "nowInv n"
  shows "nowInv n'"
  using assms
proof cases
  case do_enter
  with nowInv_move [OF assms(2), of t] show ?thesis by (simp add: locked_def)
next
  case do_fast
  with nowInv_move [OF assms(2), of t] show ?thesis by (simp add: locked_def)
next
  case do_slow
  with nowInv_move [OF assms(2), of t] show ?thesis by (simp add: locked_def)
next
  case do_lock
  with assms(2) none_inside_unlocked [OF assms(2)] show ?thesis
    by (auto simp: nowInv_def locked_def fun_upd_apply)
next
  case do_lost
  with assms(2) show ?thesis by (auto simp: nowInv_def locked_def fun_upd_apply)
next
  case do_call
  then have none: "now_pc n u \<noteq> DoCall" "now_pc n u \<noteq> DoStore" "now_pc n u \<noteq> DoUnlock" for u
    using none_inside [OF assms(2), of t] by auto
  have "now_mutex n = Some t" using do_call assms(2) by (auto simp: nowInv_def locked_def)
  moreover from none do_call assms(2) have "now_calls n = 0" and "\<not> now_ended n" by (auto simp: nowInv_def)
  ultimately show ?thesis using none do_call assms(2) by (simp add: nowInv_def locked_def)
next
  case do_end
  with assms(2) others_outside [OF assms(2), of t] show ?thesis
    by (auto simp: nowInv_def locked_def fun_upd_apply)
next
  case do_store
  with assms(2) others_outside [OF assms(2), of t] show ?thesis
    by (auto simp: nowInv_def locked_def fun_upd_apply)
next
  case do_unlock
  then have "now_pc n u \<notin> locked" if "u \<noteq> t" for u
    using holder_unique [OF assms(2), of t u] that by (auto simp: locked_def)
  moreover have "now_done n" and "now_mutex n = Some t"
    using do_unlock assms(2) by (auto simp: nowInv_def locked_def)
  ultimately show ?thesis using do_unlock assms(2) by (auto simp: nowInv_def locked_def)
next
  case do_return
  with nowInv_move [OF assms(2), of t] show ?thesis by (simp add: locked_def)
qed

lemma nowInv_reset:
  assumes "Now_Reset t n n'" and "nowInv n"
  shows "nowInv n'"
  using assms
proof cases
  case reset_enter
  with nowInv_move [OF assms(2), of t] show ?thesis by (simp add: locked_def)
next
  case reset_lock
  with assms(2) none_inside_unlocked [OF assms(2)] show ?thesis
    by (auto simp: nowInv_def locked_def fun_upd_apply)
next
  case reset_store
  then have none: "now_pc n u \<noteq> DoCall" "now_pc n u \<noteq> DoStore" "now_pc n u \<noteq> DoUnlock" for u
    using none_inside [OF assms(2), of t] by auto
  have "now_mutex n = Some t" using reset_store assms(2) by (auto simp: nowInv_def locked_def)
  with none reset_store assms(2) show ?thesis by (auto simp: nowInv_def locked_def)
next
  case reset_unlock
  then have none: "now_pc n u \<noteq> DoCall" "now_pc n u \<noteq> DoStore" "now_pc n u \<noteq> DoUnlock" for u
    using none_inside [OF assms(2), of t] by auto
  have "now_mutex n = Some t" using reset_unlock assms(2) by (auto simp: nowInv_def locked_def)
  moreover have "now_pc n u \<notin> locked" if "u \<noteq> t" for u
    using none_inside(4) [OF assms(2) _ that] reset_unlock by simp
  ultimately show ?thesis using none reset_unlock assms(2) by (simp add: nowInv_def locked_def)
qed

lemma reachable_inv: "reachable n \<Longrightarrow> nowInv n"
  by (induction rule: reachable.induct) (auto intro: nowInv_init nowInv_do nowInv_reset)

section \<open>Properties\<close>

text \<open>
  C17. Under every interleaving of any number of goroutines calling \<^verbatim>\<open>Do\<close> and \<^verbatim>\<open>Reset\<close>, the function
  has been called at most once since the last reset, at most one goroutine is between a lock and
  its unlock, and a goroutine that passes either check with the flag set, and so returns from
  \<^verbatim>\<open>Do\<close> without calling the function, does so only after a call has ended.
\<close>

theorem once_between_resets:
  assumes "reachable n"
  shows "now_calls n \<le> 1 \<and>
    (\<forall>t u. now_pc n t \<in> locked \<and> now_pc n u \<in> locked \<longrightarrow> t = u) \<and>
    (\<forall>t n'. Now_Do t n n' \<and> now_pc n t \<in> {DoFirstLoad, DoSecondLoad} \<and> now_pc n' t \<in> {DoReturned, DoUnlock} \<longrightarrow>
       now_ended n \<and> now_calls n = 1)"
proof -
  have inv: "nowInv n" using assms by (rule reachable_inv)
  have "now_ended n \<and> now_calls n = 1"
    if "Now_Do t n n'" "now_pc n t \<in> {DoFirstLoad, DoSecondLoad}" "now_pc n' t \<in> {DoReturned, DoUnlock}" for t n'
  proof -
    have "now_done n" using that by cases auto
    with inv show ?thesis by (simp add: nowInv_def)
  qed
  with inv show ?thesis using holder_unique [OF inv] by (auto simp: nowInv_def)
qed

text \<open>One goroutine inside the call while a second waits for the mutex.\<close>

definition racing :: Now where
  "racing = goto 1 DoLock (goto 1 DoFirstLoad (goto 0 DoCall ((goto 0 DoSecondLoad
     ((goto 0 DoLock (goto 0 DoFirstLoad nowInit))\<lparr>now_mutex := Some 0\<rparr>))\<lparr>now_calls := Suc 0\<rparr>)))"

lemma racing_reachable: "reachable racing"
proof -
  let ?a = "goto 0 DoFirstLoad nowInit" and ?b = "goto 0 DoLock (goto 0 DoFirstLoad nowInit)"
  let ?c = "goto 0 DoSecondLoad (?b\<lparr>now_mutex := Some 0\<rparr>)"
  let ?d = "goto 0 DoCall (?c\<lparr>now_calls := Suc 0\<rparr>)"
  have a: "reachable ?a" using reachable.start by (rule step_do [of _ 0]) (rule do_enter, simp add: nowInit_def)
  have b: "reachable ?b" using a by (rule step_do [of _ 0]) (rule do_slow, simp_all add: nowInit_def)
  have c: "reachable ?c" using b by (rule step_do [of _ 0]) (rule do_lock, simp_all add: nowInit_def)
  have "Now_Do 0 ?c (goto 0 DoCall (?c\<lparr>now_calls := Suc (now_calls ?c)\<rparr>))"
    by (rule do_call) (simp_all add: nowInit_def)
  then have "Now_Do 0 ?c ?d" by (simp add: nowInit_def)
  with c have d: "reachable ?d" by (rule step_do)
  have "reachable (goto 1 DoFirstLoad ?d)"
    using d by (rule step_do [of _ 1]) (rule do_enter, simp add: nowInit_def)
  then have "reachable (goto 1 DoLock (goto 1 DoFirstLoad ?d))"
    by (rule step_do [of _ 1]) (rule do_slow, simp_all add: nowInit_def)
  then show ?thesis by (simp add: racing_def)
qed

theorem once_between_resets_witness: "now_calls racing \<le> 1"
  using once_between_resets [OF racing_reachable] by blast

end
