(* ===== verification/CA_Bundle.thy ===== *)
theory CA_Bundle
  imports Reconciler_Core Once_Gate
begin

section \<open>User trust bundles: \<^verbatim>\<open>pkg/controller/external_secrets/trusted_ca_bundle.go\<close>\<close>

text \<open>
  Validation of the PEM data of a user-supplied trust bundle, and the events it records. The PEM
  decoder and the X.509 parser are parameters (\<open>e_PemDecode\<close>, \<open>e_ParseCertificate\<close>); all that is
  asked of the decoder is that a block it returns is consumed from the input. The loop runs with
  fuel \<open>Suc (length data)\<close>; \<open>None\<close> stands for a loop that has not ended, and the lemmas show that a
  consuming decoder never runs out.
\<close>

definition trustedCABundleEventUnsupportedPEM :: string where
  "trustedCABundleEventUnsupportedPEM = ''TrustedCABundleUnsupportedPEMBlock''"
definition trustedCABundleEventNotCA :: string where
  "trustedCABundleEventNotCA = ''TrustedCABundleNotCACertificate''"
definition trustedCABundleEventPrivateKey :: string where
  "trustedCABundleEventPrivateKey = ''TrustedCABundlePrivateKeyRejected''"
definition trustedCABundleEventInvalidPEM :: string where
  "trustedCABundleEventInvalidPEM = ''InvalidTrustedCABundle''"
definition trustedCABundleEventSkippedCNOProxy :: string where
  "trustedCABundleEventSkippedCNOProxy = ''TrustedCABundleSkippedCNOProxy''"

definition isPrivateKeyPEMBlock :: "string \<Rightarrow> bool" where
  "isPrivateKeyPEMBlock blockType = List.member
     [''PRIVATE KEY'', ''ENCRYPTED PRIVATE KEY'', ''RSA PRIVATE KEY'', ''EC PRIVATE KEY'', ''DSA PRIVATE KEY''] blockType"

text \<open>\<open>cert.KeyUsage & x509.KeyUsageCertSign\<close>, where \<open>KeyUsageCertSign\<close> is \<open>1 << 5\<close>.\<close>

definition isCACertificate :: "x509cert \<Rightarrow> bool" where
  "isCACertificate cert = (if x_IsCA cert then True else x_KeyUsage cert div 2 ^ 5 mod 2 \<noteq> 0)"

text \<open>The checks on one block: the error that ends the loop, if any.\<close>

definition checkPEMBlock :: "'s env \<Rightarrow> string \<Rightarrow> string \<Rightarrow> goerr option" where
  "checkPEMBlock env ty bytes =
     (if isPrivateKeyPEMBlock ty
      then Some (ValidationErr trustedCABundleEventPrivateKey
                  (''trusted CA bundle must not contain private key PEM block type '' @ quoted ty))
      else if ty \<noteq> ''CERTIFICATE''
      then Some (ValidationErr trustedCABundleEventUnsupportedPEM
                  (''trusted CA bundle contains unsupported PEM block type '' @ quoted ty))
      else (case e_ParseCertificate env bytes of
              Inl err \<Rightarrow> Some (ValidationErr trustedCABundleEventInvalidPEM
                  (''invalid certificate in trusted CA bundle: '' @ errText err))
            | Inr cert \<Rightarrow>
                if \<not> isCACertificate cert
                then Some (ValidationErr trustedCABundleEventNotCA
                       (''certificate '' @ quoted (x_Subject cert) @ '' is not a CA certificate''))
                else None))"

text \<open>The loop: an error, or the number of certificates and what is left of the input.\<close>

fun pemLoop :: "'s env \<Rightarrow> nat \<Rightarrow> string \<Rightarrow> nat \<Rightarrow> (goerr + nat \<times> string) option" where
  "pemLoop env 0 rest caCount = None"
| "pemLoop env (Suc fuel) rest caCount =
     (case e_PemDecode env rest of
        None \<Rightarrow> Some (Inr (caCount, rest))
      | Some (ty, bytes, remaining) \<Rightarrow>
          (case checkPEMBlock env ty bytes of
             Some err \<Rightarrow> Some (Inl err)
           | None \<Rightarrow> pemLoop env fuel remaining (Suc caCount)))"

definition parsePEMCABundle :: "'s env \<Rightarrow> string \<Rightarrow> goerr option option" where
  "parsePEMCABundle env data =
     (let trimmed = trimSpace data in
      if trimmed = '''' then Some (Some (ValidationErr trustedCABundleEventInvalidPEM ''trusted CA bundle data is empty''))
      else (case pemLoop env (Suc (length trimmed)) trimmed 0 of
              None \<Rightarrow> None
            | Some (Inl err) \<Rightarrow> Some (Some err)
            | Some (Inr (caCount, rest)) \<Rightarrow>
                if caCount = 0
                then Some (Some (ValidationErr trustedCABundleEventInvalidPEM
                            ''trusted CA bundle contains no valid PEM-encoded CA certificates''))
                else if trimSpace rest \<noteq> ''''
                then Some (Some (ValidationErr trustedCABundleEventInvalidPEM ''trusted CA bundle contains trailing non-PEM data''))
                else Some None))"

definition validatePEMCABundleData :: "'s env \<Rightarrow> string \<Rightarrow> goerr option option" where
  "validatePEMCABundleData env data = parsePEMCABundle env data"

text \<open>\<open>errors.As(err, &validationErr)\<close>\<close>

fun asValidationError :: "goerr \<Rightarrow> string option" where
  "asValidationError (ValidationErr r m) = Some r"
| "asValidationError (WrapErr p e s) = asValidationError e"
| "asValidationError (ReconcileErr r m e) = asValidationError e"
| "asValidationError _ = None"

text \<open>\<open>r.now.Do(f)\<close> and \<open>r.now.Reset()\<close>, called by the one goroutine of the reconciler.\<close>

definition nowOnce :: "('s, unit) recon \<Rightarrow> ('s, unit) recon" where
  "nowOnce f = (\<lambda>s. case nowDo (rs_now s) f s of
      (Ret d, s') \<Rightarrow> (Ret (), s'\<lparr>rs_now := d\<rparr>)
    | (Err e, s') \<Rightarrow> (Err e, s')
    | (Panic p, s') \<Rightarrow> (Panic p, s'))"

definition nowReset :: "('s, unit) recon" where
  "nowReset = (\<lambda>s. (Ret (), s\<lparr>rs_now := False\<rparr>))"

definition recordTrustedCABundleValidationEvent :: "nsname \<Rightarrow> string \<Rightarrow> goerr \<Rightarrow> ('s, unit) recon" where
  "recordTrustedCABundleValidationEvent cm key err =
     (let reason = (case asValidationError err of Some r \<Rightarrow> r | None \<Rightarrow> trustedCABundleEventInvalidPEM) in
      nowOnce (Eventf ''Warning'' reason
        (''trustedCABundle ConfigMap '' @ quoted (nsnameString cm) @ '' key '' @ quoted key @ '': '' @ errText err)))"

definition validateTrustedCABundleData :: "'s env \<Rightarrow> nsname \<Rightarrow> string \<Rightarrow> string \<Rightarrow> ('s, unit) recon" where
  "validateTrustedCABundleData env cm key data =
     (case parsePEMCABundle env data of
        None \<Rightarrow> gpanic ''no return''
      | Some (Some err) \<Rightarrow> andThen (recordTrustedCABundleValidationEvent cm key err) (\<lambda>_. gerr err)
      | Some None \<Rightarrow> nowReset)"

section \<open>Lemmas\<close>

text \<open>What the decoder must do: a block it finds is taken off the input.\<close>

definition pemConsumes :: "'s env \<Rightarrow> bool" where
  "pemConsumes env \<longleftrightarrow> (\<forall>s ty bytes rest. e_PemDecode env s = Some (ty, bytes, rest) \<longrightarrow> length rest < length s)"

text \<open>The blocks of an input, in order, and the text after the last one.\<close>

inductive pemBlocks :: "'s env \<Rightarrow> string \<Rightarrow> (string \<times> string) list \<Rightarrow> string \<Rightarrow> bool" for env :: "'s env" where
  pem_end: "e_PemDecode env s = None \<Longrightarrow> pemBlocks env s [] s"
| pem_block: "e_PemDecode env s = Some (ty, bytes, s') \<Longrightarrow> pemBlocks env s' bs rest \<Longrightarrow>
    pemBlocks env s ((ty, bytes) # bs) rest"

inductive_cases pemBlocksE: "pemBlocks env s bs rest"

lemma pemBlocks_exists: "pemConsumes env \<Longrightarrow> \<exists>bs rest. pemBlocks env s bs rest"
proof (induction "length s" arbitrary: s rule: less_induct)
  case less
  show ?case
  proof (cases "e_PemDecode env s")
    case (Some t)
    then obtain ty bytes s' where d: "e_PemDecode env s = Some (ty, bytes, s')" by (cases t) auto
    with less.prems have "length s' < length s" by (auto simp: pemConsumes_def)
    with less d show ?thesis by (meson pem_block)
  qed (auto intro: pem_end)
qed

lemma pemBlocks_det:
  "pemBlocks env s bs rest \<Longrightarrow> pemBlocks env s bs' rest' \<Longrightarrow> bs' = bs \<and> rest' = rest"
proof (induction arbitrary: bs' rest' rule: pemBlocks.induct)
  case (pem_end s)
  from pem_end.prems show ?case by cases (use pem_end.hyps in simp_all)
next
  case (pem_block s ty bytes s' bs rest)
  from pem_block.prems show ?case
  proof cases
    case pem_end
    with pem_block.hyps show ?thesis by simp
  next
    case (pem_block ty2 bytes2 s2 bs2)
    with \<open>e_PemDecode env s = Some (ty, bytes, s')\<close> have "ty2 = ty" "bytes2 = bytes" "s2 = s'" by simp_all
    with pem_block pem_block.IH show ?thesis by simp
  qed
qed

definition acceptableBlock :: "'s env \<Rightarrow> string \<times> string \<Rightarrow> bool" where
  "acceptableBlock env b \<longleftrightarrow> fst b = ''CERTIFICATE'' \<and>
     (case e_ParseCertificate env (snd b) of Inl _ \<Rightarrow> False | Inr cert \<Rightarrow> isCACertificate cert)"

lemma checkPEMBlock_None: "checkPEMBlock env ty bytes = None \<longleftrightarrow> acceptableBlock env (ty, bytes)"
  by (auto simp: checkPEMBlock_def acceptableBlock_def isPrivateKeyPEMBlock_def split: sum.splits)

lemma pemLoop_blocks:
  "pemBlocks env s bs rest \<Longrightarrow> pemConsumes env \<Longrightarrow> length s < fuel \<Longrightarrow>
   (if list_all (acceptableBlock env) bs then pemLoop env fuel s n = Some (Inr (n + length bs, rest))
    else \<exists>err. pemLoop env fuel s n = Some (Inl err))"
proof (induction arbitrary: fuel n rule: pemBlocks.induct)
  case (pem_end s)
  then show ?case by (cases fuel) simp_all
next
  case (pem_block s ty bytes s' bs rest)
  obtain f where fuel: "fuel = Suc f" using pem_block.prems(2) by (cases fuel) auto
  have "length s' < length s" using pem_block by (auto simp: pemConsumes_def)
  then have "length s' < f" using pem_block.prems(2) fuel by simp
  note IH = pem_block.IH [OF pem_block.prems(1) this, of "Suc n"]
  show ?case
  proof (cases "checkPEMBlock env ty bytes")
    case None
    then have "acceptableBlock env (ty, bytes)" by (simp add: checkPEMBlock_None)
    with IH None show ?thesis by (simp add: fuel pem_block.hyps(1) split: if_splits)
  next
    case (Some err)
    then have "\<not> acceptableBlock env (ty, bytes)" by (metis checkPEMBlock_None option.distinct(1))
    with Some show ?thesis by (simp add: fuel pem_block.hyps(1))
  qed
qed

lemma parsePEM_blocks:
  assumes "pemConsumes env" and "pemBlocks env (trimSpace data) bs rest"
  shows "parsePEMCABundle env data \<noteq> None"
    and "parsePEMCABundle env data = Some None \<longleftrightarrow>
      trimSpace data \<noteq> '''' \<and> bs \<noteq> [] \<and> list_all (acceptableBlock env) bs \<and> trimSpace rest = ''''"
  using pemLoop_blocks [OF assms(2,1), of "Suc (length (trimSpace data))" 0]
  by (auto simp: parsePEMCABundle_def Let_def split: if_splits)

lemma validate_invalid:
  assumes "parsePEMCABundle env data = Some (Some err)"
  shows "fst (validateTrustedCABundleData env cm key data s) = Err err"
    and "rs_now (snd (validateTrustedCABundleData env cm key data s))"
    and "length (rs_events (snd (validateTrustedCABundleData env cm key data s))) =
           length (rs_events s) + (if rs_now s then 0 else 1)"
    and "rs_kube (snd (validateTrustedCABundleData env cm key data s)) = rs_kube s"
  using assms
  by (simp_all add: validateTrustedCABundleData_def recordTrustedCABundleValidationEvent_def nowOnce_def
      nowDo_def andThen_def Eventf_def Let_def)

lemma validate_valid:
  "parsePEMCABundle env data = Some None \<Longrightarrow>
   validateTrustedCABundleData env cm key data s = (Ret (), s\<lparr>rs_now := False\<rparr>)"
  by (simp add: validateTrustedCABundleData_def nowReset_def)

text \<open>Successive validations, as successive reconciliations make them.\<close>

definition validations :: "'s env \<Rightarrow> nsname \<Rightarrow> string \<Rightarrow> string list \<Rightarrow> 's rstate \<Rightarrow> 's rstate" where
  "validations env cm key ds = fold (\<lambda>d s. snd (validateTrustedCABundleData env cm key d s)) ds"

definition rejected :: "'s env \<Rightarrow> string \<Rightarrow> bool" where
  "rejected env data \<longleftrightarrow> (case parsePEMCABundle env data of Some (Some _) \<Rightarrow> True | _ \<Rightarrow> False)"

lemma validations_quiet:
  "list_all (rejected env) ds \<Longrightarrow> rs_now s \<Longrightarrow>
   rs_now (validations env cm key ds s) \<and> length (rs_events (validations env cm key ds s)) = length (rs_events s)"
proof (induction ds arbitrary: s)
  case (Cons d ds)
  then obtain err where "parsePEMCABundle env d = Some (Some err)"
    by (auto simp: rejected_def split: option.splits)
  note v = validate_invalid [OF this, where cm = cm and key = key and s = s]
  with Cons.IH [of "snd (validateTrustedCABundleData env cm key d s)"] Cons.prems show ?case
    by (simp add: validations_def)
qed (simp add: validations_def)

section \<open>Properties\<close>

text \<open>A PEM decoder for examples: each \<^verbatim>\<open>A\<close> is a CA certificate, each \<^verbatim>\<open>L\<close> a leaf certificate.\<close>

definition toyPEM :: "'s env \<Rightarrow> 's env" where
  "toyPEM env = env\<lparr>
     e_PemDecode := (\<lambda>s. case s of [] \<Rightarrow> None
        | c # cs \<Rightarrow> if c = CHR ''A'' \<or> c = CHR ''L'' then Some (''CERTIFICATE'', [c], cs) else None),
     e_ParseCertificate := (\<lambda>b. Inr \<lparr>x_IsCA = (b = ''A''), x_KeyUsage = 1, x_Subject = b\<rparr>)\<rparr>"

lemma toyPEM_consumes: "pemConsumes (toyPEM env)"
  by (auto simp: pemConsumes_def toyPEM_def split: list.splits if_splits)

text \<open>C18. Validation of a trust bundle always returns, and it accepts exactly the non-empty
  sequences of PEM blocks in which every block is a parsable CA certificate and only white space
  follows the last one: private keys, leaf certificates, other blocks and trailing data are refused.\<close>

theorem ca_bundle_accepted_iff:
  assumes "pemConsumes env"
  shows "parsePEMCABundle env data \<noteq> None \<and>
    (parsePEMCABundle env data = Some None \<longleftrightarrow>
      trimSpace data \<noteq> '''' \<and>
      (\<exists>bs rest. pemBlocks env (trimSpace data) bs rest \<and> bs \<noteq> [] \<and>
         list_all (acceptableBlock env) bs \<and> trimSpace rest = ''''))"
proof -
  obtain bs rest where b: "pemBlocks env (trimSpace data) bs rest" using pemBlocks_exists [OF assms] by blast
  show ?thesis using parsePEM_blocks [OF assms b] b pemBlocks_det by blast
qed

theorem ca_bundle_accepted_iff_witness:
  "parsePEMCABundle (toyPEM sampleEnv) '' AA '' = Some None \<and> parsePEMCABundle (toyPEM sampleEnv) ''AL'' \<noteq> Some None"
proof
  have t: "trimSpace '' AA '' = ''AA''" "trimSpace ''AL'' = ''AL''" "trimSpace [] = []" by code_simp+
  have aa: "pemBlocks (toyPEM sampleEnv) ''AA'' [(''CERTIFICATE'', ''A''), (''CERTIFICATE'', ''A'')] ''''"
    by (rule pem_block [where s' = "''A''"], simp add: toyPEM_def, rule pem_block [where s' = "''''"], simp add: toyPEM_def)
       (rule pem_end, simp add: toyPEM_def)
  then show "parsePEMCABundle (toyPEM sampleEnv) '' AA '' = Some None"
    using ca_bundle_accepted_iff [OF toyPEM_consumes, of sampleEnv "'' AA ''"] t
    by (fastforce simp: acceptableBlock_def toyPEM_def isCACertificate_def)
  have "pemBlocks (toyPEM sampleEnv) ''AL'' [(''CERTIFICATE'', ''A''), (''CERTIFICATE'', ''L'')] ''''"
    by (rule pem_block [where s' = "''L''"], simp add: toyPEM_def, rule pem_block [where s' = "''''"], simp add: toyPEM_def)
       (rule pem_end, simp add: toyPEM_def)
  then have "\<not> list_all (acceptableBlock (toyPEM sampleEnv)) bs" if "pemBlocks (toyPEM sampleEnv) ''AL'' bs rest" for bs rest
    using pemBlocks_det that by (fastforce simp: acceptableBlock_def toyPEM_def isCACertificate_def)
  then show "parsePEMCABundle (toyPEM sampleEnv) ''AL'' \<noteq> Some None"
    using ca_bundle_accepted_iff [OF toyPEM_consumes, of sampleEnv "''AL''"] t by metis
qed

text \<open>C30. One warning event is recorded per degraded period: however often invalid data is
  validated again, exactly one event is added; valid data ends the period and adds none.\<close>

theorem one_warning_per_degraded_period:
  assumes "list_all (rejected env) (d # ds)" and "parsePEMCABundle env good = Some None" and "\<not> rs_now s"
  shows "length (rs_events (validations env cm key (d # ds) s)) = Suc (length (rs_events s)) \<and>
    rs_now (validations env cm key (d # ds) s) \<and>
    \<not> rs_now (validations env cm key (d # ds @ [good]) s) \<and>
    length (rs_events (validations env cm key (d # ds @ [good]) s)) = Suc (length (rs_events s))"
proof -
  from assms(1) obtain err where "parsePEMCABundle env d = Some (Some err)"
    by (auto simp: rejected_def split: option.splits)
  note v = validate_invalid [OF this, where cm = cm and key = key and s = s]
  have split: "validations env cm key (d # ds) s = validations env cm key ds (snd (validateTrustedCABundleData env cm key d s))"
    "validations env cm key (d # ds @ [good]) s = snd (validateTrustedCABundleData env cm key good (validations env cm key (d # ds) s))"
    by (simp_all add: validations_def)
  have "rs_now (validations env cm key (d # ds) s) \<and>
      length (rs_events (validations env cm key (d # ds) s)) = Suc (length (rs_events s))"
    using validations_quiet [of env ds "snd (validateTrustedCABundleData env cm key d s)" cm key] v assms
    unfolding split(1) by simp
  then show ?thesis unfolding split(2) validate_valid [OF assms(2)] by simp
qed

theorem one_warning_per_degraded_period_witness:
  "length (rs_events (validations (toyPEM sampleEnv) (''ns'', ''cm'') ''k'' [''L'', '''', ''A!''] (sampleState\<lparr>rs_now := False\<rparr>))) =
     Suc (length (rs_events (sampleState\<lparr>rs_now := False\<rparr>)))"
proof -
  have "list_all (rejected (toyPEM sampleEnv)) [''L'', '''', ''A!'']"
    and "parsePEMCABundle (toyPEM sampleEnv) ''A'' = Some None"
    by (code_simp, code_simp)
  with one_warning_per_degraded_period [of "toyPEM sampleEnv" "''L''" "['''', ''A!'']" "''A''" "sampleState\<lparr>rs_now := False\<rparr>" "(''ns'', ''cm'')" "''k''"]
  show ?thesis by simp
qed

end
