(* ===== verification/Deployments.thy ===== *)
theory Deployments
  imports Pod_Template CA_Bundle
begin

section \<open>Deployments: the stateful part of \<^verbatim>\<open>pkg/controller/external_secrets/deployments.go\<close>\<close>

text \<open>
  The user trust bundle (fetch, watch label, validation, mount), the desired Deployment of each
  component, its create-or-update, and the images in the status. \<^verbatim>\<open>getDeploymentObject\<close> may return a
  deployment together with an error; its result is a pair of options. The deployment that a helper
  mutates in place is its result.
\<close>

definition controllerDeploymentAssetName :: string where
  "controllerDeploymentAssetName = ''operands/external-secrets/deployment_external-secrets.yml''"
definition webhookDeploymentAssetName :: string where
  "webhookDeploymentAssetName = ''operands/external-secrets/deployment_external-secrets-webhook.yml''"
definition certControllerDeploymentAssetName :: string where
  "certControllerDeploymentAssetName = ''operands/external-secrets/deployment_external-secrets-cert-controller.yml''"
definition bitwardenDeploymentAssetName :: string where
  "bitwardenDeploymentAssetName = ''operands/external-secrets/deployment_bitwarden-sdk-server.yml''"
definition externalsecretsImageEnvVarName :: string where
  "externalsecretsImageEnvVarName = ''RELATED_IMAGE_EXTERNAL_SECRETS''"
definition bitwardenImageEnvVarName :: string where
  "bitwardenImageEnvVarName = ''RELATED_IMAGE_BITWARDEN_SDK_SERVER''"
definition bitwardenImageVersionEnvVarName :: string where
  "bitwardenImageVersionEnvVarName = ''BITWARDEN_SDK_SERVER_IMAGE_VERSION''"
definition OperandExternalSecretsArgsEnvVar :: string where
  "OperandExternalSecretsArgsEnvVar = ''OPERAND_EXTERNAL_SECRETS_ARGS''"
definition OperandWebhookArgsEnvVar :: string where "OperandWebhookArgsEnvVar = ''OPERAND_WEBHOOK_ARGS''"
definition OperandCertControllerArgsEnvVar :: string where
  "OperandCertControllerArgsEnvVar = ''OPERAND_CERT_CONTROLLER_ARGS''"
definition OperandBitwardenSDKServerArgsEnvVar :: string where
  "OperandBitwardenSDKServerArgsEnvVar = ''OPERAND_BITWARDEN_SDK_SERVER_ARGS''"

lemmas deployment_asset_defs =
  controllerDeploymentAssetName_def webhookDeploymentAssetName_def
  certControllerDeploymentAssetName_def bitwardenDeploymentAssetName_def

subsection \<open>The user trust bundle\<close>

definition removeUserCABundleConfig :: "Deployment \<Rightarrow> Deployment" where
  "removeUserCABundleConfig deployment =
     onContainer OperandCoreControllerContainer
       (\<lambda>c. pruneContainerEnvVars (pruneVolumeMount c UserCABundleVolumeName) [SSLCertDirEnvVar])
       (prunePodVolume deployment UserCABundleVolumeName)"

definition mountUserCABundle :: "Deployment \<Rightarrow> string \<Rightarrow> string \<Rightarrow> Deployment" where
  "mountUserCABundle deployment name key =
     onContainer OperandCoreControllerContainer
       (\<lambda>c. mergeContainerEnvVars (updateVolumeMount c UserCABundleVolumeName UserCABundleMountPath)
              (GoMap [(SSLCertDirEnvVar, SSLCertDirValue)]))
       (upsertConfigMapVolume deployment name key UserCABundleVolumeName UserCABundleKeyPath)"

definition configMapData :: "kobj \<Rightarrow> strmap" where
  "configMapData obj = (case obj of KConfigMap cm \<Rightarrow> cm_Data cm | _ \<Rightarrow> NilMap)"

definition applyUserCABundleConfig :: "'s env \<Rightarrow> Deployment \<Rightarrow> ExternalSecretsConfig \<Rightarrow> ('s, Deployment \<times> goerr option) recon" where
  "applyUserCABundleConfig env deployment esc =
     (case ctl_TrustedCABundle (spec_ControllerConfig (esc_Spec esc)) of
        None \<Rightarrow> andThen nowReset (\<lambda>_. gret (removeUserCABundleConfig deployment, None))
      | Some ref \<Rightarrow>
          (let key0 = (getNamespace esc, cmk_Name ref); q = quoted (nsnameString key0) in
           (\<lambda>s. case getWithCacheFallback env ''ConfigMap'' key0 s of
             (Panic p, s1) \<Rightarrow> (Panic p, s1)
           | (Err err, s1) \<Rightarrow>
               if IsNotFound err
               then (Ret (removeUserCABundleConfig deployment,
                          Some (userConfigErr err (''trustedCABundle ConfigMap '' @ q @ '' not found''))), s1)
               else (Ret (deployment, Some (fromClientErr err (''failed to fetch trustedCABundle ConfigMap '' @ q))), s1)
           | (Ret cm, s1) \<Rightarrow>
               (case updateWatchLabel env ''ConfigMap'' key0 s1 of
                  (Panic p, s2) \<Rightarrow> (Panic p, s2)
                | (Err err, s2) \<Rightarrow>
                    (Ret (deployment, Some (fromClientErr err (''failed to patch watch label on trustedCABundle ConfigMap '' @ q))), s2)
                | (Ret _, s2) \<Rightarrow>
                    if gget (om_Labels (metaOf cm)) TrustedCABundleInjectLabel = ''true'' \<and> isProxyEnabled s2
                    then andThen (Eventf ''Normal'' trustedCABundleEventSkippedCNOProxy
                           (''trustedCABundle ConfigMap '' @ q @ '' is CNO-managed and proxy is configured; user CA mount skipped because cluster trusted CA bundle is already mounted for proxy''))
                         (\<lambda>_. gret (removeUserCABundleConfig deployment, None)) s2
                    else (let key = (if cmk_Key ref = '''' then UserCABundleKeyPath else cmk_Key ref) in
                          case glookup (configMapData cm) key of
                            None \<Rightarrow> (Ret (deployment, Some (userConfigErr (PlainErr (''key '' @ quoted key @ '' not found''))
                                     (''trustedCABundle ConfigMap '' @ q @ '' does not contain key '' @ quoted key))), s2)
                          | Some data \<Rightarrow>
                              (case validateTrustedCABundleData env key0 key data s2 of
                                 (Panic p, s3) \<Rightarrow> (Panic p, s3)
                               | (Err err, s3) \<Rightarrow> (Ret (deployment, Some (userConfigErr err
                                     (''trustedCABundle ConfigMap '' @ q @ '' key '' @ quoted key @ '' has invalid PEM''))), s3)
                               | (Ret _, s3) \<Rightarrow> (Ret (mountUserCABundle deployment (cmk_Name ref) key, None), s3)))))))"

subsection \<open>User settings of one component\<close>

definition getComponentNameFromAsset :: "string \<Rightarrow> goerr + ComponentName \<times> string" where
  "getComponentNameFromAsset assetName =
     (if assetName = controllerDeploymentAssetName then Inr (CoreController, OperandCoreControllerContainer)
      else if assetName = webhookDeploymentAssetName then Inr (Webhook, OperandWebhookContainer)
      else if assetName = certControllerDeploymentAssetName then Inr (CertController, OperandCertControllerContainer)
      else if assetName = bitwardenDeploymentAssetName then Inr (BitwardenSDKServer, OperandBitwardenContainer)
      else Inl (PlainErr (''unknown deployment asset name: '' @ assetName)))"

definition withDeploymentConfig :: "DeploymentConfig option \<Rightarrow> Deployment \<Rightarrow> Deployment" where
  "withDeploymentConfig cfg deployment =
     (case cfg of
        None \<Rightarrow> deployment
      | Some c \<Rightarrow>
          (let d1 = (case dc_RevisionHistoryLimit c of None \<Rightarrow> deployment
                     | Some n \<Rightarrow> deployment\<lparr>d_Spec := (d_Spec deployment)\<lparr>ds_RevisionHistoryLimit := Some n\<rparr>\<rparr>)
           in case dc_Replicas c of None \<Rightarrow> d1 | Some n \<Rightarrow> d1\<lparr>d_Spec := (d_Spec d1)\<lparr>ds_Replicas := Some n\<rparr>\<rparr>))"

definition applyUserDeploymentConfigs :: "'s env \<Rightarrow> Deployment \<Rightarrow> ExternalSecretsConfig \<Rightarrow> string \<Rightarrow> goerr + Deployment" where
  "applyUserDeploymentConfigs env deployment esc assetName =
     (case getComponentNameFromAsset assetName of
        Inl err \<Rightarrow> Inl err
      | Inr (componentName, containerName) \<Rightarrow>
          (case find (\<lambda>i. cpt_ComponentName i = componentName) (ctl_ComponentConfigs (spec_ControllerConfig (esc_Spec esc))) of
             None \<Rightarrow> Inr deployment
           | Some i \<Rightarrow>
               (let d1 = withDeploymentConfig (cpt_DeploymentConfigs i) deployment;
                    d2 = (if cpt_OverrideEnv i = [] then d1
                          else onContainer containerName (\<lambda>c. mergeUserEnvVars c (cpt_OverrideEnv i)) d1)
                in case applyAdvancedOverrides env d2 (cpt_AdvancedOverrides i) containerName of
                     Inl err \<Rightarrow> Inl (WrapErr (''failed to apply advancedOverrides for '' @ componentName @ '': '') err '''')
                   | Inr d3 \<Rightarrow> Inr d3)))"

subsection \<open>The desired deployment\<close>

text \<open>A failing helper, with the text that wraps its error.\<close>

definition wrapInl :: "string \<Rightarrow> goerr + 'a \<Rightarrow> goerr + 'a" where
  "wrapInl msg r = (case r of Inl e \<Rightarrow> Inl (WrapErr msg e '''') | Inr x \<Rightarrow> Inr x)"

abbreviation bindS :: "'e + 'a \<Rightarrow> ('a \<Rightarrow> 'e + 'b) \<Rightarrow> 'e + 'b" where
  "bindS r f \<equiv> (case r of Inl e \<Rightarrow> Inl e | Inr x \<Rightarrow> f x)"

definition baseDeployment :: "kobj \<Rightarrow> ExternalSecretsConfig \<Rightarrow> ResourceMetadata \<Rightarrow> Deployment" where
  "baseDeployment asset esc md =
     (case ApplyResourceMetadata (updateNamespace asset esc) md of
        KDeployment d \<Rightarrow> updatePodTemplateAnnotations (updatePodTemplateLabels d (rm_Labels md)) (rm_Annotations md)
      | _ \<Rightarrow> zeroDeployment)"

text \<open>The switch over the components: \<open>Inr\<close> goes on, \<open>Inl\<close> is a return from the function.\<close>

definition componentSpec :: "'s env \<Rightarrow> ExternalSecretsConfig \<Rightarrow> string \<Rightarrow> string \<Rightarrow> string \<Rightarrow> string \<Rightarrow> Deployment \<Rightarrow>
    ('s, (Deployment option \<times> goerr option) + Deployment) recon" where
  "componentSpec env esc assetName img bitwardenImage logLevel deployment =
     (let args = (\<lambda>container envVar d.
            case wrapInl ''failed to apply operand args from env: '' (applyOperandArgsFromEnv env d container envVar) of
              Inl e \<Rightarrow> Inl (None, Some e) | Inr d' \<Rightarrow> Inr d') in
      if assetName = controllerDeploymentAssetName then
        andThen (readState rs_esm) (\<lambda>esm.
          case args OperandCoreControllerContainer OperandExternalSecretsArgsEnvVar (updateContainerSpec env esm deployment esc img logLevel) of
            Inl r \<Rightarrow> gret (Inl r)
          | Inr d1 \<Rightarrow> andThen (applyUserCABundleConfig env d1 esc) (\<lambda>(d2, err).
              case err of
                None \<Rightarrow> gret (Inr d2)
              | Some e \<Rightarrow> (let wrapped = WrapErr ''failed to apply user CA bundle config: '' e '''' in
                  gret (Inl (if IsUserConfigurationNotFound (Some e) then Some d2 else None, Some wrapped)))))
      else if assetName = webhookDeploymentAssetName then
        (let checkInterval = (case ac_CertificateCheckInterval (spec_ApplicationConfig (esc_Spec esc)) of
               Some (Some d) \<Rightarrow> normalizeDurationArg env (e_DurationString env d)
             | _ \<Rightarrow> normalizeDurationArg env ''5m'') in
         gret (case args OperandWebhookContainer OperandWebhookArgsEnvVar (updateWebhookContainerSpec env deployment img logLevel checkInterval) of
                 Inl r \<Rightarrow> Inl r | Inr d1 \<Rightarrow> Inr (updateWebhookVolumeConfig d1 esc)))
      else if assetName = certControllerDeploymentAssetName then
        gret (args OperandCertControllerContainer OperandCertControllerArgsEnvVar (updateCertControllerContainerSpec env deployment img logLevel))
      else if assetName = bitwardenDeploymentAssetName then
        (if isNil (om_Labels (d_Meta deployment)) then gpanic ''assignment to entry in nil map''
         else (let d1 = deployment\<lparr>d_Meta := (d_Meta deployment)\<lparr>om_Labels := gput ''app.kubernetes.io/version'' (e_Getenv env bitwardenImageVersionEnvVarName) (om_Labels (d_Meta deployment))\<rparr>\<rparr>;
                   d2 = updateBitwardenServerContainerSpec env d1 bitwardenImage in
               case args OperandBitwardenContainer OperandBitwardenSDKServerArgsEnvVar d2 of
                 Inl r \<Rightarrow> gret (Inl r)
               | Inr d3 \<Rightarrow> andThen (lift (updateBitwardenVolumeConfig d3 esc)) (\<lambda>d4. gret (Inr d4))))
      else gret (Inr deployment))"

definition finishDeployment :: "'s env \<Rightarrow> ExternalSecretsManager \<Rightarrow> ProxyConfig option \<Rightarrow> ExternalSecretsConfig \<Rightarrow> string \<Rightarrow> Deployment \<Rightarrow> goerr + Deployment" where
  "finishDeployment env esm proxyConfig esc assetName deployment =
     bindS (wrapInl ''failed to update resource requirements: '' (updateResourceRequirement env esm deployment esc)) (\<lambda>d1.
     bindS (wrapInl ''failed to update affinity rules: '' (updateAffinityRules env esm d1 esc)) (\<lambda>d2.
     bindS (wrapInl ''failed to update pod tolerations: '' (updatePodTolerations env esm d2 esc)) (\<lambda>d3.
     bindS (wrapInl ''failed to update node selector: '' (updateNodeSelector env esm d3 esc)) (\<lambda>d4.
     bindS (wrapInl ''failed to apply user deployment configuration: '' (applyUserDeploymentConfigs env d4 esc assetName)) (\<lambda>d5.
     Inr (updateProxyConfiguration proxyConfig d5))))))"

definition getDeploymentObject :: "'s env \<Rightarrow> string \<Rightarrow> ExternalSecretsConfig \<Rightarrow> ResourceMetadata \<Rightarrow> ('s, Deployment option \<times> goerr option) recon" where
  "getDeploymentObject env assetName esc md =
     andThen (lift (DecodeDeploymentObjBytes env assetName)) (\<lambda>asset.
       let d0 = baseDeployment asset esc md;
           img = e_Getenv env externalsecretsImageEnvVarName;
           bitwardenImage = e_Getenv env bitwardenImageEnvVarName;
           msg = ''failed to update image in '' @ om_Name (d_Meta d0) @ '' deployment object'' in
       if img = '''' then gret (None, Some (irrecoverableErr
             (PlainErr (externalsecretsImageEnvVarName @ '' environment variable with externalsecrets image not set'')) msg))
       else if bitwardenImage = '''' then gret (None, Some (irrecoverableErr
             (PlainErr (bitwardenImageEnvVarName @ '' environment variable with bitwarden-sdk-server image not set'')) msg))
       else andThen (readState rs_esm) (\<lambda>esm.
         andThen (componentSpec env esc assetName img bitwardenImage (getLogLevel esc (Some esm)) d0) (\<lambda>r.
           case r of
             Inl early \<Rightarrow> gret early
           | Inr d1 \<Rightarrow> andThen (readState rs_proxyConfig) (\<lambda>proxyConfig.
               gret (case finishDeployment env esm proxyConfig esc assetName d1 of
                       Inl e \<Rightarrow> (None, Some e) | Inr d2 \<Rightarrow> (Some d2, None))))))"

subsection \<open>Create or update\<close>

definition createOrApplyDeploymentFromAsset :: "'s env \<Rightarrow> ExternalSecretsConfig \<Rightarrow> string \<Rightarrow> ResourceMetadata \<Rightarrow> bool \<Rightarrow> ('s, unit) recon" where
  "createOrApplyDeploymentFromAsset env esc assetName md recon =
     andThen (getDeploymentObject env assetName esc md) (\<lambda>(deployment, trustedCAErr).
       let fin = (case trustedCAErr of None \<Rightarrow> gret () | Some e \<Rightarrow> gerr e) in
       case deployment of
         None \<Rightarrow> fin
       | Some d \<Rightarrow>
           (let obj = KDeployment d; n = nsName obj in
            andThen (applyObject env obj md n recon
              (''failed to check '' @ n @ '' deployment resource already exists'')
              (n @ '' deployment resource already exists'')
              (''failed to update '' @ n @ '' deployment resource'')
              (''deployment resource '' @ n @ '' updated'')) (\<lambda>_. fin)))"

definition updateImageInStatus :: "'s env \<Rightarrow> ('s, unit) recon" where
  "updateImageInStatus env =
     andThen (readState rs_ESC) (\<lambda>esc.
       let externalSecretsImage = e_Getenv env externalsecretsImageEnvVarName;
           bitwardenImage = e_Getenv env bitwardenImageEnvVarName in
       if st_ExternalSecretsImage (esc_Status esc) \<noteq> externalSecretsImage \<or> st_BitwardenSDKServerImage (esc_Status esc) \<noteq> bitwardenImage
       then (let esc' = esc\<lparr>esc_Status := (esc_Status esc)\<lparr>st_ExternalSecretsImage := externalSecretsImage, st_BitwardenSDKServerImage := bitwardenImage\<rparr>\<rparr> in
             andThen (setESC esc') (\<lambda>_. updateStatus env esc'))
       else gret ())"

definition deploymentsToCreate :: "ExternalSecretsConfig \<Rightarrow> (string \<times> bool) list" where
  "deploymentsToCreate esc =
     [(controllerDeploymentAssetName, True), (webhookDeploymentAssetName, True),
      (certControllerDeploymentAssetName, \<not> isCertManagerConfigEnabled esc),
      (bitwardenDeploymentAssetName, isBitwardenConfigEnabled esc)]"

definition createOrApplyDeployments :: "'s env \<Rightarrow> ExternalSecretsConfig \<Rightarrow> ResourceMetadata \<Rightarrow> bool \<Rightarrow> ('s, unit) recon" where
  "createOrApplyDeployments env esc md recon =
     andThen (forEach (enabledAssets (deploymentsToCreate esc)) (\<lambda>assetName. createOrApplyDeploymentFromAsset env esc assetName md recon))
       (\<lambda>_. onErr (updateImageInStatus env)
          (\<lambda>err. gerr (fromClientErr err (''failed to update '' @ om_Namespace (esc_Meta esc) @ ''/'' @ om_Name (esc_Meta esc) @ '' status with image info''))))"

section \<open>Lemmas\<close>

text \<open>The part of a deployment that only the component's own step may set: names, images and
  security contexts of the containers.\<close>

definition coreView :: "Deployment \<Rightarrow> (string \<times> string \<times> SecurityContext option) list" where
  "coreView d = map (\<lambda>c. (c_Name c, c_Image c, c_SecurityContext c)) (ps_Containers (podSpec d))"

definition schedView :: "Deployment \<Rightarrow> strmap \<times> blob option \<times> blob slice" where
  "schedView d = (ps_NodeSelector (podSpec d), ps_Affinity (podSpec d), ps_Tolerations (podSpec d))"

named_theorems core_simps \<open>steps that keep \<open>coreView\<close>\<close>
named_theorems sched_simps \<open>steps that keep \<open>schedView\<close>\<close>

lemma coreView_updPodSpec:
  "ps_Containers (f (podSpec d)) = ps_Containers (podSpec d) \<Longrightarrow> coreView (updPodSpec f d) = coreView d"
  by (simp add: coreView_def)

lemma coreView_updContainers:
  "map (\<lambda>c. (c_Name c, c_Image c, c_SecurityContext c)) (f (ps_Containers (podSpec d))) =
   map (\<lambda>c. (c_Name c, c_Image c, c_SecurityContext c)) (ps_Containers (podSpec d)) \<Longrightarrow>
   coreView (updContainers f d) = coreView d"
  by (simp add: coreView_def updContainers_updPodSpec)

lemma coreView_onContainer:
  "(\<And>c. c_Name (f c) = c_Name c \<and> c_Image (f c) = c_Image c \<and> c_SecurityContext (f c) = c_SecurityContext c) \<Longrightarrow>
   coreView (onContainer n f d) = coreView d"
  unfolding onContainer_def by (rule coreView_updContainers) (simp add: map_updateFirst)

lemma schedView_onContainer [sched_simps]: "schedView (onContainer n f d) = schedView d"
  by (simp add: schedView_def onContainer_def updContainers_updPodSpec)

lemma coreView_steps [core_simps]:
  "coreView (updateSecretVolumeConfig d vol sec) = coreView d"
  "coreView (prunePodVolume d vol) = coreView d"
  "coreView (upsertConfigMapVolume d a b x e) = coreView d"
  "coreView (updateWebhookVolumeConfig d esc) = coreView d"
  by (simp_all add: updateSecretVolumeConfig_def prunePodVolume_def upsertConfigMapVolume_def updateWebhookVolumeConfig_def
      Let_def coreView_updPodSpec)

lemma schedView_steps [sched_simps]:
  "schedView (updateSecretVolumeConfig d vol sec) = schedView d"
  "schedView (prunePodVolume d vol) = schedView d"
  "schedView (upsertConfigMapVolume d a b x e) = schedView d"
  "schedView (updateWebhookVolumeConfig d esc) = schedView d"
  by (simp_all add: updateSecretVolumeConfig_def prunePodVolume_def upsertConfigMapVolume_def updateWebhookVolumeConfig_def
      Let_def schedView_def)

lemma container_steps:
  "c_Name (updateVolumeMount c a b) = c_Name c" "c_Image (updateVolumeMount c a b) = c_Image c"
  "c_SecurityContext (updateVolumeMount c a b) = c_SecurityContext c"
  "c_Name (pruneVolumeMount c a) = c_Name c" "c_Image (pruneVolumeMount c a) = c_Image c"
  "c_SecurityContext (pruneVolumeMount c a) = c_SecurityContext c"
  "c_Name (mergeContainerEnvVars c m) = c_Name c" "c_Image (mergeContainerEnvVars c m) = c_Image c"
  "c_SecurityContext (mergeContainerEnvVars c m) = c_SecurityContext c"
  "c_Name (pruneContainerEnvVars c ns) = c_Name c" "c_Image (pruneContainerEnvVars c ns) = c_Image c"
  "c_SecurityContext (pruneContainerEnvVars c ns) = c_SecurityContext c"
  "c_Name (mergeUserEnvVars c es) = c_Name c" "c_Image (mergeUserEnvVars c es) = c_Image c"
  "c_SecurityContext (mergeUserEnvVars c es) = c_SecurityContext c"
  "c_Name (setProxyEnvVars c p) = c_Name c" "c_Image (setProxyEnvVars c p) = c_Image c"
  "c_SecurityContext (setProxyEnvVars c p) = c_SecurityContext c"
  "c_Name (removeProxyEnvVars c) = c_Name c" "c_Image (removeProxyEnvVars c) = c_Image c"
  "c_SecurityContext (removeProxyEnvVars c) = c_SecurityContext c"
  by (simp_all add: updateVolumeMount_def pruneVolumeMount_def mergeContainerEnvVars_def pruneContainerEnvVars_def
      mergeUserEnvVars_def setProxyEnvVars_def removeProxyEnvVars_def Let_def split: option.splits)

lemma coreView_userCA [core_simps]:
  "coreView (removeUserCABundleConfig d) = coreView d"
  "coreView (mountUserCABundle d a b) = coreView d"
  unfolding removeUserCABundleConfig_def mountUserCABundle_def
  by (simp_all add: coreView_onContainer container_steps coreView_steps)

lemma schedView_userCA [sched_simps]:
  "schedView (removeUserCABundleConfig d) = schedView d"
  "schedView (mountUserCABundle d a b) = schedView d"
  by (simp_all add: removeUserCABundleConfig_def mountUserCABundle_def sched_simps)

lemma coreView_proxy [core_simps]: "coreView (updateProxyConfiguration pc d) = coreView d"
  by (simp add: updateProxyConfiguration_def applyTrustedCABundleVolumes_def applyProxyEnvironmentVariables_def
      removeTrustedCABundleVolumes_def removeProxyEnvironmentVariables_def mapAllContainers_def upsertConfigMapVolume_def
      prunePodVolume_def Let_def coreView_def container_steps comp_def)

lemma schedView_proxy [sched_simps]: "schedView (updateProxyConfiguration pc d) = schedView d"
  by (simp add: updateProxyConfiguration_def applyTrustedCABundleVolumes_def applyProxyEnvironmentVariables_def
      removeTrustedCABundleVolumes_def removeProxyEnvironmentVariables_def mapAllContainers_def upsertConfigMapVolume_def
      prunePodVolume_def Let_def schedView_def)

lemma views_operandArgs:
  "applyOperandArgsFromEnv env d n v = Inr d' \<Longrightarrow> coreView d' = coreView d \<and> schedView d' = schedView d"
  by (auto simp: applyOperandArgsFromEnv_def Let_def coreView_onContainer sched_simps split: if_splits sum.splits)

text \<open>A component whose configuration has no advanced overrides.\<close>

definition noAdvancedOverrides :: "ExternalSecretsConfig \<Rightarrow> bool" where
  "noAdvancedOverrides esc \<longleftrightarrow>
     list_all (\<lambda>i. case cpt_AdvancedOverrides i of Some (Some _) \<Rightarrow> False | _ \<Rightarrow> True)
       (ctl_ComponentConfigs (spec_ControllerConfig (esc_Spec esc)))"

lemma views_withDeploymentConfig:
  "coreView (withDeploymentConfig cfg d) = coreView d" "schedView (withDeploymentConfig cfg d) = schedView d"
  by (simp_all add: withDeploymentConfig_def coreView_def schedView_def Let_def split: option.splits)

lemma views_userConfigs:
  assumes "applyUserDeploymentConfigs env d esc a = Inr d'" and "noAdvancedOverrides esc"
  shows "coreView d' = coreView d \<and> schedView d' = schedView d"
proof -
  obtain component cn where c: "getComponentNameFromAsset a = Inr (component, cn)"
    using assms(1) by (auto simp: applyUserDeploymentConfigs_def split: sum.splits)
  show ?thesis
  proof (cases "find (\<lambda>i. cpt_ComponentName i = component) (ctl_ComponentConfigs (spec_ControllerConfig (esc_Spec esc)))")
    case None
    with assms(1) c show ?thesis by (simp add: applyUserDeploymentConfigs_def)
  next
    case (Some i)
    then have "i \<in> set (ctl_ComponentConfigs (spec_ControllerConfig (esc_Spec esc)))"
      by (auto simp: find_Some_iff)
    with assms(2) have "applyAdvancedOverrides env x (cpt_AdvancedOverrides i) cn = Inr x" for x
      by (auto simp: noAdvancedOverrides_def list_all_iff applyAdvancedOverrides_def split: option.splits)
    with assms(1) c Some show ?thesis
      by (auto simp: applyUserDeploymentConfigs_def Let_def views_withDeploymentConfig coreView_onContainer container_steps
          sched_simps split: if_splits)
  qed
qed

lemma views_userCAConfig:
  assumes "applyUserCABundleConfig env d esc s = (Ret (d', e), s')"
  shows "coreView d' = coreView d \<and> schedView d' = schedView d"
  using assms
  by (auto simp: applyUserCABundleConfig_def Let_def andThen_def nowReset_def Eventf_def core_simps sched_simps
      split: option.splits prod.splits result.splits if_splits)

text \<open>The settings that the two custom resources ask for, the operand's own first.\<close>

definition effectiveNodeSelector :: "ExternalSecretsManager \<Rightarrow> ExternalSecretsConfig \<Rightarrow> strmap \<Rightarrow> strmap" where
  "effectiveNodeSelector esm esc base =
     (let wanted = (if \<not> isNil (cc_NodeSelector (ownCommon esc)) then cc_NodeSelector (ownCommon esc)
                    else (case globalCommon esm of None \<Rightarrow> NilMap | Some g \<Rightarrow> cc_NodeSelector g))
      in if glen wanted = 0 then base else wanted)"

definition effectiveAffinity :: "ExternalSecretsManager \<Rightarrow> ExternalSecretsConfig \<Rightarrow> blob option \<Rightarrow> blob option" where
  "effectiveAffinity esm esc base =
     (case cc_Affinity (ownCommon esc) of Some a \<Rightarrow> Some a
      | None \<Rightarrow> (case Option.bind (globalCommon esm) cc_Affinity of Some a \<Rightarrow> Some a | None \<Rightarrow> base))"

definition effectiveTolerations :: "ExternalSecretsManager \<Rightarrow> ExternalSecretsConfig \<Rightarrow> blob slice \<Rightarrow> blob slice" where
  "effectiveTolerations esm esc base =
     (let wanted = (case cc_Tolerations (ownCommon esc) of Some t \<Rightarrow> Some t | None \<Rightarrow> Option.bind (globalCommon esm) cc_Tolerations)
      in if elems wanted = [] then base else wanted)"

lemma resource_step:
  "updateResourceRequirement env esm d esc = Inr d' \<Longrightarrow> coreView d' = coreView d \<and> schedView d' = schedView d"
  by (auto simp: updateResourceRequirement_def coreView_updContainers comp_def schedView_def updContainers_updPodSpec
      coreView_def split: option.splits)

lemma affinity_step:
  "updateAffinityRules env esm d esc = Inr d' \<Longrightarrow> coreView d' = coreView d \<and>
     schedView d' = (fst (schedView d), effectiveAffinity esm esc (fst (snd (schedView d))), snd (snd (schedView d)))"
  by (auto simp: updateAffinityRules_def effectiveAffinity_def coreView_def schedView_def split: option.splits)

lemma tolerations_step:
  "updatePodTolerations env esm d esc = Inr d' \<Longrightarrow> coreView d' = coreView d \<and>
     schedView d' = (fst (schedView d), fst (snd (schedView d)), effectiveTolerations esm esc (snd (snd (schedView d))))"
  by (auto simp: updatePodTolerations_def effectiveTolerations_def coreView_def schedView_def Let_def split: option.splits if_splits)

lemma nodeSelector_step:
  "updateNodeSelector env esm d esc = Inr d' \<Longrightarrow> coreView d' = coreView d \<and>
     schedView d' = (effectiveNodeSelector esm esc (fst (schedView d)), snd (schedView d))"
  by (auto simp: updateNodeSelector_def effectiveNodeSelector_def coreView_def schedView_def Let_def split: option.splits if_splits)

lemma wrapInl_Inr [simp]: "wrapInl m r = Inr x \<longleftrightarrow> r = Inr x"
  by (cases r) (simp_all add: wrapInl_def)

lemma bindS_Inr: "bindS r f = Inr y \<longleftrightarrow> (\<exists>x. r = Inr x \<and> f x = Inr y)"
  by (cases r) simp_all

lemma finish_views:
  assumes "finishDeployment env esm pc esc a d = Inr d'" and "noAdvancedOverrides esc"
  shows "coreView d' = coreView d"
    and "schedView d' = (effectiveNodeSelector esm esc (ps_NodeSelector (podSpec d)),
           effectiveAffinity esm esc (ps_Affinity (podSpec d)), effectiveTolerations esm esc (ps_Tolerations (podSpec d)))"
proof -
  from assms(1) obtain d1 d2 d3 d4 d5 where
    "updateResourceRequirement env esm d esc = Inr d1" "updateAffinityRules env esm d1 esc = Inr d2"
    "updatePodTolerations env esm d2 esc = Inr d3" "updateNodeSelector env esm d3 esc = Inr d4"
    "applyUserDeploymentConfigs env d4 esc a = Inr d5" and d': "d' = updateProxyConfiguration pc d5"
    unfolding finishDeployment_def by (auto simp: bindS_Inr)
  note steps = resource_step [OF this(1)] affinity_step [OF this(2)] tolerations_step [OF this(3)]
    nodeSelector_step [OF this(4)] views_userConfigs [OF this(5) assms(2)]
  show "coreView d' = coreView d" using steps by (simp add: d' core_simps)
  show "schedView d' = (effectiveNodeSelector esm esc (ps_NodeSelector (podSpec d)),
           effectiveAffinity esm esc (ps_Affinity (podSpec d)), effectiveTolerations esm esc (ps_Tolerations (podSpec d)))"
    using steps by (simp add: d' sched_simps) (simp add: schedView_def)
qed

text \<open>The component's own step hardens its container and sets its image.\<close>

definition hardened :: "string \<Rightarrow> string \<Rightarrow> Deployment \<Rightarrow> bool" where
  "hardened n img d \<longleftrightarrow> find (\<lambda>t. fst t = n) (coreView d) = Some (n, img, Some hardenedSecurityContext)"

lemma hardened_onContainer:
  assumes "list_ex (\<lambda>c. c_Name c = n) (ps_Containers (podSpec d))"
    and "\<And>c. c_Name (f c) = c_Name c \<and> c_Image (f c) = img \<and> c_SecurityContext (f c) = Some hardenedSecurityContext"
  shows "hardened n img (onContainer n f d)"
proof -
  have "find (\<lambda>t. fst t = n) (map (\<lambda>c. (c_Name c, c_Image c, c_SecurityContext c)) (updateFirst (\<lambda>c. c_Name c = n) f cs)) =
      Some (n, img, Some hardenedSecurityContext)" if "list_ex (\<lambda>c. c_Name c = n) cs" for cs
    using that by (induction cs) (auto simp: assms(2))
  with assms(1) show ?thesis by (simp add: hardened_def coreView_def onContainer_def)
qed

lemma setArgsAndImage_core:
  "c_Name (setArgsAndImage args img c) = c_Name c \<and> c_Image (setArgsAndImage args img c) = img \<and>
   c_SecurityContext (setArgsAndImage args img c) = Some hardenedSecurityContext"
  by (simp add: setArgsAndImage_def updateContainerSecurityContext_def)

definition operandImage :: "'s env \<Rightarrow> string \<Rightarrow> string" where
  "operandImage env assetName = e_Getenv env (if assetName = bitwardenDeploymentAssetName then bitwardenImageEnvVarName else externalsecretsImageEnvVarName)"

lemma hardened_cong: "coreView d' = coreView d \<Longrightarrow> hardened n img d \<Longrightarrow> hardened n img d'"
  by (simp add: hardened_def)

lemma asset_distinct [simp]:
  "webhookDeploymentAssetName \<noteq> controllerDeploymentAssetName"
  "certControllerDeploymentAssetName \<noteq> controllerDeploymentAssetName"
  "certControllerDeploymentAssetName \<noteq> webhookDeploymentAssetName"
  "bitwardenDeploymentAssetName \<noteq> controllerDeploymentAssetName"
  "bitwardenDeploymentAssetName \<noteq> webhookDeploymentAssetName"
  "bitwardenDeploymentAssetName \<noteq> certControllerDeploymentAssetName"
  by (simp_all add: deployment_asset_defs)

lemmas asset_distinct_sym [simp] = asset_distinct [symmetric]

lemma getComponentName_cases:
  assumes "getComponentNameFromAsset a = Inr (component, cn)"
  obtains "a = controllerDeploymentAssetName" "cn = OperandCoreControllerContainer"
  | "a = webhookDeploymentAssetName" "cn = OperandWebhookContainer"
  | "a = certControllerDeploymentAssetName" "cn = OperandCertControllerContainer"
  | "a = bitwardenDeploymentAssetName" "cn = OperandBitwardenContainer"
  using assms by (auto simp: getComponentNameFromAsset_def split: if_splits)

lemma readState_bind [simp]: "andThen (readState f) g s = g (f s) s"
  by (simp add: andThen_def)

lemma lift_bind: "andThen (lift r) g s = (case r of Ret x \<Rightarrow> g x s | Err e \<Rightarrow> (Err e, s) | Panic p \<Rightarrow> (Panic p, s))"
  by (simp add: andThen_def split: result.splits)

lemma operandArgs_Inr:
  "wrapInl m (applyOperandArgsFromEnv env d cn v) = Inr d' \<Longrightarrow> hardened n img d \<Longrightarrow> hardened n img d' \<and> schedView d' = schedView d"
  using views_operandArgs hardened_cong by fastforce

lemma componentSpec_hardened:
  assumes "getComponentNameFromAsset a = Inr (component, cn)"
    and "list_ex (\<lambda>c. c_Name c = cn) (ps_Containers (podSpec d))"
    and "componentSpec env esc a img bw ll d s = (Ret (Inr d'), s')"
  shows "hardened cn (if a = bitwardenDeploymentAssetName then bw else img) d' \<and> schedView d' = schedView d"
  using assms(1)
proof (cases rule: getComponentName_cases)
  case 1
  let ?d = "updateContainerSpec env (rs_esm s) d esc img ll"
  have h: "hardened cn img ?d" "schedView ?d = schedView d"
    using assms(2) 1 by (simp_all add: updateContainerSpec_def hardened_onContainer setArgsAndImage_core sched_simps)
  from assms(3) obtain d1 e s1 where
    args: "wrapInl ''failed to apply operand args from env: '' (applyOperandArgsFromEnv env ?d OperandCoreControllerContainer OperandExternalSecretsArgsEnvVar) = Inr d1"
    and ca: "applyUserCABundleConfig env d1 esc s = (Ret (d', e), s1)"
    by (auto simp: componentSpec_def 1 Let_def andThen_Ret_iff split: sum.splits option.splits)
  with h operandArgs_Inr [OF args h(1)] views_userCAConfig [OF ca] show ?thesis
    using hardened_cong [of d' d1] 1 asset_distinct(4) by simp
next
  case 2
  obtain ci where ci: "ci = (case ac_CertificateCheckInterval (spec_ApplicationConfig (esc_Spec esc)) of
      Some (Some d) \<Rightarrow> normalizeDurationArg env (e_DurationString env d) | _ \<Rightarrow> normalizeDurationArg env ''5m'')" by simp
  let ?d = "updateWebhookContainerSpec env d img ll ci"
  have h: "hardened cn img ?d" "schedView ?d = schedView d"
    using assms(2) 2 by (simp_all add: updateWebhookContainerSpec_def OperandWebhookContainer_def hardened_onContainer setArgsAndImage_core sched_simps)
  from assms(3) obtain d1 where
    "wrapInl ''failed to apply operand args from env: '' (applyOperandArgsFromEnv env ?d OperandWebhookContainer OperandWebhookArgsEnvVar) = Inr d1"
    "d' = updateWebhookVolumeConfig d1 esc"
    by (auto simp: componentSpec_def 2 Let_def ci [symmetric] split: sum.splits)
  with h operandArgs_Inr [OF this(1) h(1)] show ?thesis
    using hardened_cong [of d' d1] 2 asset_distinct(5) by (simp add: core_simps sched_simps)
next
  case 3
  let ?d = "updateCertControllerContainerSpec env d img ll"
  have h: "hardened cn img ?d" "schedView ?d = schedView d"
    using assms(2) 3 by (simp_all add: updateCertControllerContainerSpec_def OperandCertControllerContainer_def Let_def hardened_onContainer setArgsAndImage_core sched_simps)
  from assms(3) have
    "wrapInl ''failed to apply operand args from env: '' (applyOperandArgsFromEnv env ?d OperandCertControllerContainer OperandCertControllerArgsEnvVar) = Inr d'"
    by (auto simp: componentSpec_def 3 Let_def split: sum.splits)
  from h operandArgs_Inr [OF this h(1)] show ?thesis using 3 asset_distinct(6) by simp
next
  case 4
  obtain m where m: "m = (d_Meta d)\<lparr>om_Labels := gput ''app.kubernetes.io/version'' (e_Getenv env bitwardenImageVersionEnvVarName) (om_Labels (d_Meta d))\<rparr>" by simp
  let ?d = "updateBitwardenServerContainerSpec env (d\<lparr>d_Meta := m\<rparr>) bw"
  have h: "hardened cn bw ?d" "schedView ?d = schedView d"
    using assms(2) 4 by (simp_all add: updateBitwardenServerContainerSpec_def OperandBitwardenContainer_def hardened_onContainer setArgsAndImage_core sched_simps)
      (simp add: schedView_def)
  from assms(3) obtain d1 where
    args: "wrapInl ''failed to apply operand args from env: '' (applyOperandArgsFromEnv env ?d OperandBitwardenContainer OperandBitwardenSDKServerArgsEnvVar) = Inr d1"
    and vol: "updateBitwardenVolumeConfig d1 esc = Ret d'"
    by (auto simp: componentSpec_def 4 Let_def m [symmetric] lift_bind split: sum.splits if_splits result.splits)
  from vol have "coreView d' = coreView d1" "schedView d' = schedView d1"
    by (auto simp: updateBitwardenVolumeConfig_def core_simps sched_simps split: option.splits if_splits)
  with h operandArgs_Inr [OF args h(1)] show ?thesis using hardened_cong [of d' d1] 4 by simp
qed

lemma getDeploymentObject_RetE:
  assumes "getDeploymentObject env a esc md s = (Ret (Some d, None), s')"
  obtains asset d1 s1 where "DecodeDeploymentObjBytes env a = (Ret asset :: (goerr, kobj) result)"
    and "componentSpec env esc a (e_Getenv env externalsecretsImageEnvVarName) (e_Getenv env bitwardenImageEnvVarName)
           (getLogLevel esc (Some (rs_esm s))) (baseDeployment asset esc md) s = (Ret (Inr d1), s1)"
    and "finishDeployment env (rs_esm s) (rs_proxyConfig s1) esc a d1 = Inr d"
proof -
  have no: "componentSpec env esc a img bw ll d0 s \<noteq> (Ret (Inl (Some d, None)), s2)" for img bw ll d0 s2
    by (auto simp: componentSpec_def Let_def lift_bind andThen_Ret_iff split: if_splits sum.splits result.splits)
       (auto simp: wrapInl_def split: if_splits option.splits sum.splits)
  obtain asset where a: "DecodeDeploymentObjBytes env a = (Ret asset :: (goerr, kobj) result)"
    using assms by (cases "DecodeDeploymentObjBytes env a :: (goerr, kobj) result") (auto simp: getDeploymentObject_def lift_bind)
  from assms a obtain x s1 where c: "componentSpec env esc a (e_Getenv env externalsecretsImageEnvVarName) (e_Getenv env bitwardenImageEnvVarName)
           (getLogLevel esc (Some (rs_esm s))) (baseDeployment asset esc md) s = (Ret x, s1)"
    and rest: "(case x of Inl early \<Rightarrow> gret early
           | Inr d1 \<Rightarrow> andThen (readState rs_proxyConfig) (\<lambda>proxyConfig.
               gret (case finishDeployment env (rs_esm s) proxyConfig esc a d1 of
                       Inl e \<Rightarrow> (None, Some e) | Inr d2 \<Rightarrow> (Some d2, None)))) s1 = (Ret (Some d, None), s')"
    by (auto simp: getDeploymentObject_def lift_bind Let_def andThen_Ret_iff split: if_splits)
  show ?thesis
  proof (cases x)
    case (Inl early)
    with rest c no show ?thesis by auto
  next
    case (Inr d1)
    with rest have "finishDeployment env (rs_esm s) (rs_proxyConfig s1) esc a d1 = Inr d" by (auto split: sum.splits)
    with a c Inr that show ?thesis by blast
  qed
qed

lemma kind_baseDeployment:
  assumes "DecodeDeploymentObjBytes env a = (Ret asset :: (goerr, kobj) result)"
  obtains d where "asset = KDeployment d"
  using kindOf_decodeAs [of env "''Deployment''" a asset] assms
  by (cases asset) (auto simp: DecodeDeploymentObjBytes_def)

lemma baseDeployment_views:
  "coreView (baseDeployment (KDeployment d) esc md) = coreView d"
  "schedView (baseDeployment (KDeployment d) esc md) = schedView d"
  "ps_Containers (podSpec (baseDeployment (KDeployment d) esc md)) = ps_Containers (podSpec d)"
  by (simp_all add: baseDeployment_def ApplyResourceMetadata_def UpdateResourceLabels_def UpdateResourceAnnotations_def
      updateNamespace_def updatePodTemplateLabels_def updatePodTemplateAnnotations_def updTemplate_def
      coreView_def schedView_def Let_def)

lemma built_deployment:
  assumes "getDeploymentObject env a esc md s = (Ret (Some d, None), s')"
    and "getComponentNameFromAsset a = Inr (component, cn)"
    and "DecodeDeploymentObjBytes env a = (Ret (KDeployment asset) :: (goerr, kobj) result)"
    and "list_ex (\<lambda>c. c_Name c = cn) (ps_Containers (podSpec asset))"
    and "noAdvancedOverrides esc"
  shows "\<exists>c \<in> set (ps_Containers (podSpec d)). c_Name c = cn \<and> c_Image c = operandImage env a \<and> c_SecurityContext c = Some hardenedSecurityContext"
    and "schedView d = (effectiveNodeSelector (rs_esm s) esc (ps_NodeSelector (podSpec asset)),
           effectiveAffinity (rs_esm s) esc (ps_Affinity (podSpec asset)), effectiveTolerations (rs_esm s) esc (ps_Tolerations (podSpec asset)))"
proof -
  from assms(1) obtain d1 s1 where
    spec: "componentSpec env esc a (e_Getenv env externalsecretsImageEnvVarName) (e_Getenv env bitwardenImageEnvVarName)
           (getLogLevel esc (Some (rs_esm s))) (baseDeployment (KDeployment asset) esc md) s = (Ret (Inr d1), s1)"
    and fin: "finishDeployment env (rs_esm s) (rs_proxyConfig s1) esc a d1 = Inr d"
    by (rule getDeploymentObject_RetE) (simp add: assms(3))
  have "hardened cn (operandImage env a) d1 \<and> schedView d1 = schedView asset"
    using componentSpec_hardened [OF assms(2) _ spec] assms(4) by (auto simp: baseDeployment_views operandImage_def split: if_splits)
  with finish_views [OF fin assms(5)] have h: "hardened cn (operandImage env a) d"
    and "schedView d = (effectiveNodeSelector (rs_esm s) esc (ps_NodeSelector (podSpec asset)),
           effectiveAffinity (rs_esm s) esc (ps_Affinity (podSpec asset)), effectiveTolerations (rs_esm s) esc (ps_Tolerations (podSpec asset)))"
    by (auto simp: schedView_def hardened_def)
  then show "schedView d = (effectiveNodeSelector (rs_esm s) esc (ps_NodeSelector (podSpec asset)),
           effectiveAffinity (rs_esm s) esc (ps_Affinity (podSpec asset)), effectiveTolerations (rs_esm s) esc (ps_Tolerations (podSpec asset)))"
    by simp
  from h show "\<exists>c \<in> set (ps_Containers (podSpec d)). c_Name c = cn \<and> c_Image c = operandImage env a \<and>
       c_SecurityContext c = Some hardenedSecurityContext"
    by (auto simp: hardened_def coreView_def find_Some_iff intro!: bexI [OF _ nth_mem])
qed

section \<open>Properties\<close>


definition scheduledESC :: ExternalSecretsConfig where
  "scheduledESC = zeroESC\<lparr>esc_Spec := (esc_Spec zeroESC)\<lparr>spec_ApplicationConfig :=
     (spec_ApplicationConfig (esc_Spec zeroESC))\<lparr>ac_Common := zeroCommonConfigs\<lparr>cc_NodeSelector := GoMap [(''pool'', ''infra'')]\<rparr>\<rparr>\<rparr>\<rparr>"

definition builtDeployment :: Deployment where
  "builtDeployment = (case fst (getDeploymentObject sampleEnv controllerDeploymentAssetName scheduledESC sampleMetadata sampleState) of
     Ret (Some d, _) \<Rightarrow> d | _ \<Rightarrow> zeroDeployment)"


text \<open>C36. A missing trust bundle takes the other settings down with it. When the ConfigMap that the
  configuration names does not exist, the core controller's deployment is returned for applying
  together with a not-found user error, but without the steps after the trust bundle: its node
  selector, affinity, tolerations and container resources are the manifest's, whatever the
  configuration asks for.\<close>

theorem missing_bundle_drops_settings:
  assumes "DecodeDeploymentObjBytes env controllerDeploymentAssetName = (Ret (KDeployment asset) :: (goerr, kobj) result)"
    and "e_Getenv env externalsecretsImageEnvVarName \<noteq> ''''" and "e_Getenv env bitwardenImageEnvVarName \<noteq> ''''"
    and "trimSpace (e_Getenv env OperandExternalSecretsArgsEnvVar) = ''''"
    and "ctl_TrustedCABundle (spec_ControllerConfig (esc_Spec esc)) = Some ref"
    and "getWithCacheFallback env ''ConfigMap'' (getNamespace esc, cmk_Name ref) s = (Err e, s1)" and "IsNotFound e"
  shows "\<exists>d err. getDeploymentObject env controllerDeploymentAssetName esc md s = (Ret (Some d, Some err), s1) \<and>
    IsUserConfigurationNotFound (Some err) \<and>
    ps_NodeSelector (podSpec d) = ps_NodeSelector (podSpec asset) \<and>
    ps_Affinity (podSpec d) = ps_Affinity (podSpec asset) \<and>
    ps_Tolerations (podSpec d) = ps_Tolerations (podSpec asset) \<and>
    map c_Resources (ps_Containers (podSpec d)) = map c_Resources (ps_Containers (podSpec asset))"
proof -
  let ?d0 = "baseDeployment (KDeployment asset) esc md"
  let ?d1 = "updateContainerSpec env (rs_esm s) ?d0 esc (e_Getenv env externalsecretsImageEnvVarName) (getLogLevel esc (Some (rs_esm s)))"
  let ?q = "quoted (nsnameString (getNamespace esc, cmk_Name ref))"
  let ?e = "userConfigErr e (''trustedCABundle ConfigMap '' @ ?q @ '' not found'')"
  have nf: "IsUserConfigurationNotFound (Some ?e)" "IsUserConfigurationNotFound (Some (WrapErr m ?e m'))" for m m'
    using assms(7) by (simp_all add: IsUserConfigurationNotFound_def userConfigErr_def)
  have ca: "applyUserCABundleConfig env ?d1 esc s = (Ret (removeUserCABundleConfig ?d1, Some ?e), s1)"
    using assms(5-7) by (simp add: applyUserCABundleConfig_def Let_def)
  have args: "applyOperandArgsFromEnv env ?d1 OperandCoreControllerContainer OperandExternalSecretsArgsEnvVar = Inr ?d1"
    using assms(4) by (simp add: applyOperandArgsFromEnv_def)
  have res: "getDeploymentObject env controllerDeploymentAssetName esc md s =
      (Ret (Some (removeUserCABundleConfig ?d1), Some (WrapErr ''failed to apply user CA bundle config: '' ?e '''')), s1)"
    using assms(1-3) nf(1) by (simp add: getDeploymentObject_def lift_bind Let_def componentSpec_def andThen_def args wrapInl_def ca)
  have "schedView (removeUserCABundleConfig ?d1) = schedView asset"
    by (simp add: sched_simps updateContainerSpec_def baseDeployment_views)
  moreover have "map c_Resources (ps_Containers (podSpec (onContainer n f d))) = map c_Resources (ps_Containers (podSpec d))"
    if "\<And>c. c_Resources (f c) = c_Resources c" for n f d
    using that by (simp add: onContainer_def map_updateFirst)
  then have "map c_Resources (ps_Containers (podSpec (removeUserCABundleConfig ?d1))) = map c_Resources (ps_Containers (podSpec asset))"
    by (simp add: removeUserCABundleConfig_def updateContainerSpec_def prunePodVolume_def pruneContainerEnvVars_def pruneVolumeMount_def
        setArgsAndImage_def updateContainerSecurityContext_def baseDeployment_views)
  moreover note res nf(2) [of "''failed to apply user CA bundle config: ''" "''''"]
  ultimately show ?thesis unfolding schedView_def prod.inject by blast
qed

definition bundleESC :: ExternalSecretsConfig where
  "bundleESC = scheduledESC\<lparr>esc_Spec := (esc_Spec scheduledESC)\<lparr>spec_ControllerConfig :=
     zeroControllerConfig\<lparr>ctl_TrustedCABundle := Some \<lparr>cmk_Name = ''ca'', cmk_Key = ''''\<rparr>\<rparr>\<rparr>\<rparr>"

theorem missing_bundle_drops_settings_witness:
  "\<exists>d err s1. getDeploymentObject sampleEnv controllerDeploymentAssetName bundleESC sampleMetadata sampleState = (Ret (Some d, Some err), s1) \<and>
     ps_NodeSelector (podSpec d) = NilMap"
proof -
  define asset where "asset = (case sampleDecode controllerDeploymentAssetName of Some (KDeployment d) \<Rightarrow> d | _ \<Rightarrow> zeroDeployment)"
  have a: "DecodeDeploymentObjBytes sampleEnv controllerDeploymentAssetName = (Ret (KDeployment asset) :: (goerr, kobj) result)"
    unfolding asset_def by code_simp
  have b: "e_Getenv sampleEnv externalsecretsImageEnvVarName \<noteq> ''''" "e_Getenv sampleEnv bitwardenImageEnvVarName \<noteq> ''''"
    "trimSpace (e_Getenv sampleEnv OperandExternalSecretsArgsEnvVar) = ''''" by code_simp+
  have c: "ctl_TrustedCABundle (spec_ControllerConfig (esc_Spec bundleESC)) = Some \<lparr>cmk_Name = ''ca'', cmk_Key = ''''\<rparr>"
    by (simp add: bundleESC_def)
  obtain e s1 where d: "getWithCacheFallback sampleEnv ''ConfigMap'' (getNamespace bundleESC, ''ca'') sampleState = (Err e, s1)" "IsNotFound e"
  proof -
    have "case fst (getWithCacheFallback sampleEnv ''ConfigMap'' (getNamespace bundleESC, ''ca'') sampleState) of Err e \<Rightarrow> IsNotFound e | _ \<Rightarrow> False"
      by code_simp
    then show ?thesis using that
      by (cases "getWithCacheFallback sampleEnv ''ConfigMap'' (getNamespace bundleESC, ''ca'') sampleState") (auto split: result.splits)
  qed
  have "ps_NodeSelector (podSpec asset) = NilMap" unfolding asset_def by code_simp
  with missing_bundle_drops_settings [OF a b c, of sampleState e s1 sampleMetadata] d show ?thesis by auto
qed

end
