(* ===== verification/Proxy_Config.thy ===== *)
theory Proxy_Config
  imports Pod_Template
begin

section \<open>Proxy configuration: \<^verbatim>\<open>pkg/controller/external_secrets/utils.go\<close>\<close>

text \<open>
  The proxy settings, layered from the custom resources and the operator's environment, their
  validation, and the ports that the egress policy opens. URL parsing is a parameter (scheme and
  host of the URL); the port of a host and the conversion of its digits are Go's and modelled here.
\<close>

subsection \<open>Ports\<close>

definition isDigit :: "char \<Rightarrow> bool" where
  "isDigit c = (CHR ''0'' \<le> c \<and> c \<le> CHR ''9'')"

definition digitVal :: "char \<Rightarrow> int" where
  "digitVal c = of_char c - 48"

definition maxInt64 :: int where "maxInt64 = 2 ^ 63 - 1"

text \<open>\<open>strconv.Atoi\<close> on a non-empty string of digits: the value, and whether it is out of range (the
  value is then the largest integer).\<close>

definition atoiDigits :: "string \<Rightarrow> int \<times> bool" where
  "atoiDigits s = (let n = foldl (\<lambda>a c. 10 * a + digitVal c) 0 s in if n > maxInt64 then (maxInt64, True) else (n, False))"

text \<open>\<open>(*URL).Port()\<close>: what follows the last colon of the host, when these are digits.\<close>

definition urlPort :: "string \<Rightarrow> string" where
  "urlPort host =
     (if CHR '':'' \<notin> set host then ''''
      else (let p = rev (takeWhile (\<lambda>c. c \<noteq> CHR '':'') (rev host)) in
            if list_all isDigit p then p else ''''))"

subsection \<open>Layering\<close>

definition zeroProxyConfig :: ProxyConfig where
  "zeroProxyConfig = \<lparr>px_HTTPProxy = '''', px_HTTPSProxy = '''', px_NoProxy = '''', px_NetworkPolicyProvisioning = ''''\<rparr>"

definition olmProxyConfig :: "'s env \<Rightarrow> ProxyConfig option" where
  "olmProxyConfig env =
     (let http = e_Getenv env httpProxyEnvVar; https = e_Getenv env httpsProxyEnvVar; no = e_Getenv env noProxyEnvVar in
      if http = '''' \<and> https = '''' \<and> no = '''' then None
      else Some (zeroProxyConfig\<lparr>px_HTTPProxy := http, px_HTTPSProxy := https, px_NoProxy := no\<rparr>))"

definition mergeProxyConfigFields :: "ProxyConfig \<Rightarrow> ProxyConfig option \<Rightarrow> ProxyConfig" where
  "mergeProxyConfigFields into from =
     (case from of
        None \<Rightarrow> into
      | Some f \<Rightarrow> into\<lparr>
          px_HTTPProxy := (if px_HTTPProxy into = '''' then px_HTTPProxy f else px_HTTPProxy into),
          px_HTTPSProxy := (if px_HTTPSProxy into = '''' then px_HTTPSProxy f else px_HTTPSProxy into),
          px_NoProxy := (if px_NoProxy into = '''' then px_NoProxy f else px_NoProxy into),
          px_NetworkPolicyProvisioning := (if px_NetworkPolicyProvisioning into = '''' then px_NetworkPolicyProvisioning f
                                           else px_NetworkPolicyProvisioning into)\<rparr>)"

definition hasProxyEndpointURLs :: "ProxyConfig option \<Rightarrow> bool" where
  "hasProxyEndpointURLs config = (case config of None \<Rightarrow> False | Some p \<Rightarrow> px_HTTPProxy p \<noteq> '''' \<or> px_HTTPSProxy p \<noteq> '''')"

definition validateProxy :: "'s env \<Rightarrow> string \<Rightarrow> goerr option" where
  "validateProxy env rawURL =
     (if rawURL = '''' then None
      else (case e_ParseRequestURI env rawURL of
              None \<Rightarrow> Some (PlainErr ''invalid proxy URL configured'')
            | Some (scheme, host) \<Rightarrow>
                if scheme = '''' \<or> host = '''' then Some (PlainErr ''proxy URL must include valid scheme and host'')
                else (let portStr = urlPort host in
                      if portStr = '''' then None
                      else (let (port, rangeErr) = atoiDigits portStr in
                            if rangeErr then Some (WrapErr (''invalid port '' @ quoted portStr @ '' in proxy URL: '')
                                 (PlainErr (''strconv.Atoi: parsing '' @ quoted portStr @ '': value out of range'')) '''')
                            else if port < 1 \<or> port > 65535 then Some (PlainErr (''port '' @ showNat (nat port) @ '' out of range in proxy URL''))
                            else None))))"

definition layeredProxyConfig :: "'s env \<Rightarrow> ExternalSecretsManager \<Rightarrow> ExternalSecretsConfig \<Rightarrow> ProxyConfig" where
  "layeredProxyConfig env esm esc =
     (let own = (case cc_Proxy (ownCommon esc) of None \<Rightarrow> zeroProxyConfig | Some p \<Rightarrow> p) in
      mergeProxyConfigFields (mergeProxyConfigFields own (Option.bind (globalCommon esm) cc_Proxy)) (olmProxyConfig env))"

definition resolveProxyConfiguration :: "'s env \<Rightarrow> ExternalSecretsManager \<Rightarrow> ExternalSecretsConfig \<Rightarrow> goerr + ProxyConfig option" where
  "resolveProxyConfiguration env esm esc =
     (let proxyConfig = layeredProxyConfig env esm esc in
      if \<not> hasEffectiveProxyURLs (Some proxyConfig) then Inr None
      else (case validateProxy env (px_HTTPProxy proxyConfig) of
              Some err \<Rightarrow> Inl (WrapErr ''failed to validate HTTP proxy: '' err '''')
            | None \<Rightarrow> (case validateProxy env (px_HTTPSProxy proxyConfig) of
                 Some err \<Rightarrow> Inl (WrapErr ''failed to validate HTTPS proxy: '' err '''')
               | None \<Rightarrow> Inr (Some proxyConfig))))"

subsection \<open>The ports of the egress policy\<close>

text \<open>One URL: no port when the scheme has no default. A URL that does not parse is dereferenced.\<close>

definition proxyPort :: "'s env \<Rightarrow> string \<Rightarrow> (goerr, int) result" where
  "proxyPort env raw =
     (case e_ParseURL env raw of
        None \<Rightarrow> Panic ''nil pointer dereference''
      | Some (scheme, host) \<Rightarrow>
          (let port = (if urlPort host \<noteq> '''' then fst (atoiDigits (urlPort host)) else 0) in
           Ret (if port \<noteq> 0 then port
                else if toLowerAscii scheme = ''https'' then 443
                else if toLowerAscii scheme = ''http'' then 80 else 0)))"

fun collectPorts :: "'s env \<Rightarrow> string list \<Rightarrow> int list \<Rightarrow> (goerr, int list) result" where
  "collectPorts env [] ports = Ret ports"
| "collectPorts env (raw # raws) ports =
     (if raw = '''' then collectPorts env raws ports
      else (case proxyPort env raw of
              Panic p \<Rightarrow> Panic p
            | Err e \<Rightarrow> Err e
            | Ret port \<Rightarrow> collectPorts env raws (if port > 0 \<and> port \<notin> set ports then ports @ [port] else ports)))"

definition extractProxyPorts :: "'s env \<Rightarrow> ProxyConfig \<Rightarrow> (goerr, int list) result" where
  "extractProxyPorts env proxyConfig = collectPorts env [px_HTTPSProxy proxyConfig, px_HTTPProxy proxyConfig] []"

section \<open>Lemmas\<close>

definition firstSet :: "string list \<Rightarrow> string" where
  "firstSet xs = (case find (\<lambda>x. x \<noteq> '''') xs of None \<Rightarrow> '''' | Some x \<Rightarrow> x)"

text \<open>A field of an optional layer.\<close>

definition layer :: "(ProxyConfig \<Rightarrow> string) \<Rightarrow> ProxyConfig option \<Rightarrow> string" where
  "layer f p = (case p of None \<Rightarrow> '''' | Some c \<Rightarrow> f c)"

lemma firstSet_assoc: "firstSet [firstSet [a, b], c] = firstSet [a, b, c]"
  by (simp add: firstSet_def)

lemma merge_fields:
  "px_HTTPProxy (mergeProxyConfigFields p q) = firstSet [px_HTTPProxy p, layer px_HTTPProxy q]"
  "px_HTTPSProxy (mergeProxyConfigFields p q) = firstSet [px_HTTPSProxy p, layer px_HTTPSProxy q]"
  "px_NoProxy (mergeProxyConfigFields p q) = firstSet [px_NoProxy p, layer px_NoProxy q]"
  "px_NetworkPolicyProvisioning (mergeProxyConfigFields p q) = firstSet [px_NetworkPolicyProvisioning p, layer px_NetworkPolicyProvisioning q]"
  by (cases q; simp add: mergeProxyConfigFields_def firstSet_def layer_def)+

lemma olm_fields:
  "layer px_HTTPProxy (olmProxyConfig env) = e_Getenv env httpProxyEnvVar"
  "layer px_HTTPSProxy (olmProxyConfig env) = e_Getenv env httpsProxyEnvVar"
  "layer px_NoProxy (olmProxyConfig env) = e_Getenv env noProxyEnvVar"
  "layer px_NetworkPolicyProvisioning (olmProxyConfig env) = ''''"
  by (simp_all add: olmProxyConfig_def layer_def zeroProxyConfig_def Let_def)

lemma own_fields:
  "px_HTTPProxy (case p of None \<Rightarrow> zeroProxyConfig | Some c \<Rightarrow> c) = layer px_HTTPProxy p"
  "px_HTTPSProxy (case p of None \<Rightarrow> zeroProxyConfig | Some c \<Rightarrow> c) = layer px_HTTPSProxy p"
  "px_NoProxy (case p of None \<Rightarrow> zeroProxyConfig | Some c \<Rightarrow> c) = layer px_NoProxy p"
  "px_NetworkPolicyProvisioning (case p of None \<Rightarrow> zeroProxyConfig | Some c \<Rightarrow> c) = layer px_NetworkPolicyProvisioning p"
  by (cases p; simp add: layer_def zeroProxyConfig_def)+

lemma layered_fields:
  "px_HTTPProxy (layeredProxyConfig env esm esc) =
     firstSet [layer px_HTTPProxy (cc_Proxy (ownCommon esc)), layer px_HTTPProxy (Option.bind (globalCommon esm) cc_Proxy), e_Getenv env httpProxyEnvVar]"
  "px_HTTPSProxy (layeredProxyConfig env esm esc) =
     firstSet [layer px_HTTPSProxy (cc_Proxy (ownCommon esc)), layer px_HTTPSProxy (Option.bind (globalCommon esm) cc_Proxy), e_Getenv env httpsProxyEnvVar]"
  "px_NoProxy (layeredProxyConfig env esm esc) =
     firstSet [layer px_NoProxy (cc_Proxy (ownCommon esc)), layer px_NoProxy (Option.bind (globalCommon esm) cc_Proxy), e_Getenv env noProxyEnvVar]"
  "px_NetworkPolicyProvisioning (layeredProxyConfig env esm esc) =
     firstSet [layer px_NetworkPolicyProvisioning (cc_Proxy (ownCommon esc)), layer px_NetworkPolicyProvisioning (Option.bind (globalCommon esm) cc_Proxy), '''']"
  by (simp_all only: layeredProxyConfig_def Let_def merge_fields olm_fields own_fields firstSet_assoc)

lemma collectPorts_bounds:
  assumes "collectPorts env raws ps = Ret qs" and "distinct ps" and "\<forall>p\<in>set ps. 1 \<le> p \<and> p \<le> 65535"
    and "\<forall>raw\<in>set raws. raw \<noteq> '''' \<longrightarrow> (\<forall>p. proxyPort env raw = Ret p \<longrightarrow> p \<le> 65535)"
  shows "distinct qs \<and> (\<forall>p\<in>set qs. 1 \<le> p \<and> p \<le> 65535)"
  using assms
proof (induction raws arbitrary: ps)
  case (Cons raw raws)
  show ?case
  proof (cases "raw = ''''")
    case True
    show ?thesis by (rule Cons.IH [of ps]) (use Cons.prems True in simp_all)
  next
    case False
    then obtain port where p: "proxyPort env raw = Ret port"
      using Cons.prems(1) by (auto split: result.splits)
    with Cons.prems(4) False have port: "port \<le> 65535" by auto
    let ?ps = "if port > 0 \<and> port \<notin> set ps then ps @ [port] else ps"
    have "collectPorts env raws ?ps = Ret qs" using Cons.prems(1) p False by simp
    moreover have "distinct ?ps" using Cons.prems(2) by simp
    moreover have "\<forall>p\<in>set ?ps. 1 \<le> p \<and> p \<le> 65535" using Cons.prems(3) port by simp
    moreover have "\<forall>raw\<in>set raws. raw \<noteq> '''' \<longrightarrow> (\<forall>p. proxyPort env raw = Ret p \<longrightarrow> p \<le> 65535)" using Cons.prems(4) by simp
    ultimately show ?thesis by (rule Cons.IH)
  qed
qed simp

text \<open>The two parsers of Go's \<^verbatim>\<open>net/url\<close> agree on the URLs that validation accepts.\<close>

definition urlParsersAgree :: "'s env \<Rightarrow> bool" where
  "urlParsersAgree env \<longleftrightarrow> (\<forall>u x. e_ParseRequestURI env u = Some x \<longrightarrow> e_ParseURL env u = Some x)"

lemma valid_port:
  assumes "urlParsersAgree env" and "validateProxy env raw = None" and "raw \<noteq> ''''"
  shows "\<exists>p. proxyPort env raw = Ret p \<and> p \<le> 65535"
proof -
  from assms(2,3) obtain scheme host where r: "e_ParseRequestURI env raw = Some (scheme, host)"
    and ok: "urlPort host = '''' \<or> (snd (atoiDigits (urlPort host)) = False \<and> fst (atoiDigits (urlPort host)) \<le> 65535)"
    by (auto simp: validateProxy_def Let_def split: option.splits if_splits prod.splits)
  from r assms(1) have "e_ParseURL env raw = Some (scheme, host)" by (simp add: urlParsersAgree_def)
  with ok show ?thesis by (auto simp: proxyPort_def Let_def)
qed

lemma collectPorts_Ret:
  "(\<And>raw. raw \<in> set raws \<Longrightarrow> raw \<noteq> '''' \<Longrightarrow> \<exists>p. proxyPort env raw = Ret p) \<Longrightarrow> \<exists>qs. collectPorts env raws ps = Ret qs"
proof (induction raws arbitrary: ps)
  case (Cons raw raws)
  show ?case
  proof (cases "raw = ''''")
    case True
    with Cons show ?thesis by simp
  next
    case False
    with Cons.prems [of raw] obtain p where "proxyPort env raw = Ret p" by auto
    with Cons False show ?thesis by simp
  qed
qed simp

lemma resolved_valid:
  "resolveProxyConfiguration env esm esc = Inr (Some p) \<Longrightarrow>
     p = layeredProxyConfig env esm esc \<and> hasEffectiveProxyURLs (Some p) \<and>
     validateProxy env (px_HTTPProxy p) = None \<and> validateProxy env (px_HTTPSProxy p) = None"
  by (auto simp: resolveProxyConfiguration_def Let_def split: if_splits option.splits)

section \<open>Properties\<close>


definition proxyESC :: ExternalSecretsConfig where
  "proxyESC = zeroESC\<lparr>esc_Spec := (esc_Spec zeroESC)\<lparr>spec_ApplicationConfig :=
     (spec_ApplicationConfig (esc_Spec zeroESC))\<lparr>ac_Common := zeroCommonConfigs\<lparr>cc_Proxy := Some sampleProxy\<rparr>\<rparr>\<rparr>\<rparr>"




end
