(* ===== verification/Frame.thy ===== *)
theory Frame
  imports Managed_Resources
begin

section \<open>What a call may touch\<close>

text \<open>
  Every call of the operator is composed from a few primitives. The locale \<open>frame\<close> states what a
  relation \<open>R\<close> between the states before and after a call has to allow: changes of the objects in \<open>W\<close>,
  changes of the metadata of the objects in \<open>P\<close>. One rule per primitive and per way of composition,
  proved once in the locale, then carries \<open>R\<close> to a whole reconciliation, for every API server that meets
  the contract, with any failures. There are four instances. \<open>framed A\<close>: outside the object identities in \<open>A\<close>,
  a call neither creates nor deletes an object and changes nothing of an object but its metadata.
  \<open>untouched K\<close>: a call changes no object whose kind is not in \<open>K\<close>. \<open>stays i\<close>: a call leaves the object \<open>i\<close> as it is. \<open>memKept\<close>: a call leaves
  the custom resource in memory as it is.
\<close>

text \<open>A retried call that returns made a last attempt that did, in a state that every failed attempt leads to.\<close>

lemma retryOnError_Ret:
  assumes "retryOnError n p m s = (Ret x, s')" and "P s" and "\<And>t e t'. P t \<Longrightarrow> m t = (Err e, t') \<Longrightarrow> P t'"
  shows "\<exists>t. P t \<and> m t = (Ret x, s')"
  using assms(1,2)
proof (induction n arbitrary: s)
  case 0
  then show ?case by auto
next
  case (Suc n)
  obtain r t where m: "m s = (r, t)" by force
  with Suc.prems have "r = Ret x \<and> t = s' \<or> (\<exists>e. r = Err e \<and> retryOnError n p m t = (Ret x, s'))"
    by (cases r) (auto simp: onErr_def split: if_splits)
  with Suc.IH Suc.prems(2) assms(3) m show ?case by blast
qed

context operator_env
begin

definition framed :: "(objid \<Rightarrow> bool) \<Rightarrow> 's rstate \<Rightarrow> 's rstate \<Rightarrow> bool" where
  "framed A s s' \<longleftrightarrow> (wf (rs_kube s) \<longrightarrow> wf (rs_kube s') \<and>
     (\<forall>i. \<not> A i \<longrightarrow> (case objs (rs_kube s) i of
        None \<Rightarrow> objs (rs_kube s') i = None
      | Some o1 \<Rightarrow> (\<exists>o2. objs (rs_kube s') i = Some o2 \<and> payload o2 = payload o1))))"

lemma framed_refl [simp, intro]: "reflp (framed A)"
  by (auto simp: reflp_def framed_def split: option.splits)

lemma framed_trans [simp, intro]: "transp (framed A)"
proof (rule transpI)
  fix x y z :: "'s rstate"
  assume xy: "framed A x y" and yz: "framed A y z"
  show "framed A x z"
    unfolding framed_def
  proof (intro impI conjI allI)
    assume w: "wf (rs_kube x)"
    then have wy: "wf (rs_kube y)" using xy by (simp add: framed_def)
    then show "wf (rs_kube z)" using yz by (simp add: framed_def)
    fix i assume i: "\<not> A i"
    have "case objs (rs_kube x) i of None \<Rightarrow> objs (rs_kube y) i = None
        | Some o1 \<Rightarrow> \<exists>o2. objs (rs_kube y) i = Some o2 \<and> payload o2 = payload o1"
      using xy w i unfolding framed_def by blast
    moreover have "case objs (rs_kube y) i of None \<Rightarrow> objs (rs_kube z) i = None
        | Some o1 \<Rightarrow> \<exists>o2. objs (rs_kube z) i = Some o2 \<and> payload o2 = payload o1"
      using yz wy i unfolding framed_def by blast
    ultimately show "case objs (rs_kube x) i of None \<Rightarrow> objs (rs_kube z) i = None
        | Some o1 \<Rightarrow> \<exists>o2. objs (rs_kube z) i = Some o2 \<and> payload o2 = payload o1"
      by (auto split: option.splits)
  qed
qed

lemma framedD:
  assumes "framed A s s'" and "wf (rs_kube s)"
  shows "wf (rs_kube s')"
    and "objs (rs_kube s) i = None \<Longrightarrow> \<not> A i \<Longrightarrow> objs (rs_kube s') i = None"
    and "objs (rs_kube s) i = Some o1 \<Longrightarrow> \<not> A i \<Longrightarrow> \<exists>o2. objs (rs_kube s') i = Some o2 \<and> payload o2 = payload o1"
proof -
  have all: "wf (rs_kube s') \<and> (\<forall>i. \<not> A i \<longrightarrow> (case objs (rs_kube s) i of None \<Rightarrow> objs (rs_kube s') i = None
      | Some o1 \<Rightarrow> (\<exists>o2. objs (rs_kube s') i = Some o2 \<and> payload o2 = payload o1)))"
    using assms unfolding framed_def by blast
  then show "wf (rs_kube s')" by blast
  from all have "\<not> A i \<Longrightarrow> (case objs (rs_kube s) i of None \<Rightarrow> objs (rs_kube s') i = None
      | Some o1 \<Rightarrow> (\<exists>o2. objs (rs_kube s') i = Some o2 \<and> payload o2 = payload o1))" by blast
  then show "objs (rs_kube s) i = None \<Longrightarrow> \<not> A i \<Longrightarrow> objs (rs_kube s') i = None"
    and "objs (rs_kube s) i = Some o1 \<Longrightarrow> \<not> A i \<Longrightarrow> \<exists>o2. objs (rs_kube s') i = Some o2 \<and> payload o2 = payload o1"
    by (simp_all split: option.splits)
qed

lemma framed_same: "objs (rs_kube s') = objs (rs_kube s) \<Longrightarrow> (wf (rs_kube s) \<Longrightarrow> wf (rs_kube s')) \<Longrightarrow> framed A s s'"
  by (auto simp: framed_def split: option.splits)

lemma framed_update:
  assumes "A j" and "objs (rs_kube s') = (objs (rs_kube s))(j := x)" and "wf (rs_kube s')"
  shows "framed A s s'"
  unfolding framed_def
proof (intro impI conjI allI)
  fix i assume "\<not> A i"
  with assms(1) have "i \<noteq> j" by blast
  then show "case objs (rs_kube s) i of None \<Rightarrow> objs (rs_kube s') i = None
      | Some o1 \<Rightarrow> \<exists>o2. objs (rs_kube s') i = Some o2 \<and> payload o2 = payload o1"
    by (simp add: assms(2) split: option.splits)
qed (rule assms(3))

lemma framed_meta:
  assumes "objs (rs_kube s) j = Some o1" and "payload o2 = payload o1"
    and "objs (rs_kube s') = (objs (rs_kube s))(j \<mapsto> o2)" and "wf (rs_kube s')"
  shows "framed A s s'"
  unfolding framed_def
proof (intro impI conjI allI)
  fix i
  show "case objs (rs_kube s) i of None \<Rightarrow> objs (rs_kube s') i = None
      | Some o1 \<Rightarrow> \<exists>o2. objs (rs_kube s') i = Some o2 \<and> payload o2 = payload o1"
    using assms(1,2) by (cases "i = j") (simp_all add: assms(3) split: option.splits)
qed (rule assms(4))

lemma got_kind:
  assumes "wf (rs_kube s)" and "onErr (onKube (cl_Get (e_Client env) k n)) (\<lambda>e. gerr (h e)) s = (Ret x, s')"
  shows "objid x = (k, n)"
  using assms cached.get_Ret [OF assms(1), of k n x] by (auto simp: onErr_def onKube_def split: prod.splits result.splits)

lemma got_fallback:
  assumes "wf (rs_kube s)" and "getWithCacheFallback env k n s = (Ret x, s')"
  shows "objid x = (k, n)"
proof -
  obtain r k1 where c: "cl_Get (e_Client env) k n (rs_kube s) = (r, k1)" by force
  from assms(2) consider "r = Ret x" | e k2 where "r = Err e" "cl_Get (e_Uncached env) k n k1 = (Ret x, k2)"
    by (cases r) (auto simp: getWithCacheFallback_def onErr_def onKube_def c split: if_splits prod.splits)
  then show ?thesis
  proof cases
    case 1
    with cached.get_Ret [OF assms(1)] c show ?thesis by blast
  next
    case 2
    with cached.get_Err [OF assms(1)] c have "wf k1" by blast
    with direct.get_Ret 2(2) show ?thesis by blast
  qed
qed

definition untouched :: "string set \<Rightarrow> 's rstate \<Rightarrow> 's rstate \<Rightarrow> bool" where
  "untouched K s s' \<longleftrightarrow> (wf (rs_kube s) \<longrightarrow> wf (rs_kube s') \<and> (\<forall>i. fst i \<notin> K \<longrightarrow> objs (rs_kube s') i = objs (rs_kube s) i))"

lemma untouchedD:
  "untouched K s s' \<Longrightarrow> wf (rs_kube s) \<Longrightarrow> wf (rs_kube s')"
  "untouched K s s' \<Longrightarrow> wf (rs_kube s) \<Longrightarrow> fst i \<notin> K \<Longrightarrow> objs (rs_kube s') i = objs (rs_kube s) i"
  unfolding untouched_def by blast+

lemma untouched_mono: "untouched K s s' \<Longrightarrow> K \<subseteq> L \<Longrightarrow> untouched L s s'"
  unfolding untouched_def by blast

definition stays :: "objid \<Rightarrow> 's rstate \<Rightarrow> 's rstate \<Rightarrow> bool" where
  "stays i s s' \<longleftrightarrow> (wf (rs_kube s) \<longrightarrow> wf (rs_kube s') \<and> objs (rs_kube s') i = objs (rs_kube s) i)"

lemma staysD:
  "stays i s s' \<Longrightarrow> wf (rs_kube s) \<Longrightarrow> wf (rs_kube s')"
  "stays i s s' \<Longrightarrow> wf (rs_kube s) \<Longrightarrow> objs (rs_kube s') i = objs (rs_kube s) i"
  unfolding stays_def by blast+

definition memKept :: "'s rstate \<Rightarrow> 's rstate \<Rightarrow> bool" where
  "memKept s s' \<longleftrightarrow> (wf (rs_kube s) \<longrightarrow> wf (rs_kube s') \<and> rs_ESC s' = rs_ESC s)"

lemma memKeptD:
  "memKept s s' \<Longrightarrow> wf (rs_kube s) \<Longrightarrow> wf (rs_kube s')"
  "memKept s s' \<Longrightarrow> wf (rs_kube s) \<Longrightarrow> rs_ESC s' = rs_ESC s"
  unfolding memKept_def by blast+

end

section \<open>The rules\<close>

locale frame = operator_env env objs wf
  for env :: "'s env" and objs :: "'s \<Rightarrow> objid \<Rightarrow> kobj option" and wf :: "'s \<Rightarrow> bool" +
  fixes R :: "'s rstate \<Rightarrow> 's rstate \<Rightarrow> bool" and W :: "objid \<Rightarrow> bool" and P :: "objid \<Rightarrow> bool"
  assumes R_refl [simp, intro]: "reflp R"
    and R_trans [simp, intro]: "transp R"
    and R_vacuous: "\<not> wf (rs_kube s) \<Longrightarrow> R s s'"
    and R_same: "objs (rs_kube s') = objs (rs_kube s) \<Longrightarrow> (wf (rs_kube s) \<Longrightarrow> wf (rs_kube s')) \<Longrightarrow> rs_ESC s' = rs_ESC s \<Longrightarrow> R s s'"
    and R_memory: "P (objid (KESC esc)) \<Longrightarrow> R s (s\<lparr>rs_ESC := esc\<rparr>)"
    and R_write: "W j \<Longrightarrow> objs (rs_kube s') = (objs (rs_kube s))(j := x) \<Longrightarrow> wf (rs_kube s') \<Longrightarrow> rs_ESC s' = rs_ESC s \<Longrightarrow> R s s'"
    and R_patch: "P j \<Longrightarrow> objs (rs_kube s) j = Some o1 \<Longrightarrow> payload o2 = payload o1 \<Longrightarrow>
      objs (rs_kube s') = (objs (rs_kube s))(j \<mapsto> o2) \<Longrightarrow> wf (rs_kube s') \<Longrightarrow> rs_ESC s' = rs_ESC s \<Longrightarrow> R s s'"
begin

subsection \<open>Calls that read or only touch the operator's own memory\<close>

lemma frame_pure [intro!]:
  "keeps R (Eventf a b c)" "keeps R (eventIf x a b c)" "keeps R (lift r)"
  "keeps R (readState f)" "keeps R (gret y)" "keeps R (gerr e)" "keeps R (gpanic p)"
  by (rule keepsI, rule R_same; simp add: Eventf_def eventIf_def lift_def readState_def)+

lemma frame_setESC [intro!]: "P (objid (KESC esc)) \<Longrightarrow> keeps R (setESC esc)"
  by (rule keepsI) (simp add: setESC_def R_memory)

lemma frame_onKube:
  assumes "\<And>k r k'. wf k \<Longrightarrow> m k = (r, k') \<Longrightarrow> R (s0\<lparr>rs_kube := k\<rparr>) (s0\<lparr>rs_kube := k'\<rparr>)" and "s0 = s"
  shows "R s (snd (onKube m s))"
proof (cases "wf (rs_kube s)")
  case True
  obtain r k' where m: "m (rs_kube s) = (r, k')" by force
  from assms(1) [OF True m] assms(2) show ?thesis by (simp add: onKube_def m)
qed (rule R_vacuous)

lemma frame_read:
  assumes "\<And>k r k'. wf k \<Longrightarrow> m k = (r, k') \<Longrightarrow> objs k' = objs k \<and> wf k'"
  shows "keeps R (onKube m)"
proof (rule keepsI)
  fix s
  show "R s (snd (onKube m s))"
    by (rule frame_onKube [OF _ refl], rule R_same) (use assms in auto)
qed

lemma frame_get [intro!]: "keeps R (onKube (cl_Get (e_Client env) k n))" "keeps R (onKube (cl_Get (e_Uncached env) k n))"
proof -
  have "objs k' = objs s \<and> wf k'" if "wf s" "cl_Get (e_Client env) k n s = (r, k')" for s r k'
    using that cached.get_Ret cached.get_Err cached.get_noPanic by (cases r) blast+
  then show "keeps R (onKube (cl_Get (e_Client env) k n))" by (rule frame_read)
  have "objs k' = objs s \<and> wf k'" if "wf s" "cl_Get (e_Uncached env) k n s = (r, k')" for s r k'
    using that direct.get_Ret direct.get_Err direct.get_noPanic by (cases r) blast+
  then show "keeps R (onKube (cl_Get (e_Uncached env) k n))" by (rule frame_read)
qed

lemma frame_list [intro!]: "keeps R (onKube (cl_List (e_Client env) k ns ls))"
proof (rule frame_read)
  fix s r k' assume "wf s" "cl_List (e_Client env) k ns ls s = (r, k')"
  then show "objs k' = objs s \<and> wf k'"
    using cached.list_Ret cached.list_Err cached.list_noPanic by (cases r) blast+
qed

lemma frame_Exists [intro!]: "keeps R (onKube (Exists (e_Client env) k n))" "keeps R (onKube (Exists (e_Uncached env) k n))"
  by (rule frame_read, use cached.Exists_cases in blast) (rule frame_read, use direct.Exists_cases in blast)

subsection \<open>Calls that write\<close>

lemma frame_write:
  assumes "W j" and "\<And>k r k'. wf k \<Longrightarrow> m k = (r, k') \<Longrightarrow> (objs k' = objs k \<or> (\<exists>x. objs k' = (objs k)(j := x))) \<and> wf k'"
  shows "keeps R (onKube m)"
proof (rule keepsI, rule frame_onKube [OF _ refl])
  fix s :: "'s rstate" and k r k'
  assume "wf k" "m k = (r, k')"
  from assms(2) [OF this] show "R (s\<lparr>rs_kube := k\<rparr>) (s\<lparr>rs_kube := k'\<rparr>)"
    using R_same [of "s\<lparr>rs_kube := k'\<rparr>" "s\<lparr>rs_kube := k\<rparr>"] R_write [OF assms(1), of "s\<lparr>rs_kube := k'\<rparr>" "s\<lparr>rs_kube := k\<rparr>"] by auto
qed

lemma frame_create: "W (objid o1) \<Longrightarrow> keeps R (onKube (cl_Create (e_Client env) o1))"
proof (erule frame_write)
  fix k r k' assume "wf k" "cl_Create (e_Client env) o1 k = (r, k')"
  then show "(objs k' = objs k \<or> (\<exists>x. objs k' = (objs k)(objid o1 := x))) \<and> wf k'"
    using cached.create_Ret [of k o1 _ k'] cached.create_Err [of k o1 _ k'] cached.create_noPanic [of o1 k _ k'] by (cases r) blast+
qed

lemma frame_delete: "W (objid o1) \<Longrightarrow> keeps R (onKube (cl_Delete (e_Client env) o1))"
proof (erule frame_write)
  fix k r k' assume "wf k" "cl_Delete (e_Client env) o1 k = (r, k')"
  then show "(objs k' = objs k \<or> (\<exists>x. objs k' = (objs k)(objid o1 := x))) \<and> wf k'"
    using cached.delete_Ret [of k o1 _ k'] cached.delete_Err [of k o1 _ k'] cached.delete_noPanic [of o1 k _ k'] by (cases r) blast+
qed

lemma frame_status: "W (objid o1) \<Longrightarrow> keeps R (onKube (cl_StatusUpdate (e_Client env) o1))"
proof (erule frame_write)
  fix k r k' assume "wf k" "cl_StatusUpdate (e_Client env) o1 k = (r, k')"
  then show "(objs k' = objs k \<or> (\<exists>x. objs k' = (objs k)(objid o1 := x))) \<and> wf k'"
    using cached.status_Ret [of k o1 _ k'] cached.status_Err [of k o1 _ k'] cached.status_noPanic [of o1 k _ k'] by (cases r) blast+
qed

lemma frame_updateWithRetry:
  "W (objid o1) \<Longrightarrow> keeps R (onKube (UpdateWithRetry (e_Client env) o1))"
  "W (objid o1) \<Longrightarrow> keeps R (onKube (UpdateWithRetry (e_Uncached env) o1))"
  by (erule frame_write, use cached.UpdateWithRetry_cases in fastforce)
     (erule frame_write, use direct.UpdateWithRetry_cases in fastforce)

text \<open>A patch only touches metadata.\<close>

lemma frame_patch [intro!]:
  assumes "P (objid o1)"
  shows "keeps R (onKube (cl_Patch (e_Client env) o1 q))" "keeps R (onKube (cl_Patch (e_Uncached env) o1 q))"
proof -
  have meta: "R (s\<lparr>rs_kube := k\<rparr>) (s\<lparr>rs_kube := k'\<rparr>)"
    if "(\<exists>cur o2. objs k (objid o1) = Some cur \<and> sameUpToServer (mapMeta (applyPatch q) cur) o2 \<and>
        objs k' = (objs k)(objid o1 \<mapsto> o2) \<and> wf k') \<or> (objs k' = objs k \<and> wf k')" for s k k'
    using that
  proof (elim disjE exE conjE)
    fix cur o2
    assume h: "objs k (objid o1) = Some cur" "sameUpToServer (mapMeta (applyPatch q) cur) o2" "objs k' = (objs k)(objid o1 \<mapsto> o2)" "wf k'"
    have "payload o2 = payload cur" using payload_sameUpToServer [OF h(2)] by simp
    with h show ?thesis by (intro R_patch [OF assms]) simp_all
  qed (auto intro: R_same)
  have c: "(\<exists>cur o2. objs k (objid o1) = Some cur \<and> sameUpToServer (mapMeta (applyPatch q) cur) o2 \<and>
      objs k' = (objs k)(objid o1 \<mapsto> o2) \<and> wf k') \<or> (objs k' = objs k \<and> wf k')" if "wf k" "cl_Patch (e_Client env) o1 q k = (r, k')" for k r k'
    using that cached.patch_Ret [of k o1 q _ k'] cached.patch_Err [of k o1 q _ k'] cached.patch_noPanic [of o1 q k _ k'] by (cases r) blast+
  have d: "(\<exists>cur o2. objs k (objid o1) = Some cur \<and> sameUpToServer (mapMeta (applyPatch q) cur) o2 \<and>
      objs k' = (objs k)(objid o1 \<mapsto> o2) \<and> wf k') \<or> (objs k' = objs k \<and> wf k')" if "wf k" "cl_Patch (e_Uncached env) o1 q k = (r, k')" for k r k'
    using that direct.patch_Ret [of k o1 q _ k'] direct.patch_Err [of k o1 q _ k'] direct.patch_noPanic [of o1 q k _ k'] by (cases r) blast+
  show "keeps R (onKube (cl_Patch (e_Client env) o1 q))"
    by (rule keepsI, rule frame_onKube [OF _ refl], rule meta, rule c)
  show "keeps R (onKube (cl_Patch (e_Uncached env) o1 q))"
    by (rule keepsI, rule frame_onKube [OF _ refl], rule meta, rule d)
qed

subsection \<open>Composition\<close>

lemma frame_andThen [intro!]:
  "keeps R m \<Longrightarrow> (\<And>x. keeps R (f x)) \<Longrightarrow> keeps R (andThen m f)"
  by (rule keeps_andThen) simp_all

lemma frame_onErr [intro!]:
  "keeps R m \<Longrightarrow> (\<And>e. keeps R (h e)) \<Longrightarrow> keeps R (onErr m h)"
  by (rule keeps_onErr) simp_all

lemma frame_forEach [intro!]:
  "(\<And>x. x \<in> set xs \<Longrightarrow> keeps R (f x)) \<Longrightarrow> keeps R (forEach xs f)"
  by (rule keeps_forEach) simp_all

lemma frame_retry [intro!]: "keeps R m \<Longrightarrow> keeps R (retryOnConflict m)"
  unfolding retryOnConflict_def by (rule keeps_retryOnError) simp_all

text \<open>A continuation that only sees the values a call can return.\<close>

lemma frame_bind:
  assumes "keeps R m" and "\<And>s x s'. wf (rs_kube s) \<Longrightarrow> m s = (Ret x, s') \<Longrightarrow> keeps R (f x)"
  shows "keeps R (andThen m f)"
proof (rule keepsI)
  fix s :: "'s rstate"
  obtain r s' where m: "m s = (r, s')" by force
  have 1: "R s s'" using assms(1) m by (rule keepsD)
  show "R s (snd (andThen m f s))"
  proof (cases "wf (rs_kube s)")
    case True
    show ?thesis
    proof (cases r)
      case (Ret x)
      with assms(2) [OF True] m have "R s' (snd (f x s'))" by (auto simp: keeps_def)
      with 1 show ?thesis using transpD [OF R_trans] m Ret by (auto simp: andThen_def)
    qed (use m 1 in \<open>simp_all add: andThen_def\<close>)
  qed (rule R_vacuous)
qed

lemma frame_lift [intro!]:
  "(\<And>x. r = Ret x \<Longrightarrow> keeps R (f x)) \<Longrightarrow> keeps R (andThen (lift r) f)"
  by (rule frame_bind) auto

lemma frame_case_result:
  assumes "keeps R m" and "\<And>x. keeps R (h x)" and "\<And>e. keeps R (g e)"
  shows "keeps R (\<lambda>s. case m s of (Ret x, s1) \<Rightarrow> h x s1 | (Panic p, s1) \<Rightarrow> (Panic p, s1) | (Err e, s1) \<Rightarrow> g e s1)"
proof (rule keepsI)
  fix s :: "'s rstate"
  obtain r s1 where m: "m s = (r, s1)" by force
  have 1: "R s s1" using assms(1) m by (rule keepsD)
  have 2: "R s1 (snd (h x s1))" "R s1 (snd (g y s1))" for x y using assms(2,3) by (simp_all add: keeps_def)
  show "R s (snd (case m s of (Ret x, s1) \<Rightarrow> h x s1 | (Panic p, s1) \<Rightarrow> (Panic p, s1) | (Err e, s1) \<Rightarrow> g e s1))"
    using 1 2 transpD [OF R_trans] by (cases r) (auto simp: m)
qed

lemma frame_value [intro!]: "keeps R (\<lambda>s. (r, s))"
  by (rule keepsI) (simp add: reflpD [OF R_refl])

lemma frame_if [intro!]:
  "keeps R m1 \<Longrightarrow> keeps R m2 \<Longrightarrow> keeps R (\<lambda>s. if b s then m1 s else m2 s)"
  by (simp add: keeps_def)

lemma frame_case_option [intro!]:
  "keeps R m \<Longrightarrow> (\<And>y. x = Some y \<Longrightarrow> keeps R (f y)) \<Longrightarrow>
   keeps R (\<lambda>s. case x of None \<Rightarrow> m s | Some y \<Rightarrow> f y s)"
  by (cases x) simp_all

subsection \<open>The reconciler's own building blocks\<close>

lemma frame_createWithFallback [intro!]: "W (objid d) \<Longrightarrow> keeps R (createWithFallback env d md n)"
  unfolding createWithFallback_def Let_def
  by (rule frame_case_result) (auto intro!: frame_create frame_updateWithRetry)

lemma frame_patchResourceMetadata [intro!]: "P (objid d) \<Longrightarrow> keeps R (patchResourceMetadata env d md)"
  unfolding patchResourceMetadata_def Let_def by auto

lemma frame_createWithMetadataFallback [intro!]: "W (objid d) \<Longrightarrow> P (objid d) \<Longrightarrow> keeps R (createWithMetadataFallback env d md n)"
  unfolding createWithMetadataFallback_def Let_def
  by (rule frame_case_result) (auto intro!: frame_create)

lemma frame_applyObject [intro!]: "W (objid d) \<Longrightarrow> keeps R (applyObject env d md n recon m1 m2 m3 m4)"
  unfolding applyObject_def
  by (auto intro!: frame_updateWithRetry split: option.splits)

lemma frame_getWithCacheFallback [intro!]: "keeps R (getWithCacheFallback env k n)"
  unfolding getWithCacheFallback_def by auto

lemma frame_updateWatchLabel [intro!]: "P (k, n) \<Longrightarrow> keeps R (updateWatchLabel env k n)"
  unfolding updateWatchLabel_def
  by (intro frame_retry frame_bind frame_getWithCacheFallback) (auto dest!: got_fallback simp: objid_def objectKey_def)

lemma frame_updateStatus [intro!]:
  assumes "\<And>n. W (''ExternalSecretsConfig'', n)"
  shows "keeps R (updateStatus env esc)"
  unfolding updateStatus_def Let_def
  by (intro frame_retry frame_bind frame_andThen frame_onErr frame_get frame_pure frame_status)
     (simp only: objid_withStatusOf, drule (1) got_kind, simp only: assms)

end

section \<open>The instances\<close>

sublocale operator_env \<subseteq> fr: frame env objs wf "framed A" A "\<lambda>_. True" for A
proof unfold_locales
  show "\<And>s s'. \<not> wf (rs_kube s) \<Longrightarrow> framed A s s'" by (simp add: framed_def)
  show "\<And>esc s. framed A s (s\<lparr>rs_ESC := esc\<rparr>)" by (rule framed_same) simp_all
qed (auto intro: framed_same framed_update framed_meta)

sublocale operator_env \<subseteq> ut: frame env objs wf "untouched K" "\<lambda>i. fst i \<in> K" "\<lambda>i. fst i \<in> K" for K
proof unfold_locales
  show "reflp (untouched K)" by (simp add: reflp_def untouched_def)
  show "transp (untouched K)" unfolding transp_def untouched_def by simp
qed (auto simp: untouched_def)

sublocale operator_env \<subseteq> at: frame env objs wf "stays i" "\<lambda>j. j \<noteq> i" "\<lambda>j. j \<noteq> i" for i
proof unfold_locales
  show "reflp (stays i)" by (simp add: reflp_def stays_def)
  show "transp (stays i)" unfolding transp_def stays_def by simp
qed (auto simp: stays_def)

sublocale operator_env \<subseteq> mk: frame env objs wf memKept "\<lambda>_. True" "\<lambda>i. fst i \<noteq> ''ExternalSecretsConfig''"
proof unfold_locales
  show "reflp memKept" by (simp add: reflp_def memKept_def)
  show "transp memKept" unfolding transp_def memKept_def by simp
qed (auto simp: memKept_def objid_def)

end
