(* ===== verification/Network_Policies.thy ===== *)
theory Network_Policies
  imports Proxy_Config Frame
begin

section \<open>Network policies: \<^verbatim>\<open>pkg/controller/external_secrets/networkpolicy.go\<close>\<close>

text \<open>
  The static policies from the bundled manifests, the policies of the custom resource, the policy
  that opens the proxy's ports, and the one-time removal of the unprefixed policies of earlier
  releases. \<^verbatim>\<open>markCleanupDone\<close> patches the custom resource and thereby refreshes it in memory.
\<close>

definition denyAllNetworkPolicyAssetName :: string where
  "denyAllNetworkPolicyAssetName = ''operator/networkpolicies/deny-all.yml''"
definition allowMainControllerTrafficAssetName :: string where
  "allowMainControllerTrafficAssetName = ''operator/networkpolicies/allow-api-server-egress-for-main-controller-traffic.yml''"
definition allowWebhookTrafficAssetName :: string where
  "allowWebhookTrafficAssetName = ''operator/networkpolicies/allow-api-server-egress-for-webhook-traffic.yml''"
definition allowCertControllerTrafficAssetName :: string where
  "allowCertControllerTrafficAssetName = ''operator/networkpolicies/allow-api-server-egress-for-cert-controller-traffic.yml''"
definition allowBitwardenServerTrafficAssetName :: string where
  "allowBitwardenServerTrafficAssetName = ''operator/networkpolicies/allow-api-server-egress-for-bitwarden-sever.yml''"
definition allowDNSTrafficAssetName :: string where
  "allowDNSTrafficAssetName = ''operator/networkpolicies/allow-dns.yml''"
definition systemNetworkPolicyPrefix :: string where "systemNetworkPolicyPrefix = ''eso-sys-''"
definition userNetworkPolicyPrefix :: string where "userNetworkPolicyPrefix = ''eso-user-''"
definition proxyEgressPolicyName :: string where
  "proxyEgressPolicyName = systemNetworkPolicyPrefix @ ''allow-proxy-egress''"
definition skipNPCleanupAnnotation :: string where
  "skipNPCleanupAnnotation = ''externalsecretsconfig.operator.openshift.io/skip-np-cleanup-check''"

subsection \<open>Static policies\<close>

definition staticNetworkPolicyAssetConfigs :: "ExternalSecretsConfig \<Rightarrow> (string \<times> bool) list" where
  "staticNetworkPolicyAssetConfigs esc =
     [(denyAllNetworkPolicyAssetName, True), (allowMainControllerTrafficAssetName, True),
      (allowWebhookTrafficAssetName, True),
      (allowCertControllerTrafficAssetName, \<not> isCertManagerConfigEnabled esc),
      (allowBitwardenServerTrafficAssetName, isBitwardenConfigEnabled esc),
      (allowDNSTrafficAssetName, True)]"

definition networkPolicyObject :: "'s env \<Rightarrow> ExternalSecretsConfig \<Rightarrow> ResourceMetadata \<Rightarrow> string \<Rightarrow> (goerr, kobj) result" where
  "networkPolicyObject env esc md assetName =
     map_result id (\<lambda>obj. ApplyResourceMetadata (updateNamespace obj esc) md) (DecodeNetworkPolicyObjBytes env assetName)"

definition applyNetworkPolicy :: "'s env \<Rightarrow> kobj \<Rightarrow> ResourceMetadata \<Rightarrow> bool \<Rightarrow> ('s, unit) recon" where
  "applyNetworkPolicy env networkPolicy md recon =
     (let n = nsName networkPolicy in
      applyObject env networkPolicy md n recon
        (''failed to check existence of network policy '' @ n)
        (''NetworkPolicy '' @ n @ '' already exists'')
        (''failed to update network policy '' @ n)
        (''NetworkPolicy '' @ n @ '' updated''))"

definition createOrApplyNetworkPolicyFromAsset :: "'s env \<Rightarrow> ExternalSecretsConfig \<Rightarrow> string \<Rightarrow> ResourceMetadata \<Rightarrow> bool \<Rightarrow> ('s, unit) recon" where
  "createOrApplyNetworkPolicyFromAsset env esc assetName md recon =
     andThen (lift (networkPolicyObject env esc md assetName)) (\<lambda>np. applyNetworkPolicy env np md recon)"

definition createOrApplyStaticNetworkPolicies :: "'s env \<Rightarrow> ExternalSecretsConfig \<Rightarrow> ResourceMetadata \<Rightarrow> bool \<Rightarrow> ('s, unit) recon" where
  "createOrApplyStaticNetworkPolicies env esc md recon =
     forEach (enabledAssets (staticNetworkPolicyAssetConfigs esc)) (\<lambda>a. createOrApplyNetworkPolicyFromAsset env esc a md recon)"

subsection \<open>Policies of the custom resource\<close>

definition nameSelector :: "string \<Rightarrow> LabelSelector" where
  "nameSelector v = \<lparr>ls_MatchLabels = GoMap [(''app.kubernetes.io/name'', v)], ls_MatchExpressions = None\<rparr>"

definition getPodSelectorForComponent :: "ComponentName \<Rightarrow> goerr + LabelSelector" where
  "getPodSelectorForComponent componentName =
     (if componentName = CoreController then Inr (nameSelector ''external-secrets'')
      else if componentName = BitwardenSDKServer then Inr (nameSelector ''bitwarden-sdk-server'')
      else Inl (PlainErr (''unknown component name: '' @ componentName)))"

definition egressPolicy :: "string \<Rightarrow> string \<Rightarrow> LabelSelector \<Rightarrow> NetworkPolicyEgressRule slice \<Rightarrow> kobj" where
  "egressPolicy name namespace selector egress =
     KNetworkPolicy \<lparr>np_Meta = zeroMeta\<lparr>om_Name := name, om_Namespace := namespace\<rparr>, np_PodSelector = selector,
       np_PolicyTypes = Some [''Egress''], np_Ingress = None, np_Egress = egress\<rparr>"

definition buildNetworkPolicyFromConfig :: "ExternalSecretsConfig \<Rightarrow> NetworkPolicyConfig \<Rightarrow> ResourceMetadata \<Rightarrow> goerr + kobj" where
  "buildNetworkPolicyFromConfig esc npConfig md =
     (case getPodSelectorForComponent (npc_ComponentName npConfig) of
        Inl err \<Rightarrow> Inl (WrapErr (''failed to determine pod selector for network policy '' @ npc_Name npConfig @ '': '') err '''')
      | Inr podSelector \<Rightarrow>
          Inr (ApplyResourceMetadata (egressPolicy (userNetworkPolicyPrefix @ npc_Name npConfig) (getNamespace esc) podSelector (npc_Egress npConfig)) md))"

definition createOrApplyCustomNetworkPolicy :: "'s env \<Rightarrow> ExternalSecretsConfig \<Rightarrow> NetworkPolicyConfig \<Rightarrow> ResourceMetadata \<Rightarrow> bool \<Rightarrow> ('s, unit) recon" where
  "createOrApplyCustomNetworkPolicy env esc npConfig md recon =
     (case buildNetworkPolicyFromConfig esc npConfig md of
        Inl err \<Rightarrow> gerr err
      | Inr np \<Rightarrow> applyNetworkPolicy env np md recon)"

definition createOrApplyCustomNetworkPolicies :: "'s env \<Rightarrow> ExternalSecretsConfig \<Rightarrow> ResourceMetadata \<Rightarrow> bool \<Rightarrow> ('s, unit) recon" where
  "createOrApplyCustomNetworkPolicies env esc md recon =
     forEach (elems (ctl_NetworkPolicies (spec_ControllerConfig (esc_Spec esc)))) (\<lambda>c. createOrApplyCustomNetworkPolicy env esc c md recon)"

subsection \<open>The proxy's ports\<close>

definition getNetworkPolicyProvisioning :: "ProxyConfig \<Rightarrow> ManagementState" where
  "getNetworkPolicyProvisioning proxyConfig =
     (if px_NetworkPolicyProvisioning proxyConfig = '''' then ManagementStateManaged else px_NetworkPolicyProvisioning proxyConfig)"

text \<open>\<open>int32(port)\<close>\<close>

definition int32Of :: "int \<Rightarrow> int" where
  "int32Of p = (p + 2 ^ 31) mod 2 ^ 32 - 2 ^ 31"

definition tcpPort :: "int \<Rightarrow> NetworkPolicyPort" where
  "tcpPort p = \<lparr>npp_Protocol = Some ''TCP'', npp_Port = Some (int32Of p), npp_Other = JNull\<rparr>"

definition operandPods :: LabelSelector where
  "operandPods = \<lparr>ls_MatchLabels = NilMap, ls_MatchExpressions = Some [\<lparr>lsr_Key = ''app.kubernetes.io/name'', lsr_Operator = ''In'',
     lsr_Values = Some [''external-secrets'', ''external-secrets-webhook'', ''external-secrets-cert-controller'', ''bitwarden-sdk-server'']\<rparr>]\<rparr>"

text \<open>\<open>None\<close> is the nil policy of a proxy without ports.\<close>

definition buildProxyEgressNetworkPolicy :: "'s env \<Rightarrow> ProxyConfig \<Rightarrow> string \<Rightarrow> ResourceMetadata \<Rightarrow> (goerr, kobj option) result" where
  "buildProxyEgressNetworkPolicy env proxyConfig namespace md =
     map_result id (\<lambda>ports. if ports = [] then None
        else Some (ApplyResourceMetadata (egressPolicy proxyEgressPolicyName namespace operandPods
               (Some [\<lparr>er_Ports = Some (map tcpPort ports), er_To = None\<rparr>])) md))
       (extractProxyPorts env proxyConfig)"

definition proxyPolicyWanted :: "ProxyConfig option \<Rightarrow> bool" where
  "proxyPolicyWanted pc = (case pc of None \<Rightarrow> False
     | Some p \<Rightarrow> hasProxyEndpointURLs (Some p) \<and> getNetworkPolicyProvisioning p = ManagementStateManaged)"

definition reconcileProxyEgressPolicy :: "'s env \<Rightarrow> ExternalSecretsConfig \<Rightarrow> ResourceMetadata \<Rightarrow> bool \<Rightarrow> ('s, unit) recon" where
  "reconcileProxyEgressPolicy env esc md recon =
     (let namespace = getNamespace esc; npName = namespace @ ''/'' @ proxyEgressPolicyName in
      andThen (readState rs_proxyConfig) (\<lambda>pc.
      andThen (onErr (onKube (Exists (e_Client env) ''NetworkPolicy'' (namespace, proxyEgressPolicyName)))
                (\<lambda>err. gerr (fromClientErr err (''failed to check existence of proxy egress network policy '' @ npName)))) (\<lambda>exists.
      if \<not> proxyPolicyWanted pc
      then (case exists of
              None \<Rightarrow> gret ()
            | Some existing \<Rightarrow>
                andThen (onErr (onKube (cl_Delete (e_Client env) existing))
                    (\<lambda>err. gerr (fromClientErr err (''failed to delete proxy egress network policy '' @ npName))))
                  (\<lambda>_. Eventf ''Normal'' ''Reconciled'' (''proxy egress NetworkPolicy '' @ npName @ '' removed'')))
      else andThen (lift (buildProxyEgressNetworkPolicy env (the pc) namespace md)) (\<lambda>built.
        case exists of
          None \<Rightarrow> (case built of None \<Rightarrow> gpanic ''nil pointer dereference'' | Some np \<Rightarrow> createWithFallback env np md npName)
        | Some existing \<Rightarrow>
            andThen (eventIf recon ''Warning'' ''ResourceAlreadyExists'' (''proxy egress NetworkPolicy '' @ npName @ '' already exists'')) (\<lambda>_.
              case built of
                None \<Rightarrow> gpanic ''nil pointer dereference''
              | Some np \<Rightarrow>
                  andThen (lift (HasObjectChanged np existing md)) (\<lambda>changed.
                    if \<not> changed then gret ()
                    else andThen (onErr (onKube (UpdateWithRetry (e_Client env) (RemoveObsoleteAnnotations np md)))
                           (\<lambda>err. gerr (fromClientErr err (''failed to update proxy egress network policy '' @ npName))))
                         (\<lambda>_. Eventf ''Normal'' ''Reconciled'' (''proxy egress NetworkPolicy '' @ npName @ '' updated''))))))))"

subsection \<open>Removal of policies of earlier releases\<close>

definition legacyOperatorNetworkPolicyNames :: "'s env \<Rightarrow> ExternalSecretsConfig \<Rightarrow> (goerr, string list) result" where
  "legacyOperatorNetworkPolicyNames env esc =
     map_result id (\<lambda>nps. map (\<lambda>np. trimPrefix (om_Name (metaOf np)) systemNetworkPolicyPrefix) nps @
                          map npc_Name (elems (ctl_NetworkPolicies (spec_ControllerConfig (esc_Spec esc)))))
       (sequenceResults (map (DecodeNetworkPolicyObjBytes env) (enabledAssets (staticNetworkPolicyAssetConfigs esc))))"

definition markCleanupDone :: "'s env \<Rightarrow> ExternalSecretsConfig \<Rightarrow> ('s, unit) recon" where
  "markCleanupDone env esc =
     andThen (onErr (onKube (cl_Patch (e_Client env) (KESC esc) (MergeMetadata [] [(skipNPCleanupAnnotation, ''true'')])))
         (\<lambda>err. gerr (WrapErr (''failed to patch '' @ skipNPCleanupAnnotation @ '' annotation on CR: '') err '''')))
       (\<lambda>patched. case patched of KESC esc' \<Rightarrow> setESC esc' | _ \<Rightarrow> gret ())"

definition deleteLegacyPolicy :: "'s env \<Rightarrow> string \<Rightarrow> string list \<Rightarrow> kobj \<Rightarrow> ('s, unit) recon" where
  "deleteLegacyPolicy env namespace legacy np =
     (let name = om_Name (metaOf np) in
      if \<not> List.member legacy name then gret ()
      else (\<lambda>s. case onKube (cl_Delete (e_Client env) np) s of
              (Panic p, s1) \<Rightarrow> (Panic p, s1)
            | (Err err, s1) \<Rightarrow>
                if IsNotFound err then (Ret (), s1)
                else (Err (fromClientErr err (''failed to delete legacy network policy '' @ namespace @ ''/'' @ name)), s1)
            | (Ret _, s1) \<Rightarrow> Eventf ''Normal'' ''Reconciled'' (''legacy NetworkPolicy '' @ namespace @ ''/'' @ name @ '' removed'') s1))"

definition ownershipLabels :: "(string \<times> string) list" where
  "ownershipLabels = [(''app.kubernetes.io/managed-by'', ExternalSecretsOperatorCommonName),
     (''app.kubernetes.io/part-of'', ExternalSecretsOperatorCommonName)]"

definition cleanupMigratedNetworkPolicies :: "'s env \<Rightarrow> ExternalSecretsConfig \<Rightarrow> ('s, unit) recon" where
  "cleanupMigratedNetworkPolicies env esc =
     (if gget (om_Annotations (esc_Meta esc)) skipNPCleanupAnnotation = ''true'' then gret ()
      else (let namespace = getNamespace esc in
        andThen (lift (legacyOperatorNetworkPolicyNames env esc)) (\<lambda>legacy.
        andThen (onErr (onKube (cl_List (e_Client env) ''NetworkPolicy'' namespace ownershipLabels))
            (\<lambda>err. gerr (fromClientErr err (''failed to list network policies in '' @ namespace @ '' for cleanup'')))) (\<lambda>items.
        andThen (forEach items (deleteLegacyPolicy env namespace legacy)) (\<lambda>_. markCleanupDone env esc)))))"

definition createOrApplyNetworkPolicies :: "'s env \<Rightarrow> ExternalSecretsConfig \<Rightarrow> ResourceMetadata \<Rightarrow> bool \<Rightarrow> ('s, unit) recon" where
  "createOrApplyNetworkPolicies env esc md recon =
     andThen (createOrApplyStaticNetworkPolicies env esc md recon) (\<lambda>_.
     andThen (reconcileProxyEgressPolicy env esc md recon) (\<lambda>_.
     andThen (createOrApplyCustomNetworkPolicies env esc md recon) (\<lambda>_.
     cleanupMigratedNetworkPolicies env esc)))"

section \<open>Lemmas\<close>

definition legacyVictim :: "string list \<Rightarrow> kobj \<Rightarrow> bool" where
  "legacyVictim legacy o1 \<longleftrightarrow> kindOf o1 = ''NetworkPolicy'' \<and> om_Namespace (metaOf o1) = OperandDefaultNamespace \<and>
     om_Name (metaOf o1) \<in> set legacy \<and>
     (\<forall>(l, v)\<in>set ownershipLabels. glookup (om_Labels (metaOf o1)) l = Some v)"

context operator_env
begin

lemma framed_legacyLoop:
  assumes "\<And>o1. o1 \<in> set items \<Longrightarrow> om_Name (metaOf o1) \<in> set legacy \<Longrightarrow> A (objid o1)"
  shows "keeps (framed A) (andThen (forEach items (deleteLegacyPolicy env ns legacy)) (\<lambda>_. markCleanupDone env esc))"
proof (rule fr.frame_andThen, rule fr.frame_forEach)
  fix o1 assume "o1 \<in> set items"
  with assms show "keeps (framed A) (deleteLegacyPolicy env ns legacy o1)"
    unfolding deleteLegacyPolicy_def Let_def by (auto intro!: fr.frame_case_result fr.frame_delete)
next
  show "keeps (framed A) (markCleanupDone env esc)"
    unfolding markCleanupDone_def by (auto split: kobj.splits)
qed

lemma cleanup_victims:
  assumes "wf (rs_kube s)" and "legacyOperatorNetworkPolicyNames env esc = Ret legacy"
    and "cleanupMigratedNetworkPolicies env esc s = (r, s')"
    and "\<And>o1. objs (rs_kube s) i = Some o1 \<Longrightarrow> \<not> legacyVictim legacy o1"
  shows "(objs (rs_kube s) i = None \<longrightarrow> objs (rs_kube s') i = None) \<and>
    (\<forall>o1. objs (rs_kube s) i = Some o1 \<longrightarrow> (\<exists>o2. objs (rs_kube s') i = Some o2 \<and> payload o2 = payload o1))"
proof (cases "gget (om_Annotations (esc_Meta esc)) skipNPCleanupAnnotation = ''true''")
  case True
  with assms(3) show ?thesis by (auto simp: cleanupMigratedNetworkPolicies_def)
next
  case False
  obtain rl k where l: "cl_List (e_Client env) ''NetworkPolicy'' OperandDefaultNamespace ownershipLabels (rs_kube s) = (rl, k)" by force
  show ?thesis
  proof (cases rl)
    case (Ret items)
    let ?A = "\<lambda>j. \<exists>o1\<in>set items. om_Name (metaOf o1) \<in> set legacy \<and> objid o1 = j"
    note it = cached.list_Ret [OF assms(1) l [unfolded Ret]]
    have ns: "OperandDefaultNamespace \<noteq> ''''" by (simp add: OperandDefaultNamespace_def externalsecretsCommonName_def)
    have "andThen (forEach items (deleteLegacyPolicy env OperandDefaultNamespace legacy)) (\<lambda>_. markCleanupDone env esc) (s\<lparr>rs_kube := k\<rparr>) = (r, s')"
      using assms(2,3) False l Ret
      by (simp add: cleanupMigratedNetworkPolicies_def Let_def getNamespace_def lift_def andThen_def onErr_def onKube_def)
    then have f: "framed ?A (s\<lparr>rs_kube := k\<rparr>) s'"
      by (intro keepsD [OF framed_legacyLoop [where A = ?A]]) auto
    have "\<not> ?A i"
    proof
      assume "?A i"
      then obtain o1 where o1: "o1 \<in> set items" "om_Name (metaOf o1) \<in> set legacy" "objid o1 = i" by blast
      with it ns have "objs (rs_kube s) i = Some o1" "legacyVictim legacy o1"
        by (auto simp: legacyVictim_def)
      with assms(4) show False by blast
    qed
    with framedD [OF f] it show ?thesis by simp
  next
    case (Err e)
    with cached.list_Err [OF assms(1)] l assms(2,3) False show ?thesis
      by (auto simp: cleanupMigratedNetworkPolicies_def Let_def getNamespace_def lift_def andThen_def onErr_def onKube_def)
  qed (use cached.list_noPanic l in auto)
qed

end

subsection \<open>The cleanup on a server without faults\<close>

lemma refreshed_kube [simp]: "rs_kube (snd ((case p of KESC e \<Rightarrow> setESC e | _ \<Rightarrow> gret ()) s)) = rs_kube s"
  by (cases p) (simp_all add: setESC_def)

lemma markCleanupDone_kube:
  "rs_kube (snd (markCleanupDone env esc s)) =
     snd (cl_Patch (e_Client env) (KESC esc) (MergeMetadata [] [(skipNPCleanupAnnotation, ''true'')]) (rs_kube s))"
  by (simp add: markCleanupDone_def andThen_def onErr_def onKube_def split: prod.splits result.splits)

definition clearedOf :: "objid \<Rightarrow> memserver rstate \<Rightarrow> bool" where
  "clearedOf i s \<longleftrightarrow> mem_faults (rs_kube s) = [] \<and> memWf (rs_kube s) \<and> memLookup (rs_kube s) i = None"

definition removable :: "objid \<Rightarrow> memserver rstate \<Rightarrow> bool" where
  "removable i s \<longleftrightarrow> mem_faults (rs_kube s) = [] \<and> memWf (rs_kube s) \<and>
     (\<forall>o1. memLookup (rs_kube s) i = Some o1 \<longrightarrow> om_Finalizers (metaOf o1) = [])"

lemma mem_delete_step:
  assumes "removable i s" and "e_Client env = memClient v" and "deleteLegacyPolicy env ns legacy o1 s = (r, s')"
  shows "removable i s' \<and> r = Ret () \<and> (clearedOf i s \<or> (objid o1 = i \<and> om_Name (metaOf o1) \<in> set legacy) \<longrightarrow> clearedOf i s')"
proof (cases "om_Name (metaOf o1) \<in> set legacy")
  case False
  with assms show ?thesis by (auto simp: deleteLegacyPolicy_def Let_def)
next
  case True
  obtain rd k where d: "memDelete o1 (rs_kube s) = (rd, k)" by force
  have nf: "mem_faults (rs_kube s) = []" and w: "memWf (rs_kube s)" using assms(1) by (simp_all add: removable_def)
  have faults: "mem_faults k = []"
    using d nf by (auto simp: memDelete_def withFault_def memStore_def Let_def memRemove_def split: option.splits if_splits)
  have out: "r = Ret () \<and> rs_kube s' = k"
  proof (cases "memLookup (rs_kube s) (objid o1)")
    case None
    have "IsNotFound notFoundErr" by code_simp
    with None d nf assms(2,3) True show ?thesis
      by (auto simp: deleteLegacyPolicy_def Let_def onKube_def memClient_def memDelete_def withFault_def)
  next
    case (Some cur)
    then have "rd = Ret ()" using d nf by (auto simp: memDelete_def withFault_def split: if_splits)
    with d assms(2,3) True show ?thesis
      by (auto simp: deleteLegacyPolicy_def Let_def onKube_def memClient_def Eventf_def)
  qed
  show ?thesis
  proof (cases rd)
    case (Ret u)
    from memDelete_laws(1) [OF w d [unfolded Ret]] obtain x where x: "memLookup k = (memLookup (rs_kube s))(objid o1 := x)" "memWf k"
      "\<And>cur. memLookup (rs_kube s) (objid o1) = Some cur \<Longrightarrow> om_Finalizers (metaOf cur) = [] \<Longrightarrow> x = None" by blast
    have there: "memLookup (rs_kube s) (objid o1) \<noteq> None"
      using d Ret nf by (auto simp: memDelete_def withFault_def split: option.splits)
    have "objid o1 = i \<Longrightarrow> x = None" using x(3) there assms(1) by (auto simp: removable_def)
    with out x(1,2) assms(1) faults show ?thesis by (auto simp: removable_def clearedOf_def)
  next
    case (Err e)
    then have none: "memLookup (rs_kube s) (objid o1) = None"
      using d nf by (auto simp: memDelete_def withFault_def split: option.splits if_splits)
    from memDelete_laws(2) [OF w d [unfolded Err]] out assms(1) faults none show ?thesis by (auto simp: removable_def clearedOf_def)
  qed (use d memOther_noPanic in auto)
qed

lemma mem_delete_loop:
  assumes "removable i s" and "e_Client env = memClient v"
    and "clearedOf i s \<or> (\<exists>o1\<in>set items. objid o1 = i \<and> om_Name (metaOf o1) \<in> set legacy)"
  shows "\<exists>s'. forEach items (deleteLegacyPolicy env ns legacy) s = (Ret (), s') \<and> clearedOf i s'"
  using assms
proof (induction items arbitrary: s)
  case (Cons o1 items)
  obtain r s1 where d: "deleteLegacyPolicy env ns legacy o1 s = (r, s1)" by force
  from mem_delete_step [OF Cons.prems(1,2) d] have s1: "removable i s1" "r = Ret ()"
    "clearedOf i s \<or> (objid o1 = i \<and> om_Name (metaOf o1) \<in> set legacy) \<Longrightarrow> clearedOf i s1" by auto
  have "clearedOf i s1 \<or> (\<exists>o1\<in>set items. objid o1 = i \<and> om_Name (metaOf o1) \<in> set legacy)"
    using Cons.prems(3) s1(3) by auto
  from Cons.IH [OF s1(1) Cons.prems(2) this] d s1(2) show ?case by (simp add: andThen_def)
qed simp

section \<open>Properties\<close>

text \<open>C16. The migration cleanup deletes nothing but leftovers. Whatever its outcome and whatever fails
  on the way, every object that disappears or changes outside its metadata is a network policy of
  the operand's namespace that carries the operator's ownership labels and a name from the list of
  legacy names; nothing is created.\<close>

theorem cleanup_deletes_only_legacy:
  assumes "operator_env env objs ok" and "ok (rs_kube s)" and "legacyOperatorNetworkPolicyNames env esc = Ret legacy"
    and "cleanupMigratedNetworkPolicies env esc s = (r, s')"
    and "\<forall>o1. objs (rs_kube s) i = Some o1 \<longrightarrow> \<not> legacyVictim legacy o1"
  shows "(objs (rs_kube s) i = None \<longrightarrow> objs (rs_kube s') i = None) \<and>
    (\<forall>o1. objs (rs_kube s) i = Some o1 \<longrightarrow> (\<exists>o2. objs (rs_kube s') i = Some o2 \<and> payload o2 = payload o1))"
  using operator_env.cleanup_victims [OF assms(1-4)] assms(5) by blast

definition policyDecode :: "string \<Rightarrow> kobj option" where
  "policyDecode bytes = (let file = last (splitChar (CHR ''/'') bytes); name = takeWhile (\<lambda>c. c \<noteq> CHR ''.'') file in
     if prefix ''operator/networkpolicies/'' bytes
     then Some (egressPolicy (systemNetworkPolicyPrefix @ name) '''' (nameSelector ''external-secrets'') None)
     else sampleDecode bytes)"

definition policyEnv :: "memserver env" where
  "policyEnv = sampleEnv\<lparr>e_Decode := policyDecode\<rparr>"

definition ownedPolicy :: "string \<Rightarrow> kobj" where
  "ownedPolicy name = mapMeta (\<lambda>m. m\<lparr>om_Labels := GoMap ((''app'', ''external-secrets'') # ownershipLabels)\<rparr>)
     (egressPolicy name OperandDefaultNamespace (nameSelector ''external-secrets'') None)"

definition policyState :: "kobj list \<Rightarrow> memserver rstate" where
  "policyState os = sampleState\<lparr>rs_kube := emptyServer\<lparr>mem_objects := map (\<lambda>o1. (objid o1, o1)) os\<rparr>\<rparr>"

lemma policyEnv_ok: "operator_env policyEnv memLookup memWf" "e_Client policyEnv = memClient managedVisible"
  unfolding operator_env_def policyEnv_def sampleEnv_def using mem.api_client_axioms by auto

theorem cleanup_deletes_only_legacy_witness:
  "\<exists>o2. memLookup (rs_kube (snd (cleanupMigratedNetworkPolicies policyEnv zeroESC (policyState [ownedPolicy ''deny-all'', ownedPolicy ''team-a'']))))
     (''NetworkPolicy'', ''external-secrets'', ''team-a'') = Some o2"
proof -
  let ?s = "policyState [ownedPolicy ''deny-all'', ownedPolicy ''team-a'']"
  let ?legacy = "[''deny-all'', ''allow-api-server-egress-for-main-controller-traffic'', ''allow-api-server-egress-for-webhook-traffic'',
    ''allow-api-server-egress-for-cert-controller-traffic'', ''allow-dns'']"
  have w: "memWf (rs_kube ?s)" by code_simp
  have l: "legacyOperatorNetworkPolicyNames policyEnv zeroESC = Ret ?legacy" by code_simp
  have run: "cleanupMigratedNetworkPolicies policyEnv zeroESC ?s =
     (fst (cleanupMigratedNetworkPolicies policyEnv zeroESC ?s), snd (cleanupMigratedNetworkPolicies policyEnv zeroESC ?s))" by simp
  have look: "memLookup (rs_kube ?s) (''NetworkPolicy'', ''external-secrets'', ''team-a'') = Some (ownedPolicy ''team-a'')" by code_simp
  have "om_Name (metaOf (ownedPolicy ''team-a'')) \<notin> set ?legacy" by (simp add: ownedPolicy_def egressPolicy_def)
  then have "\<forall>o1. memLookup (rs_kube ?s) (''NetworkPolicy'', ''external-secrets'', ''team-a'') = Some o1 \<longrightarrow> \<not> legacyVictim ?legacy o1"
    unfolding look legacyVictim_def by auto
  from cleanup_deletes_only_legacy [OF policyEnv_ok(1) w l run this] look show ?thesis by blast
qed

text \<open>The cleanup takes the raw names of the configuration's policies for legacy names. On a
  server without faults, a network policy with the ownership labels whose name equals the name of
  an entry is deleted, so that an entry that is named like one of the operator's own prefixed
  policies makes the cleanup delete that policy.\<close>

theorem cleanup_removes_entry_names:
  assumes "e_Client env = memClient v" and "mem_faults (rs_kube s) = []" and "memWf (rs_kube s)"
    and "gget (om_Annotations (esc_Meta esc)) skipNPCleanupAnnotation \<noteq> ''true''"
    and "legacyOperatorNetworkPolicyNames env esc = Ret legacy"
    and "c \<in> set (elems (ctl_NetworkPolicies (spec_ControllerConfig (esc_Spec esc))))"
    and "memLookup (rs_kube s) (''NetworkPolicy'', OperandDefaultNamespace, npc_Name c) = Some np"
    and "v np" and "om_Finalizers (metaOf np) = []"
    and "list_all (\<lambda>(l, x). glookup (om_Labels (metaOf np)) l = Some x) ownershipLabels"
    and "cleanupMigratedNetworkPolicies env esc s = (Ret (), s')"
  shows "memLookup (rs_kube s') (''NetworkPolicy'', OperandDefaultNamespace, npc_Name c) = None"
proof -
  let ?i = "(''NetworkPolicy'', OperandDefaultNamespace, npc_Name c)"
  define items where "items = filter (\<lambda>o1. v o1 \<and> kindOf o1 = ''NetworkPolicy'' \<and> (OperandDefaultNamespace = '''' \<or> om_Namespace (metaOf o1) = OperandDefaultNamespace) \<and>
       list_all (\<lambda>(k, v). glookup (om_Labels (metaOf o1)) k = Some v) ownershipLabels) (map snd (mem_objects (rs_kube s)))"
  have id: "objid np = ?i" using memWf_lookup [OF assms(3,7)] .
  have name: "om_Name (metaOf np) = npc_Name c" "kindOf np = ''NetworkPolicy''" "om_Namespace (metaOf np) = OperandDefaultNamespace"
    using id by (simp_all add: objid_def objectKey_def)
  have legacy: "npc_Name c \<in> set legacy"
    using assms(5,6) by (auto simp: legacyOperatorNetworkPolicyNames_def map_result_Ret)
  have "np \<in> set (map snd (mem_objects (rs_kube s)))"
    using assms(7) by (force simp: memLookup_def dest: map_of_SomeD)
  then have "np \<in> set items" using assms(8,10) name by (simp add: items_def)
  then have "\<exists>o1\<in>set items. objid o1 = ?i \<and> om_Name (metaOf o1) \<in> set legacy"
    by (rule bexI [rotated]) (use id name(1) legacy in simp)
  moreover have "removable ?i s" using assms(2,3,7,9) by (auto simp: removable_def)
  ultimately obtain s1 where loop: "forEach items (deleteLegacyPolicy env OperandDefaultNamespace legacy) s = (Ret (), s1)" and c: "clearedOf ?i s1"
    using mem_delete_loop [of ?i s env v items legacy OperandDefaultNamespace] assms(1) by blast
  have "markCleanupDone env esc s1 = (Ret (), s')"
    using assms(1,2,4,5,11) loop unfolding items_def
    by (simp add: cleanupMigratedNetworkPolicies_def Let_def getNamespace_def lift_def andThen_def onErr_def onKube_def
        memClient_def memList_def withFault_def)
  then have s': "rs_kube s' = snd (memPatch (KESC esc) (MergeMetadata [] [(skipNPCleanupAnnotation, ''true'')]) (rs_kube s1))"
    using markCleanupDone_kube [of env esc s1] assms(1) by (simp add: memClient_def)
  obtain rp k where p: "memPatch (KESC esc) (MergeMetadata [] [(skipNPCleanupAnnotation, ''true'')]) (rs_kube s1) = (rp, k)" by force
  have "objid (KESC esc) \<noteq> ?i" by (simp add: objid_def)
  with memPatch_cases [OF _ p] c s' p show ?thesis by (auto simp: clearedOf_def)
qed

definition selfNamedESC :: ExternalSecretsConfig where
  "selfNamedESC = zeroESC\<lparr>esc_Spec := (esc_Spec zeroESC)\<lparr>spec_ControllerConfig := zeroControllerConfig\<lparr>ctl_NetworkPolicies :=
     Some [\<lparr>npc_Name = ''eso-sys-deny-all'', npc_ComponentName = CoreController, npc_Egress = None\<rparr>]\<rparr>\<rparr>\<rparr>"

definition selfNamedState :: "memserver rstate" where
  "selfNamedState = policyState [ownedPolicy ''eso-sys-deny-all'', KESC selfNamedESC]"

theorem cleanup_removes_entry_names_witness:
  "memLookup (rs_kube selfNamedState) (''NetworkPolicy'', ''external-secrets'', ''eso-sys-deny-all'') = Some (ownedPolicy ''eso-sys-deny-all'') \<and>
   memLookup (rs_kube (snd (cleanupMigratedNetworkPolicies policyEnv selfNamedESC selfNamedState)))
     (''NetworkPolicy'', ''external-secrets'', ''eso-sys-deny-all'') = None"
proof -
  let ?s' = "snd (cleanupMigratedNetworkPolicies policyEnv selfNamedESC selfNamedState)"
  define legacy where "legacy = (case legacyOperatorNetworkPolicyNames policyEnv selfNamedESC of Ret l \<Rightarrow> l | _ \<Rightarrow> [])"
  let ?c = "\<lparr>npc_Name = ''eso-sys-deny-all'', npc_ComponentName = CoreController, npc_Egress = None\<rparr>"
  have 1: "mem_faults (rs_kube selfNamedState) = []" "memWf (rs_kube selfNamedState)"
    "gget (om_Annotations (esc_Meta selfNamedESC)) skipNPCleanupAnnotation \<noteq> ''true''" by code_simp+
  have 2: "legacyOperatorNetworkPolicyNames policyEnv selfNamedESC = Ret legacy" unfolding legacy_def by code_simp
  have 3: "?c \<in> set (elems (ctl_NetworkPolicies (spec_ControllerConfig (esc_Spec selfNamedESC))))" by (simp add: selfNamedESC_def)
  have 4: "memLookup (rs_kube selfNamedState) (''NetworkPolicy'', OperandDefaultNamespace, npc_Name ?c) = Some (ownedPolicy ''eso-sys-deny-all'')"
    by code_simp
  have 5: "managedVisible (ownedPolicy ''eso-sys-deny-all'')" "om_Finalizers (metaOf (ownedPolicy ''eso-sys-deny-all'')) = []"
    "list_all (\<lambda>(l, x). glookup (om_Labels (metaOf (ownedPolicy ''eso-sys-deny-all''))) l = Some x) ownershipLabels" by code_simp+
  have 6: "cleanupMigratedNetworkPolicies policyEnv selfNamedESC selfNamedState = (Ret (), ?s')" by code_simp
  from cleanup_removes_entry_names [OF policyEnv_ok(2) 1 2 3 4 5 6] 4 show ?thesis
    by (simp add: OperandDefaultNamespace_def externalsecretsCommonName_def)
qed

text \<open>Two entries of the configuration with the same name and different components, which the list
  keyed by both allows, are built into one object: same identity, different pods. Each always
  drifts from the other, so every reconciliation overwrites the policy of the first component.\<close>

theorem same_name_policies_collide:
  assumes "buildNetworkPolicyFromConfig esc c1 md = Inr o1" and "buildNetworkPolicyFromConfig esc c2 md = Inr o2"
    and "npc_Name c1 = npc_Name c2" and "npc_ComponentName c1 \<noteq> npc_ComponentName c2"
  shows "objid o1 = objid o2 \<and> HasObjectChanged o1 o2 md = Ret True \<and> HasObjectChanged o2 o1 md = Ret True"
proof -
  have built: "\<exists>sel m. getPodSelectorForComponent (npc_ComponentName c) = Inr sel \<and> objid x = (''NetworkPolicy'', OperandDefaultNamespace, userNetworkPolicyPrefix @ npc_Name c) \<and>
      x = KNetworkPolicy \<lparr>np_Meta = m, np_PodSelector = sel, np_PolicyTypes = Some [''Egress''], np_Ingress = None, np_Egress = npc_Egress c\<rparr>"
    if "buildNetworkPolicyFromConfig esc c md = Inr x" for c x
    using that by (auto simp: buildNetworkPolicyFromConfig_def egressPolicy_def getNamespace_def objid_def objectKey_def
        ApplyResourceMetadata_def UpdateResourceLabels_def UpdateResourceAnnotations_def Let_def split: sum.splits)
  from built [OF assms(1)] obtain sel1 m1 where 1: "getPodSelectorForComponent (npc_ComponentName c1) = Inr sel1"
    "objid o1 = (''NetworkPolicy'', OperandDefaultNamespace, userNetworkPolicyPrefix @ npc_Name c1)"
    "o1 = KNetworkPolicy \<lparr>np_Meta = m1, np_PodSelector = sel1, np_PolicyTypes = Some [''Egress''], np_Ingress = None, np_Egress = npc_Egress c1\<rparr>" by blast
  from built [OF assms(2)] obtain sel2 m2 where 2: "getPodSelectorForComponent (npc_ComponentName c2) = Inr sel2"
    "objid o2 = (''NetworkPolicy'', OperandDefaultNamespace, userNetworkPolicyPrefix @ npc_Name c2)"
    "o2 = KNetworkPolicy \<lparr>np_Meta = m2, np_PodSelector = sel2, np_PolicyTypes = Some [''Egress''], np_Ingress = None, np_Egress = npc_Egress c2\<rparr>" by blast
  have "\<not> labelSelectorEqual (nameSelector ''external-secrets'') (nameSelector ''bitwarden-sdk-server'')"
    "\<not> labelSelectorEqual (nameSelector ''bitwarden-sdk-server'') (nameSelector ''external-secrets'')" by code_simp+
  then have "\<not> labelSelectorEqual sel1 sel2" "\<not> labelSelectorEqual sel2 sel1"
    using 1(1) 2(1) assms(4) by (auto simp: getPodSelectorForComponent_def split: if_splits)
  with 1 2 assms(3) show ?thesis
    by (simp add: HasObjectChanged_def objectSpecModified_def networkPolicySpecModified_def)
qed

theorem same_name_policies_collide_witness:
  "\<exists>o1 o2. buildNetworkPolicyFromConfig zeroESC \<lparr>npc_Name = ''egress'', npc_ComponentName = CoreController, npc_Egress = None\<rparr> sampleMetadata = Inr o1 \<and>
     buildNetworkPolicyFromConfig zeroESC \<lparr>npc_Name = ''egress'', npc_ComponentName = BitwardenSDKServer, npc_Egress = None\<rparr> sampleMetadata = Inr o2 \<and>
     objid o1 = objid o2 \<and> HasObjectChanged o1 o2 sampleMetadata = Ret True"
proof -
  let ?c = "\<lambda>n. \<lparr>npc_Name = ''egress'', npc_ComponentName = n, npc_Egress = None\<rparr>"
  define o1 where "o1 = projr (buildNetworkPolicyFromConfig zeroESC (?c CoreController) sampleMetadata)"
  define o2 where "o2 = projr (buildNetworkPolicyFromConfig zeroESC (?c BitwardenSDKServer) sampleMetadata)"
  have a: "buildNetworkPolicyFromConfig zeroESC (?c CoreController) sampleMetadata = Inr o1" unfolding o1_def by code_simp
  have b: "buildNetworkPolicyFromConfig zeroESC (?c BitwardenSDKServer) sampleMetadata = Inr o2" unfolding o2_def by code_simp
  have c: "npc_ComponentName (?c CoreController) \<noteq> npc_ComponentName (?c BitwardenSDKServer)" by code_simp
  from same_name_policies_collide [OF a b _ c] a b show ?thesis by auto
qed

text \<open>C40. A proxy address that passes validation can stop every reconciliation. When the configured
  proxy yields no port, because its address has neither a port nor one of the schemes http and
  https, the proxy's policy is nil and the step that applies it panics, whether or not the policy
  exists.\<close>

theorem portless_proxy_panics:
  assumes "rs_proxyConfig s = Some p" and "proxyPolicyWanted (Some p)" and "extractProxyPorts env p = Ret []"
    and "Exists (e_Client env) ''NetworkPolicy'' (getNamespace esc, proxyEgressPolicyName) (rs_kube s) = (Ret x, k)"
  shows "\<exists>m s'. reconcileProxyEgressPolicy env esc md recon s = (Panic m, s')"
  using assms
  by (cases x; cases recon) (auto simp: reconcileProxyEgressPolicy_def Let_def andThen_def onErr_def onKube_def lift_def
      buildProxyEgressNetworkPolicy_def eventIf_def Eventf_def)

definition socksProxy :: ProxyConfig where
  "socksProxy = \<lparr>px_HTTPProxy = ''socks5://proxy'', px_HTTPSProxy = '''', px_NoProxy = '''', px_NetworkPolicyProvisioning = ''''\<rparr>"

definition socksESC :: ExternalSecretsConfig where
  "socksESC = zeroESC\<lparr>esc_Spec := (esc_Spec zeroESC)\<lparr>spec_ApplicationConfig :=
     (spec_ApplicationConfig (esc_Spec zeroESC))\<lparr>ac_Common := zeroCommonConfigs\<lparr>cc_Proxy := Some socksProxy\<rparr>\<rparr>\<rparr>\<rparr>"

theorem portless_proxy_panics_witness:
  "resolveProxyConfiguration sampleEnv zeroESM socksESC = Inr (Some socksProxy) \<and>
   (\<exists>m s'. reconcileProxyEgressPolicy sampleEnv socksESC sampleMetadata False (sampleState\<lparr>rs_proxyConfig := Some socksProxy\<rparr>) = (Panic m, s'))"
proof -
  have 1: "resolveProxyConfiguration sampleEnv zeroESM socksESC = Inr (Some socksProxy)" by code_simp
  have 2: "proxyPolicyWanted (Some socksProxy)" "extractProxyPorts sampleEnv socksProxy = Ret []" by code_simp+
  have 3: "Exists (e_Client sampleEnv) ''NetworkPolicy'' (getNamespace socksESC, proxyEgressPolicyName)
      (rs_kube (sampleState\<lparr>rs_proxyConfig := Some socksProxy\<rparr>)) = (Ret None, emptyServer)" by code_simp
  have "rs_proxyConfig (sampleState\<lparr>rs_proxyConfig := Some socksProxy\<rparr>) = Some socksProxy" by simp
  from portless_proxy_panics [OF this 2 3, of sampleMetadata False] 1 show ?thesis by blast
qed

end
