(* ===== verification/Install.thy ===== *)
theory Install
  imports Deployments Network_Policies Frame
begin

section \<open>One reconciliation of the operand: \<^verbatim>\<open>install_external_secrets.go\<close>\<close>

text \<open>
  \<^verbatim>\<open>validateExternalSecretsConfig\<close> (\<^verbatim>\<open>utils.go\<close>), \<^verbatim>\<open>updateCRAnnotationsIfNeeded\<close> and
  \<^verbatim>\<open>reconcileExternalSecretsDeployment\<close>, which runs every \<^verbatim>\<open>createOrApply*\<close> function in order. The
  custom resource is the one in memory, \<open>rs_ESC\<close>: a patch of it refreshes it for the steps that
  follow. The lemmas bound what a whole reconciliation may touch.
\<close>

definition certificateCRDGKV :: string where "certificateCRDGKV = ''certificate.cert-manager.io/v1''"
definition externalsecretsImageVersionEnvVarName :: string where
  "externalsecretsImageVersionEnvVarName = ''OPERAND_EXTERNAL_SECRETS_IMAGE_VERSION''"

definition IsCertManagerInstalled :: "'s env \<Rightarrow> bool" where
  "IsCertManagerInstalled env = List.member (e_OptionalResources env) certificateCRDGKV"

definition setProxyConfig :: "ProxyConfig option \<Rightarrow> ('s, unit) recon" where
  "setProxyConfig pc = (\<lambda>s. (Ret (), s\<lparr>rs_proxyConfig := pc\<rparr>))"

definition validateExternalSecretsConfig :: "'s env \<Rightarrow> ExternalSecretsConfig \<Rightarrow> ('s, unit) recon" where
  "validateExternalSecretsConfig env esc =
     (let name = om_Name (esc_Meta esc) in
      if isCertManagerConfigEnabled esc \<and> \<not> List.member (e_OptionalResources env) certificateCRDGKV
      then gerr (irrecoverableErr
             (PlainErr ''spec.controllerConfig.certProvider.certManager.mode is set, but cert-manager is not installed'')
             (e_GVK env @ ''/'' @ name @ '' cert-manager configuration validation failed''))
      else andThen (readState rs_esm) (\<lambda>esm.
        case resolveProxyConfiguration env esm esc of
          Inl err \<Rightarrow> gerr (userConfigErr err (e_GVK env @ ''/'' @ name @ '' proxy configuration validation failed''))
        | Inr proxyConfig \<Rightarrow> setProxyConfig proxyConfig))"

text \<open>Marshalling a map of strings does not fail, so that branch is left out.\<close>

definition updateCRAnnotationsIfNeeded :: "'s env \<Rightarrow> ResourceMetadata \<Rightarrow> ('s, unit) recon" where
  "updateCRAnnotationsIfNeeded env md =
     andThen (readState rs_ESC) (\<lambda>esc.
       case AddManagedMetadataAnnotation (KESC esc) ManagedAnnotationsKey md of
         (Inl err, _) \<Rightarrow> gerr err
       | (Inr trackingChanged, tracked) \<Rightarrow>
           (let esc1 = (case tracked of KESC e \<Rightarrow> e | _ \<Rightarrow> esc);
                (processedChanged, esc2) = addProcessedAnnotation esc1 in
            andThen (setESC esc2) (\<lambda>_.
              if \<not> trackingChanged \<and> \<not> processedChanged then gret ()
              else (let annotations = om_Annotations (esc_Meta esc2) in
                andThen (onErr (onKube (cl_Patch (e_Client env) (KESC esc2) (MergeMetadata []
                      [(ManagedAnnotationsKey, gget annotations ManagedAnnotationsKey),
                       (controllerProcessedAnnotation, gget annotations controllerProcessedAnnotation)])))
                    (\<lambda>err. gerr (WrapErr (''failed to patch annotations on '' @ om_Name (esc_Meta esc2) @ '': '') err '''')))
                  (\<lambda>patched. case patched of KESC esc' \<Rightarrow> setESC esc' | _ \<Rightarrow> gret ())))))"

text \<open>A step that is given the custom resource as it is in memory when the step starts.\<close>

definition withESC :: "(ExternalSecretsConfig \<Rightarrow> ('s, 'a) recon) \<Rightarrow> ('s, 'a) recon" where
  "withESC f = andThen (readState rs_ESC) f"

text \<open>The resources of the operand, in the order in which they are reconciled.\<close>

definition operandSteps :: "'s env \<Rightarrow> ResourceMetadata \<Rightarrow> bool \<Rightarrow> (ExternalSecretsConfig \<Rightarrow> ('s, unit) recon) list" where
  "operandSteps env md recon =
     [\<lambda>esc. createOrApplyNamespace env esc md,
      \<lambda>esc. createOrApplyNetworkPolicies env esc md recon,
      \<lambda>esc. createOrApplyServiceAccounts env esc md recon,
      \<lambda>esc. createOrApplyCertificates env esc md recon,
      \<lambda>esc. createOrApplySecret env esc md recon,
      \<lambda>esc. ensureTrustedCABundleConfigMap env esc md,
      \<lambda>esc. createOrApplyRBACResource env esc md recon,
      \<lambda>esc. createOrApplyServices env esc md recon,
      \<lambda>esc. createOrApplyDeployments env esc md recon,
      \<lambda>esc. createOrApplyValidatingWebhookConfiguration env esc md recon]"

definition reconcileExternalSecretsDeployment :: "'s env \<Rightarrow> bool \<Rightarrow> ('s, unit) recon" where
  "reconcileExternalSecretsDeployment env recon =
     andThen (withESC (validateExternalSecretsConfig env)) (\<lambda>_.
     andThen (readState rs_esm) (\<lambda>esm.
     withESC (\<lambda>esc.
       case getResourceMetadata (e_Getenv env externalsecretsImageVersionEnvVarName) esm esc of
         Inl err \<Rightarrow> gerr err
       | Inr md \<Rightarrow>
           andThen (forEach (operandSteps env md recon) withESC) (\<lambda>_.
           updateCRAnnotationsIfNeeded env md))))"

section \<open>Lemmas\<close>

subsection \<open>The identity of the desired objects\<close>

lemma objid_ApplyResourceMetadata [simp]: "objid (ApplyResourceMetadata o1 md) = objid o1"
  by (simp add: objid_def objectKey_def ApplyResourceMetadata_def UpdateResourceLabels_def UpdateResourceAnnotations_def Let_def)

lemma objid_updateNamespace [simp]:
  "objid (updateNamespace o1 esc) = (kindOf o1, OperandDefaultNamespace, om_Name (metaOf o1))"
  by (simp add: objid_def objectKey_def updateNamespace_def getNamespace_def)

lemma objid_mapBinding [simp]:
  "objid (mapBinding (setRoleRef n) o1) = objid o1"
  "objid (mapBinding (updateServiceAccountNamespaceInRBACBindingObject sa ns) o1) = objid o1"
  by (cases o1; simp add: objid_def objectKey_def setRoleRef_def updateServiceAccountNamespaceInRBACBindingObject_def)+

text \<open>
  What a reconciliation may create, change or delete: the operand's namespace object, the custom
  resource, the network policies of the operand's namespace, the proxy's trust bundle, and the
  objects that the bundled manifests name, in the operand's namespace or cluster-wide.
\<close>

definition clusterKinds :: "string list" where
  "clusterKinds = [''ClusterRole'', ''ClusterRoleBinding'', ''ValidatingWebhookConfiguration'']"

definition operandScope :: "'s env \<Rightarrow> objid \<Rightarrow> bool" where
  "operandScope env = (\<lambda>(kind, ns, name).
     (kind, ns, name) = (''Namespace'', '''', OperandDefaultNamespace) \<or>
     kind = ''ExternalSecretsConfig'' \<or>
     (kind = ''NetworkPolicy'' \<and> ns = OperandDefaultNamespace) \<or>
     (kind, ns, name) = (''ConfigMap'', OperandDefaultNamespace, ProxyTrustedCABundleConfigMapName) \<or>
     (\<exists>a obj. decodeAs env kind a = (Ret obj :: (goerr, kobj) result) \<and> om_Name (metaOf obj) = name \<and>
        (ns = OperandDefaultNamespace \<or> (ns = om_Namespace (metaOf obj) \<and> kind \<in> set clusterKinds))))"

lemma operandScope_asset:
  "decodeAs env kind a = (Ret obj :: (goerr, kobj) result) \<Longrightarrow> operandScope env (kind, OperandDefaultNamespace, om_Name (metaOf obj))"
  "decodeAs env kind a = (Ret obj :: (goerr, kobj) result) \<Longrightarrow> kind \<in> set clusterKinds \<Longrightarrow> operandScope env (objid obj)"
proof -
  show "decodeAs env kind a = (Ret obj :: (goerr, kobj) result) \<Longrightarrow> operandScope env (kind, OperandDefaultNamespace, om_Name (metaOf obj))"
    unfolding operandScope_def prod.case by blast
  assume d: "decodeAs env kind a = (Ret obj :: (goerr, kobj) result)" and k: "kind \<in> set clusterKinds"
  have "objid obj = (kind, om_Namespace (metaOf obj), om_Name (metaOf obj))"
    by (simp add: objid_def objectKey_def kindOf_decodeAs [OF d])
  with d k show "operandScope env (objid obj)"
    unfolding operandScope_def by (simp only: prod.case) blast
qed

lemma operandScope_misc [simp]:
  "operandScope env (''Namespace'', '''', OperandDefaultNamespace)" "operandScope env (''ExternalSecretsConfig'', n)"
  "operandScope env (''NetworkPolicy'', OperandDefaultNamespace, nm)"
  "operandScope env (''ConfigMap'', OperandDefaultNamespace, ProxyTrustedCABundleConfigMapName)"
  unfolding operandScope_def by (cases n; blast)+

text \<open>Which desired objects the \<^verbatim>\<open>createOrApply*\<close> functions build.\<close>

lemma desired_in_scope:
  "serviceObject env esc md a = Ret o1 \<Longrightarrow> operandScope env (objid o1)"
  "serviceAccountObject env esc md a = Ret o1 \<Longrightarrow> operandScope env (objid o1)"
  "networkPolicyObject env esc md a = Ret o1 \<Longrightarrow> operandScope env (objid o1)"
  "getSecretObject env esc md = Ret o1 \<Longrightarrow> operandScope env (objid o1)"
  "getClusterRoleObject env a md = Ret o1 \<Longrightarrow> operandScope env (objid o1)"
  "getRoleObject env esc a md = Ret o1 \<Longrightarrow> operandScope env (objid o1)"
  "getClusterRoleBindingObject env esc a n sa md = Ret o1 \<Longrightarrow> operandScope env (objid o1)"
  "getRoleBindingObject env esc a n sa md = Ret o1 \<Longrightarrow> operandScope env (objid o1)"
  "webhookObject env esc md a = Ret o1 \<Longrightarrow> operandScope env (objid o1)"
proof -
  note defs = serviceObject_def serviceAccountObject_def networkPolicyObject_def getSecretObject_def getClusterRoleObject_def
    getRoleObject_def getClusterRoleBindingObject_def getRoleBindingObject_def webhookObject_def
    DecodeServiceObjBytes_def DecodeServiceAccountObjBytes_def DecodeNetworkPolicyObjBytes_def DecodeSecretObjBytes_def
    DecodeClusterRoleObjBytes_def DecodeRoleObjBytes_def DecodeClusterRoleBindingObjBytes_def DecodeRoleBindingObjBytes_def
    DecodeValidatingWebhookConfigurationObjBytes_def
  have kinds: "''ClusterRole'' \<in> set clusterKinds" "''ClusterRoleBinding'' \<in> set clusterKinds"
    "''ValidatingWebhookConfiguration'' \<in> set clusterKinds"
    by (simp_all add: clusterKinds_def)
  show "serviceObject env esc md a = Ret o1 \<Longrightarrow> operandScope env (objid o1)"
    "serviceAccountObject env esc md a = Ret o1 \<Longrightarrow> operandScope env (objid o1)"
    "networkPolicyObject env esc md a = Ret o1 \<Longrightarrow> operandScope env (objid o1)"
    "getSecretObject env esc md = Ret o1 \<Longrightarrow> operandScope env (objid o1)"
    "getRoleObject env esc a md = Ret o1 \<Longrightarrow> operandScope env (objid o1)"
    by (auto simp: defs map_result_Ret kindOf_decodeAs dest: operandScope_asset(1))
  show "getClusterRoleObject env a md = Ret o1 \<Longrightarrow> operandScope env (objid o1)"
    "getClusterRoleBindingObject env esc a n sa md = Ret o1 \<Longrightarrow> operandScope env (objid o1)"
    "webhookObject env esc md a = Ret o1 \<Longrightarrow> operandScope env (objid o1)"
    by (auto simp: defs map_result_Ret intro: operandScope_asset(2) [OF _ kinds(1)] operandScope_asset(2) [OF _ kinds(2)]
        operandScope_asset(2) [OF _ kinds(3)])
  show "getRoleBindingObject env esc a n sa md = Ret o1 \<Longrightarrow> operandScope env (objid o1)"
  proof -
    assume "getRoleBindingObject env esc a n sa md = Ret o1"
    then obtain obj where obj: "decodeAs env ''RoleBinding'' a = (Ret obj :: (goerr, kobj) result)"
      and o1: "objid o1 = objid (updateNamespace (mapBinding (setRoleRef n) obj) esc)"
      by (auto simp: defs map_result_Ret Let_def)
    have "objid (mapBinding (setRoleRef n) obj) = objid obj" by simp
    with o1 operandScope_asset(1) [OF obj] kindOf_decodeAs [OF obj] show ?thesis
      by (simp add: objid_def objectKey_def updateNamespace_def getNamespace_def)
  qed
qed

lemma desired_kind:
  "serviceObject env esc md a = Ret o1 \<Longrightarrow> kindOf o1 = ''Service''"
  "serviceAccountObject env esc md a = Ret o1 \<Longrightarrow> kindOf o1 = ''ServiceAccount''"
  "networkPolicyObject env esc md a = Ret o1 \<Longrightarrow> kindOf o1 = ''NetworkPolicy''"
  "getSecretObject env esc md = Ret o1 \<Longrightarrow> kindOf o1 = ''Secret''"
  "getClusterRoleObject env a md = Ret o1 \<Longrightarrow> kindOf o1 = ''ClusterRole''"
  "getRoleObject env esc a md = Ret o1 \<Longrightarrow> kindOf o1 = ''Role''"
  "getClusterRoleBindingObject env esc a n sa md = Ret o1 \<Longrightarrow> kindOf o1 = ''ClusterRoleBinding''"
  "getRoleBindingObject env esc a n sa md = Ret o1 \<Longrightarrow> kindOf o1 = ''RoleBinding''"
  "webhookObject env esc md a = Ret o1 \<Longrightarrow> kindOf o1 = ''ValidatingWebhookConfiguration''"
proof -
  have id: "fst (objid x) = kindOf x" for x by (simp add: objid_def)
  have b: "kindOf (mapBinding f x) = kindOf x" for f x by (cases x) simp_all
  have m: "kindOf (ApplyResourceMetadata x md) = kindOf x" "kindOf (updateNamespace x esc) = kindOf x" for x
    by (metis id objid_ApplyResourceMetadata) (simp add: updateNamespace_def)
  note defs = serviceObject_def serviceAccountObject_def networkPolicyObject_def getSecretObject_def getClusterRoleObject_def
    getRoleObject_def getClusterRoleBindingObject_def getRoleBindingObject_def webhookObject_def
    DecodeServiceObjBytes_def DecodeServiceAccountObjBytes_def DecodeNetworkPolicyObjBytes_def DecodeSecretObjBytes_def
    DecodeClusterRoleObjBytes_def DecodeRoleObjBytes_def DecodeClusterRoleBindingObjBytes_def DecodeRoleBindingObjBytes_def
    DecodeValidatingWebhookConfigurationObjBytes_def
  show "serviceObject env esc md a = Ret o1 \<Longrightarrow> kindOf o1 = ''Service''"
    "serviceAccountObject env esc md a = Ret o1 \<Longrightarrow> kindOf o1 = ''ServiceAccount''"
    "networkPolicyObject env esc md a = Ret o1 \<Longrightarrow> kindOf o1 = ''NetworkPolicy''"
    "getSecretObject env esc md = Ret o1 \<Longrightarrow> kindOf o1 = ''Secret''"
    "getClusterRoleObject env a md = Ret o1 \<Longrightarrow> kindOf o1 = ''ClusterRole''"
    "getRoleObject env esc a md = Ret o1 \<Longrightarrow> kindOf o1 = ''Role''"
    "getClusterRoleBindingObject env esc a n sa md = Ret o1 \<Longrightarrow> kindOf o1 = ''ClusterRoleBinding''"
    "getRoleBindingObject env esc a n sa md = Ret o1 \<Longrightarrow> kindOf o1 = ''RoleBinding''"
    "webhookObject env esc md a = Ret o1 \<Longrightarrow> kindOf o1 = ''ValidatingWebhookConfiguration''"
    by (auto simp: defs map_result_Ret kindOf_decodeAs b m Let_def)
qed

subsection \<open>The identity of a deployment\<close>

named_theorems meta_simps \<open>steps that keep the metadata of a deployment\<close>

lemma d_Meta_basic [meta_simps]:
  "d_Meta (updPodSpec f d) = d_Meta d" "d_Meta (updTemplate g d) = d_Meta d" "d_Meta (updContainers h d) = d_Meta d"
  "d_Meta (onContainer n k d) = d_Meta d" "d_Meta (mapAllContainers k d) = d_Meta d"
  by (simp_all add: updPodSpec_def updTemplate_def updContainers_def onContainer_def mapAllContainers_def)

lemma d_Meta_steps [meta_simps]:
  "d_Meta (updateContainerSpec env esm d esc img l) = d_Meta d"
  "d_Meta (updateWebhookContainerSpec env d img l ci) = d_Meta d"
  "d_Meta (updateCertControllerContainerSpec env d img l) = d_Meta d"
  "d_Meta (updateBitwardenServerContainerSpec env d img) = d_Meta d"
  "d_Meta (updateSecretVolumeConfig d v sn) = d_Meta d"
  "d_Meta (updateWebhookVolumeConfig d esc) = d_Meta d"
  "d_Meta (upsertConfigMapVolume d a b x y) = d_Meta d"
  "d_Meta (prunePodVolume d v) = d_Meta d"
  "d_Meta (removeUserCABundleConfig d) = d_Meta d"
  "d_Meta (mountUserCABundle d nm key) = d_Meta d"
  "d_Meta (updateProxyConfiguration pc d) = d_Meta d"
  "d_Meta (withDeploymentConfig cfg d) = d_Meta d"
  by (simp_all add: updateContainerSpec_def updateWebhookContainerSpec_def updateCertControllerContainerSpec_def
      updateBitwardenServerContainerSpec_def updateSecretVolumeConfig_def updateWebhookVolumeConfig_def upsertConfigMapVolume_def
      prunePodVolume_def removeUserCABundleConfig_def mountUserCABundle_def updateProxyConfiguration_def
      applyTrustedCABundleVolumes_def removeTrustedCABundleVolumes_def applyProxyEnvironmentVariables_def
      removeProxyEnvironmentVariables_def withDeploymentConfig_def Let_def meta_simps split: option.splits)

lemma d_Meta_fallible:
  "applyOperandArgsFromEnv env d n v = Inr d' \<Longrightarrow> d_Meta d' = d_Meta d"
  "updateBitwardenVolumeConfig d esc = Ret d' \<Longrightarrow> d_Meta d' = d_Meta d"
  "updateResourceRequirement env esm d esc = Inr d' \<Longrightarrow> d_Meta d' = d_Meta d"
  "updateAffinityRules env esm d esc = Inr d' \<Longrightarrow> d_Meta d' = d_Meta d"
  "updatePodTolerations env esm d esc = Inr d' \<Longrightarrow> d_Meta d' = d_Meta d"
  "updateNodeSelector env esm d esc = Inr d' \<Longrightarrow> d_Meta d' = d_Meta d"
  by (auto simp: applyOperandArgsFromEnv_def updateBitwardenVolumeConfig_def updateResourceRequirement_def updateAffinityRules_def
      updatePodTolerations_def updateNodeSelector_def Let_def meta_simps split: if_splits option.splits sum.splits)

text \<open>
  What the operator relies on of the merge patch and the JSON codec: a patch without a
  \<open>metadata\<close> member keeps name and namespace, and an object with no member but \<open>spec\<close> that is
  marshalled and unmarshalled has no other member.
\<close>

abbreviation depKey :: "Deployment \<Rightarrow> nsname" where
  "depKey d \<equiv> (om_Namespace (d_Meta d), om_Name (d_Meta d))"

definition patchKeepsIdentity :: "'s env \<Rightarrow> bool" where
  "patchKeepsIdentity env \<longleftrightarrow>
     (\<forall>d bytes m d'. unmarshalMap env bytes = Inr m \<longrightarrow> list_all (\<lambda>kv. fst kv \<noteq> ''metadata'') m \<longrightarrow>
        strategicMergePatchDeployment env d bytes = Inr d' \<longrightarrow> depKey d' = depKey d) \<and>
     (\<forall>v. list_all (\<lambda>kv. fst kv = ''spec'') (mapEntries v) \<longrightarrow>
        (\<exists>m. unmarshalMap env (e_JsonMarshal env v) = Inr m \<and> list_all (\<lambda>kv. fst kv = ''spec'') m))"

lemma inject_keys: "map fst (mapEntries (fst (injectContainerName env (JObj m) n))) = map fst m"
  by (auto simp: injectContainerName_def split: sum.splits option.splits json.splits)

lemma overrides_key:
  assumes "patchKeepsIdentity env" and "applyAdvancedOverrides env d ov n = Inr d'"
  shows "depKey d' = depKey d"
proof (cases "\<exists>bytes0. ov = Some (Some bytes0)")
  case False
  with assms(2) show ?thesis by (auto simp: applyAdvancedOverrides_def split: option.splits)
next
  case True
  then obtain bytes0 where ov: "ov = Some (Some bytes0)" by blast
  obtain raw0 where raw0: "unmarshalMap env bytes0 = Inr raw0"
    using assms(2) ov by (auto simp: applyAdvancedOverrides_def split: sum.splits)
  obtain raw injected where inj: "injectContainerName env (JObj raw0) n = (raw, injected)" by force
  define bytes where "bytes = (if injected then e_JsonMarshal env raw else bytes0)"
  obtain patched where val: "validateOverridePaths env bytes (mapEntries raw) n = None"
    and smp: "strategicMergePatchDeployment env d bytes = Inr patched" and d': "depKey d' = depKey patched"
    using assms(2) ov raw0 inj
    by (auto simp: applyAdvancedOverrides_def Let_def bytes_def [symmetric] meta_simps split: option.splits sum.splits)
  have spec: "list_all (\<lambda>kv. fst kv = ''spec'') (mapEntries raw)"
    using val by (simp add: validateOverridePaths_None permittedPatch_def)
  have "fst ` set raw0 = fst ` set (mapEntries raw)" using inject_keys [of env raw0 n, THEN arg_cong [where f = set]] inj by simp
  moreover have "fst ` set (mapEntries raw) \<subseteq> {''spec''}" using spec by (auto simp: list_all_iff)
  ultimately have "list_all (\<lambda>kv. fst kv = ''spec'') raw0" unfolding list_all_iff by blast
  with spec raw0 assms(1) obtain m where "unmarshalMap env bytes = Inr m" "list_all (\<lambda>kv. fst kv = ''spec'') m"
    unfolding patchKeepsIdentity_def bytes_def by (cases injected) auto
  moreover from this(2) have "list_all (\<lambda>kv. fst kv \<noteq> ''metadata'') m" by (auto simp: list_all_iff)
  ultimately have "depKey patched = depKey d" using smp assms(1) unfolding patchKeepsIdentity_def by blast
  with d' show ?thesis by simp
qed

lemma userConfigs_key:
  assumes "patchKeepsIdentity env" and "applyUserDeploymentConfigs env d esc a = Inr d'"
  shows "depKey d' = depKey d"
  using assms(2)
  by (auto simp: applyUserDeploymentConfigs_def Let_def meta_simps dest!: overrides_key [OF assms(1)]
      split: sum.splits prod.splits option.splits if_splits)

lemma finishDeployment_key:
  assumes "patchKeepsIdentity env" and "finishDeployment env esm pc esc a d = Inr d'"
  shows "depKey d' = depKey d"
proof -
  from assms(2) obtain d1 d2 d3 d4 d5 where steps: "updateResourceRequirement env esm d esc = Inr d1"
    "updateAffinityRules env esm d1 esc = Inr d2" "updatePodTolerations env esm d2 esc = Inr d3"
    "updateNodeSelector env esm d3 esc = Inr d4" "applyUserDeploymentConfigs env d4 esc a = Inr d5"
    and d': "d' = updateProxyConfiguration pc d5"
    by (auto simp: finishDeployment_def bindS_Inr)
  have "depKey d5 = depKey d4" using userConfigs_key [OF assms(1) steps(5)] .
  moreover have "d_Meta d4 = d_Meta d" using d_Meta_fallible(3-6) steps(1-4) by metis
  ultimately show ?thesis by (simp add: d' meta_simps)
qed

lemma userCA_key: "applyUserCABundleConfig env d esc s = (Ret (d', err), s') \<Longrightarrow> d_Meta d' = d_Meta d"
  by (auto simp: applyUserCABundleConfig_def Let_def andThen_def nowReset_def Eventf_def meta_simps
      split: option.splits prod.splits result.splits if_splits)

lemma componentSpec_key:
  assumes "componentSpec env esc a img bw l d s = (Ret r, s')"
    and "r = Inr d' \<or> (\<exists>e. r = Inl (Some d', e))"
  shows "depKey d' = depKey d"
  using assms
  by (auto simp: componentSpec_def Let_def andThen_def wrapInl_def meta_simps
      dest!: userCA_key d_Meta_fallible(1,2) split: if_splits option.splits sum.splits result.splits prod.splits)

lemma baseDeployment_key:
  "DecodeDeploymentObjBytes env a = (Ret asset :: (goerr, kobj) result) \<Longrightarrow>
   depKey (baseDeployment asset esc md) = (OperandDefaultNamespace, om_Name (metaOf asset))"
  by (cases asset) (auto simp: baseDeployment_def ApplyResourceMetadata_def UpdateResourceLabels_def UpdateResourceAnnotations_def
      updateNamespace_def getNamespace_def updatePodTemplateLabels_def updatePodTemplateAnnotations_def Let_def meta_simps
      DecodeDeploymentObjBytes_def dest: kindOf_decodeAs)

lemma getDeploymentObject_id:
  assumes "patchKeepsIdentity env" and "getDeploymentObject env a esc md s = (Ret (Some d, err), s')"
  obtains asset where "DecodeDeploymentObjBytes env a = (Ret asset :: (goerr, kobj) result)"
    and "objid (KDeployment d) = (''Deployment'', OperandDefaultNamespace, om_Name (metaOf asset))"
proof -
  from assms(2) obtain asset where asset: "DecodeDeploymentObjBytes env a = (Ret asset :: (goerr, kobj) result)"
    by (auto simp: getDeploymentObject_def lift_bind split: result.splits)
  let ?d0 = "baseDeployment asset esc md"
  from assms(2) asset obtain r s1 where spec: "componentSpec env esc a (e_Getenv env externalsecretsImageEnvVarName)
      (e_Getenv env bitwardenImageEnvVarName) (getLogLevel esc (Some (rs_esm s))) ?d0 s = (Ret r, s1)"
    and r: "r = Inl (Some d, err) \<or> (\<exists>d1 pc. r = Inr d1 \<and> finishDeployment env (rs_esm s) pc esc a d1 = Inr d)"
    by (auto simp: getDeploymentObject_def lift_bind Let_def andThen_def split: if_splits result.splits prod.splits sum.splits)
  from r have "depKey d = depKey ?d0"
  proof (elim disjE exE conjE)
    assume "r = Inl (Some d, err)"
    then show "depKey d = depKey ?d0" by (intro componentSpec_key [OF spec]) simp
  next
    fix d1 pc assume "r = Inr d1" and fin: "finishDeployment env (rs_esm s) pc esc a d1 = Inr d"
    then have "depKey d1 = depKey ?d0" by (intro componentSpec_key [OF spec]) simp
    with finishDeployment_key [OF assms(1) fin] show "depKey d = depKey ?d0" by simp
  qed
  with baseDeployment_key [OF asset, of esc md] that [OF asset] show ?thesis by (simp add: objid_def objectKey_def)
qed

lemma getDeploymentObject_key:
  assumes "patchKeepsIdentity env" and "getDeploymentObject env a esc md s = (Ret (Some d, err), s')"
  shows "operandScope env (objid (KDeployment d))"
proof (rule getDeploymentObject_id [OF assms])
  fix asset assume "DecodeDeploymentObjBytes env a = (Ret asset :: (goerr, kobj) result)"
    and id: "objid (KDeployment d) = (''Deployment'', OperandDefaultNamespace, om_Name (metaOf asset))"
  from operandScope_asset(1) [OF this(1) [unfolded DecodeDeploymentObjBytes_def]] show ?thesis by (simp add: id)
qed

subsection \<open>The frame of each step\<close>

lemma rs_kube_userCA [simp]: "rs_kube (snd (nowReset s)) = rs_kube s" "rs_kube (snd (validateTrustedCABundleData env k n d s)) = rs_kube s"
  by (auto simp: nowReset_def validateTrustedCABundleData_def recordTrustedCABundleValidationEvent_def nowOnce_def nowDo_def
      Eventf_def Let_def andThen_def split: option.splits)

lemma rs_ESC_userCA [simp]: "rs_ESC (snd (nowReset s)) = rs_ESC s" "rs_ESC (snd (validateTrustedCABundleData env k n d s)) = rs_ESC s"
  by (auto simp: nowReset_def validateTrustedCABundleData_def recordTrustedCABundleValidationEvent_def nowOnce_def nowDo_def
      Eventf_def Let_def andThen_def split: option.splits)

lemma objid_desiredCABundle: "objid (desiredCABundleConfigMap esc md) = (''ConfigMap'', OperandDefaultNamespace, ProxyTrustedCABundleConfigMapName)"
  unfolding desiredCABundleConfigMap_def objid_ApplyResourceMetadata by (simp add: objid_def objectKey_def getNamespace_def)

lemma objid_egressPolicy: "objid (egressPolicy n ns sel eg) = (''NetworkPolicy'', ns, n)"
  by (simp add: egressPolicy_def objid_def objectKey_def)

lemma sequenceResults_member:
  "sequenceResults rs = Ret xs \<Longrightarrow> x \<in> set xs \<Longrightarrow> Ret x \<in> set rs"
  by (induction rs arbitrary: xs) (auto split: result.splits)

lemma getValidatingWebhookObjects_member:
  assumes "getValidatingWebhookObjects env esc md = Ret os" and "o1 \<in> set os"
  shows "\<exists>a. webhookObject env esc md a = Ret o1"
  using sequenceResults_member [OF assms [unfolded getValidatingWebhookObjects_def]] by force

lemma certificate_in_scope:
  assumes "getCertificateObject env esc md f s = (Ret o1, s')"
  shows "operandScope env (objid o1)" "kindOf o1 = ''Certificate''"
proof -
  from assms obtain c where c: "decodedCertificate (DecodeCertificateObjBytes env f) = Ret c"
    by (cases "decodedCertificate (DecodeCertificateObjBytes env f)") (auto simp: getCertificateObject_def lift_bind)
  define c1 where "c1 = (if f = webhookCertificateAssetName then c\<lparr>cert_SecretName := certmanagerTLSSecretWebhook\<rparr> else c)"
  define c2 where "c2 = preparedCertificate esc md f c"
  from c have dec: "decodeAs env ''Certificate'' f = (Ret (KCertificate c) :: (goerr, kobj) result)"
    by (auto simp: decodedCertificate_def DecodeCertificateObjBytes_def split: result.splits kobj.splits)
  have meta: "updateCertificateParams env esc x t = (Ret y, t') \<Longrightarrow> cert_Meta y = cert_Meta x" for x y t t'
    by (auto simp: updateCertificateParams_def issuedCertificate_def Let_def andThen_def split: option.splits if_splits prod.splits result.splits)
  from assms c have "andThen (updateCertificateParams env esc c2) (\<lambda>c. gret (KCertificate c)) s = (Ret o1, s')"
    by (simp add: getCertificateObject_def lift_bind c2_def)
  then obtain c3 where o1: "o1 = KCertificate c3" and "cert_Meta c3 = cert_Meta c2"
    by (auto simp: andThen_def dest: meta split: prod.splits result.splits)
  moreover have "objid (ApplyResourceMetadata (updateNamespace (KCertificate c1) esc) md) = (''Certificate'', OperandDefaultNamespace, om_Name (cert_Meta c))"
    by (simp add: c1_def)
  moreover have "cert_Meta c2 = metaOf (ApplyResourceMetadata (updateNamespace (KCertificate c1) esc) md)"
    by (simp add: c1_def c2_def preparedCertificate_def Let_def)
  ultimately have "objid o1 = (''Certificate'', OperandDefaultNamespace, om_Name (cert_Meta c))"
    by (simp add: objid_def objectKey_def)
  with operandScope_asset(1) [OF dec] show "operandScope env (objid o1)" by simp
  show "kindOf o1 = ''Certificate''" by (simp add: o1)
qed

lemma proxyPolicy_in_scope:
  "buildProxyEgressNetworkPolicy env pc OperandDefaultNamespace md = Ret (Some np) \<Longrightarrow>
     objid np = (''NetworkPolicy'', OperandDefaultNamespace, proxyEgressPolicyName)"
  by (auto simp: buildProxyEgressNetworkPolicy_def map_result_Ret objid_egressPolicy split: if_splits)

text \<open>A frame covers the kinds \<open>K\<close> when it allows every change of the operand's objects of these kinds.\<close>

context frame
begin

definition covers :: "string set \<Rightarrow> bool" where
  "covers K \<longleftrightarrow> (\<forall>i. fst i \<in> K \<longrightarrow> (operandScope env i \<longrightarrow> W i) \<and> P i)"

lemma covers_mono: "covers L \<Longrightarrow> K \<subseteq> L \<Longrightarrow> covers K"
  unfolding covers_def by blast

lemma covers_object:
  assumes "covers K" and "operandScope env (objid o1)" and "kindOf o1 \<in> K"
  shows "W (objid o1)" "P (objid o1)"
  using assms unfolding covers_def by (auto simp: objid_def simp del: split_paired_All)

lemma covers_key:
  assumes "covers K" and "k \<in> K"
  shows "P (k, n)" "operandScope env (k, n) \<Longrightarrow> W (k, n)"
  using assms unfolding covers_def by (auto simp del: split_paired_All)

lemma got_existing:
  assumes "wf (rs_kube s)" and "onErr (onKube (Exists (e_Client env) k n)) (\<lambda>e. gerr (h e)) s = (Ret (Some x), s')"
  shows "objid x = (k, n)"
  using assms cached.Exists_cases [OF assms(1), of k n]
  by (auto simp: onErr_def onKube_def split: prod.splits result.splits)

lemma listed_in_namespace:
  assumes "wf (rs_kube s)" and "onErr (onKube (cl_List (e_Client env) k ns ls)) (\<lambda>e. gerr (h e)) s = (Ret os, s')"
    and "o1 \<in> set os" and "ns \<noteq> ''''"
  shows "\<exists>n. objid o1 = (k, ns, n)"
  using assms(2-4) cached.list_Ret [OF assms(1), of k ns ls os]
  by (auto simp: onErr_def onKube_def objid_def objectKey_def split: prod.splits result.splits)

lemma frame_userCA [intro!]: "keeps R nowReset" "keeps R (validateTrustedCABundleData env k n d)" "keeps R (setProxyConfig pc)"
  by (rule keepsI, rule R_same; simp add: setProxyConfig_def)+

lemma frame_services: "covers {''Service''} \<Longrightarrow> keeps R (createOrApplyServices env esc md recon)"
  unfolding createOrApplyServices_def createOrApplyServiceFromAsset_def Let_def
  by (auto intro!: covers_object dest: desired_in_scope desired_kind)

lemma frame_serviceAccounts: "covers {''ServiceAccount''} \<Longrightarrow> keeps R (createOrApplyServiceAccounts env esc md recon)"
  unfolding createOrApplyServiceAccounts_def createOrApplyServiceAccountFromAsset_def Let_def
  by (auto intro!: covers_object dest: desired_in_scope desired_kind)

lemma frame_rbac:
  assumes "covers {''ClusterRole'', ''ClusterRoleBinding'', ''Role'', ''RoleBinding''}"
  shows "keeps R (createOrApplyRBACResource env esc md recon)"
  unfolding createOrApplyRBACResource_def createOrApplyControllerRBACResources_def createOrApplyCertControllerRBACResources_def
    createOrApplyClusterRole_def createOrApplyClusterRoleBinding_def createOrApplyRole_def createOrApplyRoleBinding_def Let_def
  by (auto intro!: covers_object(1) [OF assms] dest: desired_in_scope desired_kind)

lemma frame_secret: "covers {''Secret''} \<Longrightarrow> keeps R (createOrApplySecret env esc md recon)"
  unfolding createOrApplySecret_def Let_def
  by (auto intro!: covers_object dest: desired_in_scope desired_kind split: option.splits)

lemma frame_caBundle:
  assumes "covers {''ConfigMap''}"
  shows "keeps R (ensureTrustedCABundleConfigMap env esc md)"
proof -
  have "W (objid (desiredCABundleConfigMap esc md))" "P (objid (desiredCABundleConfigMap esc md))"
    unfolding objid_desiredCABundle by (rule covers_key [OF assms]; simp)+
  then show ?thesis
    unfolding ensureTrustedCABundleConfigMap_def Let_def
    by (auto intro!: frame_case_result frame_create split: option.splits)
qed

lemma frame_webhooks:
  assumes "covers {''ValidatingWebhookConfiguration''}"
  shows "keeps R (createOrApplyValidatingWebhookConfiguration env esc md recon)"
  unfolding createOrApplyValidatingWebhookConfiguration_def createOrApplyValidatingWebhook_def Let_def
  by (auto intro!: covers_object(1) [OF assms] dest!: getValidatingWebhookObjects_member dest: desired_in_scope desired_kind)

lemma frame_namespace:
  assumes "covers {''Namespace''}"
  shows "keeps R (createOrApplyNamespace env esc md)"
proof -
  define d where "d = ApplyResourceMetadata (KNamespace (zeroMeta\<lparr>om_Name := getNamespace esc\<rparr>)) md"
  have id: "objid d = (''Namespace'', '''', OperandDefaultNamespace)"
    unfolding d_def objid_ApplyResourceMetadata by (simp add: objid_def objectKey_def getNamespace_def zeroMeta_def)
  then have key: "objectKey d = ('''', OperandDefaultNamespace)" by (simp add: objid_def)
  have W: "W (''Namespace'', '''', OperandDefaultNamespace)" by (rule covers_key(2) [OF assms]) simp_all
  have kept: "objid (mapMeta (\<lambda>_. m') o1) = objid o1" if "resourceMetadataNeedsUpdate (metaOf o1) md = (b, m')" for o1 m' b
    using that by (auto simp: resourceMetadataNeedsUpdate_def RemoveObsoleteAnnotations_def UpdateResourceAnnotations_def
        Let_def objid_def objectKey_def split: if_splits)
  show ?thesis
    unfolding createOrApplyNamespace_def Let_def d_def [symmetric] key
    by (rule frame_bind)
      (auto intro!: frame_create frame_updateWithRetry simp: id W kept dest: got_existing split: prod.splits bool.splits option.splits)
qed

lemma frame_issuer [intro!]: "keeps R (assertIssuerRefExists env ref ns)"
  unfolding assertIssuerRefExists_def getIssuer_def Let_def by auto

lemma frame_certificateParams [intro!]: "keeps R (updateCertificateParams env esc c)"
  unfolding updateCertificateParams_def Let_def by (split option.splits) auto

lemma frame_certificate:
  assumes "covers {''Certificate''}"
  shows "keeps R (createOrApplyCertificate env esc md f recon)"
  unfolding createOrApplyCertificate_def Let_def
proof (rule frame_bind)
  show "keeps R (getCertificateObject env esc md f)"
    unfolding getCertificateObject_def Let_def by auto
qed (auto intro!: covers_object(1) [OF assms] dest: certificate_in_scope)

lemma frame_certificates: "covers {''Certificate''} \<Longrightarrow> keeps R (createOrApplyCertificates env esc md recon)"
  unfolding createOrApplyCertificates_def assertSecretRefExists_def Let_def by (auto intro!: frame_certificate)

lemma frame_applyUserCA [intro!]: "covers {''ConfigMap''} \<Longrightarrow> keeps R (applyUserCABundleConfig env d esc)"
  unfolding applyUserCABundleConfig_def Let_def
  by (split option.splits) (auto intro!: frame_case_result frame_userCA covers_key(1))

lemma frame_componentSpec [intro!]: "covers {''ConfigMap''} \<Longrightarrow> keeps R (componentSpec env esc a img bw l d)"
  unfolding componentSpec_def Let_def by (auto split: sum.splits option.splits)

lemma frame_getDeploymentObject: "covers {''ConfigMap''} \<Longrightarrow> keeps R (getDeploymentObject env a esc md)"
  unfolding getDeploymentObject_def Let_def by (auto split: sum.splits)

lemma frame_deployment_only:
  assumes "covers {''ConfigMap''}" and "patchKeepsIdentity env"
    and "\<And>asset :: kobj. DecodeDeploymentObjBytes env a = (Ret asset :: (goerr, kobj) result) \<Longrightarrow>
      W (''Deployment'', OperandDefaultNamespace, om_Name (metaOf asset))"
  shows "keeps R (createOrApplyDeploymentFromAsset env esc a md recon)"
proof -
  have w: "W (objid (KDeployment d))" if "getDeploymentObject env a esc md s = (Ret (Some d, err), s')" for d err s s'
    by (rule getDeploymentObject_id [OF assms(2) that]) (simp add: assms(3))
  show ?thesis
    unfolding createOrApplyDeploymentFromAsset_def Let_def
    by (rule frame_bind [OF frame_getDeploymentObject [OF assms(1)]]) (auto dest: w split: option.splits)
qed

lemma frame_deployment:
  assumes "covers {''ConfigMap''}" and "covers {''Deployment''}" and "patchKeepsIdentity env"
  shows "keeps R (createOrApplyDeploymentFromAsset env esc a md recon)"
  unfolding createOrApplyDeploymentFromAsset_def Let_def
  by (rule frame_bind [OF frame_getDeploymentObject [OF assms(1)]])
     (auto intro!: covers_object(1) [OF assms(2)] dest: getDeploymentObject_key [OF assms(3)] split: option.splits)

lemma covers_ESC:
  assumes "covers {''ExternalSecretsConfig''}"
  shows "P (objid (KESC esc))" "W (''ExternalSecretsConfig'', n)"
  using covers_key [OF assms, of "''ExternalSecretsConfig''"] by (simp_all add: objid_def)

lemma frame_image: "covers {''ExternalSecretsConfig''} \<Longrightarrow> keeps R (updateImageInStatus env)"
  unfolding updateImageInStatus_def Let_def by (auto intro!: covers_ESC)

lemma frame_deployments:
  assumes "covers {''ConfigMap'', ''Deployment'', ''ExternalSecretsConfig''}" and "patchKeepsIdentity env"
  shows "keeps R (createOrApplyDeployments env esc md recon)"
  unfolding createOrApplyDeployments_def Let_def
  using assms by (auto intro!: frame_deployment frame_image elim: covers_mono)

lemma frame_applyNetworkPolicy: "W (objid np) \<Longrightarrow> keeps R (applyNetworkPolicy env np md recon)"
  unfolding applyNetworkPolicy_def Let_def by auto

lemma frame_staticPolicies: "covers {''NetworkPolicy''} \<Longrightarrow> keeps R (createOrApplyStaticNetworkPolicies env esc md recon)"
  unfolding createOrApplyStaticNetworkPolicies_def createOrApplyNetworkPolicyFromAsset_def
  by (auto intro!: frame_applyNetworkPolicy covers_object dest: desired_in_scope desired_kind)

lemma covers_policy: "covers {''NetworkPolicy''} \<Longrightarrow> W (''NetworkPolicy'', OperandDefaultNamespace, n)"
  by (erule covers_key(2)) simp_all

lemma frame_customPolicies: "covers {''NetworkPolicy''} \<Longrightarrow> keeps R (createOrApplyCustomNetworkPolicies env esc md recon)"
  unfolding createOrApplyCustomNetworkPolicies_def createOrApplyCustomNetworkPolicy_def
  by (rule frame_forEach)
     (auto intro!: frame_applyNetworkPolicy covers_policy simp: buildNetworkPolicyFromConfig_def objid_egressPolicy getNamespace_def split: sum.splits)

lemma frame_proxyPolicy_only:
  "W (''NetworkPolicy'', OperandDefaultNamespace, proxyEgressPolicyName) \<Longrightarrow> keeps R (reconcileProxyEgressPolicy env esc md recon)"
  unfolding reconcileProxyEgressPolicy_def Let_def getNamespace_def
  by (rule frame_andThen, blast, rule frame_bind, blast)
     (auto intro!: frame_delete frame_updateWithRetry dest: got_existing dest!: proxyPolicy_in_scope split: option.splits)

lemmas frame_proxyPolicy = frame_proxyPolicy_only [OF covers_policy]

lemma frame_mark: "covers {''ExternalSecretsConfig''} \<Longrightarrow> keeps R (markCleanupDone env esc)"
  unfolding markCleanupDone_def by (auto intro!: covers_ESC split: kobj.splits)

lemma frame_deleteLegacy_only:
  assumes "\<And>n. n \<in> set legacy \<Longrightarrow> W (''NetworkPolicy'', OperandDefaultNamespace, n)"
    and "\<exists>n. objid np = (''NetworkPolicy'', OperandDefaultNamespace, n)"
  shows "keeps R (deleteLegacyPolicy env ns legacy np)"
proof -
  have "om_Name (metaOf np) \<in> set legacy \<Longrightarrow> W (objid np)" using assms by (auto simp: objid_def objectKey_def)
  then show ?thesis unfolding deleteLegacyPolicy_def Let_def by (auto intro!: frame_case_result frame_delete)
qed

lemma frame_deleteLegacy:
  "covers {''NetworkPolicy''} \<Longrightarrow> \<exists>n. objid np = (''NetworkPolicy'', OperandDefaultNamespace, n) \<Longrightarrow> keeps R (deleteLegacyPolicy env ns legacy np)"
  by (rule frame_deleteLegacy_only) (rule covers_policy)

lemma frame_cleanup_only:
  assumes "\<And>legacy n. legacyOperatorNetworkPolicyNames env esc = Ret legacy \<Longrightarrow> n \<in> set legacy \<Longrightarrow> W (''NetworkPolicy'', OperandDefaultNamespace, n)"
    and "\<And>esc. keeps R (markCleanupDone env esc)"
  shows "keeps R (cleanupMigratedNetworkPolicies env esc)"
proof -
  have ns: "OperandDefaultNamespace \<noteq> []" by (simp add: OperandDefaultNamespace_def externalsecretsCommonName_def)
  show ?thesis
    unfolding cleanupMigratedNetworkPolicies_def Let_def getNamespace_def
    by (auto intro!: assms(2) frame_bind [OF frame_onErr [OF frame_list]] frame_deleteLegacy_only [OF assms(1)] dest: listed_in_namespace [OF _ _ _ ns])
qed

lemmas frame_cleanup = frame_cleanup_only [OF covers_policy]

lemma frame_policies:
  assumes "covers {''NetworkPolicy''}" and "\<And>esc. keeps R (markCleanupDone env esc)"
  shows "keeps R (createOrApplyNetworkPolicies env esc md recon)"
  unfolding createOrApplyNetworkPolicies_def
  by (intro frame_andThen frame_staticPolicies frame_proxyPolicy frame_customPolicies frame_cleanup assms)

lemma frame_withESC: "(\<And>esc. keeps R (f esc)) \<Longrightarrow> keeps R (withESC f)"
  unfolding withESC_def by auto

lemma frame_validate: "keeps R (validateExternalSecretsConfig env esc)"
  unfolding validateExternalSecretsConfig_def Let_def by (auto split: sum.splits)

lemma frame_annotate: "covers {''ExternalSecretsConfig''} \<Longrightarrow> keeps R (updateCRAnnotationsIfNeeded env md)"
  unfolding updateCRAnnotationsIfNeeded_def Let_def by (auto intro!: covers_ESC split: sum.splits prod.splits kobj.splits)

lemma frame_install:
  assumes all: "covers UNIV" and "patchKeepsIdentity env"
  shows "keeps R (reconcileExternalSecretsDeployment env recon)"
proof -
  note K = covers_mono [OF all subset_UNIV]
  have steps: "keeps R (withESC f)" if "f \<in> set (operandSteps env md recon)" for f md
    using that frame_namespace [OF K] frame_policies [OF K frame_mark [OF K]] frame_serviceAccounts [OF K] frame_certificates [OF K]
      frame_secret [OF K] frame_caBundle [OF K] frame_rbac [OF K] frame_services [OF K] frame_deployments [OF K assms(2)] frame_webhooks [OF K]
    by (auto simp: operandSteps_def intro!: frame_withESC)
  show ?thesis
    unfolding reconcileExternalSecretsDeployment_def
    by (intro frame_andThen frame_pure frame_withESC frame_validate)
       (auto intro!: frame_annotate [OF K] frame_forEach steps split: sum.splits)
qed

end

context operator_env
begin

abbreviation inScope :: "(goerr, 's rstate, 'a) prog \<Rightarrow> bool" where
  "inScope m \<equiv> keeps (framed (operandScope env)) m"

lemma scope_install: "patchKeepsIdentity env \<Longrightarrow> inScope (reconcileExternalSecretsDeployment env recon)"
  by (rule fr.frame_install) (simp add: fr.covers_def)

end

end
