(* ===== verification/Status_Conditions.thy ===== *)
theory Status_Conditions
  imports Frame
begin

section \<open>Status conditions\<close>

text \<open>
  The condition types and reasons of \<^verbatim>\<open>api/v1alpha1/conditions.go\<close>, \<^verbatim>\<open>SetStatusCondition\<close> of
  \<^verbatim>\<open>k8s.io/apimachinery/pkg/api/meta\<close> (vendored), the conditions of a failed and of a successful
  reconciliation and the result of a reconciliation (\<^verbatim>\<open>controller.go\<close>). Transition times are not
  modelled: nothing in the operator reads them.
\<close>

definition Degraded :: string where "Degraded = ''Degraded''"
definition Ready :: string where "Ready = ''Ready''"
definition UpdateAnnotation :: string where "UpdateAnnotation = ''UpdateAnnotation''"
definition ReasonFailed :: string where "ReasonFailed = ''Failed''"
definition ReasonReady :: string where "ReasonReady = ''Ready''"
definition ReasonInProgress :: string where "ReasonInProgress = ''Progressing''"
definition ReasonCompleted :: string where "ReasonCompleted = ''Completed''"

lemmas condition_names = Degraded_def Ready_def UpdateAnnotation_def ReasonFailed_def ReasonReady_def ReasonInProgress_def ReasonCompleted_def

definition FindStatusCondition :: "condition list \<Rightarrow> string \<Rightarrow> condition option" where
  "FindStatusCondition conditions conditionType = find (\<lambda>c. cond_Type c = conditionType) conditions"

text \<open>The conditions afterwards, and whether they changed.\<close>

definition SetStatusCondition :: "condition list \<Rightarrow> condition \<Rightarrow> condition list \<times> bool" where
  "SetStatusCondition conditions newCondition =
     (case FindStatusCondition conditions (cond_Type newCondition) of
        None \<Rightarrow> (conditions @ [newCondition], True)
      | Some existing \<Rightarrow>
          (updateFirst (\<lambda>c. cond_Type c = cond_Type newCondition)
             (\<lambda>c. c\<lparr>cond_Status := cond_Status newCondition, cond_Reason := cond_Reason newCondition,
                    cond_Message := cond_Message newCondition, cond_ObservedGeneration := cond_ObservedGeneration newCondition\<rparr>) conditions,
           cond_Status existing \<noteq> cond_Status newCondition \<or> cond_Reason existing \<noteq> cond_Reason newCondition \<or>
           cond_Message existing \<noteq> cond_Message newCondition \<or> cond_ObservedGeneration existing \<noteq> cond_ObservedGeneration newCondition))"

subsection \<open>Conditions and result of a reconciliation\<close>

record ctrlResult =
  res_RequeueAfter :: int

definition zeroResult :: ctrlResult where "zeroResult = \<lparr>res_RequeueAfter = 0\<rparr>"

text \<open>In nanoseconds, as \<open>time.Duration\<close>.\<close>

definition DefaultRequeueTime :: int where "DefaultRequeueTime = 30 * 1000000000"

definition deploymentFailureConditions :: "int \<Rightarrow> goerr \<Rightarrow> condition \<times> condition" where
  "deploymentFailureConditions observedGeneration reconcileErr =
     (let isFatal = IsIrrecoverableError (Some reconcileErr);
          isUserConfig = IsUserConfigurationError (Some reconcileErr);
          degraded0 = \<lparr>cond_Type = Degraded, cond_Status = '''', cond_Reason = '''', cond_Message = '''', cond_ObservedGeneration = observedGeneration\<rparr>;
          ready0 = degraded0\<lparr>cond_Type := Ready\<rparr> in
      if isFatal \<or> isUserConfig
      then (let message = (if isFatal then ''reconciliation failed with irrecoverable error, not retrying: '' @ errText reconcileErr
                           else ''user configuration is invalid: '' @ errText reconcileErr) in
            (degraded0\<lparr>cond_Status := ''True'', cond_Reason := ReasonFailed, cond_Message := message\<rparr>,
             ready0\<lparr>cond_Status := ''False'', cond_Reason := ReasonFailed, cond_Message := message\<rparr>))
      else (degraded0\<lparr>cond_Status := ''False'', cond_Reason := ReasonReady\<rparr>,
            ready0\<lparr>cond_Status := ''False'', cond_Reason := ReasonInProgress,
              cond_Message := ''reconciliation failed, retrying: '' @ errText reconcileErr\<rparr>))"

definition userConfigurationFailureResult :: "goerr \<Rightarrow> goerr option \<Rightarrow> (goerr, ctrlResult) result" where
  "userConfigurationFailureResult reconcileErr errUpdate =
     (case errUpdate of
        Some e \<Rightarrow> Err e
      | None \<Rightarrow> if IsUserConfigurationNotFound (Some reconcileErr) then Ret \<lparr>res_RequeueAfter = DefaultRequeueTime\<rparr> else Ret zeroResult)"

text \<open>\<open>errUpdate := f()\<close>: the error as a value.\<close>

definition errorOf :: "('s, unit) recon \<Rightarrow> ('s, goerr option) recon" where
  "errorOf m = onErr (andThen m (\<lambda>_. gret None)) (\<lambda>e. gret (Some e))"

text \<open>The two conditions set on the custom resource in memory; whether one of them changed.\<close>

definition setConditions :: "condition \<Rightarrow> condition \<Rightarrow> ('s, ExternalSecretsConfig \<times> bool) recon" where
  "setConditions degradedCond readyCond =
     andThen (readState rs_ESC) (\<lambda>esc.
       let (conds1, degradedChanged) = SetStatusCondition (st_Conditions (esc_Status esc)) degradedCond;
           (conds2, readyChanged) = SetStatusCondition conds1 readyCond;
           esc' = esc\<lparr>esc_Status := (esc_Status esc)\<lparr>st_Conditions := conds2\<rparr>\<rparr> in
       andThen (setESC esc') (\<lambda>_. gret (esc', degradedChanged \<or> readyChanged)))"

definition updateStatusConditionsOnFailure :: "'s env \<Rightarrow> condition \<Rightarrow> condition \<Rightarrow> goerr \<Rightarrow> ('s, unit) recon" where
  "updateStatusConditionsOnFailure env degradedCond readyCond reconcileErr =
     andThen (setConditions degradedCond readyCond) (\<lambda>(esc, changed).
       if \<not> changed then gret () else updateCondition env esc (Some reconcileErr))"

definition reconcileDeploymentFailureResult :: "'s env \<Rightarrow> goerr \<Rightarrow> int \<Rightarrow> ('s, ctrlResult) recon" where
  "reconcileDeploymentFailureResult env reconcileErr observedGeneration =
     (let isFatal = IsIrrecoverableError (Some reconcileErr);
          isUserConfig = IsUserConfigurationError (Some reconcileErr);
          (degradedCond, readyCond) = deploymentFailureConditions observedGeneration reconcileErr in
      andThen (errorOf (updateStatusConditionsOnFailure env degradedCond readyCond reconcileErr)) (\<lambda>errUpdate.
        if isFatal then (case errUpdate of None \<Rightarrow> gret zeroResult | Some e \<Rightarrow> gerr e)
        else if isUserConfig then lift (userConfigurationFailureResult reconcileErr errUpdate)
        else (case errUpdate of None \<Rightarrow> gret \<lparr>res_RequeueAfter = DefaultRequeueTime\<rparr> | Some e \<Rightarrow> gerr e)))"

definition reconcileDeploymentSuccessResult :: "'s env \<Rightarrow> int \<Rightarrow> ('s, ctrlResult) recon" where
  "reconcileDeploymentSuccessResult env observedGeneration =
     (let degradedCond = \<lparr>cond_Type = Degraded, cond_Status = ''False'', cond_Reason = ReasonReady, cond_Message = '''',
            cond_ObservedGeneration = observedGeneration\<rparr>;
          readyCond = \<lparr>cond_Type = Ready, cond_Status = ''True'', cond_Reason = ReasonReady, cond_Message = ''reconciliation successful'',
            cond_ObservedGeneration = observedGeneration\<rparr> in
      andThen (\<lambda>s. (Ret (), s\<lparr>rs_now := False\<rparr>)) (\<lambda>_.
      andThen (setConditions degradedCond readyCond) (\<lambda>(esc, changed).
        if \<not> changed then gret zeroResult
        else andThen (updateCondition env esc None) (\<lambda>_. gret zeroResult))))"

section \<open>Lemmas\<close>

interpretation conds: named_slice cond_Type .

lemma SetStatusCondition_eq:
  "SetStatusCondition cs c = (upsertFirst (\<lambda>x. cond_Type x = cond_Type c) (\<lambda>_. c) c cs, FindStatusCondition cs (cond_Type c) \<noteq> Some c)"
proof -
  let ?f = "\<lambda>x. x\<lparr>cond_Status := cond_Status c, cond_Reason := cond_Reason c, cond_Message := cond_Message c,
      cond_ObservedGeneration := cond_ObservedGeneration c\<rparr>"
  have same: "?f x = c" if "cond_Type x = cond_Type c" for x :: condition
    using that by simp
  have none: "find (\<lambda>x. cond_Type x = cond_Type c) cs = None \<Longrightarrow> cs @ [c] = upsertFirst (\<lambda>x. cond_Type x = cond_Type c) (\<lambda>_. c) c cs"
    by (induction cs) (auto split: if_splits)
  have some: "find (\<lambda>x. cond_Type x = cond_Type c) cs = Some e \<Longrightarrow>
      updateFirst (\<lambda>x. cond_Type x = cond_Type c) ?f cs = upsertFirst (\<lambda>x. cond_Type x = cond_Type c) (\<lambda>_. c) c cs" for e
    by (induction cs) (auto simp: same split: if_splits)
  have type: "find (\<lambda>x. cond_Type x = cond_Type c) cs = Some e \<Longrightarrow> cond_Type e = cond_Type c" for e
    by (auto simp: find_Some_iff)
  have eq: "(cond_Status e \<noteq> cond_Status c \<or> cond_Reason e \<noteq> cond_Reason c \<or> cond_Message e \<noteq> cond_Message c \<or>
      cond_ObservedGeneration e \<noteq> cond_ObservedGeneration c) \<longleftrightarrow> e \<noteq> c" if "cond_Type e = cond_Type c" for e :: condition
    using that by (cases e; cases c) auto
  show ?thesis
  proof (cases "find (\<lambda>x. cond_Type x = cond_Type c) cs")
    case None
    with none show ?thesis by (simp add: SetStatusCondition_def FindStatusCondition_def)
  next
    case (Some e)
    from some [OF Some] eq [OF type [OF Some]] Some show ?thesis
      by (simp add: SetStatusCondition_def FindStatusCondition_def)
  qed
qed

lemma FindStatusCondition_set:
  "FindStatusCondition (fst (SetStatusCondition cs c)) t = (if t = cond_Type c then Some c else FindStatusCondition cs t)"
  by (simp add: SetStatusCondition_eq FindStatusCondition_def conds.find_upsert_same conds.find_upsert_other)

lemma setConditions_run:
  assumes "cond_Type d \<noteq> cond_Type y"
  shows "\<exists>esc' changed. setConditions d y s = (Ret (esc', changed), s\<lparr>rs_ESC := esc'\<rparr>) \<and>
    esc_Meta esc' = esc_Meta (rs_ESC s) \<and> esc_Spec esc' = esc_Spec (rs_ESC s) \<and>
    FindStatusCondition (st_Conditions (esc_Status esc')) (cond_Type d) = Some d \<and>
    FindStatusCondition (st_Conditions (esc_Status esc')) (cond_Type y) = Some y \<and>
    (\<forall>t. t \<noteq> cond_Type d \<longrightarrow> t \<noteq> cond_Type y \<longrightarrow>
       FindStatusCondition (st_Conditions (esc_Status esc')) t = FindStatusCondition (st_Conditions (esc_Status (rs_ESC s))) t) \<and>
    (\<not> changed \<longrightarrow> FindStatusCondition (st_Conditions (esc_Status (rs_ESC s))) (cond_Type d) = Some d \<and>
       FindStatusCondition (st_Conditions (esc_Status (rs_ESC s))) (cond_Type y) = Some y)"
proof -
  let ?c1 = "fst (SetStatusCondition (st_Conditions (esc_Status (rs_ESC s))) d)"
  let ?esc' = "(rs_ESC s)\<lparr>esc_Status := (esc_Status (rs_ESC s))\<lparr>st_Conditions := fst (SetStatusCondition ?c1 y)\<rparr>\<rparr>"
  have "setConditions d y s = (Ret (?esc', snd (SetStatusCondition (st_Conditions (esc_Status (rs_ESC s))) d) \<or> snd (SetStatusCondition ?c1 y)),
      s\<lparr>rs_ESC := ?esc'\<rparr>)"
    by (simp add: setConditions_def andThen_def setESC_def Let_def split_beta)
  moreover have "snd (SetStatusCondition ?c1 y) \<longleftrightarrow> FindStatusCondition (st_Conditions (esc_Status (rs_ESC s))) (cond_Type y) \<noteq> Some y"
    using assms FindStatusCondition_set [of "st_Conditions (esc_Status (rs_ESC s))" d "cond_Type y"] by (simp add: SetStatusCondition_eq)
  ultimately show ?thesis
    using assms by (auto simp: FindStatusCondition_set) (simp_all add: SetStatusCondition_eq)
qed

text \<open>Writing the status leaves the custom resource in memory alone.\<close>

definition sameESC :: "'s rstate \<Rightarrow> 's rstate \<Rightarrow> bool" where
  "sameESC s s' \<longleftrightarrow> rs_ESC s' = rs_ESC s"

lemma sameESC_order [simp]: "reflp sameESC" "transp sameESC"
  by (auto simp: sameESC_def reflp_def transp_def)

lemma updateCondition_sameESC: "keeps sameESC (updateCondition env esc e)"
proof -
  have kube: "keeps sameESC (onKube m)" for m by (rule keepsI) (simp add: sameESC_def onKube_def split: prod.splits)
  have status: "keeps sameESC (updateStatus env esc)"
    unfolding updateStatus_def Let_def retryOnConflict_def
    by (intro keeps_retryOnError keeps_andThen keeps_onErr kube) (auto intro: kube keeps_onErr keeps_andThen)
  show ?thesis
    unfolding updateCondition_def Let_def
    by (intro keeps_onErr status) (auto split: option.splits)
qed

lemma updateCondition_ESC [simp]: "updateCondition env esc e s = (r, s') \<Longrightarrow> rs_ESC s' = rs_ESC s"
  using keepsD [OF updateCondition_sameESC] by (auto simp: sameESC_def)

lemma error_classes_disjoint: "IsIrrecoverableError e \<Longrightarrow> \<not> IsUserConfigurationError e"
  by (auto simp: IsIrrecoverableError_def IsUserConfigurationError_def split: option.splits)

lemma errorOf_cases:
  assumes "errorOf m s = (r, s')"
  obtains "m s = (Ret (), s')" "r = Ret None" | e where "m s = (Err e, s')" "r = Ret (Some e)" | p where "m s = (Panic p, s')" "r = Panic p"
proof (cases "m s")
  case (Pair rm sm)
  with assms that show thesis by (cases rm) (auto simp: errorOf_def onErr_def andThen_def)
qed

context operator_env
begin

lemma onErr_gerr_Ret: "onErr m (\<lambda>e. gerr (h e)) s = (Ret x, s') \<longleftrightarrow> m s = (Ret x, s')"
  by (simp add: onErr_def split: prod.splits result.splits)

text \<open>A status update that returns has stored the status.\<close>

lemma updateStatus_written:
  assumes "wf (rs_kube s)" and "updateStatus env esc s = (Ret (), s')"
  shows "\<exists>e. objs (rs_kube s') (objid (KESC esc)) = Some (KESC e) \<and> esc_Status e = esc_Status esc"
proof -
  define m :: "('s, unit) recon" where "m =
    andThen (onErr (onKube (cl_Get (e_Client env) ''ExternalSecretsConfig'' (objectKey (KESC esc))))
        (\<lambda>err. gerr (WrapErr (''failed to fetch externalsecretsconfigs.operator.openshift.io '' @ quoted (nsnameString (objectKey (KESC esc))) @ '' for status update: '') err '''')))
      (\<lambda>current. andThen (onErr (onKube (cl_StatusUpdate (e_Client env) (withStatusOf (KESC esc) current)))
          (\<lambda>err. gerr (WrapErr (''failed to update externalsecretsconfigs.operator.openshift.io '' @ quoted (nsnameString (objectKey (KESC esc))) @ '' status: '') err '''')))
        (\<lambda>_. gret ()))"
  have "keeps (framed (\<lambda>_. True)) m"
    unfolding m_def by (intro fr.frame_bind fr.frame_andThen fr.frame_onErr fr.frame_get fr.frame_pure fr.frame_status) simp_all
  then have ok: "wf (rs_kube t')" if "wf (rs_kube t)" "m t = (r, t')" for t r t'
    using framedD(1) that keepsD by metis
  have "retryOnError DefaultRetry IsConflict m s = (Ret (), s')"
    using assms(2) by (simp add: updateStatus_def retryOnConflict_def m_def Let_def)
  from retryOnError_Ret [where P = "\<lambda>t. wf (rs_kube t)", OF this assms(1)] ok
  obtain t where t: "wf (rs_kube t)" "m t = (Ret (), s')" by blast
  then obtain cur k o2 k' where get: "cl_Get (e_Client env) ''ExternalSecretsConfig'' (objectKey (KESC esc)) (rs_kube t) = (Ret cur, k)"
    and put: "cl_StatusUpdate (e_Client env) (withStatusOf (KESC esc) cur) k = (Ret o2, k')" and s': "rs_kube s' = k'"
    unfolding m_def andThen_Ret_iff onErr_gerr_Ret onKube_eq by auto
  from cached.get_Ret [OF t(1) get] have cur: "objid cur = objid (KESC esc)" "wf k" by (simp_all add: objid_def)
  then obtain e where e: "cur = KESC e" by (cases cur) (simp_all add: objid_def)
  from cached.status_Ret [OF cur(2) put] obtain c2 where c2: "objs k (objid cur) = Some c2" "sameUpToServer (withStatusOf (withStatusOf (KESC esc) cur) c2) o2"
    "objs k' (objid cur) = Some o2" by auto
  from cached.get_Ret [OF t(1) get] cur(1) c2(1) have "c2 = cur" by (simp add: objid_def)
  with c2 cur(1) s' e show ?thesis by (auto simp: sameUpToServer_def withStatusOf_def)
qed

lemma updateCondition_written:
  assumes "wf (rs_kube s)" and "updateCondition env esc p s = (Ret (), s')"
  shows "\<exists>e. objs (rs_kube s') (objid (KESC esc)) = Some (KESC e) \<and> esc_Status e = esc_Status esc"
proof -
  from assms(2) have "updateStatus env esc s = (Ret (), s')"
    by (auto simp: updateCondition_def onErr_def Let_def split: prod.splits result.splits option.splits)
  from updateStatus_written [OF assms(1) this] show ?thesis .
qed

end

section \<open>Properties\<close>

text \<open>C13. What a failed reconciliation reports, for every kind of error and whether or not the status
  can be written: the conditions of the custom resource say Ready=False, Degraded=True exactly for
  irrecoverable and user configuration errors, both with the generation that was reconciled;
  conditions of other types stay. A requeue after the default time is asked for exactly when the
  error may go away by itself (recoverable, or a referenced object that is missing), and an error is
  returned only when writing the status fails.\<close>

theorem failure_reported:
  assumes "reconcileDeploymentFailureResult env e gen s = (r, s')"
  shows "(\<exists>d y. FindStatusCondition (st_Conditions (esc_Status (rs_ESC s'))) Degraded = Some d \<and>
       cond_Status d = (if IsIrrecoverableError (Some e) \<or> IsUserConfigurationError (Some e) then ''True'' else ''False'') \<and>
       FindStatusCondition (st_Conditions (esc_Status (rs_ESC s'))) Ready = Some y \<and> cond_Status y = ''False'' \<and>
       cond_ObservedGeneration d = gen \<and> cond_ObservedGeneration y = gen) \<and>
     (\<forall>t. t \<noteq> Degraded \<longrightarrow> t \<noteq> Ready \<longrightarrow>
       FindStatusCondition (st_Conditions (esc_Status (rs_ESC s'))) t = FindStatusCondition (st_Conditions (esc_Status (rs_ESC s))) t) \<and>
     (case r of
        Ret res \<Rightarrow> res_RequeueAfter res =
          (if IsIrrecoverableError (Some e) \<or> (IsUserConfigurationError (Some e) \<and> \<not> IsUserConfigurationNotFound (Some e)) then 0 else DefaultRequeueTime)
      | Err e' \<Rightarrow> \<exists>esc s1. updateCondition env esc (Some e) s1 = (Err e', s')
      | Panic p \<Rightarrow> \<exists>esc s1. updateCondition env esc (Some e) s1 = (Panic p, s'))"
proof -
  obtain d y where dy: "deploymentFailureConditions gen e = (d, y)" by force
  then have d: "cond_Type d = Degraded" "cond_ObservedGeneration d = gen"
      "cond_Status d = (if IsIrrecoverableError (Some e) \<or> IsUserConfigurationError (Some e) then ''True'' else ''False'')"
    and y: "cond_Type y = Ready" "cond_ObservedGeneration y = gen" "cond_Status y = ''False''"
    by (auto simp: deploymentFailureConditions_def Let_def split: if_splits)
  have ne: "cond_Type d \<noteq> cond_Type y" by (simp add: d y condition_names)
  from setConditions_run [OF ne, of s] obtain esc' changed where sc: "setConditions d y s = (Ret (esc', changed), s\<lparr>rs_ESC := esc'\<rparr>)"
    and f: "FindStatusCondition (st_Conditions (esc_Status esc')) Degraded = Some d"
      "FindStatusCondition (st_Conditions (esc_Status esc')) Ready = Some y"
      "\<forall>t. t \<noteq> Degraded \<longrightarrow> t \<noteq> Ready \<longrightarrow>
         FindStatusCondition (st_Conditions (esc_Status esc')) t = FindStatusCondition (st_Conditions (esc_Status (rs_ESC s))) t"
    unfolding d y by blast
  let ?u = "updateStatusConditionsOnFailure env d y e"
  have u: "?u s = (if \<not> changed then gret () else updateCondition env esc' (Some e)) (s\<lparr>rs_ESC := esc'\<rparr>)"
    by (simp add: updateStatusConditionsOnFailure_def andThen_def sc)
  obtain ro so where o1: "errorOf ?u s = (ro, so)" by force
  have so: "so = s' \<and> (\<forall>m. ro = Panic m \<longrightarrow> r = Panic m)"
    using assms o1 by (auto simp: reconcileDeploymentFailureResult_def Let_def dy andThen_def userConfigurationFailureResult_def
        split: result.splits if_splits option.splits)
  have mem: "rs_ESC s' = esc'"
    using o1 so u by (auto elim!: errorOf_cases split: if_splits dest!: updateCondition_ESC [OF sym])
  have run: "(case ro of Ret (Some e') \<Rightarrow> \<exists>s1. updateCondition env esc' (Some e) s1 = (Err e', s')
      | Panic p \<Rightarrow> \<exists>s1. updateCondition env esc' (Some e) s1 = (Panic p, s') | _ \<Rightarrow> True)"
    using o1 so u by (auto elim!: errorOf_cases split: if_splits)
  have noErr: "ro \<noteq> Err x" for x using o1 by (auto elim: errorOf_cases)
  have "case r of
        Ret res \<Rightarrow> res_RequeueAfter res =
          (if IsIrrecoverableError (Some e) \<or> (IsUserConfigurationError (Some e) \<and> \<not> IsUserConfigurationNotFound (Some e)) then 0 else DefaultRequeueTime)
      | Err e' \<Rightarrow> \<exists>esc s1. updateCondition env esc (Some e) s1 = (Err e', s')
      | Panic p \<Rightarrow> \<exists>esc s1. updateCondition env esc (Some e) s1 = (Panic p, s')"
    using assms o1 run noErr
    by (auto simp: reconcileDeploymentFailureResult_def Let_def dy andThen_def userConfigurationFailureResult_def zeroResult_def
        split: result.splits if_splits option.splits)
  with f d y mem show ?thesis by auto
qed

theorem failure_reported_witness:
  "\<exists>y s'. reconcileDeploymentFailureResult (sampleEnv\<lparr>e_Client := memClient (\<lambda>_. True)\<rparr>) (PlainErr ''boom'') 3 (sampleState\<lparr>rs_kube := snd (memCreate (KESC zeroESC) emptyServer)\<rparr>) =
       (Ret \<lparr>res_RequeueAfter = DefaultRequeueTime\<rparr>, s') \<and>
     FindStatusCondition (st_Conditions (esc_Status (rs_ESC s'))) Ready = Some y \<and> cond_Status y = ''False'' \<and> cond_ObservedGeneration y = 3"
proof -
  let ?run = "reconcileDeploymentFailureResult (sampleEnv\<lparr>e_Client := memClient (\<lambda>_. True)\<rparr>) (PlainErr ''boom'') 3 (sampleState\<lparr>rs_kube := snd (memCreate (KESC zeroESC) emptyServer)\<rparr>)"
  have 1: "?run = (Ret \<lparr>res_RequeueAfter = DefaultRequeueTime\<rparr>, snd ?run)" by code_simp
  from failure_reported [OF 1] show ?thesis using 1 by blast
qed

end
