(* ===== verification/Finalizers.thy ===== *)
theory Finalizers
  imports Frame
begin

section \<open>Finalizers: \<^verbatim>\<open>AddFinalizer\<close> and \<^verbatim>\<open>RemoveFinalizer\<close> of \<^verbatim>\<open>pkg/controller/common/utils.go\<close>\<close>

text \<open>
  Both take an object by pointer; the result is the object afterwards. \<^verbatim>\<open>controllerutil\<close> is
  controller-runtime's: it appends or removes a string of \<open>metadata.finalizers\<close> and reports whether
  it did.
\<close>

definition ContainsFinalizer :: "kobj \<Rightarrow> string \<Rightarrow> bool" where
  "ContainsFinalizer obj f = List.member (om_Finalizers (metaOf obj)) f"

definition controllerutilAdd :: "kobj \<Rightarrow> string \<Rightarrow> bool \<times> kobj" where
  "controllerutilAdd obj f =
     (if ContainsFinalizer obj f then (False, obj)
      else (True, mapMeta (\<lambda>m. m\<lparr>om_Finalizers := om_Finalizers m @ [f]\<rparr>) obj))"

definition controllerutilRemove :: "kobj \<Rightarrow> string \<Rightarrow> bool \<times> kobj" where
  "controllerutilRemove obj f =
     (ContainsFinalizer obj f, mapMeta (\<lambda>m. m\<lparr>om_Finalizers := filter (\<lambda>x. x \<noteq> f) (om_Finalizers m)\<rparr>) obj)"

definition AddFinalizer :: "'s client \<Rightarrow> kobj \<Rightarrow> string \<Rightarrow> (goerr, 's, kobj) prog" where
  "AddFinalizer c obj finalizer =
     (let key = objectKey obj; q = quoted (nsnameString key) in
      if ContainsFinalizer obj finalizer then gret obj
      else (case controllerutilAdd obj finalizer of
          (False, _) \<Rightarrow> gerr (PlainErr (''failed to create '' @ q @ '' object with finalizers added''))
        | (True, obj1) \<Rightarrow>
            andThen (onErr (UpdateWithRetry c obj1)
                (\<lambda>err. gerr (WrapErr (''failed to add finalizers on '' @ q @ '' with '') err '''')))
              (\<lambda>_. if kindOf obj = ''ExternalSecretsManager'' \<or> kindOf obj = ''ExternalSecretsConfig''
                 then onErr (cl_Get c (kindOf obj) key)
                   (\<lambda>err. gerr (WrapErr (''failed to fetch '' @ q @ '' after updating finalizers: '') err ''''))
                 else gerr (PlainErr (''adding finalizer to '' @ kindOf obj @ '' object not handled'')))))"

definition RemoveFinalizer :: "'s client \<Rightarrow> kobj \<Rightarrow> string \<Rightarrow> (goerr, 's, kobj) prog" where
  "RemoveFinalizer c obj finalizer =
     (let q = quoted (nsnameString (objectKey obj)) in
      if \<not> ContainsFinalizer obj finalizer then gret obj
      else (case controllerutilRemove obj finalizer of
          (False, _) \<Rightarrow> gerr (PlainErr (''failed to remove finalizers on '' @ q))
        | (True, obj1) \<Rightarrow> onErr (UpdateWithRetry c obj1)
            (\<lambda>err. gerr (WrapErr (''update failed to remove finalizers on '' @ q @ '': '') err ''''))))"

section \<open>Lemmas\<close>

lemma controllerutil_objid [simp]:
  "objid (mapMeta (\<lambda>m. m\<lparr>om_Finalizers := f m\<rparr>) obj) = objid obj"
  by (simp add: objid_def objectKey_def)

context api_client
begin

lemma AddFinalizer_cases:
  assumes "wf s" and "AddFinalizer c obj f s = (r, s')"
  shows "wf s' \<and> (\<forall>i. i \<noteq> objid obj \<longrightarrow> objs s' i = objs s i) \<and>
    (\<forall>o2. r = Ret o2 \<longrightarrow> (o2 = obj \<and> ContainsFinalizer obj f \<and> s' = s) \<or> (objid o2 = objid obj \<and> objs s' (objid obj) = Some o2)) \<and>
    (\<forall>o2. r = Ret o2 \<longrightarrow> \<not> ContainsFinalizer obj f \<longrightarrow>
       (\<exists>cur. objs s (objid obj) = Some cur \<and> (deleting cur \<longrightarrow> ContainsFinalizer cur f) \<and> ContainsFinalizer o2 f))"
proof (cases "ContainsFinalizer obj f")
  case True
  with assms show ?thesis by (auto simp: AddFinalizer_def Let_def)
next
  case False
  define obj1 where "obj1 = mapMeta (\<lambda>m. m\<lparr>om_Finalizers := om_Finalizers m @ [f]\<rparr>) obj"
  have id1: "objid obj1 = objid obj" by (simp add: obj1_def)
  have fin1: "om_Finalizers (metaOf obj1) = om_Finalizers (metaOf obj) @ [f]" by (simp add: obj1_def)
  obtain ru k where u: "UpdateWithRetry c obj1 s = (ru, k)" by force
  from UpdateWithRetry_cases [OF assms(1) u] show ?thesis
  proof (elim disjE exE conjE)
    fix o2 cur
    assume h: "ru = Ret o2" "objs s (objid obj1) = Some cur" "acceptedUpdate cur obj1 o2"
      "objs k = (objs s)(objid obj1 := afterUpdate cur obj1 o2)" "wf k"
    have stored: "objs k (objid obj) = Some o2" using h(4) id1 fin1 by (simp add: afterUpdate_def)
    have fin2: "om_Finalizers (metaOf o2) = om_Finalizers (metaOf obj1)"
      using h(3) by (auto simp: acceptedUpdate_def sameUpToServer_def)
    have other: "\<forall>i. i \<noteq> objid obj \<longrightarrow> objs k i = objs s i" using h(4) id1 by simp
    have last: "(if kindOf obj = ''ExternalSecretsManager'' \<or> kindOf obj = ''ExternalSecretsConfig''
        then onErr (cl_Get c (kindOf obj) (objectKey obj))
          (\<lambda>err. gerr (WrapErr (''failed to fetch '' @ quoted (nsnameString (objectKey obj)) @ '' after updating finalizers: '') err ''''))
        else gerr (PlainErr (''adding finalizer to '' @ kindOf obj @ '' object not handled''))) k = (r, s')"
      using assms(2) False u h(1)
      by (simp add: AddFinalizer_def Let_def controllerutilAdd_def obj1_def [symmetric] andThen_def onErr_def)
    obtain rg kg where g: "cl_Get c (kindOf obj) (objectKey obj) k = (rg, kg)" by force
    have keep: "objs kg = objs k \<and> wf kg"
      using g get_Ret [OF h(5)] get_Err [OF h(5)] get_noPanic by (cases rg) blast+
    have got: "rg = Ret o3 \<Longrightarrow> o3 = o2" for o3
      using g get_Ret [OF h(5), of "kindOf obj" "objectKey obj" o3 kg] stored by (simp add: objid_def)
    have id2: "objid o2 = objid obj" using h(3) id1 sameUpToServer_objid by (fastforce simp: acceptedUpdate_def)
    have out: "(r = rg \<or> (\<exists>x. r = Err x)) \<and> (s' = kg \<or> s' = k)"
      using last g by (auto simp: onErr_def split: if_splits result.splits)
    have "ContainsFinalizer o2 f" using fin1 fin2 by (simp add: ContainsFinalizer_def)
    moreover have "deleting cur \<longrightarrow> ContainsFinalizer cur f"
      using h(3) fin1 by (auto simp: acceptedUpdate_def ContainsFinalizer_def)
    ultimately show ?thesis
      using out keep got stored other h(2,5) id1 id2 False by auto
  next
    fix e assume "ru = Err e" "objs k = objs s" "wf k"
    with assms(2) False u show ?thesis
      by (auto simp: AddFinalizer_def Let_def controllerutilAdd_def obj1_def [symmetric] andThen_def onErr_def)
  qed
qed

lemma RemoveFinalizer_cases:
  assumes "wf s" and "RemoveFinalizer c obj f s = (r, s')"
  shows "wf s' \<and> (\<forall>i. i \<noteq> objid obj \<longrightarrow> objs s' i = objs s i) \<and>
    (\<forall>o2. r = Ret o2 \<longrightarrow> objid o2 = objid obj \<and> \<not> ContainsFinalizer o2 f) \<and>
    (\<forall>o2. r = Ret o2 \<longrightarrow> ContainsFinalizer obj f \<longrightarrow>
       (\<exists>cur. objs s (objid obj) = Some cur \<and> om_DeletionTimestamp (metaOf o2) = om_DeletionTimestamp (metaOf cur) \<and>
          objs s' (objid obj) = (if deleting cur \<and> om_Finalizers (metaOf o2) = [] then None else Some o2)))"
proof (cases "ContainsFinalizer obj f")
  case False
  with assms show ?thesis by (auto simp: RemoveFinalizer_def Let_def)
next
  case True
  define obj1 where "obj1 = mapMeta (\<lambda>m. m\<lparr>om_Finalizers := filter (\<lambda>x. x \<noteq> f) (om_Finalizers m)\<rparr>) obj"
  have id1: "objid obj1 = objid obj" by (simp add: obj1_def)
  obtain ru k where u: "UpdateWithRetry c obj1 s = (ru, k)" by force
  have run: "r = (case ru of Err e \<Rightarrow> Err (WrapErr (''update failed to remove finalizers on '' @ quoted (nsnameString (objectKey obj)) @ '': '') e '''')
      | _ \<Rightarrow> ru)" "s' = k"
    using assms(2) True u
    by (auto simp: RemoveFinalizer_def Let_def controllerutilRemove_def obj1_def [symmetric] onErr_def split: result.splits)
  from UpdateWithRetry_cases [OF assms(1) u] show ?thesis
  proof (elim disjE exE conjE)
    fix o2 cur
    assume h: "ru = Ret o2" "objs s (objid obj1) = Some cur" "acceptedUpdate cur obj1 o2"
      "objs k = (objs s)(objid obj1 := afterUpdate cur obj1 o2)" "wf k"
    have fin2: "om_Finalizers (metaOf o2) = filter (\<lambda>x. x \<noteq> f) (om_Finalizers (metaOf obj))"
      using h(3) by (auto simp: acceptedUpdate_def sameUpToServer_def obj1_def)
    have "objid o2 = objid obj" using h(3) id1 sameUpToServer_objid by (fastforce simp: acceptedUpdate_def)
    with h run id1 fin2 show ?thesis
      by (auto simp: acceptedUpdate_def afterUpdate_def ContainsFinalizer_def obj1_def)
  next
    fix e assume "ru = Err e" "objs k = objs s" "wf k"
    with run show ?thesis by auto
  qed
qed

lemma finalizers_noPanic:
  assumes "wf s"
  shows "AddFinalizer c obj f s \<noteq> (Panic p, s')" "RemoveFinalizer c obj f s \<noteq> (Panic p, s')"
proof -
  have u: "UpdateWithRetry c o1 s \<noteq> (Panic q, t)" for o1 q t using UpdateWithRetry_cases [OF assms] by blast
  show "RemoveFinalizer c obj f s \<noteq> (Panic p, s')"
    by (auto simp: RemoveFinalizer_def controllerutilRemove_def Let_def onErr_def u split: prod.splits result.splits if_splits)
  show "AddFinalizer c obj f s \<noteq> (Panic p, s')"
    by (auto simp: AddFinalizer_def controllerutilAdd_def Let_def onErr_def andThen_def u get_noPanic split: prod.splits result.splits if_splits)
qed

text \<open>Once removed from an object that is being deleted, a finalizer cannot be added again.\<close>

lemma removed_finalizer_stays:
  assumes "wf s" and "objs s (objid obj) = Some obj" and "deleting obj"
    and "RemoveFinalizer c obj f s = (Ret o2, s1)" and "AddFinalizer c o2 f s1 = (r, s2)"
  shows "\<exists>e. r = Err e"
proof -
  from RemoveFinalizer_cases [OF assms(1,4)] have 1: "wf s1" "objid o2 = objid obj" "\<not> ContainsFinalizer o2 f" by blast+
  have "\<exists>cur. objs s1 (objid o2) = Some cur \<Longrightarrow> \<exists>cur. objs s1 (objid o2) = Some cur \<and> deleting cur \<and> \<not> ContainsFinalizer cur f"
  proof (cases "ContainsFinalizer obj f")
    case True
    assume "\<exists>cur. objs s1 (objid o2) = Some cur"
    with True RemoveFinalizer_cases [OF assms(1,4)] assms(2,3) 1 show ?thesis by (auto simp: deleting_def split: if_splits)
  next
    case False
    with assms(4) have "o2 = obj" "s1 = s" by (auto simp: RemoveFinalizer_def Let_def)
    with assms(2,3) False show ?thesis by blast
  qed
  with AddFinalizer_cases [OF 1(1) assms(5)] 1(3) have "r \<noteq> Ret o3" for o3 by force
  moreover have "r \<noteq> Panic p" for p using finalizers_noPanic(1) [OF 1(1)] assms(5) by blast
  ultimately show ?thesis by (cases r) auto
qed

end

end
