(* ===== verification/Controller.thy ===== *)
theory Controller
  imports Install Status_Conditions Finalizers
begin

section \<open>The reconcile loop: \<^verbatim>\<open>pkg/controller/external_secrets/controller.go\<close>\<close>

text \<open>
  \<^verbatim>\<open>Reconcile\<close> from the fetch of the custom resource to the reported status, the handling of a
  deletion, the cache configuration, the filters and mappings of the watches, and the check for
  optional resources. The custom resource is \<open>rs_ESC\<close>, the manager's resource \<open>rs_esm\<close>.
\<close>

definition ControllerName :: string where "ControllerName = externalsecretsCommonName @ ''-controller''"
definition finalizer :: string where "finalizer = ''externalsecretsconfigs.operator.openshift.io/'' @ ControllerName"
definition ExternalSecretsConfigObjectName :: string where "ExternalSecretsConfigObjectName = ''cluster''"
definition ExternalSecretsManagerObjectName :: string where "ExternalSecretsManagerObjectName = ''cluster''"
definition certificateCRDGroupVersion :: string where "certificateCRDGroupVersion = ''cert-manager.io/v1''"
definition certificateCRDName :: string where "certificateCRDName = ''certificates''"

subsection \<open>Reconciling\<close>

text \<open>The typed destination of a fetch.\<close>

definition escOf :: "kobj \<Rightarrow> ExternalSecretsConfig" where
  "escOf obj = (case obj of KESC e \<Rightarrow> e | _ \<Rightarrow> zeroESC)"

definition esmOf :: "kobj \<Rightarrow> ExternalSecretsManager" where
  "esmOf obj = (case obj of KESM e \<Rightarrow> e | _ \<Rightarrow> zeroESM)"

definition setESM :: "ExternalSecretsManager \<Rightarrow> ('s, unit) recon" where
  "setESM esm = (\<lambda>s. (Ret (), s\<lparr>rs_esm := esm\<rparr>))"

text \<open>Whether to requeue: never, when it returns.\<close>

definition cleanUp :: "'s env \<Rightarrow> ('s, bool) recon" where
  "cleanUp env = withESC (\<lambda>esc.
     andThen (Eventf ''Warning'' ''RemoveDeployment'' (om_Namespace (esc_Meta esc) @ ''/'' @ om_Name (esc_Meta esc) @
        '' externalsecretsconfigs.operator.openshift.io marked for deletion, remove reference in deployment and remove all resources created for deployment'')) (\<lambda>_.
     andThen (onKube (RemoveFinalizer (e_Client env) (KESC esc) finalizer)) (\<lambda>obj.
     andThen (setESC (escOf obj)) (\<lambda>_. gret False))))"

definition zeroStatus :: ExternalSecretsConfigStatus where
  "zeroStatus = \<lparr>st_Conditions = [], st_ExternalSecretsImage = '''', st_BitwardenSDKServerImage = ''''\<rparr>"

definition processReconcileRequest :: "'s env \<Rightarrow> ('s, ctrlResult) recon" where
  "processReconcileRequest env = withESC (\<lambda>esc.
     let createRecon = (\<not> containsProcessedAnnotation esc \<and> esc_Status esc = zeroStatus);
         observedGeneration = om_Generation (esc_Meta esc) in
     (\<lambda>s. case reconcileExternalSecretsDeployment env createRecon s of
        (Ret _, s1) \<Rightarrow> reconcileDeploymentSuccessResult env observedGeneration s1
      | (Panic p, s1) \<Rightarrow> (Panic p, s1)
      | (Err err, s1) \<Rightarrow> reconcileDeploymentFailureResult env err observedGeneration s1))"

definition fetchESM :: "'s env \<Rightarrow> ('s, unit) recon" where
  "fetchESM env =
     (let key = ('''', ExternalSecretsManagerObjectName) in
      (\<lambda>s. case onKube (cl_Get (e_Client env) ''ExternalSecretsManager'' key) s of
         (Ret obj, s1) \<Rightarrow> setESM (esmOf obj) s1
       | (Panic p, s1) \<Rightarrow> (Panic p, s1)
       | (Err err, s1) \<Rightarrow> if IsNotFound err then setESM zeroESM s1
           else gerr (WrapErr (''failed to fetch externalsecretsmanagers.operator.openshift.io '' @ quoted (nsnameString key) @ '' during reconciliation: '') err '''') s1))"

definition Reconcile :: "'s env \<Rightarrow> nsname \<Rightarrow> ('s, ctrlResult) recon" where
  "Reconcile env req =
     (let q = quoted (nsnameString req) in
      (\<lambda>s. case onKube (cl_Get (e_Client env) ''ExternalSecretsConfig'' req) s of
         (Panic p, s1) \<Rightarrow> (Panic p, s1)
       | (Err err, s1) \<Rightarrow> if IsNotFound err then gret zeroResult s1
           else gerr (WrapErr (''failed to fetch externalsecretsconfigs.operator.openshift.io '' @ q @ '' during reconciliation: '') err '''') s1
       | (Ret obj, s1) \<Rightarrow>
           andThen (setESC (escOf obj)) (\<lambda>_.
           andThen (if deleting (KESC (escOf obj))
                    then onErr (cleanUp env) (\<lambda>err. gerr (WrapErr (''clean up failed for '' @ q @ '' externalsecretsconfigs.operator.openshift.io instance deletion: '') err ''''))
                    else gret False) (\<lambda>requeue.
           if requeue then gret \<lparr>res_RequeueAfter = DefaultRequeueTime\<rparr>
           else withESC (\<lambda>esc.
             andThen (onErr (onKube (AddFinalizer (e_Client env) (KESC esc) finalizer))
                 (\<lambda>err. gerr (WrapErr (''failed to update '' @ q @ '' externalsecretsconfigs.operator.openshift.io with finalizers: '') err ''''))) (\<lambda>obj'.
             andThen (setESC (escOf obj')) (\<lambda>_.
             andThen (fetchESM env) (\<lambda>_.
             processReconcileRequest env)))))) s1))"

subsection \<open>The cache\<close>

definition controllerManagedResources :: "string list" where
  "controllerManagedResources = [''ClusterRole'', ''ClusterRoleBinding'', ''Deployment'', ''NetworkPolicy'', ''Role'', ''RoleBinding'',
     ''Secret'', ''Service'', ''ServiceAccount'', ''ValidatingWebhookConfiguration'']"

text \<open>How the cache selects the objects of a type; a type that is not listed is cached as a whole.\<close>

datatype cacheSelector = ByLabel string string | ByNamespace string | Unrestricted

definition buildCacheObjectList :: "bool \<Rightarrow> (string \<times> cacheSelector) list" where
  "buildCacheObjectList includeCertManager =
     map (\<lambda>res. (res, ByLabel ManagedResourceLabelKey ManagedResourceLabelValue)) controllerManagedResources @
     [(''ConfigMap'', ByNamespace OperandDefaultNamespace),
      (''ExternalSecretsConfig'', Unrestricted), (''ExternalSecretsManager'', Unrestricted), (''APIServer'', Unrestricted)] @
     (if includeCertManager then [(''Certificate'', ByLabel ManagedResourceLabelKey ManagedResourceLabelValue)] else [])"

fun selects :: "cacheSelector \<Rightarrow> kobj \<Rightarrow> bool" where
  "selects (ByLabel k v) o1 = (glookup (om_Labels (metaOf o1)) k = Some v)"
| "selects (ByNamespace ns) o1 = (om_Namespace (metaOf o1) = ns)"
| "selects Unrestricted o1 = True"

text \<open>What a read through the cache can see.\<close>

definition cacheVisible :: "bool \<Rightarrow> kobj \<Rightarrow> bool" where
  "cacheVisible includeCertManager o1 =
     (case map_of (buildCacheObjectList includeCertManager) (kindOf o1) of None \<Rightarrow> True | Some sel \<Rightarrow> selects sel o1)"

subsection \<open>Optional resources\<close>

text \<open>
  Discovery answers with lists of a group version and its resources, and may answer with a part of
  them and an error.
\<close>

definition isCRDInstalled :: "goerr option \<Rightarrow> (string \<times> string list) list \<times> goerr option \<Rightarrow> string \<Rightarrow> string \<Rightarrow> goerr + bool" where
  "isCRDInstalled clientErr discovered name groupVersion =
     (case clientErr of
        Some err \<Rightarrow> Inl (WrapErr ''failed to create discovery client: '' err '''')
      | None \<Rightarrow>
          (case discovered of
             ([], Some err) \<Rightarrow> Inl (WrapErr ''failed to discover resources list: '' err '''')
           | (resources, _) \<Rightarrow> Inr (list_ex (\<lambda>(gv, names). gv = groupVersion \<and> List.member names name) resources)))"

text \<open>The optional resources afterwards, and whether the certificates' definition is there.\<close>

definition checkAndRegisterCertificates :: "goerr option \<Rightarrow> (string \<times> string list) list \<times> goerr option \<Rightarrow> goerr option \<Rightarrow>
    string list \<Rightarrow> (goerr + bool) \<times> string list" where
  "checkAndRegisterCertificates clientErr discovered informerErr optionalResources =
     (case isCRDInstalled clientErr discovered certificateCRDName certificateCRDGroupVersion of
        Inl err \<Rightarrow> (Inl (WrapErr (''failed to check '' @ certificateCRDGroupVersion @ ''/'' @ certificateCRDName @ '' CRD is installed: '') err ''''), optionalResources)
      | Inr False \<Rightarrow> (Inr False, optionalResources)
      | Inr True \<Rightarrow>
          (let optionalResources' = List.insert certificateCRDGKV optionalResources in
           case informerErr of
             Some err \<Rightarrow> (Inl (WrapErr ''failed to add Certificate informer: '' err ''''), optionalResources')
           | None \<Rightarrow> (Inr True, optionalResources')))"

subsection \<open>Watches\<close>

definition escRequest :: nsname where "escRequest = ('''', ExternalSecretsConfigObjectName)"

definition mapFunc :: "kobj \<Rightarrow> nsname list" where
  "mapFunc obj =
     (let objLabels = om_Labels (metaOf obj) in
      if \<not> isNil objLabels \<and> hasManagedOrWatchLabel objLabels then [escRequest] else [])"

definition managerMapFunc :: "kobj \<Rightarrow> nsname list" where
  "managerMapFunc obj = (case obj of KESM _ \<Rightarrow> [escRequest] | _ \<Rightarrow> [])"

text \<open>\<open>maps.Equal\<close>: nil and empty maps are equal.\<close>

definition mapsEqual :: "strmap \<Rightarrow> strmap \<Rightarrow> bool" where
  "mapsEqual a b = geq (makeIfNil a) (makeIfNil b)"

lemma mapsEqual_iff: "mapsEqual a b \<longleftrightarrow> glookup a = glookup b"
  by (cases a; cases b) (auto simp: mapsEqual_def geq_iff makeIfNil_def fun_eq_iff)

text \<open>
  controller-runtime's predicates on an update (on the other events they are true): the generation,
  the labels or the resource version changed.
\<close>

fun GenerationChangedPredicate :: "watchevent \<Rightarrow> bool" where
  "GenerationChangedPredicate (UpdateEvent (Some a) (Some b)) = (om_Generation (metaOf a) \<noteq> om_Generation (metaOf b))"
| "GenerationChangedPredicate (UpdateEvent _ _) = False"
| "GenerationChangedPredicate _ = True"

fun LabelChangedPredicate :: "watchevent \<Rightarrow> bool" where
  "LabelChangedPredicate (UpdateEvent (Some a) (Some b)) = (\<not> mapsEqual (om_Labels (metaOf b)) (om_Labels (metaOf a)))"
| "LabelChangedPredicate (UpdateEvent _ _) = False"
| "LabelChangedPredicate _ = True"

fun ResourceVersionChangedPredicate :: "watchevent \<Rightarrow> bool" where
  "ResourceVersionChangedPredicate (UpdateEvent (Some a) (Some b)) = (om_ResourceVersion (metaOf a) \<noteq> om_ResourceVersion (metaOf b))"
| "ResourceVersionChangedPredicate (UpdateEvent _ _) = False"
| "ResourceVersionChangedPredicate _ = True"

text \<open>
  The filters of the switch over \<^verbatim>\<open>controllerManagedResources\<close>. The elements are pointers and the
  cases take the address of a fresh literal; two pointers are equal when they are the same address,
  so each element is an address, given by its position, and a fresh literal has an address of its own.
\<close>

datatype goptr = Element nat | Fresh string

definition resourceFilter :: "goptr \<Rightarrow> watchevent \<Rightarrow> bool" where
  "resourceFilter res e =
     (if res = Fresh ''Deployment'' then (GenerationChangedPredicate e \<or> LabelChangedPredicate e) \<and> labelMatchPredicate isManagedResource e
      else if res = Fresh ''Secret'' then LabelChangedPredicate e
      else labelMatchPredicate isManagedResource e)"

text \<open>Which events of a type reach the queue.\<close>

definition enqueues :: "'s env \<Rightarrow> string \<Rightarrow> watchevent \<Rightarrow> bool" where
  "enqueues env kind e =
     (if kind = ''ConfigMap'' then ResourceVersionChangedPredicate e \<and> labelMatchPredicate isManagedOrWatchedResource e
      else if kind = ''ExternalSecretsManager'' \<or> kind = ''ExternalSecretsConfig'' then GenerationChangedPredicate e
      else if kind = ''Certificate'' then List.member (e_OptionalResources env) certificateCRDGKV \<and> labelMatchPredicate isManagedResource e
      else list_ex (\<lambda>(i, k). k = kind \<and> resourceFilter (Element i) e) (enumerate 0 controllerManagedResources))"

text \<open>The objects of an event; the handler maps each of them.\<close>

fun eventObjects :: "watchevent \<Rightarrow> kobj option list" where
  "eventObjects (CreateEvent o1) = [o1]"
| "eventObjects (UpdateEvent old new) = [old, new]"
| "eventObjects (DeleteEvent o1) = [o1]"
| "eventObjects (GenericEvent o1) = [o1]"

section \<open>Lemmas\<close>

lemma objid_KESC [simp]: "objid (KESC esc) = (''ExternalSecretsConfig'', om_Namespace (esc_Meta esc), om_Name (esc_Meta esc))"
  by (simp add: objid_def objectKey_def)

lemma escOf_KESC [simp]: "objid o1 = (''ExternalSecretsConfig'', n) \<Longrightarrow> KESC (escOf o1) = o1"
  by (cases o1) (simp_all add: objid_def escOf_def)

context operator_env
begin

lemma scope_single:
  assumes "operandScope env j" and "\<And>k r k'. wf k \<Longrightarrow> m k = (r, k') \<Longrightarrow> wf k' \<and> (\<forall>i. i \<noteq> j \<longrightarrow> objs k' i = objs k i)"
  shows "inScope (onKube m)"
proof (rule fr.frame_write [where A = "operandScope env" and j = j, OF assms(1)])
  fix k r k' assume "wf k" and "m k = (r, k')"
  from assms(2) [OF this] have 1: "wf k'" "\<forall>i. i \<noteq> j \<longrightarrow> objs k' i = objs k i" by blast+
  from 1(2) have "objs k' = (objs k)(j := objs k' j)" by (auto simp: fun_eq_iff simp del: split_paired_All)
  with 1(1) show "(objs k' = objs k \<or> (\<exists>x. objs k' = (objs k)(j := x))) \<and> wf k'" by blast
qed

lemma scope_finalizers [intro!]:
  "inScope (onKube (AddFinalizer (e_Client env) (KESC esc) f))" "inScope (onKube (RemoveFinalizer (e_Client env) (KESC esc) f))"
proof -
  have A: "operandScope env (objid (KESC esc))" by simp
  show "inScope (onKube (AddFinalizer (e_Client env) (KESC esc) f))"
    by (rule scope_single [OF A]) (drule (1) cached.AddFinalizer_cases, blast)
  show "inScope (onKube (RemoveFinalizer (e_Client env) (KESC esc) f))"
    by (rule scope_single [OF A]) (drule (1) cached.RemoveFinalizer_cases, blast)
qed

lemma scope_conditions [intro!]: "inScope (updateCondition env esc e)" "inScope (setConditions d y)" "inScope (setESM esm)"
proof -
  show "inScope (updateCondition env esc e)" unfolding updateCondition_def Let_def by (auto split: option.splits)
  show "inScope (setConditions d y)" unfolding setConditions_def Let_def by (auto split: prod.splits)
  show "inScope (setESM esm)" by (rule keepsI, rule framed_same) (simp_all add: setESM_def)
qed

lemma scope_results [intro!]:
  "inScope (reconcileDeploymentFailureResult env err gen)" "inScope (reconcileDeploymentSuccessResult env gen)"
proof -
  have now: "inScope (\<lambda>s. (Ret (), s\<lparr>rs_now := False\<rparr>))" by (rule keepsI, rule framed_same) simp_all
  show "inScope (reconcileDeploymentFailureResult env err gen)"
    unfolding reconcileDeploymentFailureResult_def updateStatusConditionsOnFailure_def errorOf_def Let_def
    by (auto split: prod.splits option.splits)
  show "inScope (reconcileDeploymentSuccessResult env gen)"
    unfolding reconcileDeploymentSuccessResult_def Let_def by (auto intro!: now split: prod.splits)
qed

lemma scope_reconcile:
  assumes "patchKeepsIdentity env"
  shows "inScope (Reconcile env req)"
proof -
  have clean: "inScope (cleanUp env)" unfolding cleanUp_def by (auto intro!: fr.frame_withESC)
  have process: "inScope (processReconcileRequest env)"
    unfolding processReconcileRequest_def Let_def
    by (intro fr.frame_withESC fr.frame_case_result scope_install [OF assms] scope_results)
  have esm: "inScope (fetchESM env)"
    unfolding fetchESM_def Let_def by (rule fr.frame_case_result) auto
  show ?thesis
    unfolding Reconcile_def Let_def
    by (rule fr.frame_case_result)
       (auto intro!: clean process esm fr.frame_andThen fr.frame_withESC)
qed

end

subsection \<open>Writing conditions\<close>

text \<open>Both results of a pass set the two conditions and, when one changed, write the status.\<close>

definition settles :: "'s env \<Rightarrow> condition \<Rightarrow> condition \<Rightarrow> goerr option \<Rightarrow> 's rstate \<Rightarrow> 's rstate \<Rightarrow> bool" where
  "settles env d y p s s' \<longleftrightarrow> (\<exists>esc' changed t. setConditions d y t = (Ret (esc', changed), t\<lparr>rs_ESC := esc'\<rparr>) \<and>
     rs_ESC t = rs_ESC s \<and> rs_kube t = rs_kube s \<and>
     (if changed then updateCondition env esc' p (t\<lparr>rs_ESC := esc'\<rparr>) = (Ret (), s') else s' = t\<lparr>rs_ESC := esc'\<rparr>))"

lemma settles_success:
  assumes "reconcileDeploymentSuccessResult env g s = (Ret res, s')"
  shows "\<exists>d y p. cond_Type d = Degraded \<and> cond_Type y = Ready \<and> cond_Status y = ''True'' \<and> cond_ObservedGeneration y = g \<and> settles env d y p s s'"
proof -
  let ?d = "\<lparr>cond_Type = Degraded, cond_Status = ''False'', cond_Reason = ReasonReady, cond_Message = '''', cond_ObservedGeneration = g\<rparr>"
  let ?y = "\<lparr>cond_Type = Ready, cond_Status = ''True'', cond_Reason = ReasonReady, cond_Message = ''reconciliation successful'', cond_ObservedGeneration = g\<rparr>"
  let ?t = "s\<lparr>rs_now := False\<rparr>"
  from setConditions_run [of ?d ?y ?t] obtain esc' changed where sc: "setConditions ?d ?y ?t = (Ret (esc', changed), ?t\<lparr>rs_ESC := esc'\<rparr>)"
    by (auto simp: condition_names)
  have "settles env ?d ?y None s s'"
    unfolding settles_def using assms sc
    by (intro exI [of _ esc'] exI [of _ changed] exI [of _ ?t])
       (auto simp: reconcileDeploymentSuccessResult_def andThen_def Let_def split: result.splits prod.splits)
  then show ?thesis by (intro exI [of _ ?d] exI [of _ ?y] exI [of _ None]) simp
qed

lemma settles_failure:
  assumes "reconcileDeploymentFailureResult env e g s = (Ret res, s')"
  shows "\<exists>d y p. cond_Type d = Degraded \<and> cond_Type y = Ready \<and> cond_Status y \<noteq> ''True'' \<and> cond_ObservedGeneration y = g \<and> settles env d y p s s'"
proof -
  obtain d y where dy: "deploymentFailureConditions g e = (d, y)" by force
  then have c: "cond_Type d = Degraded" "cond_Type y = Ready" "cond_ObservedGeneration y = g" "cond_Status y \<noteq> ''True''"
    by (auto simp: deploymentFailureConditions_def Let_def split: if_splits)
  from setConditions_run [of d y s] c obtain esc' changed where sc: "setConditions d y s = (Ret (esc', changed), s\<lparr>rs_ESC := esc'\<rparr>)"
    by (auto simp: condition_names)
  obtain ro so where eo: "errorOf (updateStatusConditionsOnFailure env d y e) s = (ro, so)" by force
  have "ro = Ret None \<and> so = s'"
    using assms eo dy by (auto simp: reconcileDeploymentFailureResult_def andThen_def Let_def userConfigurationFailureResult_def
        split: result.splits if_splits option.splits)
  with eo have "updateStatusConditionsOnFailure env d y e s = (Ret (), s')" by (auto elim: errorOf_cases)
  with sc have "settles env d y (Some e) s s'"
    unfolding settles_def by (intro exI [of _ esc'] exI [of _ changed] exI [of _ s])
      (simp add: updateStatusConditionsOnFailure_def andThen_def split: if_splits)
  with c show ?thesis by blast
qed

lemma settles_Ready:
  assumes "operator_env env objs ok" and "ok (rs_kube s)" and "settles env d y p s s'" and "cond_Type d = Degraded" and "cond_Type y = Ready"
  shows "FindStatusCondition (st_Conditions (esc_Status (rs_ESC s'))) Ready = Some y \<and>
    (FindStatusCondition (st_Conditions (esc_Status (rs_ESC s))) Ready = Some y \<or>
     (\<exists>e. objs (rs_kube s') (objid (KESC (rs_ESC s'))) = Some (KESC e) \<and> esc_Status e = esc_Status (rs_ESC s')))"
proof -
  from assms(3) obtain esc' changed t where sc: "setConditions d y t = (Ret (esc', changed), t\<lparr>rs_ESC := esc'\<rparr>)"
    and t: "rs_ESC t = rs_ESC s" "rs_kube t = rs_kube s"
    and w: "if changed then updateCondition env esc' p (t\<lparr>rs_ESC := esc'\<rparr>) = (Ret (), s') else s' = t\<lparr>rs_ESC := esc'\<rparr>"
    unfolding settles_def by blast
  have ne: "cond_Type d \<noteq> cond_Type y" using assms(4,5) by (simp add: condition_names)
  from setConditions_run [OF ne, of t] sc assms(4,5) t have f: "FindStatusCondition (st_Conditions (esc_Status esc')) Ready = Some y"
    "\<not> changed \<Longrightarrow> FindStatusCondition (st_Conditions (esc_Status (rs_ESC s))) Ready = Some y" by auto
  show ?thesis
  proof (cases changed)
    case True
    then have u: "updateCondition env esc' p (t\<lparr>rs_ESC := esc'\<rparr>) = (Ret (), s')" using w by simp
    from updateCondition_ESC [OF u] have "rs_ESC s' = esc'" by simp
    with operator_env.updateCondition_written [OF assms(1) _ u] assms(2) t f(1) show ?thesis by simp
  next
    case False
    with w f show ?thesis by simp
  qed
qed

section \<open>Properties\<close>

text \<open>C1. A reconciliation stays inside the operand. Whatever the configuration, the content of the
  cluster and the failures of API calls, and however the reconciliation ends, it creates, deletes or
  changes nothing but the operand's namespace object, the custom resource, the network policies in
  the operand's namespace, the proxy's trust bundle and the objects named by the bundled manifests
  (in the operand's namespace, or cluster-wide for roles, bindings and webhooks); any other object
  at most gets its metadata patched (the watch label of a referenced ConfigMap). Advanced overrides
  cannot move a deployment elsewhere, since validation keeps \<open>metadata\<close> out of the merge patch.\<close>

theorem reconcile_confined:
  assumes "operator_env env objs ok" and "ok (rs_kube s)" and "patchKeepsIdentity env"
    and "Reconcile env req s = (r, s')" and "\<not> operandScope env i"
  shows "(objs (rs_kube s) i = None \<longrightarrow> objs (rs_kube s') i = None) \<and>
    (\<forall>o1. objs (rs_kube s) i = Some o1 \<longrightarrow> (\<exists>o2. objs (rs_kube s') i = Some o2 \<and> payload o2 = payload o1))"
proof -
  have "operator_env.framed objs ok (operandScope env) s s'"
    using keepsD [OF operator_env.scope_reconcile [OF assms(1,3)] assms(4)] .
  from operator_env.framedD [OF assms(1) this assms(2)] assms(5) show ?thesis by blast
qed

text \<open>An environment whose serialisation of a deployment is its key, and an empty patch.\<close>

definition encodeKey :: "nsname \<Rightarrow> string" where
  "encodeKey k = concat (map (\<lambda>c. [CHR ''x'', c]) (fst k)) @ CHR ''.'' # snd k"

fun decodeKey :: "string \<Rightarrow> nsname" where
  "decodeKey (a # b # r) = (if a = CHR ''x'' then (b # fst (decodeKey r), snd (decodeKey r)) else ([], b # r))"
| "decodeKey _ = ([], [])"

lemma decodeKey_encodeKey [simp]: "decodeKey (encodeKey (ns, n)) = (ns, n)"
proof (induction ns)
  case Nil
  then show ?case by (cases n) (simp_all add: encodeKey_def)
qed (simp add: encodeKey_def)

definition keyedDecode :: "string \<Rightarrow> kobj option" where
  "keyedDecode bytes =
     (let file = last (splitChar (CHR ''/'') bytes); kind = takeWhile (\<lambda>c. c \<noteq> CHR ''_'') file;
          meta = zeroMeta\<lparr>om_Name := takeWhile (\<lambda>c. c \<noteq> CHR ''.'') (drop (Suc (length kind)) file)\<rparr>;
          binding = \<lparr>rb_Meta = meta, rb_RoleRef = \<lparr>rref_APIGroup = '''', rref_Kind = '''', rref_Name = ''''\<rparr>, rb_Subjects = None\<rparr> in
      if kind = ''clusterrolebinding'' then Some (KClusterRoleBinding binding)
      else if kind = ''rolebinding'' then Some (KRoleBinding binding)
      else if kind = ''validatingwebhookconfiguration'' then Some (KWebhookConfig \<lparr>whc_Meta = meta, whc_Webhooks = []\<rparr>)
      else if kind = ''namespace'' then Some (KNamespace meta)
      else policyDecode bytes)"

definition keyedEnv :: "memserver env" where
  "keyedEnv = sampleEnv\<lparr>e_Client := memClient (cacheVisible True), e_Decode := keyedDecode,
     e_MarshalDeployment := (\<lambda>d. Inr (encodeKey (depKey d))), e_StrategicMergePatch := (\<lambda>o1 p. Inr o1),
     e_UnmarshalDeployment := (\<lambda>bytes d. Inr (d\<lparr>d_Meta := (d_Meta d)\<lparr>om_Namespace := fst (decodeKey bytes), om_Name := snd (decodeKey bytes)\<rparr>\<rparr>))\<rparr>"

lemma keyedEnv_ok: "operator_env keyedEnv memLookup memWf" "patchKeepsIdentity keyedEnv"
proof -
  show "operator_env keyedEnv memLookup memWf"
    unfolding operator_env_def keyedEnv_def sampleEnv_def using mem.api_client_axioms by auto
  show "patchKeepsIdentity keyedEnv"
    unfolding patchKeepsIdentity_def
    by (simp add: keyedEnv_def sampleEnv_def strategicMergePatchDeployment_def unmarshalMap_def)
qed

definition clusterESC :: ExternalSecretsConfig where
  "clusterESC = zeroESC\<lparr>esc_Meta := zeroMeta\<lparr>om_Name := ''cluster''\<rparr>\<rparr>"

definition foreignDeployment :: kobj where
  "foreignDeployment = KDeployment (zeroDeployment\<lparr>d_Meta := zeroMeta\<lparr>om_Namespace := ''kube-system'', om_Name := ''external-secrets''\<rparr>\<rparr>)"

definition managed :: "kobj \<Rightarrow> kobj" where
  "managed = mapMeta (\<lambda>m. m\<lparr>om_Labels := GoMap [(ManagedResourceLabelKey, ManagedResourceLabelValue)]\<rparr>)"

theorem reconcile_confined_witness:
  "\<exists>o2. memLookup (rs_kube (snd (Reconcile keyedEnv escRequest (policyState [KESC clusterESC, foreignDeployment]))))
     (''Deployment'', ''kube-system'', ''external-secrets'') = Some o2 \<and> payload o2 = payload foreignDeployment"
proof -
  let ?s = "policyState [KESC clusterESC, foreignDeployment]" and ?i = "(''Deployment'', ''kube-system'', ''external-secrets'')"
  have w: "memWf (rs_kube ?s)" by code_simp
  have n: "\<not> operandScope keyedEnv ?i"
    by (simp add: operandScope_def clusterKinds_def OperandDefaultNamespace_def externalsecretsCommonName_def)
  have l: "memLookup (rs_kube ?s) ?i = Some foreignDeployment" by code_simp
  have run: "Reconcile keyedEnv escRequest ?s = (fst (Reconcile keyedEnv escRequest ?s), snd (Reconcile keyedEnv escRequest ?s))" by simp
  from reconcile_confined [OF keyedEnv_ok(1) w keyedEnv_ok(2) run n] l show ?thesis by blast
qed

text \<open>C6. Ready means reconciled. When a pass over a configuration returns without error, the Ready
  condition in memory carries the generation the pass started from and is True exactly when every
  step of the installation succeeded; and either the conditions were already the same before they
  were set, or the API server now holds this very status.\<close>

theorem ready_iff_reconciled:
  assumes "operator_env env objs ok" and "ok (rs_kube s)" and "patchKeepsIdentity env"
    and "processReconcileRequest env s = (Ret res, s')"
    and "reconcileExternalSecretsDeployment env
       (\<not> containsProcessedAnnotation (rs_ESC s) \<and> esc_Status (rs_ESC s) = zeroStatus) s = (r, s1)"
  shows "\<exists>y. FindStatusCondition (st_Conditions (esc_Status (rs_ESC s'))) Ready = Some y \<and>
      (cond_Status y = ''True'' \<longleftrightarrow> r = Ret ()) \<and> cond_ObservedGeneration y = om_Generation (esc_Meta (rs_ESC s)) \<and>
      (FindStatusCondition (st_Conditions (esc_Status (rs_ESC s1))) Ready = Some y \<or>
       (\<exists>e. objs (rs_kube s') (objid (KESC (rs_ESC s'))) = Some (KESC e) \<and> esc_Status e = esc_Status (rs_ESC s')))"
proof -
  let ?g = "om_Generation (esc_Meta (rs_ESC s))"
  have ok1: "ok (rs_kube s1)"
    using operator_env.framedD(1) [OF assms(1) keepsD [OF operator_env.scope_install [OF assms(1,3)] assms(5)] assms(2)] .
  from assms(4,5) have run: "(case r of Ret _ \<Rightarrow> reconcileDeploymentSuccessResult env ?g s1 = (Ret res, s')
      | Err e \<Rightarrow> reconcileDeploymentFailureResult env e ?g s1 = (Ret res, s') | Panic p \<Rightarrow> False)"
    by (simp add: processReconcileRequest_def withESC_def andThen_def Let_def split: result.splits)
  from run have "\<exists>d y p. cond_Type d = Degraded \<and> cond_Type y = Ready \<and> (cond_Status y = ''True'' \<longleftrightarrow> r = Ret ()) \<and> cond_ObservedGeneration y = ?g \<and>
      settles env d y p s1 s'"
    using settles_success [of env ?g s1 res s'] settles_failure [of env _ ?g s1 res s'] by (cases r) auto
  then obtain d y p where dy: "cond_Type d = Degraded" "cond_Type y = Ready" "cond_Status y = ''True'' \<longleftrightarrow> r = Ret ()" "cond_ObservedGeneration y = ?g"
    and st: "settles env d y p s1 s'" by blast
  from settles_Ready [OF assms(1) ok1 st dy(1,2)] dy(3,4) show ?thesis by blast
qed

definition certManagerESC :: ExternalSecretsConfig where
  "certManagerESC = clusterESC\<lparr>esc_Spec := (esc_Spec zeroESC)\<lparr>spec_ControllerConfig := zeroControllerConfig\<lparr>ctl_CertProvider :=
     Some \<lparr>cpc_CertManager = Some \<lparr>cmc_Mode = ''Enabled'', cmc_InjectAnnotations = ''false'', cmc_IssuerRef = None,
       cmc_CertificateDuration = None, cmc_CertificateRenewBefore = None\<rparr>\<rparr>\<rparr>\<rparr>\<rparr>"

theorem ready_iff_reconciled_witness:
  "\<exists>y e. FindStatusCondition (st_Conditions (esc_Status e)) Ready = Some y \<and> cond_Status y \<noteq> ''True'' \<and>
     memLookup (rs_kube (snd (processReconcileRequest keyedEnv ((policyState [KESC certManagerESC])\<lparr>rs_ESC := certManagerESC\<rparr>))))
       (''ExternalSecretsConfig'', '''', ''cluster'') = Some (KESC e)"
proof -
  let ?s = "(policyState [KESC certManagerESC])\<lparr>rs_ESC := certManagerESC\<rparr>"
  let ?s' = "snd (processReconcileRequest keyedEnv ?s)"
  let ?run = "reconcileExternalSecretsDeployment keyedEnv (\<not> containsProcessedAnnotation (rs_ESC ?s) \<and> esc_Status (rs_ESC ?s) = zeroStatus) ?s"
  have 1: "memWf (rs_kube ?s)" by code_simp
  have 2: "processReconcileRequest keyedEnv ?s = (Ret zeroResult, ?s')" by code_simp
  have 3: "?run = (fst ?run, snd ?run)" by simp
  have 4: "fst ?run \<noteq> Ret ()" "FindStatusCondition (st_Conditions (esc_Status (rs_ESC (snd ?run)))) Ready = None"
    "objid (KESC (rs_ESC ?s')) = (''ExternalSecretsConfig'', '''', ''cluster'')" by code_simp+
  from ready_iff_reconciled [OF keyedEnv_ok(1) 1 keyedEnv_ok(2) 2 3] 4 show ?thesis by fastforce
qed

text \<open>C39. Every reconciliation of a configuration that is being deleted ends in an error, whatever the
  API server answers: after removing its finalizer the code goes on and adds it again, which the
  server refuses for an object under deletion, or the object is already gone. Until then nothing
  but the configuration itself is touched.\<close>

theorem deleted_config_errors:
  assumes "operator_env env objs ok" and "ok (rs_kube s)"
    and "cl_Get (e_Client env) ''ExternalSecretsConfig'' req (rs_kube s) = (Ret obj, k)" and "deleting obj"
    and "Reconcile env req s = (r, s')"
  shows "(\<exists>e. r = Err e) \<and> (\<forall>i. i \<noteq> (''ExternalSecretsConfig'', req) \<longrightarrow> objs (rs_kube s') i = objs (rs_kube s) i)"
proof -
  note client = operator_env.axioms(1) [OF assms(1)]
  have g: "objs k (objid obj) = Some obj" "objid obj = (''ExternalSecretsConfig'', req)" "objs k = objs (rs_kube s)" "ok k"
    using api_client.get_Ret [OF client assms(2,3)] by auto
  let ?esc = "escOf obj" and ?c = "e_Client env"
  have obj: "KESC ?esc = obj" by (rule escOf_KESC [OF g(2)])
  obtain rm k1 where rm: "RemoveFinalizer ?c obj finalizer k = (rm, k1)" by force
  have 1: "ok k1" "\<forall>i. i \<noteq> objid obj \<longrightarrow> objs k1 i = objs k i" "rm \<noteq> Panic p" for p
    using api_client.RemoveFinalizer_cases [OF client g(4) rm] api_client.finalizers_noPanic(2) [OF client g(4)] rm by blast+
  show ?thesis
  proof (cases rm)
    case (Err e)
    then have "r = Err (WrapErr (''clean up failed for '' @ quoted (nsnameString req) @ '' externalsecretsconfigs.operator.openshift.io instance deletion: '') e '''')"
      "rs_kube s' = k1"
      using assms(3,4,5) rm obj
      by (auto simp: Reconcile_def Let_def onKube_def cleanUp_def withESC_def andThen_def onErr_def setESC_def Eventf_def)
    with 1 g show ?thesis by (simp del: split_paired_All)
  next
    case (Ret o2)
    have id2: "objid o2 = objid obj" using api_client.RemoveFinalizer_cases [OF client g(4) rm] Ret by blast
    then have o2: "KESC (escOf o2) = o2" using g(2) by (simp add: escOf_KESC)
    obtain ra k2 where ra: "AddFinalizer ?c o2 finalizer k1 = (ra, k2)" by force
    from api_client.removed_finalizer_stays [OF client g(4,1) assms(4) _ ra] rm Ret obtain e where e: "ra = Err e" by blast
    have 2: "\<forall>i. i \<noteq> objid o2 \<longrightarrow> objs k2 i = objs k1 i"
      using api_client.AddFinalizer_cases [OF client 1(1) ra] by blast
    have "r = Err (WrapErr (''failed to update '' @ quoted (nsnameString req) @ '' externalsecretsconfigs.operator.openshift.io with finalizers: '') e '''')"
      "rs_kube s' = k2"
      using assms(3,4,5) rm obj Ret ra e o2
      by (auto simp: Reconcile_def Let_def onKube_def cleanUp_def withESC_def andThen_def onErr_def setESC_def Eventf_def)
    with 1 2 g id2 show ?thesis by (simp del: split_paired_All)
  qed (use 1 in blast)
qed

definition deletedESC :: ExternalSecretsConfig where
  "deletedESC = clusterESC\<lparr>esc_Meta := zeroMeta\<lparr>om_Name := ''cluster'', om_Finalizers := [finalizer], om_DeletionTimestamp := Some 1\<rparr>\<rparr>"

theorem deleted_config_errors_witness:
  "(\<exists>e. fst (Reconcile keyedEnv escRequest (policyState [KESC deletedESC, foreignDeployment])) = Err e) \<and>
   memLookup (rs_kube (snd (Reconcile keyedEnv escRequest (policyState [KESC deletedESC, foreignDeployment]))))
     (''Deployment'', ''kube-system'', ''external-secrets'') = Some foreignDeployment"
proof -
  let ?s = "policyState [KESC deletedESC, foreignDeployment]"
  have 1: "memWf (rs_kube ?s)" "deleting (KESC deletedESC)" by code_simp+
  have 2: "cl_Get (e_Client keyedEnv) ''ExternalSecretsConfig'' escRequest (rs_kube ?s) = (Ret (KESC deletedESC), rs_kube ?s)" by code_simp
  have 3: "Reconcile keyedEnv escRequest ?s = (fst (Reconcile keyedEnv escRequest ?s), snd (Reconcile keyedEnv escRequest ?s))" by simp
  have 4: "memLookup (rs_kube ?s) (''Deployment'', ''kube-system'', ''external-secrets'') = Some foreignDeployment" by code_simp
  from deleted_config_errors [OF keyedEnv_ok(1) 1(1) 2 1(2) 3] 4 show ?thesis by simp
qed

text \<open>C14. No event of a managed resource is lost, and none is filtered. For each of the ten managed
  types an event passes the filters exactly when the object, or on an update the old or the new one,
  carries the managed label, so the removal of the label is noticed too, and some object of the
  event is then mapped to the request for the singleton configuration. In particular the filters
  that the setup intends for deployments (no status-only updates) and for secrets (label changes)
  never apply.\<close>

theorem managed_events_enqueue:
  assumes "k \<in> set controllerManagedResources"
  shows "(enqueues env k e \<longleftrightarrow> list_ex isManagedResource (eventObjects e)) \<and>
    (enqueues env k e \<longrightarrow> (\<exists>o1. Some o1 \<in> set (eventObjects e) \<and> mapFunc o1 = [escRequest]))"
proof -
  have k: "k \<notin> {''ConfigMap'', ''ExternalSecretsManager'', ''ExternalSecretsConfig'', ''Certificate''}"
    using assms by (auto simp: controllerManagedResources_def)
  have f: "resourceFilter (Element i) e = labelMatchPredicate isManagedResource e" for i by (simp add: resourceFilter_def)
  have m: "labelMatchPredicate isManagedResource e = list_ex isManagedResource (eventObjects e)" by (cases e) simp_all
  have "enqueues env k e = (\<exists>(i, k')\<in>set (enumerate 0 controllerManagedResources). k' = k \<and> labelMatchPredicate isManagedResource e)"
    using k f by (auto simp: enqueues_def list_ex_iff)
  moreover have "\<exists>i. (i, k) \<in> set (enumerate 0 controllerManagedResources)"
    using assms by (simp add: controllerManagedResources_def) metis
  ultimately have 1: "enqueues env k e = list_ex isManagedResource (eventObjects e)" using m by auto
  have "mapFunc o1 = [escRequest]" if "isManagedResource (Some o1)" for o1
    using that by (simp add: isManagedResource_def mapFunc_def hasManagedOrWatchLabel_def)
  moreover have "\<not> isManagedResource None" by (simp add: isManagedResource_def)
  ultimately show ?thesis using 1 by (auto simp: list_ex_iff) (metis not_None_eq)
qed

text \<open>A deployment's status-only update: same generation, same labels.\<close>

theorem managed_events_enqueue_witness:
  "enqueues keyedEnv ''Deployment'' (UpdateEvent (Some (managed foreignDeployment)) (Some (managed foreignDeployment))) \<and>
   \<not> GenerationChangedPredicate (UpdateEvent (Some (managed foreignDeployment)) (Some (managed foreignDeployment)))"
proof -
  let ?e = "UpdateEvent (Some (managed foreignDeployment)) (Some (managed foreignDeployment))"
  have "''Deployment'' \<in> set controllerManagedResources" "list_ex isManagedResource (eventObjects ?e)" by code_simp+
  with managed_events_enqueue [of "''Deployment''" keyedEnv ?e] show ?thesis by simp
qed

text \<open>C15. What the operator applies, its cache shows. Whatever labels the two custom resources ask for,
  an object of a managed type, or a certificate, that got its metadata from the configuration passes
  the cache's selector and counts as managed for the watches, so that the next reconciliation finds
  it and every change of it is noticed.\<close>

theorem applied_objects_visible:
  assumes "getResourceMetadata ver esm esc = Inr md" and "kindOf o1 \<in> set (''Certificate'' # controllerManagedResources)"
  shows "cacheVisible certManager (ApplyResourceMetadata o1 md) \<and> isManagedResource (Some (ApplyResourceMetadata o1 md))"
proof -
  have "rm_Labels md = getResourceLabels ver esm esc" using assms(1) by (auto simp: getResourceMetadata_def split: sum.splits)
  moreover have "glookup (controllerDefaultResourceLabels ver) ManagedResourceLabelKey = Some ManagedResourceLabelValue"
    by (simp add: controllerDefaultResourceLabels_def ManagedResourceLabelKey_def ManagedResourceLabelValue_def
        externalsecretsCommonName_def glookup_def)
  ultimately have "glookup (rm_Labels md) ManagedResourceLabelKey = Some ManagedResourceLabelValue"
    by (simp add: getResourceLabels_def Let_def glookup_gcopy)
  then have a: "glookup (om_Labels (metaOf (ApplyResourceMetadata o1 md))) ManagedResourceLabelKey = Some ManagedResourceLabelValue"
    by (simp add: gomap_simps)
  then have "isManagedResource (Some (ApplyResourceMetadata o1 md))"
    by (cases "om_Labels (metaOf (ApplyResourceMetadata o1 md))")
       (simp_all add: isManagedResource_def gget_def isNil_def del: labels_ApplyResourceMetadata)
  moreover have "map_of (buildCacheObjectList certManager) (kindOf o1) \<in>
      {None, Some (ByLabel ManagedResourceLabelKey ManagedResourceLabelValue)}"
    using assms(2) by (auto simp: buildCacheObjectList_def controllerManagedResources_def)
  ultimately show ?thesis using a by (auto simp: cacheVisible_def)
qed

theorem applied_objects_visible_witness:
  "\<exists>md. getResourceMetadata ''v1'' zeroESM zeroESC = Inr md \<and> cacheVisible True (ApplyResourceMetadata foreignDeployment md)"
proof -
  define md where "md = projr (getResourceMetadata ''v1'' zeroESM zeroESC)"
  have "getResourceMetadata ''v1'' zeroESM zeroESC = Inr md" unfolding md_def by code_simp
  moreover have "kindOf foreignDeployment \<in> set (''Certificate'' # controllerManagedResources)" by code_simp
  ultimately show ?thesis using applied_objects_visible [of "''v1''" zeroESM zeroESC md foreignDeployment True] by blast
qed

end
