(* ===== verification/CRD_Annotator.thy ===== *)
theory CRD_Annotator
  imports Controller
begin

section \<open>The annotator of custom resource definitions: \<^verbatim>\<open>pkg/controller/crd_annotator\<close>\<close>

text \<open>
  The third controller, started when cert-manager is installed: it puts cert-manager's CA injection
  annotation on the operand's custom resource definitions and reports the outcome as a condition of
  \<^verbatim>\<open>ExternalSecretsConfig\<close>. Its only state is the cluster behind its client.
\<close>

definition annotatorControllerName :: string where "annotatorControllerName = ''crd-annotator''"
definition requestEnqueueLabelKey :: string where "requestEnqueueLabelKey = ''external-secrets.io/component''"
definition requestEnqueueLabelValue :: string where "requestEnqueueLabelValue = ''controller''"
definition reconcileObjectIdentifier :: string where "reconcileObjectIdentifier = ''external-secrets-obj''"

definition enqueueLabelled :: "kobj \<Rightarrow> bool" where
  "enqueueLabelled obj = (\<not> isNil (om_Labels (metaOf obj)) \<and> gget (om_Labels (metaOf obj)) requestEnqueueLabelKey = requestEnqueueLabelValue)"

definition annotatorMapFunc :: "kobj \<Rightarrow> nsname list" where
  "annotatorMapFunc obj =
     (let objName0 = (if enqueueLabelled obj then om_Name (metaOf obj) else '''');
          objName = (case obj of KESC _ \<Rightarrow> reconcileObjectIdentifier | _ \<Rightarrow> objName0) in
      if objName \<noteq> '''' then [('''', objName)] else [])"

definition updateAnnotations :: "'s client \<Rightarrow> kobj \<Rightarrow> (goerr, 's, unit) prog" where
  "updateAnnotations c crd =
     (case glookup (om_Annotations (metaOf crd)) CertManagerInjectCAFromAnnotation of
        Some v \<Rightarrow> if v \<noteq> CertManagerInjectCAFromAnnotationValue
          then andThen (cl_Patch c crd (MergeMetadata [] [(CertManagerInjectCAFromAnnotation, CertManagerInjectCAFromAnnotationValue)])) (\<lambda>_. gret ())
          else gret ()
      | None \<Rightarrow> andThen (cl_Patch c crd (MergeMetadata [] [(CertManagerInjectCAFromAnnotation, CertManagerInjectCAFromAnnotationValue)])) (\<lambda>_. gret ()))"

definition updateAnnotationsInAllCRDs :: "'s client \<Rightarrow> (goerr, 's, unit) prog" where
  "updateAnnotationsInAllCRDs c =
     andThen (onErr (cl_List c ''CustomResourceDefinition'' '''' [(requestEnqueueLabelKey, requestEnqueueLabelValue)])
         (\<lambda>err. gerr (WrapErr ''failed to list managed CRD resources: '' err ''''))) (\<lambda>items.
     if items = [] then gret ()
     else forEach items (\<lambda>crd. onErr (updateAnnotations c crd)
            (\<lambda>err. gerr (WrapErr (''failed to update annotations in '' @ quoted (om_Name (metaOf crd)) @ '': '') err ''''))))"

definition annotatorUpdateStatus :: "'s client \<Rightarrow> ExternalSecretsConfig \<Rightarrow> (goerr, 's, unit) prog" where
  "annotatorUpdateStatus c changed =
     (let key = objectKey (KESC changed); q = quoted (nsnameString key) in
      retryOnConflict
        (andThen (onErr (cl_Get c ''ExternalSecretsConfig'' key)
             (\<lambda>err. gerr (WrapErr (''failed to fetch externalsecretsconfigs.operator.openshift.io '' @ q @ '' for status update: '') err '''')))
           (\<lambda>current. andThen (onErr (cl_StatusUpdate c (withStatusOf (KESC changed) current))
               (\<lambda>err. gerr (WrapErr (''failed to update externalsecretsconfigs.operator.openshift.io '' @ q @ '' status: '') err '''')))
             (\<lambda>_. gret ()))))"

definition annotationCondition :: "ExternalSecretsConfig \<Rightarrow> goerr option \<Rightarrow> condition" where
  "annotationCondition esc err =
     (let cond = \<lparr>cond_Type = UpdateAnnotation, cond_Status = '''', cond_Reason = '''', cond_Message = '''',
            cond_ObservedGeneration = om_Generation (esc_Meta esc)\<rparr> in
      case err of
        Some e \<Rightarrow> cond\<lparr>cond_Status := ''False'', cond_Reason := ReasonFailed, cond_Message := ''failed to add annotations: '' @ errText e\<rparr>
      | None \<Rightarrow> cond\<lparr>cond_Status := ''True'', cond_Reason := ReasonCompleted, cond_Message := ''successfully updated annotations''\<rparr>)"

definition annotatorUpdateCondition :: "'s client \<Rightarrow> ExternalSecretsConfig \<Rightarrow> goerr option \<Rightarrow> (goerr, 's, unit) prog" where
  "annotatorUpdateCondition c esc err =
     (case SetStatusCondition (st_Conditions (esc_Status esc)) (annotationCondition esc err) of
        (conds, True) \<Rightarrow> annotatorUpdateStatus c (esc\<lparr>esc_Status := (esc_Status esc)\<lparr>st_Conditions := conds\<rparr>\<rparr>)
      | (_, False) \<Rightarrow> gret ())"

text \<open>The error of the work as a value, \<open>oErr\<close>.\<close>

definition annotate :: "'s client \<Rightarrow> nsname \<Rightarrow> (goerr, 's, unit) prog" where
  "annotate c req =
     (let q = quoted (nsnameString req) in
      if snd req = reconcileObjectIdentifier
      then onErr (updateAnnotationsInAllCRDs c) (\<lambda>err. gerr (WrapErr ''failed while updating annotations in all CRDs: '' err ''''))
      else andThen (onErr (cl_Get c ''CustomResourceDefinition'' req)
             (\<lambda>err. gerr (WrapErr (''failed to fetch customresourcedefinitions.apiextensions.k8s.io '' @ q @ '' during reconciliation: '') err ''''))) (\<lambda>crd.
           onErr (updateAnnotations c crd) (\<lambda>err. gerr (WrapErr (''failed to update annotations in '' @ q @ '': '') err ''''))))"

definition annotatorProcessReconcileRequest :: "'s client \<Rightarrow> ExternalSecretsConfig \<Rightarrow> nsname \<Rightarrow> (goerr, 's, unit) prog" where
  "annotatorProcessReconcileRequest c esc req =
     andThen (onErr (andThen (annotate c req) (\<lambda>_. gret None)) (\<lambda>e. gret (Some e))) (\<lambda>oErr.
     andThen (onErr (annotatorUpdateCondition c esc oErr)
         (\<lambda>err. case newAggregate [Some err, oErr] of Some e \<Rightarrow> gerr e | None \<Rightarrow> gret ())) (\<lambda>_.
     case oErr of Some e \<Rightarrow> gerr e | None \<Rightarrow> gret ()))"

text \<open>The result of every branch is the empty \<^verbatim>\<open>ctrl.Result\<close>.\<close>

definition annotatorReconcile :: "'s client \<Rightarrow> nsname \<Rightarrow> (goerr, 's, unit) prog" where
  "annotatorReconcile c req =
     (let key = ('''', ''cluster'') in
      (\<lambda>s. case cl_Get c ''ExternalSecretsConfig'' key s of
         (Panic p, s1) \<Rightarrow> (Panic p, s1)
       | (Err err, s1) \<Rightarrow> if IsNotFound err then gret () s1
           else gerr (WrapErr (''failed to fetch externalsecretsconfigs.operator.openshift.io '' @ quoted (nsnameString key) @ '' during reconciliation: '') err '''') s1
       | (Ret obj, s1) \<Rightarrow>
           (let esc = (case obj of KESC e \<Rightarrow> e | _ \<Rightarrow> zeroESC) in
            if IsInjectCertManagerAnnotationEnabled esc then annotatorProcessReconcileRequest c esc req s1
            else gret () s1)))"

subsection \<open>Watches\<close>

text \<open>
  controller-runtime's predicates: the filter function on the object of an event (of an update on the
  new one; a nil object is a nil dereference), and the change of the annotations.
\<close>

fun NewPredicateFuncs :: "(kobj \<Rightarrow> bool) \<Rightarrow> watchevent \<Rightarrow> (goerr, bool) result" where
  "NewPredicateFuncs f (CreateEvent (Some o1)) = Ret (f o1)"
| "NewPredicateFuncs f (UpdateEvent old (Some new)) = Ret (f new)"
| "NewPredicateFuncs f (DeleteEvent (Some o1)) = Ret (f o1)"
| "NewPredicateFuncs f (GenericEvent (Some o1)) = Ret (f o1)"
| "NewPredicateFuncs f _ = Panic ''nil pointer dereference''"

fun AnnotationChangedPredicate :: "watchevent \<Rightarrow> bool" where
  "AnnotationChangedPredicate (UpdateEvent (Some a) (Some b)) = (\<not> mapsEqual (om_Annotations (metaOf b)) (om_Annotations (metaOf a)))"
| "AnnotationChangedPredicate (UpdateEvent _ _) = False"
| "AnnotationChangedPredicate _ = True"

text \<open>The watches of \<^verbatim>\<open>SetupWithManager\<close>: which events of a type reach the queue.\<close>

definition annotatorEnqueues :: "string \<Rightarrow> watchevent \<Rightarrow> (goerr, bool) result" where
  "annotatorEnqueues kind e =
     (if kind = ''CustomResourceDefinition''
      then (case NewPredicateFuncs enqueueLabelled e of
              Ret b \<Rightarrow> Ret (b \<and> AnnotationChangedPredicate e) | Err x \<Rightarrow> Err x | Panic p \<Rightarrow> Panic p)
      else if kind = ''ExternalSecretsConfig'' then Ret (GenerationChangedPredicate e)
      else Ret False)"

section \<open>Lemmas\<close>

definition injected :: "kobj \<Rightarrow> bool" where
  "injected obj = (glookup (om_Annotations (metaOf obj)) CertManagerInjectCAFromAnnotation = Some CertManagerInjectCAFromAnnotationValue)"

abbreviation injectPatch :: cpatch where
  "injectPatch \<equiv> MergeMetadata [] [(CertManagerInjectCAFromAnnotation, CertManagerInjectCAFromAnnotationValue)]"

lemma injected_patched: "sameUpToServer (mapMeta (applyPatch injectPatch) o1) o2 \<Longrightarrow> injected o2"
  by (auto simp: sameUpToServer_def injected_def applyPatch_def glookup_gcopy) (simp add: glookup_def)

lemma updateAnnotations_alt:
  "updateAnnotations c crd = (if injected crd then gret () else andThen (cl_Patch c crd injectPatch) (\<lambda>_. gret ()))"
  by (auto simp: updateAnnotations_def injected_def split: option.splits)

context api_client
begin

text \<open>What annotating may do to the objects in \<open>J\<close>: add the annotation, and nothing else.\<close>

definition annotates :: "objid set \<Rightarrow> 's \<Rightarrow> 's \<Rightarrow> bool" where
  "annotates J s s' \<longleftrightarrow> wf s' \<and> (\<forall>i. i \<notin> J \<longrightarrow> objs s' i = objs s i) \<and>
     (\<forall>i o1. objs s i = Some o1 \<longrightarrow> (\<exists>o2. objs s' i = Some o2 \<and> payload o2 = payload o1 \<and> (injected o1 \<longrightarrow> injected o2)))"

lemma annotates_same: "wf s' \<Longrightarrow> objs s' = objs s \<Longrightarrow> annotates J s s'"
  by (simp add: annotates_def)

lemma annotates_trans: "annotates J s t \<Longrightarrow> annotates J t u \<Longrightarrow> annotates J s u"
  unfolding annotates_def by (simp del: split_paired_All) metis

lemma annotatesD:
  "annotates J s s' \<Longrightarrow> wf s'"
  "annotates J s s' \<Longrightarrow> objs s i = Some o1 \<Longrightarrow> \<exists>o2. objs s' i = Some o2 \<and> payload o2 = payload o1 \<and> (injected o1 \<longrightarrow> injected o2)"
  unfolding annotates_def by blast+

lemma updateAnnotations_step:
  assumes "wf s" and "objid crd \<in> J" and "objs s (objid crd) = Some cur" and "injected crd \<longrightarrow> injected cur"
    and "updateAnnotations c crd s = (r, s')"
  shows "annotates J s s' \<and> (r = Ret () \<longrightarrow> (\<exists>o2. objs s' (objid crd) = Some o2 \<and> injected o2)) \<and> (\<forall>p. r \<noteq> Panic p)"
proof (cases "injected crd")
  case True
  with assms show ?thesis by (auto simp: updateAnnotations_alt intro: annotates_same)
next
  case False
  obtain rp k where p: "cl_Patch c crd injectPatch s = (rp, k)" by force
  have out: "s' = k" "r = (case rp of Ret _ \<Rightarrow> Ret () | Err e \<Rightarrow> Err e | Panic q \<Rightarrow> Panic q)"
    using assms(5) False p by (auto simp: updateAnnotations_alt andThen_def split: result.splits)
  show ?thesis
  proof (cases rp)
    case (Ret o2)
    with patch_Ret [OF assms(1)] p assms(3) have 1: "sameUpToServer (mapMeta (applyPatch injectPatch) cur) o2"
      "objs k = (objs s)(objid crd \<mapsto> o2)" "wf k" by fastforce+
    have "payload o2 = payload cur" using payload_sameUpToServer [OF 1(1)] by simp
    with 1 injected_patched [OF 1(1)] assms(2,3) out Ret show ?thesis by (auto simp: annotates_def)
  next
    case (Err e)
    with patch_Err [OF assms(1)] p out show ?thesis by (auto intro!: annotates_same)
  qed (use p patch_noPanic in blast)
qed

lemma annotate_loop:
  assumes "wf s" and "objid ` set items \<subseteq> J" and "\<forall>crd\<in>set items. \<exists>cur. objs s (objid crd) = Some cur \<and> (injected crd \<longrightarrow> injected cur)"
    and "forEach items (\<lambda>crd. onErr (updateAnnotations c crd) (\<lambda>err. gerr (h crd err))) s = (r, s')"
  shows "annotates J s s' \<and> (r = Ret () \<longrightarrow> (\<forall>crd\<in>set items. \<exists>o2. objs s' (objid crd) = Some o2 \<and> injected o2)) \<and> (\<forall>p. r \<noteq> Panic p)"
  using assms
proof (induction items arbitrary: s)
  case Nil
  then show ?case by (auto intro: annotates_same)
next
  case (Cons crd items)
  define f where "f = (\<lambda>crd. onErr (updateAnnotations c crd) (\<lambda>err. gerr (h crd err)))"
  obtain r1 s1 where step: "updateAnnotations c crd s = (r1, s1)" by force
  from Cons.prems(2,3) have J: "objid crd \<in> J" "objid ` set items \<subseteq> J" and "\<exists>cur. objs s (objid crd) = Some cur \<and> (injected crd \<longrightarrow> injected cur)" by auto
  then obtain cur where cur: "objs s (objid crd) = Some cur" "injected crd \<longrightarrow> injected cur" by blast
  note 1 = updateAnnotations_step [OF Cons.prems(1) J(1) cur step]
  have keep: "\<forall>x\<in>set items. \<exists>cur. objs s1 (objid x) = Some cur \<and> (injected x \<longrightarrow> injected cur)"
    using Cons.prems(3) annotatesD(2) 1 by (metis list.set_intros(2))
  show ?case
  proof (cases r1)
    case (Ret u)
    then have "f crd s = (Ret u, s1)" using step by (simp add: f_def onErr_apply)
    then have rest: "forEach items (\<lambda>crd. onErr (updateAnnotations c crd) (\<lambda>err. gerr (h crd err))) s1 = (r, s')"
      using Cons.prems(4) unfolding f_def [symmetric] by (simp add: andThen_apply)
    have "wf s1" using 1 annotatesD(1) by blast
    note 2 = Cons.IH [OF this J(2) keep rest]
    have "annotates J s s'" using 1 2 annotates_trans by blast
    moreover have "\<exists>o2. objs s' (objid crd) = Some o2 \<and> injected o2" using 1 2 Ret annotatesD(2) by (metis (full_types) old.unit.exhaust)
    ultimately show ?thesis using 1 2 by auto
  next
    case (Err e)
    then have "f crd s = (Err (h crd e), s1)" using step by (simp add: f_def onErr_apply)
    then have "r = Err (h crd e)" "s' = s1" using Cons.prems(4) unfolding f_def [symmetric] by (simp_all add: andThen_apply)
    with 1 show ?thesis by simp
  qed (use 1 in blast)
qed

end

context api_client
begin

text \<open>Reporting writes the custom resource only.\<close>

definition escOnly :: "'s \<Rightarrow> 's \<Rightarrow> bool" where
  "escOnly s s' \<longleftrightarrow> (wf s \<longrightarrow> wf s' \<and> (\<forall>i. fst i \<noteq> ''ExternalSecretsConfig'' \<longrightarrow> objs s' i = objs s i))"

lemma escOnly_refl: "reflp escOnly" and escOnly_trans: "transp escOnly"
  unfolding reflp_def transp_def escOnly_def by simp_all

lemma escOnly_attempt:
  "keeps escOnly (andThen (onErr (cl_Get c ''ExternalSecretsConfig'' key) (\<lambda>e. gerr (h e)))
     (\<lambda>current. andThen (onErr (cl_StatusUpdate c (withStatusOf o1 current)) (\<lambda>e. gerr (g e))) (\<lambda>_. gret ())))"
proof (rule keepsI)
  fix s
  obtain r s1 where get: "cl_Get c ''ExternalSecretsConfig'' key s = (r, s1)" by force
  show "escOnly s (snd (andThen (onErr (cl_Get c ''ExternalSecretsConfig'' key) (\<lambda>e. gerr (h e)))
     (\<lambda>current. andThen (onErr (cl_StatusUpdate c (withStatusOf o1 current)) (\<lambda>e. gerr (g e))) (\<lambda>_. gret ())) s))"
  proof (cases "wf s")
    case wf: True
    show ?thesis
    proof (cases r)
      case (Ret cur)
      from get_Ret [OF wf get [unfolded Ret]] have 1: "objid cur = (''ExternalSecretsConfig'', key)" "objs s1 = objs s" "wf s1" by blast+
      obtain r2 s2 where st: "cl_StatusUpdate c (withStatusOf o1 cur) s1 = (r2, s2)" by force
      have "wf s2 \<and> (\<forall>i. i \<noteq> objid cur \<longrightarrow> objs s2 i = objs s1 i)"
        using st status_Ret [OF 1(3)] status_Err [OF 1(3)] status_noPanic
        by (cases r2) (fastforce simp del: split_paired_All)+
      with 1 have "escOnly s s2" by (auto simp: escOnly_def simp del: split_paired_All)
      with get Ret st show ?thesis by (cases r2) (simp_all add: andThen_def onErr_def)
    next
      case (Err e)
      with get get_Err [OF wf] show ?thesis by (simp add: andThen_def onErr_def escOnly_def)
    qed (use get get_noPanic in blast)
  qed (simp add: escOnly_def)
qed

lemma escOnly_condition: "keeps escOnly (annotatorUpdateCondition c esc err)"
  unfolding annotatorUpdateCondition_def annotatorUpdateStatus_def retryOnConflict_def Let_def
  by (auto intro!: keeps_retryOnError escOnly_refl escOnly_trans escOnly_attempt keeps_gret split: prod.splits bool.splits)

text \<open>A request that is handled without error annotated its definition.\<close>

lemma annotate_one:
  assumes "wf s" and "objs s (objid new) = Some new" and "kindOf new = ''CustomResourceDefinition''"
    and "om_Name (metaOf new) \<noteq> reconcileObjectIdentifier" and "annotate c (objectKey new) s = (Ret (), s')"
  shows "wf s' \<and> (\<exists>o2. objs s' (objid new) = Some o2 \<and> injected o2)"
proof -
  have id: "(''CustomResourceDefinition'', objectKey new) = objid new" by (simp add: objid_def assms(3))
  obtain r s1 where g: "cl_Get c ''CustomResourceDefinition'' (objectKey new) s = (r, s1)" by force
  from assms(4,5) g obtain crd where r: "r = Ret crd"
    by (cases r) (auto simp: annotate_def objectKey_def Let_def andThen_def onErr_def)
  from get_Ret [OF assms(1) g [unfolded r]] have got: "objs s (objid new) = Some crd" "objs s1 = objs s" "wf s1"
    unfolding id by blast+
  with assms(2) have crd: "crd = new" by simp
  from assms(4,5) g r crd have "updateAnnotations c new s1 = (Ret (), s')"
    by (auto simp: annotate_def objectKey_def Let_def andThen_def onErr_def split: prod.splits result.splits)
  from updateAnnotations_step [OF got(3) _ _ _ this, of "{objid new}" new] got(2) assms(2)
  show ?thesis using annotatesD(1) by auto
qed

lemma handled_annotates:
  assumes "wf s" and "objs s (objid new) = Some new" and "kindOf new = ''CustomResourceDefinition''"
    and "om_Name (metaOf new) \<noteq> reconcileObjectIdentifier"
    and "annotatorProcessReconcileRequest c esc (objectKey new) s = (Ret (), s')"
  shows "\<exists>o2. objs s' (objid new) = Some o2 \<and> injected o2"
proof -
  obtain r1 s1 where a: "annotate c (objectKey new) s = (r1, s1)" by force
  obtain r2 s2 where u: "annotatorUpdateCondition c esc (case r1 of Ret _ \<Rightarrow> None | Err e \<Rightarrow> Some e | Panic _ \<Rightarrow> None) s1 = (r2, s2)" by force
  have "r1 = Ret () \<and> s' = s2"
    using assms(5) a u
    by (cases r1) (auto simp: annotatorProcessReconcileRequest_def andThen_def onErr_def newAggregate_def split: result.splits option.splits if_splits)
  with annotate_one [OF assms(1-4)] a have 1: "wf s1" "\<exists>o2. objs s1 (objid new) = Some o2 \<and> injected o2" and s': "s' = s2" by auto
  have "fst (objid new) \<noteq> ''ExternalSecretsConfig''" by (simp add: objid_def assms(3))
  with keepsD [OF escOnly_condition u] 1 s' show ?thesis by (simp add: escOnly_def del: split_paired_All)
qed

end

section \<open>Properties\<close>


definition labelledCRD :: "string \<Rightarrow> kobj" where
  "labelledCRD n = KCRD (zeroMeta\<lparr>om_Name := n, om_Labels := GoMap [(requestEnqueueLabelKey, requestEnqueueLabelValue)]\<rparr>)"

definition crdServer :: memserver where
  "crdServer = emptyServer\<lparr>mem_objects := map (\<lambda>o1. (objid o1, o1)) [labelledCRD ''secretstores'', labelledCRD ''externalsecrets'']\<rparr>"



definition injectingESC :: ExternalSecretsConfig where
  "injectingESC = zeroESC\<lparr>esc_Meta := zeroMeta\<lparr>om_Name := ''cluster''\<rparr>,
     esc_Spec := (esc_Spec zeroESC)\<lparr>spec_ControllerConfig := zeroControllerConfig\<lparr>ctl_CertProvider :=
       Some \<lparr>cpc_CertManager = Some \<lparr>cmc_Mode = ''Enabled'', cmc_InjectAnnotations = ''true'', cmc_IssuerRef = None,
         cmc_CertificateDuration = None, cmc_CertificateRenewBefore = None\<rparr>\<rparr>\<rparr>\<rparr>\<rparr>"

definition injectingServer :: memserver where
  "injectingServer = emptyServer\<lparr>mem_objects := map (\<lambda>o1. (objid o1, o1)) [labelledCRD ''secretstores'', KESC injectingESC]\<rparr>"


end
