(* ===== verification/Manager_Controller.thy ===== *)
theory Manager_Controller
  imports Finalizers CA_Bundle
begin

section \<open>The manager's resource: \<^verbatim>\<open>pkg/controller/external_secrets_manager\<close>\<close>

text \<open>
  The second controller: it keeps the singleton \<^verbatim>\<open>ExternalSecretsManager\<close>, its finalizer and, in its
  status, a copy of the conditions of \<^verbatim>\<open>ExternalSecretsConfig\<close>; and the creation of that singleton at
  startup. Timestamps of the wall clock are left out, as in the types.
\<close>

definition managerControllerName :: string where "managerControllerName = ''external-secrets-manager''"
definition managerFinalizer :: string where "managerFinalizer = ''externalsecretsmanagers.operator.openshift.io/'' @ managerControllerName"
definition externalSecretsControllerId :: string where
  "externalSecretsControllerId = ''externalsecretsconfigs.operator.openshift.io/v1alpha1''"

text \<open>The fields of the \<^verbatim>\<open>Reconciler\<close> that it changes: the cluster behind its client, the recorded events, the once gate.\<close>

record 's mstate =
  mg_kube :: 's
  mg_events :: "event list"
  mg_now :: bool

type_synonym ('s, 'a) mrecon = "(goerr, 's mstate, 'a) prog"

definition managerKube :: "(goerr, 's, 'a) prog \<Rightarrow> ('s, 'a) mrecon" where
  "managerKube m = (\<lambda>s. case m (mg_kube s) of (r, k) \<Rightarrow> (r, s\<lparr>mg_kube := k\<rparr>))"

definition managerWarnOnce :: "string \<Rightarrow> string \<Rightarrow> ('s, unit) mrecon" where
  "managerWarnOnce reason message = (\<lambda>s.
     if mg_now s then (Ret (), s)
     else (Ret (), s\<lparr>mg_now := True, mg_events := mg_events s @ [\<lparr>evt_Type = ''Warning'', evt_Reason = reason, evt_Message = message\<rparr>]\<rparr>))"

definition managerNowReset :: "('s, unit) mrecon" where
  "managerNowReset = (\<lambda>s. (Ret (), s\<lparr>mg_now := False\<rparr>))"

subsection \<open>Mirroring conditions\<close>

text \<open>
  \<^verbatim>\<open>getControllerCondition\<close> answers a pointer: into the slice of the status when the controller has
  an entry, else to a fresh local, a copy of which it appends to the slice. What is then written
  through the pointer reaches the resource only in the first case.
\<close>

datatype statusRef = Entry nat | LocalCopy ControllerStatus

fun entryIndex :: "string \<Rightarrow> ControllerStatus list \<Rightarrow> nat option" where
  "entryIndex n [] = None"
| "entryIndex n (s # ss) = (if cs_Name s = n then Some 0 else map_option Suc (entryIndex n ss))"

definition withStatuses :: "ControllerStatus list \<Rightarrow> ExternalSecretsManager \<Rightarrow> ExternalSecretsManager" where
  "withStatuses ss esm = esm\<lparr>esm_Status := (esm_Status esm)\<lparr>ms_ControllerStatuses := ss\<rparr>\<rparr>"

definition statusesOf :: "ExternalSecretsManager \<Rightarrow> ControllerStatus list" where
  "statusesOf esm = ms_ControllerStatuses (esm_Status esm)"

definition getControllerCondition :: "string \<Rightarrow> ExternalSecretsManager \<Rightarrow> statusRef \<times> ExternalSecretsManager" where
  "getControllerCondition controllerName esm =
     (case entryIndex controllerName (statusesOf esm) of
        Some i \<Rightarrow> (Entry i, esm)
      | None \<Rightarrow>
          (let status = \<lparr>cs_Name = controllerName, cs_Conditions = [], cs_ObservedGeneration = 0\<rparr> in
           (LocalCopy status, withStatuses (statusesOf esm @ [status]) esm)))"

fun readRef :: "statusRef \<Rightarrow> ExternalSecretsManager \<Rightarrow> ControllerStatus" where
  "readRef (Entry i) esm = statusesOf esm ! i"
| "readRef (LocalCopy status) esm = status"

fun writeRef :: "statusRef \<Rightarrow> ControllerStatus \<Rightarrow> ExternalSecretsManager \<Rightarrow> ExternalSecretsManager" where
  "writeRef (Entry i) status esm = withStatuses ((statusesOf esm)[i := status]) esm"
| "writeRef (LocalCopy _) status esm = esm"

text \<open>The conditions afterwards, and whether one changed.\<close>

definition mirrorInto :: "condition \<Rightarrow> ManagerCondition list \<Rightarrow> ManagerCondition list \<times> bool" where
  "mirrorInto updCondition conds =
     (let same = (\<lambda>c. mc_Type c = cond_Type updCondition);
          differs = (\<lambda>c. mc_Status c \<noteq> cond_Status updCondition \<or> mc_Message c \<noteq> cond_Message updCondition) in
      if list_ex same conds
      then (map (\<lambda>c. if same c \<and> differs c then c\<lparr>mc_Status := cond_Status updCondition, mc_Message := cond_Message updCondition\<rparr> else c) conds,
            list_ex (\<lambda>c. same c \<and> differs c) conds)
      else (conds @ [\<lparr>mc_Type = cond_Type updCondition, mc_Status = cond_Status updCondition, mc_Message = cond_Message updCondition\<rparr>], True))"

definition updateStatusCondition :: "string \<Rightarrow> condition \<Rightarrow> ExternalSecretsManager \<Rightarrow> bool \<times> ExternalSecretsManager" where
  "updateStatusCondition controllerName updCondition esm =
     (let (ref, esm1) = getControllerCondition controllerName esm;
          status = readRef ref esm1;
          (conds, condUpdated) = mirrorInto updCondition (cs_Conditions status) in
      (condUpdated, writeRef ref (status\<lparr>cs_Conditions := conds, cs_ObservedGeneration := cond_ObservedGeneration updCondition\<rparr>) esm1))"

fun mirrorConditions :: "condition list \<Rightarrow> bool \<times> ExternalSecretsManager \<Rightarrow> bool \<times> ExternalSecretsManager" where
  "mirrorConditions [] acc = acc"
| "mirrorConditions (esCond # rest) (statusUpdated, esm) =
     (let (updated, esm') = updateStatusCondition externalSecretsControllerId esCond esm in
      mirrorConditions rest (statusUpdated \<or> updated, esm'))"

subsection \<open>Reconciling\<close>

definition managerUpdateStatus :: "'s client \<Rightarrow> ExternalSecretsManager \<Rightarrow> (goerr, 's, unit) prog" where
  "managerUpdateStatus c changed =
     (let key = objectKey (KESM changed); q = quoted (nsnameString key) in
      retryOnConflict
        (andThen (onErr (cl_Get c ''ExternalSecretsManager'' key)
             (\<lambda>err. gerr (WrapErr (''failed to fetch externalsecretsmanagers.operator.openshift.io '' @ q @ '' for status update: '') err '''')))
           (\<lambda>current. andThen (onErr (cl_StatusUpdate c (withStatusOf (KESM changed) current))
               (\<lambda>err. gerr (WrapErr (''failed to update externalsecretsmanagers.operator.openshift.io '' @ q @ '' status: '') err '''')))
             (\<lambda>_. gret ()))))"

definition managerProcessReconcileRequest :: "'s client \<Rightarrow> ExternalSecretsConfig \<Rightarrow> ExternalSecretsManager \<Rightarrow> (goerr, 's, unit) prog" where
  "managerProcessReconcileRequest c esc esm =
     (let (statusUpdated, esm') = mirrorConditions (st_Conditions (esc_Status esc)) (False, esm) in
      if statusUpdated
      then onErr (managerUpdateStatus c esm')
             (\<lambda>err. gerr (WrapErr ''failed to update externalsecretsmanagers.operator.openshift.io status: '' err ''''))
      else gret ())"

text \<open>The result of every branch is the empty \<^verbatim>\<open>ctrl.Result\<close>.\<close>

definition managerKey :: nsname where "managerKey = ('''', ''cluster'')"
definition configKey :: nsname where "configKey = ('''', ''cluster'')"

definition asESM :: "kobj \<Rightarrow> ExternalSecretsManager" where
  "asESM obj = (case obj of KESM e \<Rightarrow> e | _ \<Rightarrow> zeroESM)"

definition asESC :: "kobj \<Rightarrow> ExternalSecretsConfig" where
  "asESC obj = (case obj of KESC e \<Rightarrow> e | _ \<Rightarrow> zeroESC)"

definition managerReconcile :: "'s client \<Rightarrow> ('s, unit) mrecon" where
  "managerReconcile c =
     (let q = quoted (nsnameString managerKey) in
      andThen (onErr (managerKube (cl_Get c ''ExternalSecretsManager'' managerKey))
          (\<lambda>err. andThen (managerWarnOnce ''Read'' (''failed to fetch externalsecretsmanagers.operator.openshift.io '' @ q)) (\<lambda>_.
             gerr (WrapErr (''failed to fetch externalsecretsmanagers.operator.openshift.io '' @ q @ '' during reconciliation: '') err '''')))) (\<lambda>esm.
      andThen managerNowReset (\<lambda>_.
      if deleting esm then andThen (managerKube (RemoveFinalizer c esm managerFinalizer)) (\<lambda>_. gret ())
      else andThen (onErr (managerKube (AddFinalizer c esm managerFinalizer))
          (\<lambda>err. gerr (WrapErr (''failed to update '' @ q @ '' externalsecretsmanagers.operator.openshift.io with finalizers: '') err ''''))) (\<lambda>esm'.
      (\<lambda>s. case managerKube (cl_Get c ''ExternalSecretsConfig'' configKey) s of
         (Ret esc, s1) \<Rightarrow> managerKube (managerProcessReconcileRequest c (asESC esc) (asESM esm')) s1
       | (Panic p, s1) \<Rightarrow> (Panic p, s1)
       | (Err err, s1) \<Rightarrow> if IsNotFound err then gret () s1
           else gerr (WrapErr (''failed to fetch externalsecretsconfigs.operator.openshift.io '' @ quoted (nsnameString configKey) @ '' during reconciliation: '') err '''') s1)))))"

text \<open>The filter on the watch of \<^verbatim>\<open>ExternalSecretsConfig\<close>: creations, deletions and changes of the status.\<close>

fun statusUpdatePredicate :: "watchevent \<Rightarrow> bool" where
  "statusUpdatePredicate (UpdateEvent (Some (KESC old)) (Some (KESC new))) = (esc_Status old \<noteq> esc_Status new)"
| "statusUpdatePredicate (UpdateEvent _ _) = False"
| "statusUpdatePredicate _ = True"

subsection \<open>The default resource\<close>

definition defaultESM :: "string \<Rightarrow> ExternalSecretsManager" where
  "defaultESM version = zeroESM\<lparr>esm_Meta := zeroMeta\<lparr>om_Name := ''cluster'', om_Labels := GoMap
     [(''app.kubernetes.io/name'', ''cluster''), (''app.kubernetes.io/instance'', ''cluster''), (''app.kubernetes.io/version'', version),
      (''app.kubernetes.io/managed-by'', ''external-secrets-operator''), (''app.kubernetes.io/part-of'', ''external-secrets-operator'')]\<rparr>\<rparr>"

definition shouldRetryOnError :: "goerr \<Rightarrow> bool" where
  "shouldRetryOnError err =
     (\<not> (IsAlreadyExists err \<or> IsConflict err \<or> IsInvalid err \<or> IsBadRequest err \<or> IsUnauthorized err \<or> IsForbidden err \<or> IsTooManyRequests err))"

definition CreateDefaultESMResource :: "'s client \<Rightarrow> string \<Rightarrow> (goerr, 's, unit) prog" where
  "CreateDefaultESMResource c version =
     retryOnError DefaultRetry shouldRetryOnError
       (onErr (andThen (cl_Create c (KESM (defaultESM version))) (\<lambda>_. gret ()))
          (\<lambda>err. if shouldRetryOnError err then gerr err else gret ()))"

section \<open>Lemmas\<close>

text \<open>The status and message under which the manager's resource shows a condition of the configuration.\<close>

definition mirrorOf :: "ExternalSecretsManager \<Rightarrow> string \<Rightarrow> (string \<times> string) option" where
  "mirrorOf esm t = (case entryIndex externalSecretsControllerId (statusesOf esm) of
       None \<Rightarrow> None
     | Some i \<Rightarrow> map_option (\<lambda>m. (mc_Status m, mc_Message m)) (find (\<lambda>m. mc_Type m = t) (cs_Conditions (statusesOf esm ! i))))"

definition hasEntry :: "ExternalSecretsManager \<Rightarrow> bool" where
  "hasEntry esm = (entryIndex externalSecretsControllerId (statusesOf esm) \<noteq> None)"

lemma statusesOf_withStatuses [simp]: "statusesOf (withStatuses ss esm) = ss"
  by (simp add: statusesOf_def withStatuses_def)

lemma entryIndex_nth: "entryIndex n ss = Some i \<Longrightarrow> i < length ss \<and> cs_Name (ss ! i) = n"
  by (induction ss arbitrary: i) (auto split: if_splits)

lemma entryIndex_update: "entryIndex n ss = Some i \<Longrightarrow> cs_Name s = n \<Longrightarrow> entryIndex n (ss[i := s]) = Some i"
  by (induction ss arbitrary: i) (auto split: if_splits)

lemma entryIndex_append: "entryIndex n ss = None \<Longrightarrow> cs_Name s = n \<Longrightarrow> entryIndex n (ss @ [s]) = Some (length ss)"
  by (induction ss) (auto split: if_splits)

lemma find_mirrorInto:
  "map_option (\<lambda>m. (mc_Status m, mc_Message m)) (find (\<lambda>m. mc_Type m = t) (fst (mirrorInto c ms))) =
     (if t = cond_Type c then Some (cond_Status c, cond_Message c)
      else map_option (\<lambda>m. (mc_Status m, mc_Message m)) (find (\<lambda>m. mc_Type m = t) ms))"
proof -
  let ?f = "\<lambda>m. if mc_Type m = cond_Type c \<and> (mc_Status m \<noteq> cond_Status c \<or> mc_Message m \<noteq> cond_Message c)
      then m\<lparr>mc_Status := cond_Status c, mc_Message := cond_Message c\<rparr> else m"
  have same: "\<exists>x\<in>set ms. mc_Type x = cond_Type c \<Longrightarrow> \<exists>m. find (\<lambda>m. mc_Type m = cond_Type c) (map ?f ms) = Some m \<and> mc_Status m = cond_Status c \<and> mc_Message m = cond_Message c"
    by (induction ms) auto
  have other: "t \<noteq> cond_Type c \<Longrightarrow> find (\<lambda>m. mc_Type m = t) (map ?f ms) = find (\<lambda>m. mc_Type m = t) ms"
    by (induction ms) auto
  have none: "\<not> (\<exists>x\<in>set ms. mc_Type x = cond_Type c) \<Longrightarrow> find (\<lambda>m. mc_Type m = t) (ms @ [m]) =
      (if t = cond_Type c then if mc_Type m = t then Some m else None else case find (\<lambda>m. mc_Type m = t) ms of None \<Rightarrow> if mc_Type m = t then Some m else None | x \<Rightarrow> x)" for m
    by (induction ms) auto
  show ?thesis
    using same other none by (auto simp: mirrorInto_def Let_def list_ex_iff split: option.splits)
qed

lemma mirrorInto_unchanged: "\<not> snd (mirrorInto c ms) \<Longrightarrow> fst (mirrorInto c ms) = ms"
  by (auto simp: mirrorInto_def Let_def list_ex_iff intro!: map_idI split: if_splits)

lemma update_with_entry:
  assumes "hasEntry esm" and "updateStatusCondition externalSecretsControllerId c esm = (u, esm')"
  shows "hasEntry esm' \<and> mirrorOf esm' t = (if t = cond_Type c then Some (cond_Status c, cond_Message c) else mirrorOf esm t) \<and>
    (\<not> u \<longrightarrow> mirrorOf esm' t = mirrorOf esm t)"
proof -
  obtain i where i: "entryIndex externalSecretsControllerId (statusesOf esm) = Some i" using assms(1) by (auto simp: hasEntry_def)
  let ?st = "statusesOf esm ! i"
  let ?st' = "?st\<lparr>cs_Conditions := fst (mirrorInto c (cs_Conditions ?st)), cs_ObservedGeneration := cond_ObservedGeneration c\<rparr>"
  have r: "u = snd (mirrorInto c (cs_Conditions ?st))" "statusesOf esm' = (statusesOf esm)[i := ?st']"
    using assms(2) i by (auto simp: updateStatusCondition_def getControllerCondition_def split_beta Let_def)
  have i': "entryIndex externalSecretsControllerId (statusesOf esm') = Some i"
    using entryIndex_update [OF i, of ?st'] entryIndex_nth [OF i] r by simp
  then have "mirrorOf esm' t = map_option (\<lambda>m. (mc_Status m, mc_Message m)) (find (\<lambda>m. mc_Type m = t) (fst (mirrorInto c (cs_Conditions ?st))))"
    using entryIndex_nth [OF i] r by (simp add: mirrorOf_def)
  then show ?thesis
    using i i' r mirrorInto_unchanged [of c "cs_Conditions ?st"] find_mirrorInto [of t c "cs_Conditions ?st"]
    by (auto simp: mirrorOf_def hasEntry_def)
qed

lemma update_without_entry:
  assumes "\<not> hasEntry esm" and "updateStatusCondition externalSecretsControllerId c esm = (u, esm')"
  shows "u \<and> hasEntry esm' \<and> mirrorOf esm' t = None"
proof -
  have n: "entryIndex externalSecretsControllerId (statusesOf esm) = None" using assms(1) by (auto simp: hasEntry_def)
  from assms(2) n entryIndex_append [OF n] show ?thesis
    by (auto simp: updateStatusCondition_def getControllerCondition_def Let_def mirrorInto_def hasEntry_def mirrorOf_def)
qed

lemma mirror_with_entry:
  assumes "hasEntry esm" and "mirrorConditions cs (u0, esm) = (u, esm')" and "distinct (map cond_Type cs)"
  shows "hasEntry esm' \<and> (\<forall>c\<in>set cs. mirrorOf esm' (cond_Type c) = Some (cond_Status c, cond_Message c)) \<and>
    (\<forall>t. t \<notin> cond_Type ` set cs \<longrightarrow> mirrorOf esm' t = mirrorOf esm t) \<and> (u0 \<longrightarrow> u) \<and> (\<not> u \<longrightarrow> mirrorOf esm' = mirrorOf esm)"
  using assms
proof (induction cs arbitrary: u0 esm)
  case Nil
  then show ?case by simp
next
  case (Cons c cs)
  obtain v esm1 where step: "updateStatusCondition externalSecretsControllerId c esm = (v, esm1)" by force
  note 1 = update_with_entry [OF Cons.prems(1) step]
  have rest: "mirrorConditions cs (u0 \<or> v, esm1) = (u, esm')" using Cons.prems(2) step by simp
  from Cons.IH [OF _ rest] 1 Cons.prems(3) have IH: "hasEntry esm'"
    "\<forall>c\<in>set cs. mirrorOf esm' (cond_Type c) = Some (cond_Status c, cond_Message c)"
    "\<forall>t. t \<notin> cond_Type ` set cs \<longrightarrow> mirrorOf esm' t = mirrorOf esm1 t" "u0 \<or> v \<longrightarrow> u" "\<not> u \<longrightarrow> mirrorOf esm' = mirrorOf esm1"
    by auto
  have "mirrorOf esm' (cond_Type c) = Some (cond_Status c, cond_Message c)"
    using IH(3) 1 Cons.prems(3) by (auto simp: image_iff)
  moreover have "\<not> u \<longrightarrow> mirrorOf esm' = mirrorOf esm" 
  proof
    assume "\<not> u"
    with IH(4) have "\<not> v" by simp
    with 1 have "mirrorOf esm1 = mirrorOf esm" by (intro ext) blast
    with IH(5) \<open>\<not> u\<close> show "mirrorOf esm' = mirrorOf esm" by simp
  qed
  ultimately show ?case using IH 1 by auto
qed

section \<open>Properties\<close>

text \<open>C25. What the manager's resource shows of the configuration's conditions. When it already has an
  entry for the configuration's controller, one pass makes every condition's status and message
  visible there, keeps those of other types, and asks for a status update unless nothing visible
  changed. When it has no entry yet, the pass creates one and asks for an update, but the first
  condition is written to a local copy and lost; all the others are shown, and the next pass
  completes the entry.\<close>

theorem manager_mirrors_conditions:
  assumes "mirrorConditions cs (False, esm) = (u, esm')" and "distinct (map cond_Type cs)" and "cs = c # cs'"
  shows "(hasEntry esm \<longrightarrow> (\<forall>d\<in>set cs. mirrorOf esm' (cond_Type d) = Some (cond_Status d, cond_Message d)) \<and>
       (\<forall>t. t \<notin> cond_Type ` set cs \<longrightarrow> mirrorOf esm' t = mirrorOf esm t) \<and> (\<not> u \<longrightarrow> mirrorOf esm' = mirrorOf esm)) \<and>
    (\<not> hasEntry esm \<longrightarrow> u \<and> mirrorOf esm' (cond_Type c) = None \<and> hasEntry esm' \<and>
       (\<forall>d\<in>set cs'. mirrorOf esm' (cond_Type d) = Some (cond_Status d, cond_Message d)) \<and>
       (\<forall>u2 esm2. mirrorConditions cs (False, esm') = (u2, esm2) \<longrightarrow>
          (\<forall>d\<in>set cs. mirrorOf esm2 (cond_Type d) = Some (cond_Status d, cond_Message d))))"
proof (cases "hasEntry esm")
  case True
  with mirror_with_entry [OF _ assms(1,2)] show ?thesis by blast
next
  case False
  obtain v esm1 where step: "updateStatusCondition externalSecretsControllerId c esm = (v, esm1)" by force
  note 1 = update_without_entry [OF False step]
  have rest: "mirrorConditions cs' (True, esm1) = (u, esm')" using assms(1,3) step 1 by simp
  have "distinct (map cond_Type cs')" "cond_Type c \<notin> cond_Type ` set cs'" using assms(2,3) by auto
  with mirror_with_entry [OF _ rest] 1 have 2: "hasEntry esm'" u
    "\<forall>d\<in>set cs'. mirrorOf esm' (cond_Type d) = Some (cond_Status d, cond_Message d)" "mirrorOf esm' (cond_Type c) = None" by auto
  have "\<forall>d\<in>set cs. mirrorOf esm2 (cond_Type d) = Some (cond_Status d, cond_Message d)"
    if "mirrorConditions cs (False, esm') = (u2, esm2)" for u2 esm2
    using mirror_with_entry [OF 2(1) that assms(2)] by blast
  with False 2 show ?thesis by blast
qed

definition sampleConditions :: "condition list" where
  "sampleConditions = [\<lparr>cond_Type = ''Degraded'', cond_Status = ''False'', cond_Reason = ''Ready'', cond_Message = '''', cond_ObservedGeneration = 1\<rparr>,
     \<lparr>cond_Type = ''Ready'', cond_Status = ''True'', cond_Reason = ''Ready'', cond_Message = ''reconciliation successful'', cond_ObservedGeneration = 1\<rparr>]"

theorem manager_mirrors_conditions_witness:
  "mirrorOf (snd (mirrorConditions sampleConditions (False, defaultESM ''1.0''))) ''Degraded'' = None \<and>
   mirrorOf (snd (mirrorConditions sampleConditions (False, defaultESM ''1.0''))) ''Ready'' = Some (''True'', ''reconciliation successful'')"
proof -
  let ?run = "mirrorConditions sampleConditions (False, defaultESM ''1.0'')"
  have 1: "?run = (fst ?run, snd ?run)" by simp
  have 2: "distinct (map cond_Type sampleConditions)" "\<not> hasEntry (defaultESM ''1.0'')" by code_simp+
  have 3: "sampleConditions = hd sampleConditions # tl sampleConditions" by (simp add: sampleConditions_def)
  from manager_mirrors_conditions [OF 1 2(1) 3] 2(2) show ?thesis by (auto simp: sampleConditions_def)
qed

text \<open>The creation of the default resource reports success for errors that no retry helps, with
  nothing created.\<close>

theorem default_resource_error_swallowed:
  assumes "cl_Create c (KESM (defaultESM v)) s = (Err e, s')" and "\<not> shouldRetryOnError e"
  shows "CreateDefaultESMResource c v s = (Ret (), s')"
  unfolding CreateDefaultESMResource_def by (rule retry_first_success) (simp add: assms onErr_def andThen_def)

end
