(* ===== verification/TLS_Profile.thy ===== *)
theory TLS_Profile
  imports Operand_Args "HOL-Library.Word"
begin

section \<open>The cluster's TLS profile: \<^verbatim>\<open>pkg/tlsprofile\<close> and the startup in \<^verbatim>\<open>cmd/external-secrets-operator/main.go\<close>\<close>

text \<open>
  The profile that the cluster prescribes is read once at startup, resolved into the TLS settings of
  the operator's own metrics server and the \<^verbatim>\<open>--tls-*\<close> arguments of the operands, and kept in a cache
  behind a read-write lock whose critical sections are whole operations. The translation of a
  profile into settings, \<^verbatim>\<open>NewTLSConfigFromProfile\<close>, and the other vendored functions are parameters.
\<close>

type_synonym uint16 = "16 word"

definition VersionTLS10 :: uint16 where "VersionTLS10 = 0x0301"
definition VersionTLS11 :: uint16 where "VersionTLS11 = 0x0302"
definition VersionTLS12 :: uint16 where "VersionTLS12 = 0x0303"
definition VersionTLS13 :: uint16 where "VersionTLS13 = 0x0304"

text \<open>X25519, P-256, P-384 and P-521.\<close>

definition DefaultCurvePreferences :: "uint16 list" where "DefaultCurvePreferences = [29, 23, 24, 25]"

definition knownGoUnsupportedCiphers :: "string list" where
  "knownGoUnsupportedCiphers = [''ECDHE-ECDSA-AES256-SHA384'', ''ECDHE-RSA-AES256-SHA384'', ''AES256-SHA256'']"

text \<open>A profile as the API has it; the fields of \<^verbatim>\<open>tls.Config\<close> that are set here.\<close>

record TLSProfileSpec =
  tps_Ciphers :: "string list"
  tps_Groups :: "string list"
  tps_MinTLSVersion :: string

record tlsConfig =
  tc_MinVersion :: uint16
  tc_CipherSuites :: "uint16 list"
  tc_CurvePreferences :: "uint16 list"
  tc_RootCAs :: "string option"
  tc_ClientCAs :: "string option"
  tc_NextProtos :: "string list"

definition zeroTLSConfig :: tlsConfig where
  "zeroTLSConfig = \<lparr>tc_MinVersion = 0, tc_CipherSuites = [], tc_CurvePreferences = [], tc_RootCAs = None, tc_ClientCAs = None, tc_NextProtos = []\<rparr>"

type_synonym profileResolver = "TLSProfileSpec \<Rightarrow> (tlsConfig \<Rightarrow> tlsConfig) \<times> string list"

definition getTLSConfig :: "profileResolver \<Rightarrow> TLSProfileSpec option \<Rightarrow> goerr + tlsConfig" where
  "getTLSConfig newTLSConfigFromProfile spec =
     (case spec of
        None \<Rightarrow> Inl (PlainErr ''TLS profile spec is nil'')
      | Some sp \<Rightarrow>
          (let (configure, reported) = newTLSConfigFromProfile sp;
               badCiphers = filter (\<lambda>name. \<not> List.member knownGoUnsupportedCiphers name) reported in
           if badCiphers \<noteq> []
           then Inl (PlainErr (''unsupported TLS cipher/group names in profile: ['' @ joinWith '' '' badCiphers @ '']''))
           else Inr (configure (zeroTLSConfig\<lparr>tc_CurvePreferences := DefaultCurvePreferences\<rparr>))))"

definition tlsVersionString :: "uint16 \<Rightarrow> string" where
  "tlsVersionString v =
     (if v = VersionTLS10 then ''1.0'' else if v = VersionTLS11 then ''1.1''
      else if v = VersionTLS12 then ''1.2'' else if v = VersionTLS13 then ''1.3'' else '''')"

text \<open>\<open>tls.CipherSuiteName\<close>: the name of a suite that Go implements, else its number in hexadecimal.\<close>

definition cipherSuiteTable :: "(uint16 \<times> string) list" where
  "cipherSuiteTable =
     [(0x0005, ''TLS_RSA_WITH_RC4_128_SHA''), (0x000a, ''TLS_RSA_WITH_3DES_EDE_CBC_SHA''),
      (0x002f, ''TLS_RSA_WITH_AES_128_CBC_SHA''), (0x0035, ''TLS_RSA_WITH_AES_256_CBC_SHA''),
      (0x003c, ''TLS_RSA_WITH_AES_128_CBC_SHA256''), (0x009c, ''TLS_RSA_WITH_AES_128_GCM_SHA256''),
      (0x009d, ''TLS_RSA_WITH_AES_256_GCM_SHA384''), (0xc007, ''TLS_ECDHE_ECDSA_WITH_RC4_128_SHA''),
      (0xc009, ''TLS_ECDHE_ECDSA_WITH_AES_128_CBC_SHA''), (0xc00a, ''TLS_ECDHE_ECDSA_WITH_AES_256_CBC_SHA''),
      (0xc011, ''TLS_ECDHE_RSA_WITH_RC4_128_SHA''), (0xc012, ''TLS_ECDHE_RSA_WITH_3DES_EDE_CBC_SHA''),
      (0xc013, ''TLS_ECDHE_RSA_WITH_AES_128_CBC_SHA''), (0xc014, ''TLS_ECDHE_RSA_WITH_AES_256_CBC_SHA''),
      (0xc023, ''TLS_ECDHE_ECDSA_WITH_AES_128_CBC_SHA256''), (0xc027, ''TLS_ECDHE_RSA_WITH_AES_128_CBC_SHA256''),
      (0xc02b, ''TLS_ECDHE_ECDSA_WITH_AES_128_GCM_SHA256''), (0xc02c, ''TLS_ECDHE_ECDSA_WITH_AES_256_GCM_SHA384''),
      (0xc02f, ''TLS_ECDHE_RSA_WITH_AES_128_GCM_SHA256''), (0xc030, ''TLS_ECDHE_RSA_WITH_AES_256_GCM_SHA384''),
      (0xcca8, ''TLS_ECDHE_RSA_WITH_CHACHA20_POLY1305_SHA256''), (0xcca9, ''TLS_ECDHE_ECDSA_WITH_CHACHA20_POLY1305_SHA256''),
      (0x1301, ''TLS_AES_128_GCM_SHA256''), (0x1302, ''TLS_AES_256_GCM_SHA384''), (0x1303, ''TLS_CHACHA20_POLY1305_SHA256'')]"

definition upperHex :: string where "upperHex = ''0123456789ABCDEF''"

definition hexWord :: "uint16 \<Rightarrow> string" where
  "hexWord w = map (\<lambda>k. upperHex ! ((unat w div 16 ^ k) mod 16)) [3, 2, 1, 0]"

definition CipherSuiteName :: "uint16 \<Rightarrow> string" where
  "CipherSuiteName w = (case map_of cipherSuiteTable w of Some n \<Rightarrow> n | None \<Rightarrow> ''0x'' @ hexWord w)"

definition operandTLSArgsFromConfig :: "tlsConfig option \<Rightarrow> string list" where
  "operandTLSArgsFromConfig tlsCfg =
     (case tlsCfg of
        None \<Rightarrow> []
      | Some c \<Rightarrow>
          (if tlsVersionString (tc_MinVersion c) \<noteq> '''' then [''--tls-min-version='' @ tlsVersionString (tc_MinVersion c)] else []) @
          (if tc_MinVersion c \<noteq> VersionTLS13 \<and> tc_CipherSuites c \<noteq> []
           then [''--tls-ciphers='' @ joinWith '','' (map CipherSuiteName (tc_CipherSuites c))] else []))"

subsection \<open>The cache\<close>

record tlsCache =
  tca_configured :: bool
  tca_minVersion :: uint16
  tca_cipherSuites :: "uint16 list"
  tca_curvePreferences :: "uint16 list"
  tca_operandTLSArgs :: "string list"

definition newCache :: tlsCache where
  "newCache = \<lparr>tca_configured = False, tca_minVersion = 0, tca_cipherSuites = [], tca_curvePreferences = [], tca_operandTLSArgs = []\<rparr>"

definition SetTLSConfig :: "profileResolver \<Rightarrow> TLSProfileSpec option \<Rightarrow> tlsCache \<Rightarrow> goerr option \<times> tlsCache" where
  "SetTLSConfig newTLSConfigFromProfile spec cfg =
     (if spec = None
      then (None, cfg\<lparr>tca_configured := False, tca_minVersion := 0, tca_cipherSuites := [], tca_curvePreferences := [], tca_operandTLSArgs := []\<rparr>)
      else (case getTLSConfig newTLSConfigFromProfile spec of
          Inl err \<Rightarrow> (Some err, cfg)
        | Inr c \<Rightarrow> (None, cfg\<lparr>tca_configured := True, tca_minVersion := tc_MinVersion c, tca_cipherSuites := tc_CipherSuites c,
            tca_curvePreferences := tc_CurvePreferences c, tca_operandTLSArgs := operandTLSArgsFromConfig (Some c)\<rparr>)))"

definition GetOperandTLSArgs :: "tlsCache \<Rightarrow> string list" where
  "GetOperandTLSArgs cfg = tca_operandTLSArgs cfg"

definition baseTLSConfig :: "tlsCache \<Rightarrow> tlsConfig option" where
  "baseTLSConfig cfg =
     (if \<not> tca_configured cfg then None
      else Some (zeroTLSConfig\<lparr>tc_MinVersion := tca_minVersion cfg, tc_CipherSuites := tca_cipherSuites cfg,
             tc_CurvePreferences := tca_curvePreferences cfg\<rparr>))"

definition ClientTLSConfig :: "string option \<Rightarrow> tlsCache \<Rightarrow> tlsConfig option" where
  "ClientTLSConfig rootCAs cfg = map_option (\<lambda>c. c\<lparr>tc_RootCAs := rootCAs\<rparr>) (baseTLSConfig cfg)"

definition ServerTLSConfig :: "string option \<Rightarrow> tlsCache \<Rightarrow> tlsConfig option" where
  "ServerTLSConfig clientCAs cfg = map_option (\<lambda>c. c\<lparr>tc_ClientCAs := clientCAs\<rparr>) (baseTLSConfig cfg)"

subsection \<open>Startup\<close>

text \<open>\<open>apiserver.config.openshift.io/cluster\<close>, as far as it is read.\<close>

record TLSSecurityProfile =
  tsp_Type :: string
  tsp_Custom :: "TLSProfileSpec option"

record APIServer =
  as_TLSSecurityProfile :: "TLSSecurityProfile option"
  as_TLSAdherence :: string

record startupConfig =
  sc_tlsProfileSpec :: TLSProfileSpec
  sc_tlsAdherence :: string
  sc_tlsProfileType :: string

definition zeroStartupConfig :: startupConfig where
  "zeroStartupConfig = \<lparr>sc_tlsProfileSpec = \<lparr>tps_Ciphers = [], tps_Groups = [], tps_MinTLSVersion = ''''\<rparr>, sc_tlsAdherence = '''', sc_tlsProfileType = ''''\<rparr>"

definition resolveTLSProfileType :: "string \<Rightarrow> TLSSecurityProfile option \<Rightarrow> string" where
  "resolveTLSProfileType defaultTLSProfileType profile =
     (case profile of Some p \<Rightarrow> if tsp_Type p \<noteq> '''' then tsp_Type p else defaultTLSProfileType | None \<Rightarrow> defaultTLSProfileType)"

text \<open>The parameters: the outcome of building the client, of the fetch, and the vendored \<^verbatim>\<open>GetTLSProfileSpec\<close>.\<close>

definition resolveStartupTLSProfile :: "goerr option \<Rightarrow> goerr + APIServer \<Rightarrow> (TLSSecurityProfile option \<Rightarrow> goerr + TLSProfileSpec) \<Rightarrow> string \<Rightarrow>
    startupConfig \<Rightarrow> goerr + startupConfig" where
  "resolveStartupTLSProfile clientErr fetched getTLSProfileSpec defaultType cfg =
     (case clientErr of
        Some err \<Rightarrow> Inl (WrapErr ''failed to create uncached client for TLS profile resolution: '' err '''')
      | None \<Rightarrow>
     (case fetched of
        Inl err \<Rightarrow> if IsNotFound err then Inr cfg else Inl (WrapErr ''failed to get apiserver.config.openshift.io/cluster: '' err '''')
      | Inr apiServer \<Rightarrow>
     (case getTLSProfileSpec (as_TLSSecurityProfile apiServer) of
        Inl err \<Rightarrow> Inl (WrapErr ''failed to resolve cluster TLS profile: '' err '''')
      | Inr spec \<Rightarrow> Inr (cfg\<lparr>sc_tlsProfileSpec := spec, sc_tlsProfileType := resolveTLSProfileType defaultType (as_TLSSecurityProfile apiServer),
          sc_tlsAdherence := as_TLSAdherence apiServer\<rparr>))))"

text \<open>The part of \<^verbatim>\<open>main\<close> that fills the cache; an error ends the process.\<close>

definition startTLS :: "(string \<Rightarrow> bool) \<Rightarrow> profileResolver \<Rightarrow> startupConfig \<Rightarrow> goerr option \<times> tlsCache" where
  "startTLS shouldHonorClusterTLSProfile newTLSConfigFromProfile startupCfg =
     SetTLSConfig newTLSConfigFromProfile
       (if shouldHonorClusterTLSProfile (sc_tlsAdherence startupCfg) then Some (sc_tlsProfileSpec startupCfg) else None) newCache"

subsection \<open>The metrics server\<close>

definition metricsCertFileName :: string where "metricsCertFileName = ''tls.crt''"
definition metricsKeyFileName :: string where "metricsKeyFileName = ''tls.key''"
definition openshiftCACertificateFile :: string where
  "openshiftCACertificateFile = ''/var/run/secrets/kubernetes.io/serviceaccount/service-ca.crt''"

text \<open>\<open>statFile\<close> is the error of \<^verbatim>\<open>os.Stat\<close> on the joined path.\<close>

definition validateMetricsCertDir :: "(string \<Rightarrow> goerr option) \<Rightarrow> string \<Rightarrow> goerr option" where
  "validateMetricsCertDir statFile certDir =
     (case statFile (certDir @ ''/'' @ metricsCertFileName) of
        Some err \<Rightarrow> Some err
      | None \<Rightarrow> statFile (certDir @ ''/'' @ metricsKeyFileName))"

text \<open>A pool is a system pool or an empty one, with PEM text appended to it.\<close>

definition loadOpenShiftCACertPool :: "goerr + string \<Rightarrow> (string \<Rightarrow> goerr + string) \<Rightarrow> (string \<Rightarrow> string \<Rightarrow> string option) \<Rightarrow> goerr + string" where
  "loadOpenShiftCACertPool systemCertPool readFile appendCertsFromPEM =
     (let certPool = (case systemCertPool of Inr p \<Rightarrow> p | Inl _ \<Rightarrow> '''') in
      case readFile openshiftCACertificateFile of
        Inl err \<Rightarrow> Inl (WrapErr (''failed to read OpenShift service CA certificate file '' @ quoted openshiftCACertificateFile @ '': '') err '''')
      | Inr pem \<Rightarrow>
          (case appendCertsFromPEM certPool pem of
             None \<Rightarrow> Inl (PlainErr (''failed to parse any certificate from OpenShift service CA certificate file '' @ quoted openshiftCACertificateFile))
           | Some pool \<Rightarrow> Inr pool))"

record metricsOptions =
  mo_BindAddress :: string
  mo_SecureServing :: bool
  mo_CertDir :: string
  mo_CertName :: string
  mo_KeyName :: string
  mo_TLSOpts :: "(tlsConfig \<Rightarrow> tlsConfig) list"

definition disableHTTP2 :: "tlsConfig \<Rightarrow> tlsConfig" where
  "disableHTTP2 c = c\<lparr>tc_NextProtos := [''http/1.1'']\<rparr>"

definition configureMetricsServerOptions :: "(string \<Rightarrow> goerr option) \<Rightarrow> goerr + string \<Rightarrow> tlsCache \<Rightarrow> bool \<Rightarrow> bool \<Rightarrow> string \<Rightarrow> string \<Rightarrow>
    goerr + metricsOptions" where
  "configureMetricsServerOptions statFile loadedPool cfg secureMetrics enableHTTP2 metricsAddr metricsCerts =
     (let opts = \<lparr>mo_BindAddress = metricsAddr, mo_SecureServing = False, mo_CertDir = '''', mo_CertName = '''', mo_KeyName = '''', mo_TLSOpts = []\<rparr>;
          tlsOpts = (if \<not> enableHTTP2 then [disableHTTP2] else []) in
      if \<not> secureMetrics then Inr (opts\<lparr>mo_TLSOpts := tlsOpts\<rparr>)
      else (let opts1 = opts\<lparr>mo_SecureServing := secureMetrics\<rparr> in
        case (if metricsCerts \<noteq> '''' then validateMetricsCertDir statFile metricsCerts else None) of
          Some err \<Rightarrow> Inl (WrapErr ''metrics certificate validation failed: '' err '''')
        | None \<Rightarrow>
            (let opts2 = (if metricsCerts \<noteq> ''''
               then opts1\<lparr>mo_CertDir := metricsCerts, mo_CertName := metricsCertFileName, mo_KeyName := metricsKeyFileName\<rparr> else opts1) in
             case loadedPool of
               Inl err \<Rightarrow> Inl (WrapErr ''failed to load OpenShift CA certificate: '' err '''')
             | Inr certPool \<Rightarrow>
                 (let tlsOpts1 = tlsOpts @ [\<lambda>c. c\<lparr>tc_ClientCAs := Some certPool\<rparr>];
                      tlsOpts2 = (case ServerTLSConfig None cfg of
                          None \<Rightarrow> tlsOpts1
                        | Some tlsCfg \<Rightarrow> tlsOpts1 @ [\<lambda>c. c\<lparr>tc_MinVersion := tc_MinVersion tlsCfg, tc_CipherSuites := tc_CipherSuites tlsCfg,
                            tc_CurvePreferences := tc_CurvePreferences tlsCfg\<rparr>]) in
                  Inr (opts2\<lparr>mo_TLSOpts := tlsOpts2\<rparr>)))))"

section \<open>Lemmas\<close>

text \<open>The contents that the cache can have.\<close>

inductive tlsReachable :: "profileResolver \<Rightarrow> tlsCache \<Rightarrow> bool" for resolver where
  initial: "tlsReachable resolver newCache"
| set: "tlsReachable resolver cfg \<Longrightarrow> tlsReachable resolver (snd (SetTLSConfig resolver spec cfg))"

lemma operandTLSArgs_cong:
  "tc_MinVersion a = tc_MinVersion b \<Longrightarrow> tc_CipherSuites a = tc_CipherSuites b \<Longrightarrow>
   operandTLSArgsFromConfig (Some a) = operandTLSArgsFromConfig (Some b)"
  by (simp add: operandTLSArgsFromConfig_def)

lemma SetTLSConfig_args:
  assumes "GetOperandTLSArgs cfg = operandTLSArgsFromConfig (baseTLSConfig cfg)"
  shows "GetOperandTLSArgs (snd (SetTLSConfig resolver spec cfg)) = operandTLSArgsFromConfig (baseTLSConfig (snd (SetTLSConfig resolver spec cfg)))"
  using assms
  by (cases "getTLSConfig resolver spec")
     (auto simp: SetTLSConfig_def GetOperandTLSArgs_def baseTLSConfig_def operandTLSArgsFromConfig_def [of None] intro!: operandTLSArgs_cong)

lemma getTLSConfig_Inr:
  "(\<exists>c. getTLSConfig resolver (Some sp) = Inr c) \<longleftrightarrow> set (snd (resolver sp)) \<subseteq> set knownGoUnsupportedCiphers"
  by (auto simp: getTLSConfig_def Let_def split_beta filter_empty_conv)

section \<open>Properties\<close>

text \<open>C22. Operator and operands never disagree on TLS. In every state that the cache can reach, the
  arguments handed to the operands are those derived from the settings the operator itself uses, so
  that none are handed out while no profile is configured; a profile is refused exactly when it
  names a cipher or group outside the known unsupported ones, and a refused profile leaves the
  cache as it was.\<close>

theorem tls_args_follow_profile:
  assumes "tlsReachable resolver cfg"
  shows "GetOperandTLSArgs cfg = operandTLSArgsFromConfig (baseTLSConfig cfg) \<and>
    (baseTLSConfig cfg = None \<longrightarrow> GetOperandTLSArgs cfg = []) \<and>
    list_all (\<lambda>a. prefix ''--tls-'' a) (GetOperandTLSArgs cfg) \<and>
    (fst (SetTLSConfig resolver spec cfg) \<noteq> None \<longleftrightarrow> (\<exists>sp. spec = Some sp \<and> \<not> set (snd (resolver sp)) \<subseteq> set knownGoUnsupportedCiphers)) \<and>
    (fst (SetTLSConfig resolver spec cfg) \<noteq> None \<longrightarrow> snd (SetTLSConfig resolver spec cfg) = cfg)"
proof -
  have a: "GetOperandTLSArgs cfg = operandTLSArgsFromConfig (baseTLSConfig cfg)"
    using assms
  proof induction
    case initial
    show ?case by (simp add: GetOperandTLSArgs_def newCache_def baseTLSConfig_def operandTLSArgsFromConfig_def)
  next
    case (set cfg spec)
    from set.IH show ?case by (rule SetTLSConfig_args)
  qed
  moreover have "list_all (\<lambda>a. prefix ''--tls-'' a) (operandTLSArgsFromConfig c)" for c
    by (simp add: operandTLSArgsFromConfig_def split: option.splits)
  moreover have "operandTLSArgsFromConfig None = []" by (simp add: operandTLSArgsFromConfig_def)
  moreover have "fst (SetTLSConfig resolver spec cfg) \<noteq> None \<longleftrightarrow> (\<exists>sp. spec = Some sp \<and> \<not> set (snd (resolver sp)) \<subseteq> set knownGoUnsupportedCiphers)"
  proof (cases spec)
    case (Some sp)
    then show ?thesis using getTLSConfig_Inr [of resolver sp]
      by (cases "getTLSConfig resolver (Some sp)") (auto simp: SetTLSConfig_def)
  qed (simp add: SetTLSConfig_def)
  moreover have "fst (SetTLSConfig resolver spec cfg) \<noteq> None \<longrightarrow> snd (SetTLSConfig resolver spec cfg) = cfg"
    by (simp add: SetTLSConfig_def split: sum.splits)
  ultimately show ?thesis by simp
qed

text \<open>A resolver for TLS 1.2 that reports the ciphers it does not know.\<close>

definition sampleResolver :: profileResolver where
  "sampleResolver spec = ((\<lambda>c. c\<lparr>tc_MinVersion := VersionTLS12, tc_CipherSuites := [0xc02f]\<rparr>),
     filter (\<lambda>n. n \<noteq> ''ECDHE-RSA-AES128-GCM-SHA256'') (tps_Ciphers spec))"

definition sampleSpec :: TLSProfileSpec where
  "sampleSpec = \<lparr>tps_Ciphers = [''ECDHE-RSA-AES128-GCM-SHA256'', ''AES256-SHA256''], tps_Groups = [], tps_MinTLSVersion = ''VersionTLS12''\<rparr>"

theorem tls_args_follow_profile_witness:
  "GetOperandTLSArgs (snd (SetTLSConfig sampleResolver (Some sampleSpec) newCache)) =
     operandTLSArgsFromConfig (baseTLSConfig (snd (SetTLSConfig sampleResolver (Some sampleSpec) newCache))) \<and>
   GetOperandTLSArgs (snd (SetTLSConfig sampleResolver (Some sampleSpec) newCache)) =
     [''--tls-min-version=1.2'', ''--tls-ciphers=TLS_ECDHE_RSA_WITH_AES_128_GCM_SHA256'']"
proof -
  have r: "tlsReachable sampleResolver (snd (SetTLSConfig sampleResolver (Some sampleSpec) newCache))"
    by (intro tlsReachable.intros)
  have c: "baseTLSConfig (snd (SetTLSConfig sampleResolver (Some sampleSpec) newCache)) =
      Some (zeroTLSConfig\<lparr>tc_MinVersion := VersionTLS12, tc_CipherSuites := [0xc02f], tc_CurvePreferences := DefaultCurvePreferences\<rparr>)"
    by (simp add: SetTLSConfig_def getTLSConfig_def sampleResolver_def sampleSpec_def knownGoUnsupportedCiphers_def baseTLSConfig_def zeroTLSConfig_def)
  have v: "tlsVersionString VersionTLS12 = ''1.2''" "VersionTLS12 \<noteq> VersionTLS13"
    by (simp_all add: tlsVersionString_def VersionTLS10_def VersionTLS11_def VersionTLS12_def VersionTLS13_def)
  have n: "CipherSuiteName 0xc02f = ''TLS_ECDHE_RSA_WITH_AES_128_GCM_SHA256''"
    by (simp add: CipherSuiteName_def cipherSuiteTable_def)
  from tls_args_follow_profile [OF r, of None] show ?thesis
    unfolding c by (simp add: operandTLSArgsFromConfig_def v n)
qed

text \<open>C23. One profile for the whole system. After a successful startup with secure metrics, whatever the
  base settings of the metrics server, the configured options leave it with exactly the version,
  ciphers and curves that the honored cluster profile resolves to, and the operands are started
  with the arguments derived from the same resolution; when the adherence policy does not ask for
  it, the base settings and the operands' defaults stay. Client certificates are always verified
  against the service CA, and HTTP/2 is off unless it was enabled.\<close>

theorem startup_tls_uniform:
  assumes "startTLS honor resolver sc = (None, cfg)"
    and "configureMetricsServerOptions statFile pool cfg True http2 addr certs = Inr opts"
    and "served = fold (\<lambda>f c. f c) (mo_TLSOpts opts) base"
  shows "(if honor (sc_tlsAdherence sc)
      then \<exists>t. getTLSConfig resolver (Some (sc_tlsProfileSpec sc)) = Inr t \<and> tc_MinVersion served = tc_MinVersion t \<and>
        tc_CipherSuites served = tc_CipherSuites t \<and> tc_CurvePreferences served = tc_CurvePreferences t \<and>
        GetOperandTLSArgs cfg = operandTLSArgsFromConfig (Some t)
      else tc_MinVersion served = tc_MinVersion base \<and> tc_CipherSuites served = tc_CipherSuites base \<and>
        tc_CurvePreferences served = tc_CurvePreferences base \<and> GetOperandTLSArgs cfg = []) \<and>
    pool = Inr (the (tc_ClientCAs served)) \<and> tc_NextProtos served = (if http2 then tc_NextProtos base else [''http/1.1'']) \<and>
    mo_SecureServing opts"
proof -
  obtain p where p: "pool = Inr p" using assms(2) by (cases pool) (auto simp: configureMetricsServerOptions_def Let_def split: option.splits if_splits)
  let ?http = "if \<not> http2 then [disableHTTP2] else []"
  let ?server = "case ServerTLSConfig None cfg of None \<Rightarrow> [] | Some t \<Rightarrow> [\<lambda>c. c\<lparr>tc_MinVersion := tc_MinVersion t, tc_CipherSuites := tc_CipherSuites t,
      tc_CurvePreferences := tc_CurvePreferences t\<rparr>]"
  have opts: "mo_TLSOpts opts = ?http @ [\<lambda>c. c\<lparr>tc_ClientCAs := Some p\<rparr>] @ ?server" "mo_SecureServing opts"
    using assms(2) p by (auto simp: configureMetricsServerOptions_def Let_def split: option.splits if_splits)
  show ?thesis
  proof (cases "honor (sc_tlsAdherence sc)")
    case True
    then obtain t where t: "getTLSConfig resolver (Some (sc_tlsProfileSpec sc)) = Inr t"
      using assms(1) by (auto simp: startTLS_def SetTLSConfig_def split: sum.splits)
    with assms(1) True have "ServerTLSConfig None cfg = Some (zeroTLSConfig\<lparr>tc_MinVersion := tc_MinVersion t, tc_CipherSuites := tc_CipherSuites t,
        tc_CurvePreferences := tc_CurvePreferences t\<rparr>)" "GetOperandTLSArgs cfg = operandTLSArgsFromConfig (Some t)"
      by (auto simp: startTLS_def SetTLSConfig_def ServerTLSConfig_def baseTLSConfig_def GetOperandTLSArgs_def zeroTLSConfig_def)
    with True t opts p assms(3) show ?thesis by (cases http2) (simp_all add: disableHTTP2_def)
  next
    case False
    with assms(1) have "ServerTLSConfig None cfg = None" "GetOperandTLSArgs cfg = []"
      by (auto simp: startTLS_def SetTLSConfig_def ServerTLSConfig_def baseTLSConfig_def GetOperandTLSArgs_def)
    with False opts p assms(3) show ?thesis by (cases http2) (simp_all add: disableHTTP2_def)
  qed
qed

theorem startup_tls_uniform_witness:
  "\<exists>cfg opts. startTLS (\<lambda>p. p = ''StrictAllComponents'') sampleResolver
       (zeroStartupConfig\<lparr>sc_tlsProfileSpec := sampleSpec, sc_tlsAdherence := ''StrictAllComponents''\<rparr>) = (None, cfg) \<and>
     configureMetricsServerOptions (\<lambda>_. None) (Inr ''pool'') cfg True False '':8443'' '''' = Inr opts \<and>
     tc_MinVersion (fold (\<lambda>f c. f c) (mo_TLSOpts opts) zeroTLSConfig) = VersionTLS12"
proof -
  let ?honor = "\<lambda>p. p = ''StrictAllComponents''"
  let ?sc = "zeroStartupConfig\<lparr>sc_tlsProfileSpec := sampleSpec, sc_tlsAdherence := ''StrictAllComponents''\<rparr>"
  define cfg where "cfg = snd (startTLS ?honor sampleResolver ?sc)"
  define opts where "opts = projr (configureMetricsServerOptions (\<lambda>_. None) (Inr ''pool'') cfg True False '':8443'' '''')"
  have 1: "startTLS ?honor sampleResolver ?sc = (None, cfg)"
    by (simp add: cfg_def startTLS_def SetTLSConfig_def getTLSConfig_def sampleResolver_def sampleSpec_def knownGoUnsupportedCiphers_def)
  have 2: "configureMetricsServerOptions (\<lambda>_. None) (Inr ''pool'') cfg True False '':8443'' '''' = Inr opts"
    by (simp add: opts_def configureMetricsServerOptions_def Let_def)
  have 3: "getTLSConfig sampleResolver (Some sampleSpec) = Inr t \<Longrightarrow> tc_MinVersion t = VersionTLS12" for t
    by (auto simp: getTLSConfig_def sampleResolver_def sampleSpec_def knownGoUnsupportedCiphers_def)
  from startup_tls_uniform [OF 1 2 refl, of zeroTLSConfig] 1 2 3 show ?thesis by auto
qed

end
