(* ===== verification/Startup.thy ===== *)
theory Startup
  imports Controller CRD_Annotator Manager_Controller TLS_Profile
begin

section \<open>Start of the operator: \<^verbatim>\<open>cmd/external-secrets-operator/main.go\<close> and \<^verbatim>\<open>pkg/operator/setup_manager.go\<close>\<close>

text \<open>
  \<^verbatim>\<open>main\<close> from the parsed flags to the start of the manager, \<^verbatim>\<open>StartControllers\<close>, and the functions that
  build the three controllers, their clients and caches. The state is what the process has set up on
  the manager of controller-runtime so far, and the cluster. The calls into the vendored packages
  are parameters: the error of each of them, if it has one, and the clients. An error ends \<^verbatim>\<open>main\<close>
  with exit code 1; it is the \<open>Err\<close> outcome.
\<close>

subsection \<open>The vendored calls\<close>

datatype extcall =
    GetConfig | NewStartupClient | NewManager | SetupTLSWatcher
  | CompleteManagerController | CompleteController | CompleteAnnotator
  | NewUncached | NewAnnotatorCache | AnnotatorCRDInformer | AnnotatorESCInformer | AddAnnotatorCache | NewAnnotatorClient
  | NewDefaultResourceClient | AddHealthz | AddReadyz | StartManager

type_synonym discovery = "goerr option \<times> (string \<times> string list) list \<times> goerr option"

record 's startEnv =
  se_Err :: "extcall \<Rightarrow> goerr option"
  se_CacheDiscovery :: discovery
  se_Discovery :: discovery
  se_CertificateInformerErr :: "goerr option"
  se_GetAPIServer :: "nsname \<Rightarrow> goerr + APIServer"
  se_GetTLSProfileSpec :: "TLSSecurityProfile option \<Rightarrow> goerr + TLSProfileSpec"
  se_DefaultTLSProfileType :: string
  se_ShouldHonorClusterTLSProfile :: "string \<Rightarrow> bool"
  se_NewTLSConfigFromProfile :: profileResolver
  se_Stat :: "string \<Rightarrow> goerr option"
  se_SystemCertPool :: "goerr + string"
  se_ReadFile :: "string \<Rightarrow> goerr + string"
  se_AppendCertsFromPEM :: "string \<Rightarrow> string \<Rightarrow> string option"
  se_DirectClient :: "'s client"
  se_OperatorVersion :: string

text \<open>The manager: its options, its cache, the profile and policy that the TLS watcher compares with, the controllers
  with the kinds they watch, the further caches it runs, its checks.\<close>

record 's mgr =
  mg_Kube :: 's
  mg_TLS :: tlsCache
  mg_Metrics :: "metricsOptions option"
  mg_ProbeAddr :: string
  mg_LeaderElection :: bool
  mg_TLSWatch :: "(TLSProfileSpec \<times> string) option"
  mg_Cache :: "(string \<times> cacheSelector) list"
  mg_Controllers :: "(string \<times> string list) list"
  mg_Caches :: "(string \<times> cacheSelector) list list"
  mg_Checks :: "string list"
  mg_Started :: bool

type_synonym ('s, 'a) startprog = "(goerr, 's mgr, 'a) prog"

definition attempt :: "'s startEnv \<Rightarrow> extcall \<Rightarrow> ('s, unit) startprog" where
  "attempt o1 x = (\<lambda>m. (case se_Err o1 x of None \<Rightarrow> Ret () | Some e \<Rightarrow> Err e, m))"

definition onManager :: "('s mgr \<Rightarrow> 's mgr) \<Rightarrow> ('s, unit) startprog" where
  "onManager f = (\<lambda>m. (Ret (), f m))"

definition register :: "'s startEnv \<Rightarrow> extcall \<Rightarrow> string \<Rightarrow> string list \<Rightarrow> ('s, unit) startprog" where
  "register o1 x name kinds = andThen (attempt o1 x) (\<lambda>_. onManager (\<lambda>m. m\<lparr>mg_Controllers := mg_Controllers m @ [(name, kinds)]\<rparr>))"

subsection \<open>The version: \<^verbatim>\<open>pkg/version/version.go\<close>\<close>

record versionInfo =
  vi_Major :: string
  vi_Minor :: string
  vi_GitCommit :: string
  vi_GitVersion :: string
  vi_BuildDate :: string

definition versionString :: "versionInfo \<Rightarrow> string" where
  "versionString v =
     (let commit = (if length (vi_GitCommit v) > 7 then take 7 (vi_GitCommit v) else vi_GitCommit v) in
      vi_GitVersion v @ '' (commit: '' @ commit @ '', built: '' @ vi_BuildDate v @ '')'')"

subsection \<open>The cluster's API server object: \<^verbatim>\<open>pkg/tlsprofile/cluster.go\<close>\<close>

definition APIServerClusterName :: string where "APIServerClusterName = ''cluster''"

definition NewClientReaderAPIServerFetch :: "(nsname \<Rightarrow> goerr + APIServer) \<Rightarrow> goerr + APIServer" where
  "NewClientReaderAPIServerFetch get = get ('''', APIServerClusterName)"

definition setStartupConfig :: "'s startEnv \<Rightarrow> goerr + startupConfig" where
  "setStartupConfig o1 =
     resolveStartupTLSProfile (se_Err o1 NewStartupClient) (NewClientReaderAPIServerFetch (se_GetAPIServer o1))
       (se_GetTLSProfileSpec o1) (se_DefaultTLSProfileType o1) zeroStartupConfig"

subsection \<open>The controllers\<close>

text \<open>A failed check counts as not installed here.\<close>

definition NewCacheBuilder :: "discovery \<Rightarrow> (string \<times> cacheSelector) list" where
  "NewCacheBuilder d =
     (case isCRDInstalled (fst d) (snd d) certificateCRDName certificateCRDGroupVersion of
        Inl _ \<Rightarrow> buildCacheObjectList False
      | Inr certManagerExists \<Rightarrow> buildCacheObjectList certManagerExists)"

definition managerSetupWithManager :: "'s startEnv \<Rightarrow> ('s, unit) startprog" where
  "managerSetupWithManager o1 =
     register o1 CompleteManagerController managerControllerName [''ExternalSecretsManager'', ''ExternalSecretsConfig'']"

definition NewUncachedClient :: "'s startEnv \<Rightarrow> ('s, unit) startprog" where
  "NewUncachedClient o1 = onErr (attempt o1 NewUncached) (\<lambda>err. gerr (WrapErr ''failed to create uncached client: '' err ''''))"

text \<open>The reconciler is given by its optional resources.\<close>

definition escNew :: "'s startEnv \<Rightarrow> ('s, string list) startprog" where
  "escNew o1 =
     (case checkAndRegisterCertificates (fst (se_Discovery o1)) (snd (se_Discovery o1)) (se_CertificateInformerErr o1) [] of
        (Inl err, _) \<Rightarrow> gerr err
      | (Inr _, optionalResources) \<Rightarrow> andThen (NewUncachedClient o1) (\<lambda>_. gret optionalResources))"

definition SetupWithManager :: "'s startEnv \<Rightarrow> string list \<Rightarrow> ('s, unit) startprog" where
  "SetupWithManager o1 optionalResources =
     register o1 CompleteController ControllerName
       ([''ExternalSecretsConfig''] @ controllerManagedResources @ [''ConfigMap'', ''ExternalSecretsManager''] @
        (if List.member optionalResources certificateCRDGKV then [''Certificate''] else []))"

definition annotatorCacheObjects :: "(string \<times> cacheSelector) list" where
  "annotatorCacheObjects =
     [(''CustomResourceDefinition'', ByLabel requestEnqueueLabelKey requestEnqueueLabelValue), (''ExternalSecretsConfig'', Unrestricted)]"

definition BuildCustomClient :: "'s startEnv \<Rightarrow> ('s, unit) startprog" where
  "BuildCustomClient o1 =
     andThen (onErr (attempt o1 NewAnnotatorCache) (\<lambda>err. gerr (WrapErr ''failed to build custom cache: '' err ''''))) (\<lambda>_.
     andThen (attempt o1 AnnotatorCRDInformer) (\<lambda>_.
     andThen (attempt o1 AnnotatorESCInformer) (\<lambda>_.
     andThen (attempt o1 AddAnnotatorCache) (\<lambda>_.
     andThen (onManager (\<lambda>m. m\<lparr>mg_Caches := mg_Caches m @ [annotatorCacheObjects]\<rparr>)) (\<lambda>_.
     attempt o1 NewAnnotatorClient)))))"

definition annotatorNew :: "'s startEnv \<Rightarrow> ('s, unit) startprog" where
  "annotatorNew o1 = onErr (BuildCustomClient o1) (\<lambda>err. gerr (WrapErr ''failed to build custom client: '' err ''''))"

definition annotatorSetupWithManager :: "'s startEnv \<Rightarrow> ('s, unit) startprog" where
  "annotatorSetupWithManager o1 =
     register o1 CompleteAnnotator annotatorControllerName [''CustomResourceDefinition'', ''ExternalSecretsConfig'']"

definition onCluster :: "(goerr, 's, 'a) prog \<Rightarrow> ('s, 'a) startprog" where
  "onCluster p = (\<lambda>m. let (r, k) = p (mg_Kube m) in (r, m\<lparr>mg_Kube := k\<rparr>))"

definition StartControllers :: "'s startEnv \<Rightarrow> ('s, unit) startprog" where
  "StartControllers o1 =
     andThen (managerSetupWithManager o1) (\<lambda>_.
     andThen (escNew o1) (\<lambda>optionalResources.
     andThen (SetupWithManager o1 optionalResources) (\<lambda>_.
     andThen (if List.member optionalResources certificateCRDGKV
              then andThen (annotatorNew o1) (\<lambda>_. annotatorSetupWithManager o1) else gret ()) (\<lambda>_.
     andThen (attempt o1 NewDefaultResourceClient) (\<lambda>_.
     onCluster (CreateDefaultESMResource (se_DirectClient o1) (se_OperatorVersion o1)))))))"

subsection \<open>\<^verbatim>\<open>main\<close>\<close>

record flags =
  fl_metricsAddr :: string
  fl_probeAddr :: string
  fl_enableLeaderElection :: bool
  fl_secureMetrics :: bool
  fl_enableHTTP2 :: bool
  fl_logLevel :: int
  fl_metricsCerts :: string

definition defaultFlags :: flags where
  "defaultFlags = \<lparr>fl_metricsAddr = '':8443'', fl_probeAddr = '':8081'', fl_enableLeaderElection = False, fl_secureMetrics = True,
     fl_enableHTTP2 = False, fl_logLevel = 1, fl_metricsCerts = ''''\<rparr>"

text \<open>From the created manager on.\<close>

definition runManager :: "'s startEnv \<Rightarrow> startupConfig \<Rightarrow> ('s, unit) startprog" where
  "runManager o1 startupCfg =
     andThen (attempt o1 SetupTLSWatcher) (\<lambda>_.
     andThen (onManager (\<lambda>m. m\<lparr>mg_TLSWatch := Some (sc_tlsProfileSpec startupCfg, sc_tlsAdherence startupCfg)\<rparr>)) (\<lambda>_.
     andThen (StartControllers o1) (\<lambda>_.
     andThen (attempt o1 AddHealthz) (\<lambda>_.
     andThen (onManager (\<lambda>m. m\<lparr>mg_Checks := mg_Checks m @ [''healthz'']\<rparr>)) (\<lambda>_.
     andThen (attempt o1 AddReadyz) (\<lambda>_.
     andThen (onManager (\<lambda>m. m\<lparr>mg_Checks := mg_Checks m @ [''readyz'']\<rparr>)) (\<lambda>_.
     andThen (onManager (\<lambda>m. m\<lparr>mg_Started := True\<rparr>)) (\<lambda>_.
     attempt o1 StartManager))))))))"

definition mainSetup :: "'s startEnv \<Rightarrow> flags \<Rightarrow> ('s, unit) startprog" where
  "mainSetup o1 fl =
     andThen (attempt o1 GetConfig) (\<lambda>_.
     case setStartupConfig o1 of
       Inl err \<Rightarrow> gerr err
     | Inr startupCfg \<Rightarrow>
         (case startTLS (se_ShouldHonorClusterTLSProfile o1) (se_NewTLSConfigFromProfile o1) startupCfg of
            (Some err, _) \<Rightarrow> gerr err
          | (None, cache) \<Rightarrow>
              andThen (onManager (\<lambda>m. m\<lparr>mg_TLS := cache\<rparr>)) (\<lambda>_.
              case configureMetricsServerOptions (se_Stat o1)
                     (loadOpenShiftCACertPool (se_SystemCertPool o1) (se_ReadFile o1) (se_AppendCertsFromPEM o1)) cache
                     (fl_secureMetrics fl) (fl_enableHTTP2 fl) (fl_metricsAddr fl) (fl_metricsCerts fl) of
                Inl err \<Rightarrow> gerr err
              | Inr metricsServerOptions \<Rightarrow>
                  andThen (attempt o1 NewManager) (\<lambda>_.
                  andThen (onManager (\<lambda>m. m\<lparr>mg_Cache := NewCacheBuilder (se_CacheDiscovery o1), mg_Metrics := Some metricsServerOptions,
                    mg_ProbeAddr := fl_probeAddr fl, mg_LeaderElection := fl_enableLeaderElection fl\<rparr>)) (\<lambda>_.
                  runManager o1 startupCfg)))))"

section \<open>Lemmas\<close>

text \<open>Whether a discovery shows the certificates of cert-manager.\<close>

definition certManagerFound :: "discovery \<Rightarrow> bool" where
  "certManagerFound d \<longleftrightarrow> isCRDInstalled (fst d) (snd d) certificateCRDName certificateCRDGroupVersion = Inr True"

definition startedControllers :: "'s startEnv \<Rightarrow> (string \<times> string list) list" where
  "startedControllers o1 =
     [(managerControllerName, [''ExternalSecretsManager'', ''ExternalSecretsConfig'']),
      (ControllerName, [''ExternalSecretsConfig''] @ controllerManagedResources @ [''ConfigMap'', ''ExternalSecretsManager''] @
         (if certManagerFound (se_Discovery o1) then [''Certificate''] else []))] @
     (if certManagerFound (se_Discovery o1) then [(annotatorControllerName, [''CustomResourceDefinition'', ''ExternalSecretsConfig''])] else [])"

lemmas start_defs = attempt_def onManager_def register_def andThen_def onErr_def gret_def

lemma optional_found:
  assumes "checkAndRegisterCertificates (fst d) (snd d) ie [] = (Inr b, opt)"
  shows "List.member opt certificateCRDGKV \<longleftrightarrow> certManagerFound d"
  using assms by (auto simp: checkAndRegisterCertificates_def certManagerFound_def Let_def split: sum.splits option.splits bool.splits)

lemma andThen_elim:
  assumes "andThen p f m = (r, m')"
  obtains (stop) r1 where "p m = (r1, m')" and "\<And>x. r1 \<noteq> Ret x" and "\<And>y. r \<noteq> Ret y"
    | (proceed) x m1 where "p m = (Ret x, m1)" and "f x m1 = (r, m')"
  using assms by (cases "fst (p m)") (auto simp: andThen_def split: prod.splits result.splits)

text \<open>What the setup of the controllers leaves alone.\<close>

definition kept :: "'s mgr \<Rightarrow> 's mgr \<Rightarrow> bool" where
  "kept m m' \<longleftrightarrow> mg_TLS m' = mg_TLS m \<and> mg_Metrics m' = mg_Metrics m \<and> mg_ProbeAddr m' = mg_ProbeAddr m \<and>
     mg_LeaderElection m' = mg_LeaderElection m \<and> mg_TLSWatch m' = mg_TLSWatch m \<and> mg_Cache m' = mg_Cache m \<and>
     mg_Checks m' = mg_Checks m \<and> mg_Started m' = mg_Started m"

lemma kept_trans [trans]: "kept a b \<Longrightarrow> kept b c \<Longrightarrow> kept a c"
  by (simp add: kept_def)

lemma register_cases:
  assumes "register o1 x name kinds m = (r, m')"
  shows "kept m m'" and "mg_Kube m' = mg_Kube m"
    and "mg_Controllers m' = mg_Controllers m \<and> (\<forall>u. r \<noteq> Ret u) \<or> r = Ret () \<and> mg_Controllers m' = mg_Controllers m @ [(name, kinds)]"
  using assms by (auto simp: start_defs kept_def split: option.splits)

lemma escNew_cases:
  assumes "escNew o1 m = (r, m')"
  shows "m' = m" and "r = Ret opt \<Longrightarrow> List.member opt certificateCRDGKV \<longleftrightarrow> certManagerFound (se_Discovery o1)"
proof -
  obtain rc opt' where c: "checkAndRegisterCertificates (fst (se_Discovery o1)) (snd (se_Discovery o1)) (se_CertificateInformerErr o1) [] = (rc, opt')"
    by force
  show "m' = m" using assms by (auto simp: escNew_def NewUncachedClient_def start_defs c split: sum.splits option.splits)
  show "List.member opt certificateCRDGKV \<longleftrightarrow> certManagerFound (se_Discovery o1)" if "r = Ret opt"
  proof -
    from assms that obtain b where "rc = Inr b" "opt' = opt"
      by (auto simp: escNew_def NewUncachedClient_def start_defs c split: sum.splits option.splits)
    with optional_found c show ?thesis by blast
  qed
qed

lemma annotatorNew_keeps:
  assumes "annotatorNew o1 m = (r, m')"
  shows "kept m m'" and "mg_Kube m' = mg_Kube m" and "mg_Controllers m' = mg_Controllers m"
  using assms by (auto simp: annotatorNew_def BuildCustomClient_def start_defs kept_def split: option.splits)

lemma annotator_cases:
  assumes "(if List.member opt certificateCRDGKV then andThen (annotatorNew o1) (\<lambda>_. annotatorSetupWithManager o1) else gret ()) m = (r, m')"
    and "List.member opt certificateCRDGKV \<longleftrightarrow> certManagerFound (se_Discovery o1)"
  shows "kept m m' \<and> mg_Kube m' = mg_Kube m \<and>
    (mg_Controllers m' = mg_Controllers m \<and> (\<forall>u. r \<noteq> Ret u) \<or> mg_Controllers m' = mg_Controllers m @ drop 2 (startedControllers o1))"
proof (cases "certManagerFound (se_Discovery o1)")
  case False
  with assms show ?thesis by (simp add: startedControllers_def kept_def gret_def)
next
  case True
  with assms have "andThen (annotatorNew o1) (\<lambda>_. annotatorSetupWithManager o1) m = (r, m')" by simp
  then show ?thesis
  proof (cases rule: andThen_elim)
    case (stop r1)
    with annotatorNew_keeps [OF stop(1)] show ?thesis by simp
  next
    case (proceed _ m1)
    note 1 = annotatorNew_keeps [OF proceed(1)] and 2 = register_cases [OF proceed(2) [unfolded annotatorSetupWithManager_def]]
    from 1 2 True kept_trans [OF 1(1) 2(1)] show ?thesis by (auto simp: startedControllers_def)
  qed
qed

text \<open>The controllers are set up in order; the cluster is written only once all of them are.\<close>

lemma StartControllers_cases:
  assumes "StartControllers o1 m = (r, m')"
  shows "kept m m' \<and> (mg_Controllers m' = mg_Controllers m @ startedControllers o1 \<or> mg_Kube m' = mg_Kube m \<and> (\<forall>u. r \<noteq> Ret u))"
  using assms unfolding StartControllers_def
proof (cases rule: andThen_elim)
  case (stop r1)
  with register_cases [OF stop(1) [unfolded managerSetupWithManager_def]] show ?thesis by simp
next
  case (proceed _ m1)
  note 1 = register_cases [OF proceed(1) [unfolded managerSetupWithManager_def]]
  from proceed(2) show ?thesis
  proof (cases rule: andThen_elim)
    case (stop r1)
    with escNew_cases(1) [OF stop(1)] 1 show ?thesis by simp
  next
    case (proceed opt m2)
    have opt: "m2 = m1" "List.member opt certificateCRDGKV \<longleftrightarrow> certManagerFound (se_Discovery o1)"
      using escNew_cases [OF proceed(1)] by auto
    from proceed(2) show ?thesis
    proof (cases rule: andThen_elim)
      case (stop r1)
      with register_cases [OF stop(1) [unfolded SetupWithManager_def opt(1)]] 1 kept_trans show ?thesis by metis
    next
      case (proceed _ m3)
      note 3 = register_cases [OF proceed(1) [unfolded SetupWithManager_def opt]]
      have k3: "kept m m3" "mg_Kube m3 = mg_Kube m" using 1 3 kept_trans [of m m1 m3] by simp_all
      have c3: "mg_Controllers m3 = mg_Controllers m @ take 2 (startedControllers o1)"
        using 1(3) 3(3) \<open>managerSetupWithManager o1 m = _\<close> proceed(1) by (auto simp: startedControllers_def)
      from proceed(2) show ?thesis
      proof (cases rule: andThen_elim)
        case (stop r1)
        from annotator_cases [OF stop(1) opt(2)] k3 kept_trans [of m m3 m'] stop(3) show ?thesis by simp
      next
        case (proceed _ m4)
        from annotator_cases [OF proceed(1) opt(2)] c3 have 4: "kept m3 m4" "mg_Controllers m4 = mg_Controllers m @ startedControllers o1"
          by (auto simp: append_take_drop_id)
        from proceed(2) have "kept m4 m'" "mg_Controllers m' = mg_Controllers m4"
          by (auto simp: start_defs onCluster_def Let_def kept_def split: option.splits prod.splits)
        with 4 k3(1) kept_trans show ?thesis by metis
      qed
    qed
  qed
qed

lemma runManager_cases:
  assumes "runManager o1 sc m = (r, m')" and "\<not> mg_Started m" and "mg_Checks m = []" and "mg_Controllers m = []"
  shows "mg_TLS m' = mg_TLS m \<and> mg_Cache m' = mg_Cache m \<and> mg_Metrics m' = mg_Metrics m \<and>
    (mg_Started m' \<longrightarrow> mg_TLSWatch m' = Some (sc_tlsProfileSpec sc, sc_tlsAdherence sc)) \<and>
    (mg_Started m' \<longrightarrow> mg_Controllers m' = startedControllers o1 \<and> mg_Checks m' = [''healthz'', ''readyz''] \<and>
       (r = Ret () \<longleftrightarrow> se_Err o1 StartManager = None)) \<and>
    (\<not> mg_Started m' \<longrightarrow> (\<forall>u. r \<noteq> Ret u)) \<and>
    (mg_Kube m' \<noteq> mg_Kube m \<longrightarrow> mg_Controllers m' = startedControllers o1)"
proof (cases "se_Err o1 SetupTLSWatcher")
  case (Some e)
  with assms show ?thesis by (auto simp: runManager_def start_defs)
next
  case None
  obtain rs m1 where st: "StartControllers o1 (m\<lparr>mg_TLSWatch := Some (sc_tlsProfileSpec sc, sc_tlsAdherence sc)\<rparr>) = (rs, m1)" by force
  note 1 = StartControllers_cases [OF st]
  show ?thesis
  proof (cases rs)
    case (Ret u)
    with 1 assms None show ?thesis
      by (auto simp: runManager_def start_defs st kept_def split: option.splits)
  qed (use 1 assms None in \<open>auto simp: runManager_def start_defs st kept_def\<close>)
qed

section \<open>Properties\<close>

text \<open>
  C24. The operator serves only when it is set up completely. Whatever the flags and whatever fails,
  the manager is started only after the TLS settings were derived from the cluster's profile (the
  watcher that restarts the operator compares with the very profile and policy that were read), the
  cache was configured from the first discovery, all controllers were set up, the annotator of the
  definitions exactly when the second discovery shows cert-manager's certificates (then they are
  watched too), and both health checks were added; a start that does not get there is an error exit.
  The cluster is written, by the creation of the default manager resource, only once all controllers
  are set up. The two discoveries need not agree: a failed first one counts as not installed, and
  the certificates that are watched then have no entry in the cache configuration.
\<close>

theorem operator_starts_complete:
  assumes "mainSetup o1 fl m = (r, m')" and "mg_Controllers m = []" and "mg_Checks m = []" and "\<not> mg_Started m"
  shows "(mg_Started m' \<longrightarrow>
      map fst (mg_Controllers m') = [managerControllerName, ControllerName] @ (if certManagerFound (se_Discovery o1) then [annotatorControllerName] else []) \<and>
      (\<forall>kinds. (ControllerName, kinds) \<in> set (mg_Controllers m') \<longrightarrow> (''Certificate'' \<in> set kinds \<longleftrightarrow> certManagerFound (se_Discovery o1))) \<and>
      (map_of (mg_Cache m') ''Certificate'' \<noteq> None \<longleftrightarrow> certManagerFound (se_CacheDiscovery o1)) \<and>
      mg_Checks m' = [''healthz'', ''readyz''] \<and>
      (\<exists>sc. setStartupConfig o1 = Inr sc \<and>
         startTLS (se_ShouldHonorClusterTLSProfile o1) (se_NewTLSConfigFromProfile o1) sc = (None, mg_TLS m') \<and>
         mg_TLSWatch m' = Some (sc_tlsProfileSpec sc, sc_tlsAdherence sc)) \<and>
      (r = Ret () \<longleftrightarrow> se_Err o1 StartManager = None)) \<and>
    (\<not> mg_Started m' \<longrightarrow> r \<noteq> Ret ()) \<and>
    (mg_Kube m' \<noteq> mg_Kube m \<longrightarrow> mg_Controllers m' = startedControllers o1)"
proof -
  have names: "managerControllerName \<noteq> ControllerName" "annotatorControllerName \<noteq> ControllerName"
    by (simp_all add: managerControllerName_def annotatorControllerName_def ControllerName_def externalsecretsCommonName_def)
  have cert: "map_of (NewCacheBuilder d) ''Certificate'' \<noteq> None \<longleftrightarrow> certManagerFound d" for d
    by (auto simp: NewCacheBuilder_def buildCacheObjectList_def controllerManagedResources_def certManagerFound_def split: sum.splits)
  have kinds: "''Certificate'' \<notin> set controllerManagedResources" by (simp add: controllerManagedResources_def)
  consider (failed) "mg_Kube m' = mg_Kube m" "\<not> mg_Started m'" "r \<noteq> Ret ()"
    | (created) sc cache m1 where "setStartupConfig o1 = Inr sc"
        "startTLS (se_ShouldHonorClusterTLSProfile o1) (se_NewTLSConfigFromProfile o1) sc = (None, cache)"
        "runManager o1 sc m1 = (r, m')" "mg_TLS m1 = cache" "mg_Cache m1 = NewCacheBuilder (se_CacheDiscovery o1)" "mg_Kube m1 = mg_Kube m"
        "mg_Controllers m1 = []" "mg_Checks m1 = []" "\<not> mg_Started m1"
    using assms by (auto simp: mainSetup_def start_defs split: option.splits sum.splits prod.splits)
  then show ?thesis
  proof cases
    case created
    note R = runManager_cases [OF created(3) created(9,8,7)]
    show ?thesis
      using R created names cert kinds by (auto simp: startedControllers_def)
  qed simp
qed

text \<open>A cluster with cert-manager whose first discovery fails.\<close>

definition sampleStart :: "memserver startEnv" where
  "sampleStart = \<lparr>se_Err = (\<lambda>_. None), se_CacheDiscovery = (None, [], Some (PlainErr ''timeout'')),
     se_Discovery = (None, [(''cert-manager.io/v1'', [''issuers'', ''certificates''])], None), se_CertificateInformerErr = None,
     se_GetAPIServer = (\<lambda>_. Inr \<lparr>as_TLSSecurityProfile = None, as_TLSAdherence = ''''\<rparr>), se_GetTLSProfileSpec = (\<lambda>_. Inr sampleSpec),
     se_DefaultTLSProfileType = ''Intermediate'', se_ShouldHonorClusterTLSProfile = (\<lambda>_. False), se_NewTLSConfigFromProfile = sampleResolver,
     se_Stat = (\<lambda>_. None), se_SystemCertPool = Inr '''', se_ReadFile = (\<lambda>_. Inr ''pem''), se_AppendCertsFromPEM = (\<lambda>pool pem. Some (pool @ pem)),
     se_DirectClient = memClient (\<lambda>_. True), se_OperatorVersion = ''1''\<rparr>"

definition freshManager :: "memserver mgr" where
  "freshManager = \<lparr>mg_Kube = emptyServer, mg_TLS = newCache, mg_Metrics = None, mg_ProbeAddr = '''', mg_LeaderElection = False, mg_TLSWatch = None,
     mg_Cache = [], mg_Controllers = [], mg_Caches = [], mg_Checks = [], mg_Started = False\<rparr>"

theorem operator_starts_complete_witness:
  "mg_Started (snd (mainSetup sampleStart defaultFlags freshManager)) \<and>
   map fst (mg_Controllers (snd (mainSetup sampleStart defaultFlags freshManager))) = [managerControllerName, ControllerName, annotatorControllerName] \<and>
   map_of (mg_Cache (snd (mainSetup sampleStart defaultFlags freshManager))) ''Certificate'' = None"
proof -
  have run: "mainSetup sampleStart defaultFlags freshManager = (fst (mainSetup sampleStart defaultFlags freshManager), snd (mainSetup sampleStart defaultFlags freshManager))"
    by simp
  have started: "mg_Started (snd (mainSetup sampleStart defaultFlags freshManager))" by code_simp
  have found: "certManagerFound (se_Discovery sampleStart)" "\<not> certManagerFound (se_CacheDiscovery sampleStart)"
    by (simp_all add: certManagerFound_def isCRDInstalled_def sampleStart_def certificateCRDGroupVersion_def certificateCRDName_def)
  have fresh: "mg_Controllers freshManager = []" "mg_Checks freshManager = []" "\<not> mg_Started freshManager" by (simp_all add: freshManager_def)
  from operator_starts_complete [OF run fresh] started found show ?thesis by simp
qed

end
