(* ===== verification/Installed.thy ===== *)
theory Installed
  imports Install
begin

section \<open>What a successful pass leaves on the cluster\<close>

text \<open>
  The composition of the steps of \<^verbatim>\<open>install_external_secrets.go\<close>. \<open>desiredObjects\<close> lists the objects
  that the configuration asks for: service accounts, roles and bindings, services, webhook
  configurations, certificates and network policies, as the \<^verbatim>\<open>get*Object\<close> functions build them from the bundled manifests.
  \<open>applies md ds m\<close> is the contract of one call: it touches no object but those of \<open>ds\<close>, and when it
  returns without an error all of \<open>ds\<close> are on the server, undrifted. One rule per way of composition
  carries it to a whole step; the frames of \<^verbatim>\<open>Frame\<close> carry the result of a step through the rest of the
  pass, and the specification of the custom resource in memory through all of it.
\<close>

fun onRet :: "('e, 'a) result \<Rightarrow> ('a \<Rightarrow> 'b list) \<Rightarrow> 'b list" where
  "onRet (Ret x) f = f x"
| "onRet _ f = []"

definition desiredServiceAccounts :: "'s env \<Rightarrow> ExternalSecretsConfig \<Rightarrow> ResourceMetadata \<Rightarrow> kobj list" where
  "desiredServiceAccounts env esc md =
     concat (map (\<lambda>a. onRet (serviceAccountObject env esc md a) (\<lambda>d. [d])) (enabledAssets (serviceAccountsToCreate esc)))"

definition desiredServices :: "'s env \<Rightarrow> ExternalSecretsConfig \<Rightarrow> ResourceMetadata \<Rightarrow> kobj list" where
  "desiredServices env esc md =
     concat (map (\<lambda>a. onRet (serviceObject env esc md a) (\<lambda>d. [d])) (enabledAssets (servicesToCreate esc)))"

definition desiredControllerRBAC :: "'s env \<Rightarrow> ExternalSecretsConfig \<Rightarrow> string \<Rightarrow> ResourceMetadata \<Rightarrow> kobj list" where
  "desiredControllerRBAC env esc sa md =
     concat (map (\<lambda>a. onRet (getClusterRoleObject env a md) (\<lambda>d. [d])) controllerClusterRoleAssets) @
     onRet (DecodeClusterRoleObjBytes env controllerClusterRoleAssetName :: (goerr, kobj) result) (\<lambda>cr.
     onRet (getClusterRoleBindingObject env esc controllerClusterRoleBindingAssetName (om_Name (metaOf cr)) sa md) (\<lambda>crb. [crb] @
     onRet (getRoleObject env esc controllerRoleLeaderElectionAssetName md) (\<lambda>role. [role] @
     onRet (getRoleBindingObject env esc controllerRoleBindingLeaderElectionAssetName (om_Name (metaOf role)) sa md) (\<lambda>rb. [rb]))))"

definition desiredCertControllerRBAC :: "'s env \<Rightarrow> ExternalSecretsConfig \<Rightarrow> string \<Rightarrow> ResourceMetadata \<Rightarrow> kobj list" where
  "desiredCertControllerRBAC env esc sa md =
     (if isCertManagerConfigEnabled esc then []
      else onRet (getClusterRoleObject env certControllerClusterRoleAssetName md) (\<lambda>cr. [cr] @
           onRet (getClusterRoleBindingObject env esc certControllerClusterRoleBindingAssetName (om_Name (metaOf cr)) sa md) (\<lambda>crb. [crb])))"

definition desiredRBAC :: "'s env \<Rightarrow> ExternalSecretsConfig \<Rightarrow> ResourceMetadata \<Rightarrow> kobj list" where
  "desiredRBAC env esc md =
     onRet (DecodeServiceAccountObjBytes env controllerServiceAccountAssetName :: (goerr, kobj) result) (\<lambda>sa.
       desiredControllerRBAC env esc (om_Name (metaOf sa)) md @ desiredCertControllerRBAC env esc (om_Name (metaOf sa)) md)"

definition desiredWebhooks :: "'s env \<Rightarrow> ExternalSecretsConfig \<Rightarrow> ResourceMetadata \<Rightarrow> kobj list" where
  "desiredWebhooks env esc md = onRet (getValidatingWebhookObjects env esc md) (\<lambda>ds. concat (map (\<lambda>d. [d]) ds))"

definition desiredCertificate :: "'s env \<Rightarrow> ExternalSecretsConfig \<Rightarrow> ResourceMetadata \<Rightarrow> string \<Rightarrow> kobj list" where
  "desiredCertificate env esc md f =
     onRet (decodedCertificate (DecodeCertificateObjBytes env f)) (\<lambda>c.
       case cmc_IssuerRef (certManagerConfigOrZero esc) of
         None \<Rightarrow> []
       | Some ref \<Rightarrow> [KCertificate (issuedCertificate esc ref (preparedCertificate esc md f c))])"

definition bitwardenSecretRef :: "ExternalSecretsConfig \<Rightarrow> string" where
  "bitwardenSecretRef esc = (case Option.bind (pl_Bitwarden (spec_Plugins (esc_Spec esc))) bw_SecretRef of None \<Rightarrow> '''' | Some n \<Rightarrow> n)"

definition desiredCertificates :: "'s env \<Rightarrow> ExternalSecretsConfig \<Rightarrow> ResourceMetadata \<Rightarrow> kobj list" where
  "desiredCertificates env esc md =
     (if isCertManagerConfigEnabled esc then desiredCertificate env esc md webhookCertificateAssetName else []) @
     (if isBitwardenConfigEnabled esc \<and> bitwardenSecretRef esc = '''' \<and> isCertManagerConfigEnabled esc
      then desiredCertificate env esc md bitwardenCertificateAssetName else [])"

definition desiredStaticPolicies :: "'s env \<Rightarrow> ExternalSecretsConfig \<Rightarrow> ResourceMetadata \<Rightarrow> kobj list" where
  "desiredStaticPolicies env esc md =
     concat (map (\<lambda>a. onRet (networkPolicyObject env esc md a) (\<lambda>d. [d])) (enabledAssets (staticNetworkPolicyAssetConfigs esc)))"

definition desiredCustomPolicies :: "ExternalSecretsConfig \<Rightarrow> ResourceMetadata \<Rightarrow> kobj list" where
  "desiredCustomPolicies esc md =
     concat (map (\<lambda>c. case buildNetworkPolicyFromConfig esc c md of Inl err \<Rightarrow> [] | Inr np \<Rightarrow> [np])
       (elems (ctl_NetworkPolicies (spec_ControllerConfig (esc_Spec esc)))))"

definition desiredPolicies :: "'s env \<Rightarrow> ExternalSecretsConfig \<Rightarrow> ResourceMetadata \<Rightarrow> kobj list" where
  "desiredPolicies env esc md = desiredStaticPolicies env esc md @ desiredCustomPolicies esc md"

text \<open>
  The name of a policy that neither the policy for the proxy nor the removal of the policies of
  earlier releases uses.
\<close>

definition policySafe :: "'s env \<Rightarrow> ExternalSecretsConfig \<Rightarrow> kobj \<Rightarrow> bool" where
  "policySafe env esc d \<longleftrightarrow> om_Name (metaOf d) \<noteq> proxyEgressPolicyName \<and>
     (case legacyOperatorNetworkPolicyNames env esc of Ret legacy \<Rightarrow> om_Name (metaOf d) \<notin> set legacy | _ \<Rightarrow> True)"

definition desiredObjects :: "'s env \<Rightarrow> ExternalSecretsConfig \<Rightarrow> ResourceMetadata \<Rightarrow> kobj list" where
  "desiredObjects env esc md =
     desiredServiceAccounts env esc md @ desiredRBAC env esc md @ desiredServices env esc md @ desiredWebhooks env esc md @
     desiredCertificates env esc md @ desiredPolicies env esc md"

text \<open>The desired objects depend on the specification only.\<close>

lemma desired_spec:
  assumes "esc_Spec e1 = esc_Spec e2"
  shows "desiredServiceAccounts env e1 md = desiredServiceAccounts env e2 md"
    "desiredRBAC env e1 md = desiredRBAC env e2 md"
    "desiredServices env e1 md = desiredServices env e2 md"
    "desiredWebhooks env e1 md = desiredWebhooks env e2 md"
    "desiredCertificates env e1 md = desiredCertificates env e2 md"
proof -
  have flags: "isCertManagerConfigEnabled e1 = isCertManagerConfigEnabled e2" "isBitwardenConfigEnabled e1 = isBitwardenConfigEnabled e2"
    "withCertManagerAnnotation e1 md = withCertManagerAnnotation e2 md"
    using assms by (simp_all add: isCertManagerConfigEnabled_def isBitwardenConfigEnabled_def withCertManagerAnnotation_def
        certManagerConfig_def IsInjectCertManagerAnnotationEnabled_def)
  have ns: "updateNamespace o1 e1 = updateNamespace o1 e2" for o1 by (simp add: updateNamespace_def getNamespace_def)
  note defs = serviceObject_def serviceAccountObject_def getRoleObject_def getClusterRoleBindingObject_def getRoleBindingObject_def
    webhookObject_def servicesToCreate_def serviceAccountsToCreate_def getNamespace_def
  have cfg: "certManagerConfigOrZero e1 = certManagerConfigOrZero e2" "bitwardenSecretRef e1 = bitwardenSecretRef e2"
    using assms by (simp_all add: certManagerConfigOrZero_def certManagerConfig_def bitwardenSecretRef_def)
  have "issuedCertificate e1 = issuedCertificate e2" "preparedCertificate e1 = preparedCertificate e2"
    by (simp_all add: fun_eq_iff issuedCertificate_def preparedCertificate_def cfg ns getNamespace_def)
  then have cert: "desiredCertificate env e1 md f = desiredCertificate env e2 md f" for f
    unfolding desiredCertificate_def cfg by (simp cong: option.case_cong)
  show "desiredServiceAccounts env e1 md = desiredServiceAccounts env e2 md"
    "desiredRBAC env e1 md = desiredRBAC env e2 md"
    "desiredServices env e1 md = desiredServices env e2 md"
    "desiredWebhooks env e1 md = desiredWebhooks env e2 md"
    "desiredCertificates env e1 md = desiredCertificates env e2 md"
    by (simp_all add: desiredServiceAccounts_def desiredRBAC_def desiredControllerRBAC_def desiredCertControllerRBAC_def
        desiredServices_def desiredWebhooks_def getValidatingWebhookObjects_def desiredCertificates_def defs flags cfg cert ns cong: if_cong)
qed

section \<open>The contract of a call that applies objects\<close>

definition applicable :: "ResourceMetadata \<Rightarrow> kobj list \<Rightarrow> bool" where
  "applicable md ds \<longleftrightarrow> distinct (map objid ds) \<and> (\<forall>d\<in>set ds. comparable d \<and> freeOfDeleted d md)"

lemma applicable_append:
  assumes "applicable md (ds @ es)"
  shows "applicable md ds" "applicable md es" "objid ` set ds \<inter> objid ` set es = {}"
  using assms unfolding applicable_def map_append distinct_append set_append set_map by blast+

context operator_env
begin

definition installed :: "kobj \<Rightarrow> ResourceMetadata \<Rightarrow> 's rstate \<Rightarrow> bool" where
  "installed d md s \<longleftrightarrow> (\<exists>f. objs (rs_kube s) (objid d) = Some f \<and> HasObjectChanged d f md = Ret False)"

definition applies :: "ResourceMetadata \<Rightarrow> kobj list \<Rightarrow> ('s, 'a) recon \<Rightarrow> bool" where
  "applies md ds m \<longleftrightarrow> (applicable md ds \<longrightarrow> (\<forall>s r s'. wf (rs_kube s) \<longrightarrow> m s = (r, s') \<longrightarrow>
     wf (rs_kube s') \<and> (\<forall>i. i \<notin> objid ` set ds \<longrightarrow> objs (rs_kube s') i = objs (rs_kube s) i) \<and>
     (\<forall>x. r = Ret x \<longrightarrow> (\<forall>d\<in>set ds. notDeleting (objs (rs_kube s) (objid d)) \<longrightarrow> installed d md s'))))"

lemma appliesD:
  assumes "applies md ds m" and "applicable md ds" and "wf (rs_kube s)" and "m s = (r, s')"
  shows "wf (rs_kube s')" "i \<notin> objid ` set ds \<Longrightarrow> objs (rs_kube s') i = objs (rs_kube s) i"
    "r = Ret x \<Longrightarrow> d \<in> set ds \<Longrightarrow> notDeleting (objs (rs_kube s) (objid d)) \<Longrightarrow> installed d md s'"
  using assms unfolding applies_def by blast+

lemma appliesI:
  assumes "\<And>s r s'. applicable md ds \<Longrightarrow> wf (rs_kube s) \<Longrightarrow> m s = (r, s') \<Longrightarrow> wf (rs_kube s')"
    and "\<And>s r s' i. applicable md ds \<Longrightarrow> wf (rs_kube s) \<Longrightarrow> m s = (r, s') \<Longrightarrow> i \<notin> objid ` set ds \<Longrightarrow> objs (rs_kube s') i = objs (rs_kube s) i"
    and "\<And>s x s' d. applicable md ds \<Longrightarrow> wf (rs_kube s) \<Longrightarrow> m s = (Ret x, s') \<Longrightarrow> d \<in> set ds \<Longrightarrow>
      notDeleting (objs (rs_kube s) (objid d)) \<Longrightarrow> installed d md s'"
  shows "applies md ds m"
  using assms unfolding applies_def by blast

lemma applies_gret [intro!]: "applies md [] (gret x)"
  by (rule appliesI) auto

lemma applies_object [intro!]: "applies md [d] (applyObject env d md n recon m1 m2 m3 m4)"
proof -
  have a: "achieves d md s r s'" if "applicable md [d]" "wf (rs_kube s)" "applyObject env d md n recon m1 m2 m3 m4 s = (r, s')" for s r s'
    using applyObject_achieves [OF that(2) _ _ that(3)] that(1) by (simp add: applicable_def)
  show ?thesis
    by (rule appliesI; drule (2) a) (auto simp: achieves_def installed_def simp del: split_paired_All)
qed

lemma applies_lift:
  assumes "\<And>x. r = Ret x \<Longrightarrow> applies md (F x) (f x)"
  shows "applies md (onRet r F) (andThen (lift r) f)"
proof (cases r)
  case (Ret x)
  with assms show ?thesis by (simp add: lift_def andThen_def)
qed (auto intro!: appliesI simp: lift_def andThen_def)

lemma applies_seq:
  assumes m: "applies md ds m" and f: "\<And>x. applies md es (f x)"
  shows "applies md (ds @ es) (andThen m f)"
proof -
  have main: "wf (rs_kube s'') \<and> (\<forall>i. i \<notin> objid ` set (ds @ es) \<longrightarrow> objs (rs_kube s'') i = objs (rs_kube s) i) \<and>
      (\<forall>x. r = Ret x \<longrightarrow> (\<forall>d\<in>set (ds @ es). notDeleting (objs (rs_kube s) (objid d)) \<longrightarrow> installed d md s''))"
    if ok: "applicable md (ds @ es)" and wf: "wf (rs_kube s)" and run: "andThen m f s = (r, s'')" for s r s''
  proof -
    note sep = applicable_append [OF ok]
    obtain r1 s1 where 1: "m s = (r1, s1)" by force
    note D1 = appliesD [OF m sep(1) wf 1]
    show ?thesis
    proof (cases r1)
      case (Ret x)
      with 1 run have 2: "f x s1 = (r, s'')" by (simp add: andThen_def)
      note D2 = appliesD [OF f sep(2) D1(1) 2]
      have "installed d md s''" if "d \<in> set ds" "notDeleting (objs (rs_kube s) (objid d))" for d
      proof -
        have "objs (rs_kube s'') (objid d) = objs (rs_kube s1) (objid d)" using D2(2) sep(3) that(1) by blast
        with D1(3) [OF Ret that] show ?thesis by (simp add: installed_def)
      qed
      moreover have "installed d md s''" if "r = Ret y" "d \<in> set es" "notDeleting (objs (rs_kube s) (objid d))" for d y
      proof -
        have "objs (rs_kube s1) (objid d) = objs (rs_kube s) (objid d)" using D1(2) sep(3) that(2) by blast
        with D2(3) that show ?thesis by simp
      qed
      moreover have "objs (rs_kube s'') i = objs (rs_kube s) i" if "i \<notin> objid ` set (ds @ es)" for i
        using D1(2) [of i] D2(2) [of i] that by (simp add: image_Un)
      ultimately show ?thesis using D2(1) by auto
    qed (use 1 run D1 in \<open>auto simp: andThen_def\<close>)
  qed
  show ?thesis unfolding applies_def using main by blast
qed

lemma applies_forEach:
  "(\<And>x. applies md (F x) (f x)) \<Longrightarrow> applies md (concat (map F xs)) (forEach xs f)"
  by (induction xs) (auto intro!: applies_seq)

text \<open>A call that only reads before objects are applied.\<close>

lemma applies_pure: "keeps (untouched {}) m \<Longrightarrow> applies md [] m"
  by (rule appliesI; drule (1) keepsD) (auto dest: untouchedD simp del: split_paired_All)

lemma applies_read:
  assumes m: "keeps (untouched {}) m" and f: "\<And>s x s'. m s = (Ret x, s') \<Longrightarrow> applies md ds (f x)"
  shows "applies md ds (andThen m f)"
proof -
  have main: "wf (rs_kube s'') \<and> (\<forall>i. i \<notin> objid ` set ds \<longrightarrow> objs (rs_kube s'') i = objs (rs_kube s) i) \<and>
      (\<forall>x. r = Ret x \<longrightarrow> (\<forall>d\<in>set ds. notDeleting (objs (rs_kube s) (objid d)) \<longrightarrow> installed d md s''))"
    if ok: "applicable md ds" and wf: "wf (rs_kube s)" and run: "andThen m f s = (r, s'')" for s r s''
  proof -
    obtain r1 s1 where 1: "m s = (r1, s1)" by force
    have u: "untouched {} s s1" using keepsD [OF m 1] .
    have s1: "wf (rs_kube s1)" "objs (rs_kube s1) i = objs (rs_kube s) i" for i
      using untouchedD(1) [OF u wf] untouchedD(2) [OF u wf] by simp_all
    show ?thesis
    proof (cases r1)
      case (Ret x)
      with 1 run have "f x s1 = (r, s'')" by (simp add: andThen_def)
      from appliesD [OF f [OF 1 [unfolded Ret]] ok s1(1) this] show ?thesis by (simp add: s1(2))
    qed (use 1 run s1 in \<open>auto simp: andThen_def\<close>)
  qed
  show ?thesis unfolding applies_def using main by blast
qed

subsection \<open>The steps\<close>

lemma applies_serviceAccounts: "applies md (desiredServiceAccounts env esc md) (createOrApplyServiceAccounts env esc md recon)"
  unfolding desiredServiceAccounts_def createOrApplyServiceAccounts_def createOrApplyServiceAccountFromAsset_def Let_def
  by (intro applies_forEach applies_lift applies_object)

lemma applies_services: "applies md (desiredServices env esc md) (createOrApplyServices env esc md recon)"
  unfolding desiredServices_def createOrApplyServices_def createOrApplyServiceFromAsset_def Let_def
  by (intro applies_forEach applies_lift applies_object)

lemma applies_rbac: "applies md (desiredRBAC env esc md) (createOrApplyRBACResource env esc md recon)"
  unfolding desiredRBAC_def desiredControllerRBAC_def desiredCertControllerRBAC_def createOrApplyRBACResource_def
    createOrApplyControllerRBACResources_def createOrApplyCertControllerRBACResources_def
    createOrApplyClusterRole_def createOrApplyClusterRoleBinding_def createOrApplyRole_def createOrApplyRoleBinding_def Let_def
  by (cases "isCertManagerConfigEnabled esc"; simp only: if_True if_False)
     (intro applies_lift applies_seq applies_forEach applies_object applies_gret)+

lemma applies_webhooks: "applies md (desiredWebhooks env esc md) (createOrApplyValidatingWebhookConfiguration env esc md recon)"
  unfolding desiredWebhooks_def createOrApplyValidatingWebhookConfiguration_def createOrApplyValidatingWebhook_def Let_def
  by (intro applies_forEach applies_lift applies_object)

lemma certificate_value:
  assumes "getCertificateObject env esc md f s = (Ret o1, s')"
  shows "desiredCertificate env esc md f = [o1]"
proof (cases "decodedCertificate (DecodeCertificateObjBytes env f)")
  case (Ret c)
  with assms show ?thesis
    by (auto simp: desiredCertificate_def getCertificateObject_def lift_bind updateCertificateParams_def Let_def andThen_Ret_iff
        split: option.splits if_splits)
qed (use assms in \<open>auto simp: getCertificateObject_def lift_def andThen_def\<close>)

lemma applies_certificate: "applies md (desiredCertificate env esc md f) (createOrApplyCertificate env esc md f recon)"
  unfolding createOrApplyCertificate_def Let_def
proof (rule applies_read)
  show "keeps (untouched {}) (getCertificateObject env esc md f)"
    unfolding getCertificateObject_def Let_def by auto
qed (simp add: certificate_value applies_object)

lemma applies_certificates: "applies md (desiredCertificates env esc md) (createOrApplyCertificates env esc md recon)"
  unfolding desiredCertificates_def createOrApplyCertificates_def
proof (rule applies_seq)
  show "applies md (if isCertManagerConfigEnabled esc then desiredCertificate env esc md webhookCertificateAssetName else [])
      (if isCertManagerConfigEnabled esc then createOrApplyCertificate env esc md webhookCertificateAssetName recon else gret ())"
    by (simp add: applies_certificate applies_gret)
  have ref: "keeps (untouched {}) (assertSecretRefExists env esc n)" for n
    unfolding assertSecretRefExists_def Let_def by auto
  have err: "applies md [] (gerr e)" for e by (rule applies_pure) blast
  show "applies md (if isBitwardenConfigEnabled esc \<and> bitwardenSecretRef esc = '''' \<and> isCertManagerConfigEnabled esc
        then desiredCertificate env esc md bitwardenCertificateAssetName else [])
      (if \<not> isBitwardenConfigEnabled esc then gret ()
       else let secretRef = (case Option.bind (pl_Bitwarden (spec_Plugins (esc_Spec esc))) bw_SecretRef of None \<Rightarrow> '''' | Some n \<Rightarrow> n) in
         if secretRef \<noteq> '''' then assertSecretRefExists env esc secretRef
         else if \<not> isCertManagerConfigEnabled esc
         then gerr (userConfigErr (PlainErr ''invalid bitwardenSecretManagerProvider config'')
                ''either secretRef or certManagerConfig must be configured when bitwardenSecretManagerProvider is enabled'')
         else createOrApplyCertificate env esc md bitwardenCertificateAssetName recon)" for x
    unfolding bitwardenSecretRef_def [symmetric] Let_def
    by (auto intro: applies_certificate applies_pure [OF ref] err)
qed

lemma applies_staticPolicies: "applies md (desiredStaticPolicies env esc md) (createOrApplyStaticNetworkPolicies env esc md recon)"
  unfolding desiredStaticPolicies_def createOrApplyStaticNetworkPolicies_def createOrApplyNetworkPolicyFromAsset_def
    applyNetworkPolicy_def Let_def
  by (intro applies_forEach applies_lift applies_object)

lemma applies_customPolicies: "applies md (desiredCustomPolicies esc md) (createOrApplyCustomNetworkPolicies env esc md recon)"
proof -
  have err: "applies md [] (gerr e)" for e by (rule applies_pure) blast
  show ?thesis
    unfolding desiredCustomPolicies_def createOrApplyCustomNetworkPolicies_def createOrApplyCustomNetworkPolicy_def
      applyNetworkPolicy_def Let_def
    by (intro applies_forEach) (auto intro: err split: sum.split)
qed

lemma onRet_member: "x \<in> set (onRet r F) \<longleftrightarrow> (\<exists>y. r = Ret y \<and> x \<in> set (F y))"
  by (cases r) auto

lemma desired_policy_id:
  assumes "d \<in> set (desiredPolicies env esc md)"
  shows "objid d = (''NetworkPolicy'', OperandDefaultNamespace, om_Name (metaOf d))"
proof -
  have "kindOf d = ''NetworkPolicy'' \<and> om_Namespace (metaOf d) = OperandDefaultNamespace"
  proof (cases "d \<in> set (desiredStaticPolicies env esc md)")
    case True
    then obtain a where a: "networkPolicyObject env esc md a = Ret d" by (auto simp: desiredStaticPolicies_def onRet_member)
    then obtain o1 where "d = ApplyResourceMetadata (updateNamespace o1 esc) md"
      by (auto simp: networkPolicyObject_def map_result_Ret)
    then have "objid d = (kindOf o1, OperandDefaultNamespace, om_Name (metaOf o1))" by simp
    with desired_kind(3) [OF a] show ?thesis by (simp add: objid_def objectKey_def)
  next
    case False
    with assms obtain c where "buildNetworkPolicyFromConfig esc c md = Inr d"
      by (auto simp: desiredPolicies_def desiredCustomPolicies_def split: sum.splits)
    then obtain n sel eg where "d = ApplyResourceMetadata (egressPolicy n OperandDefaultNamespace sel eg) md"
      by (auto simp: buildNetworkPolicyFromConfig_def getNamespace_def split: sum.splits)
    then have "objid d = (''NetworkPolicy'', OperandDefaultNamespace, n)" by (simp add: objid_egressPolicy)
    then show ?thesis by (simp add: objid_def objectKey_def)
  qed
  then show ?thesis by (simp add: objid_def objectKey_def)
qed

lemma desired_kinds:
  "d \<in> set (desiredServiceAccounts env esc md) \<Longrightarrow> kindOf d = ''ServiceAccount''"
  "d \<in> set (desiredServices env esc md) \<Longrightarrow> kindOf d = ''Service''"
  "d \<in> set (desiredRBAC env esc md) \<Longrightarrow> kindOf d \<in> {''ClusterRole'', ''ClusterRoleBinding'', ''Role'', ''RoleBinding''}"
  "d \<in> set (desiredWebhooks env esc md) \<Longrightarrow> kindOf d = ''ValidatingWebhookConfiguration''"
  "d \<in> set (desiredCertificates env esc md) \<Longrightarrow> kindOf d = ''Certificate''"
  "d \<in> set (desiredPolicies env esc md) \<Longrightarrow> kindOf d = ''NetworkPolicy''"
proof -
  show "d \<in> set (desiredServiceAccounts env esc md) \<Longrightarrow> kindOf d = ''ServiceAccount''"
    "d \<in> set (desiredServices env esc md) \<Longrightarrow> kindOf d = ''Service''"
    by (auto simp: desiredServiceAccounts_def desiredServices_def onRet_member desired_kind)
  show "d \<in> set (desiredRBAC env esc md) \<Longrightarrow> kindOf d \<in> {''ClusterRole'', ''ClusterRoleBinding'', ''Role'', ''RoleBinding''}"
    by (auto simp: desiredRBAC_def desiredControllerRBAC_def desiredCertControllerRBAC_def onRet_member desired_kind split: if_splits)
  show "d \<in> set (desiredWebhooks env esc md) \<Longrightarrow> kindOf d = ''ValidatingWebhookConfiguration''"
    by (auto simp: desiredWebhooks_def onRet_member desired_kind dest!: getValidatingWebhookObjects_member)
  show "d \<in> set (desiredCertificates env esc md) \<Longrightarrow> kindOf d = ''Certificate''"
    by (auto simp: desiredCertificates_def desiredCertificate_def onRet_member split: if_splits option.splits)
  show "d \<in> set (desiredPolicies env esc md) \<Longrightarrow> kindOf d = ''NetworkPolicy''"
    by (drule desired_policy_id) (simp add: objid_def)
qed

section \<open>The custom resource in memory\<close>

lemma covers_kinds: "K \<subseteq> L \<Longrightarrow> frame.covers env (\<lambda>i. fst i \<in> L) (\<lambda>i. fst i \<in> L) K"
  by (auto simp: ut.covers_def)

lemma covers_memory: "''ExternalSecretsConfig'' \<notin> K \<Longrightarrow> frame.covers env (\<lambda>_. True) (\<lambda>i. fst i \<noteq> ''ExternalSecretsConfig'') K"
  by (auto simp: mk.covers_def)

text \<open>The server has the custom resource with the specification that is in memory.\<close>

definition escStored :: "'s rstate \<Rightarrow> bool" where
  "escStored s \<longleftrightarrow> (\<exists>e. objs (rs_kube s) (objid (KESC (rs_ESC s))) = Some (KESC e) \<and> esc_Spec e = esc_Spec (rs_ESC s))"

lemma escStored_kept:
  assumes "escStored s" and "wf (rs_kube s)" and "untouched K s s'" and "memKept s s'" and "''ExternalSecretsConfig'' \<notin> K"
  shows "escStored s'"
proof -
  have "objs (rs_kube s') (objid (KESC (rs_ESC s))) = objs (rs_kube s) (objid (KESC (rs_ESC s)))"
    by (rule untouchedD(2) [OF assms(3,2)]) (simp add: objid_def assms(5))
  with assms(1) memKeptD(2) [OF assms(4,2)] show ?thesis by (simp add: escStored_def)
qed

lemma escStored_step:
  assumes "keeps (untouched K) m" and "keeps memKept m" and "''ExternalSecretsConfig'' \<notin> K"
    and "escStored s" and "wf (rs_kube s)" and "m s = (r, s')"
  shows "escStored s'" "wf (rs_kube s')" "rs_ESC s' = rs_ESC s"
proof -
  have k: "untouched K s s'" "memKept s s'" using assms(1,2,6) by (blast intro: keepsD)+
  show "escStored s'" by (rule escStored_kept [OF assms(4,5) k assms(3)])
  show "wf (rs_kube s')" "rs_ESC s' = rs_ESC s" using memKeptD [OF k(2) assms(5)] by simp_all
qed

lemma mark_spec:
  assumes "escStored s" and "wf (rs_kube s)" and "markCleanupDone env (rs_ESC s) s = (Ret (), s')"
  shows "esc_Spec (rs_ESC s') = esc_Spec (rs_ESC s)"
proof -
  obtain r k where p: "cl_Patch (e_Client env) (KESC (rs_ESC s)) (MergeMetadata [] [(skipNPCleanupAnnotation, ''true'')]) (rs_kube s) = (r, k)"
    by force
  from assms(3) p obtain o2 where r: "r = Ret o2"
    and s': "(case o2 of KESC esc' \<Rightarrow> setESC esc' | _ \<Rightarrow> gret ()) (s\<lparr>rs_kube := k\<rparr>) = (Ret (), s')"
    by (cases r) (auto simp: markCleanupDone_def andThen_def onErr_def onKube_def)
  from cached.patch_Ret [OF assms(2) p [unfolded r]] assms(1) obtain e where
    e: "esc_Spec e = esc_Spec (rs_ESC s)" "sameUpToServer (mapMeta (applyPatch (MergeMetadata [] [(skipNPCleanupAnnotation, ''true'')])) (KESC e)) o2"
    unfolding escStored_def by auto
  then obtain e2 where "o2 = KESC e2" "esc_Spec e2 = esc_Spec (rs_ESC s)" by (auto simp: sameUpToServer_def)
  with s' show ?thesis by (auto simp: setESC_def)
qed

lemma cleanup_spec:
  assumes "escStored s" and "wf (rs_kube s)" and "cleanupMigratedNetworkPolicies env (rs_ESC s) s = (Ret (), s')"
  shows "esc_Spec (rs_ESC s') = esc_Spec (rs_ESC s)"
proof (cases "gget (om_Annotations (esc_Meta (rs_ESC s))) skipNPCleanupAnnotation = ''true''")
  case True
  with assms(3) show ?thesis by (auto simp: cleanupMigratedNetworkPolicies_def)
next
  case False
  define m where "m = onErr (onKube (cl_List (e_Client env) ''NetworkPolicy'' OperandDefaultNamespace ownershipLabels))
            (\<lambda>err. gerr (fromClientErr err (''failed to list network policies in '' @ OperandDefaultNamespace @ '' for cleanup'')))"
  from assms(3) False obtain legacy items t1 t2 where
    1: "m s = (Ret items, t1)"
    and 2: "forEach items (deleteLegacyPolicy env OperandDefaultNamespace legacy) t1 = (Ret (), t2)"
    and 3: "markCleanupDone env (rs_ESC s) t2 = (Ret (), s')"
    by (auto simp: cleanupMigratedNetworkPolicies_def Let_def getNamespace_def m_def lift_def elim!: andThen_RetE)
  have ns: "OperandDefaultNamespace \<noteq> []" by (simp add: OperandDefaultNamespace_def externalsecretsCommonName_def)
  have items: "\<exists>n. objid o1 = (''NetworkPolicy'', OperandDefaultNamespace, n)" if "o1 \<in> set items" for o1
    by (rule mk.listed_in_namespace [OF assms(2) 1 [unfolded m_def] that ns])
  have k1: "keeps (untouched {}) m" "keeps memKept m" unfolding m_def by blast+
  note e1 = escStored_step [OF k1 _ assms(1,2) 1, simplified]
  have k2: "keeps (untouched {''NetworkPolicy''}) (forEach items (deleteLegacyPolicy env OperandDefaultNamespace legacy))"
    "keeps memKept (forEach items (deleteLegacyPolicy env OperandDefaultNamespace legacy))"
    by (intro ut.frame_forEach ut.frame_deleteLegacy covers_kinds subset_refl items; assumption)
       (intro mk.frame_forEach mk.frame_deleteLegacy covers_memory items; simp)
  note e2 = escStored_step [OF k2 _ e1(1,2) 2, simplified]
  from mark_spec [OF e2(1,2)] 3 e1(3) e2(3) show ?thesis by simp
qed

lemma policies_spec:
  assumes "escStored s" and "wf (rs_kube s)" and "createOrApplyNetworkPolicies env (rs_ESC s) md recon s = (Ret (), s')"
  shows "esc_Spec (rs_ESC s') = esc_Spec (rs_ESC s)"
proof -
  let ?e = "rs_ESC s"
  define m where "m = andThen (createOrApplyStaticNetworkPolicies env ?e md recon) (\<lambda>_.
     andThen (reconcileProxyEgressPolicy env ?e md recon) (\<lambda>_. createOrApplyCustomNetworkPolicies env ?e md recon))"
  from assms(3) obtain t where 1: "m s = (Ret (), t)" and 2: "cleanupMigratedNetworkPolicies env ?e t = (Ret (), s')"
    by (auto simp: createOrApplyNetworkPolicies_def m_def andThen_Ret_iff)
  have k: "keeps (untouched {''NetworkPolicy''}) m" "keeps memKept m"
    unfolding m_def
    by (intro ut.frame_andThen ut.frame_staticPolicies ut.frame_proxyPolicy ut.frame_customPolicies covers_kinds subset_refl)
       (intro mk.frame_andThen mk.frame_staticPolicies mk.frame_proxyPolicy mk.frame_customPolicies covers_memory; simp)
  note e = escStored_step [OF k _ assms(1,2) 1, simplified]
  from cleanup_spec [OF e(1,2)] 2 e(3) show ?thesis by simp
qed

text \<open>
  The step of the network policies. After the policies of the manifests and of the custom resource come
  the policy for the proxy and the removal of old ones, which do not touch a policy with a safe name.
\<close>

lemma policies_install:
  assumes wf: "wf (rs_kube s)" and run: "createOrApplyNetworkPolicies env esc md recon s = (Ret (), s')"
    and ok: "applicable md (desiredPolicies env esc md)" and safe: "policySafe env esc d"
    and d: "d \<in> set (desiredPolicies env esc md)" "notDeleting (objs (rs_kube s) (objid d))"
  shows "installed d md s'"
proof -
  from run obtain t1 t2 t3 where 1: "createOrApplyStaticNetworkPolicies env esc md recon s = (Ret (), t1)"
    and 2: "reconcileProxyEgressPolicy env esc md recon t1 = (Ret (), t2)"
    and 3: "createOrApplyCustomNetworkPolicies env esc md recon t2 = (Ret (), t3)"
    and 4: "cleanupMigratedNetworkPolicies env esc t3 = (Ret (), s')"
    unfolding createOrApplyNetworkPolicies_def by (auto elim!: andThen_RetE)
  note id = desired_policy_id [OF d(1)] and sep = applicable_append [OF ok [unfolded desiredPolicies_def]]
  note A1 = appliesD [OF applies_staticPolicies sep(1) wf 1]
  have "keeps (stays (objid d)) (reconcileProxyEgressPolicy env esc md recon)"
    by (rule at.frame_proxyPolicy_only) (use safe in \<open>auto simp: id policySafe_def\<close>)
  note u2 = staysD [OF keepsD [OF this 2] A1(1)]
  note A3 = appliesD [OF applies_customPolicies sep(2) u2(1) 3]
  have "keeps (stays (objid d)) (cleanupMigratedNetworkPolicies env esc)"
  proof (rule at.frame_cleanup_only)
    show "keeps (stays (objid d)) (markCleanupDone env e)" for e
      by (rule at.frame_mark) (simp add: at.covers_def id)
  qed (use safe in \<open>auto simp: id policySafe_def\<close>)
  note u4 = staysD [OF keepsD [OF this 4] A3(1)]
  have "installed d md t3"
  proof (cases "d \<in> set (desiredCustomPolicies esc md)")
    case True
    then have "objid d \<notin> objid ` set (desiredStaticPolicies env esc md)" using sep(3) by blast
    from A1(2) [OF this] u2(2) d(2) A3(3) [OF refl True] show ?thesis by simp
  next
    case False
    with d(1) have st: "d \<in> set (desiredStaticPolicies env esc md)" by (simp add: desiredPolicies_def)
    then have "objid d \<notin> objid ` set (desiredCustomPolicies esc md)" using sep(3) by blast
    from A3(2) [OF this] u2(2) A1(3) [OF refl st d(2)] show ?thesis by (simp add: installed_def)
  qed
  with u4(2) show ?thesis by (simp add: installed_def)
qed

text \<open>The steps that follow only ever write the specification back that they read.\<close>

definition specKept :: "'s rstate \<Rightarrow> 's rstate \<Rightarrow> bool" where
  "specKept s s' \<longleftrightarrow> (wf (rs_kube s) \<longrightarrow> wf (rs_kube s') \<and> esc_Spec (rs_ESC s') = esc_Spec (rs_ESC s))"

lemma specKept_refl [intro]: "reflp specKept" and specKept_trans [intro]: "transp specKept"
  by (auto simp: reflp_def transp_def specKept_def)

lemma specKept_mem: "keeps memKept m \<Longrightarrow> keeps specKept m"
  by (auto simp: keeps_def memKept_def specKept_def)

lemma image_spec: "keeps specKept (updateImageInStatus env)"
proof (rule keepsI)
  fix s
  have st: "keeps memKept (updateStatus env e)" for e by (rule mk.frame_updateStatus) simp
  show "specKept s (snd (updateImageInStatus env s))"
    using st [unfolded keeps_def memKept_def, rule_format]
    by (simp add: updateImageInStatus_def andThen_def readState_def setESC_def Let_def specKept_def)
qed

lemma deployments_spec:
  assumes "patchKeepsIdentity env"
  shows "keeps specKept (createOrApplyDeployments env esc md recon)"
  unfolding createOrApplyDeployments_def
proof (rule keeps_andThen)
  show "keeps specKept (forEach (enabledAssets (deploymentsToCreate esc)) (\<lambda>assetName. createOrApplyDeploymentFromAsset env esc assetName md recon))"
    by (rule specKept_mem, rule mk.frame_forEach, rule mk.frame_deployment) (simp_all add: mk.covers_def assms)
  show "keeps specKept (onErr (updateImageInStatus env)
      (\<lambda>err. gerr (fromClientErr err (''failed to update '' @ om_Namespace (esc_Meta esc) @ ''/'' @ om_Name (esc_Meta esc) @ '' status with image info''))))" for x
    by (rule keeps_onErr [OF specKept_trans image_spec]) (auto intro: specKept_mem)
qed auto

section \<open>The whole pass\<close>

lemma keeps_untouched_mono: "keeps (untouched K) m \<Longrightarrow> K \<subseteq> L \<Longrightarrow> keeps (untouched L) m"
  unfolding keeps_def by (blast intro: untouched_mono)

text \<open>The kinds each step touches.\<close>

lemma step_kinds:
  assumes "patchKeepsIdentity env"
  shows "keeps (untouched {''Namespace''}) (withESC (\<lambda>esc. createOrApplyNamespace env esc md))"
    "keeps (untouched {''NetworkPolicy'', ''ExternalSecretsConfig''}) (withESC (\<lambda>esc. createOrApplyNetworkPolicies env esc md recon))"
    "keeps (untouched {''ServiceAccount''}) (withESC (\<lambda>esc. createOrApplyServiceAccounts env esc md recon))"
    "keeps (untouched {''Certificate''}) (withESC (\<lambda>esc. createOrApplyCertificates env esc md recon))"
    "keeps (untouched {''Secret''}) (withESC (\<lambda>esc. createOrApplySecret env esc md recon))"
    "keeps (untouched {''ConfigMap''}) (withESC (\<lambda>esc. ensureTrustedCABundleConfigMap env esc md))"
    "keeps (untouched {''ClusterRole'', ''ClusterRoleBinding'', ''Role'', ''RoleBinding''}) (withESC (\<lambda>esc. createOrApplyRBACResource env esc md recon))"
    "keeps (untouched {''Service''}) (withESC (\<lambda>esc. createOrApplyServices env esc md recon))"
    "keeps (untouched {''ConfigMap'', ''Deployment'', ''ExternalSecretsConfig''}) (withESC (\<lambda>esc. createOrApplyDeployments env esc md recon))"
    "keeps (untouched {''ValidatingWebhookConfiguration''}) (withESC (\<lambda>esc. createOrApplyValidatingWebhookConfiguration env esc md recon))"
  by (intro ut.frame_withESC ut.frame_namespace ut.frame_serviceAccounts ut.frame_certificates ut.frame_secret ut.frame_caBundle
      ut.frame_rbac ut.frame_services ut.frame_deployments ut.frame_webhooks ut.frame_policies ut.frame_mark covers_kinds assms; blast)+

lemma step_specs:
  assumes "patchKeepsIdentity env"
  shows "keeps specKept (withESC (\<lambda>esc. createOrApplyServiceAccounts env esc md recon))"
    "keeps specKept (withESC (\<lambda>esc. createOrApplyCertificates env esc md recon))"
    "keeps specKept (withESC (\<lambda>esc. createOrApplySecret env esc md recon))"
    "keeps specKept (withESC (\<lambda>esc. ensureTrustedCABundleConfigMap env esc md))"
    "keeps specKept (withESC (\<lambda>esc. createOrApplyRBACResource env esc md recon))"
    "keeps specKept (withESC (\<lambda>esc. createOrApplyServices env esc md recon))"
    "keeps specKept (withESC (\<lambda>esc. createOrApplyDeployments env esc md recon))"
proof -
  show "keeps specKept (withESC (\<lambda>esc. createOrApplyDeployments env esc md recon))"
    unfolding withESC_def by (intro keeps_andThen specKept_trans deployments_spec [OF assms] specKept_mem mk.frame_pure)
qed (intro specKept_mem mk.frame_withESC mk.frame_serviceAccounts mk.frame_certificates mk.frame_secret mk.frame_caBundle
      mk.frame_rbac mk.frame_services covers_memory; simp)+

lemma namespace_memory: "keeps memKept (withESC (\<lambda>esc. createOrApplyNamespace env esc md))"
  by (intro mk.frame_withESC mk.frame_namespace covers_memory) simp

text \<open>The specification in memory is the one the pass started with, at the start of every step after the network policies.\<close>

lemma prefix_spec:
  assumes "patchKeepsIdentity env" and "escStored s" and "wf (rs_kube s)"
    and "forEach ((\<lambda>esc. createOrApplyNamespace env esc md) # (\<lambda>esc. createOrApplyNetworkPolicies env esc md recon) # fs) withESC s = (Ret (), t)"
    and "\<And>f. f \<in> set fs \<Longrightarrow> keeps specKept (withESC f)"
  shows "wf (rs_kube t)" "esc_Spec (rs_ESC t) = esc_Spec (rs_ESC s)"
proof -
  from assms(4) obtain t1 t2 where 1: "withESC (\<lambda>esc. createOrApplyNamespace env esc md) s = (Ret (), t1)"
    and 2: "withESC (\<lambda>esc. createOrApplyNetworkPolicies env esc md recon) t1 = (Ret (), t2)"
    and 3: "forEach fs withESC t2 = (Ret (), t)"
    by (auto elim!: andThen_RetE)
  note e1 = escStored_step [OF step_kinds(1) [OF assms(1)] namespace_memory _ assms(2,3) 1, simplified]
  have w2: "wf (rs_kube t2)" using keepsD [OF step_kinds(2) [OF assms(1)] 2] untouchedD(1) e1(2) by blast
  have p: "esc_Spec (rs_ESC t2) = esc_Spec (rs_ESC t1)"
    by (rule policies_spec [OF e1(1,2)]) (use 2 in \<open>simp add: withESC_def andThen_def readState_def\<close>)
  have "keeps specKept (forEach fs withESC)" by (rule keeps_forEach [OF specKept_refl specKept_trans assms(5)])
  from keepsD [OF this 3] w2 p e1(3) show "wf (rs_kube t)" "esc_Spec (rs_ESC t) = esc_Spec (rs_ESC s)"
    by (simp_all add: specKept_def)
qed

lemma forEach_split:
  "forEach (fs @ g # hs) f s = (Ret (), s') \<longleftrightarrow>
   (\<exists>t t'. forEach fs f s = (Ret (), t) \<and> f g t = (Ret (), t') \<and> forEach hs f t' = (Ret (), s'))"
  by (induction fs arbitrary: s) (auto simp: andThen_Ret_iff)

text \<open>
  One step in the middle of the pass: what it establishes of an object that no other step touches
  holds at the end.
\<close>

lemma step_reaches:
  assumes run: "forEach (fs @ g # hs) withESC s = (Ret (), s')" and wf: "wf (rs_kube s)"
    and spec: "\<And>t. forEach fs withESC s = (Ret (), t) \<Longrightarrow> esc_Spec (rs_ESC t) = esc_Spec (rs_ESC s)"
    and before: "\<And>f. f \<in> set fs \<Longrightarrow> keeps (untouched (- K)) (withESC f)"
    and after: "\<And>f. f \<in> set hs \<Longrightarrow> keeps (untouched (- K)) (withESC f)"
    and i: "fst i \<in> K"
    and step: "\<And>t t'. wf (rs_kube t) \<Longrightarrow> esc_Spec (rs_ESC t) = esc_Spec (rs_ESC s) \<Longrightarrow> objs (rs_kube t) i = objs (rs_kube s) i \<Longrightarrow>
      g (rs_ESC t) t = (Ret (), t') \<Longrightarrow> wf (rs_kube t') \<and> Q (objs (rs_kube t') i)"
  shows "Q (objs (rs_kube s') i)"
proof -
  from run obtain t t' where 1: "forEach fs withESC s = (Ret (), t)" and 2: "withESC g t = (Ret (), t')" and 3: "forEach hs withESC t' = (Ret (), s')"
    unfolding forEach_split by blast
  have k: "fst i \<notin> - K" using i by simp
  have u1: "untouched (- K) s t" by (rule keepsD [OF ut.frame_forEach 1]) (rule before)
  have g: "g (rs_ESC t) t = (Ret (), t')" using 2 by (simp add: withESC_def andThen_def readState_def)
  note e = step [OF untouchedD(1) [OF u1 wf] spec [OF 1] untouchedD(2) [OF u1 wf k] g]
  have u2: "untouched (- K) t' s'" by (rule keepsD [OF ut.frame_forEach 3]) (rule after)
  from e untouchedD(2) [OF u2 _ k] show ?thesis by simp
qed

lemma pass_reaches:
  assumes ident: "patchKeepsIdentity env" and stored: "escStored s" and wf: "wf (rs_kube s)"
    and run: "forEach (operandSteps env md recon) withESC s = (Ret (), s')"
    and steps: "operandSteps env md recon =
      ((\<lambda>esc. createOrApplyNamespace env esc md) # (\<lambda>esc. createOrApplyNetworkPolicies env esc md recon) # fs) @ g # hs"
    and specs: "\<And>f. f \<in> set fs \<Longrightarrow> keeps specKept (withESC f)"
    and kinds: "\<And>f. f \<in> set fs \<union> set hs \<Longrightarrow> keeps (untouched (- K)) (withESC f)"
    and K: "''Namespace'' \<notin> K" "''NetworkPolicy'' \<notin> K" "''ExternalSecretsConfig'' \<notin> K"
    and i: "fst i \<in> K"
    and step: "\<And>t t'. wf (rs_kube t) \<Longrightarrow> esc_Spec (rs_ESC t) = esc_Spec (rs_ESC s) \<Longrightarrow> objs (rs_kube t) i = objs (rs_kube s) i \<Longrightarrow>
      g (rs_ESC t) t = (Ret (), t') \<Longrightarrow> wf (rs_kube t') \<and> Q (objs (rs_kube t') i)"
  shows "Q (objs (rs_kube s') i)"
proof (rule step_reaches [OF run [unfolded steps] wf _ _ _ i step])
  show "esc_Spec (rs_ESC t) = esc_Spec (rs_ESC s)"
    if "forEach ((\<lambda>esc. createOrApplyNamespace env esc md) # (\<lambda>esc. createOrApplyNetworkPolicies env esc md recon) # fs) withESC s = (Ret (), t)" for t
    using prefix_spec(2) [OF ident stored wf that] specs by blast
  show "keeps (untouched (- K)) (withESC f)"
    if "f \<in> set ((\<lambda>esc. createOrApplyNamespace env esc md) # (\<lambda>esc. createOrApplyNetworkPolicies env esc md recon) # fs)" for f
    using that kinds K step_kinds(1,2) [OF ident, THEN keeps_untouched_mono] by auto
qed (use kinds in auto)

lemma pass_step:
  assumes ident: "patchKeepsIdentity env" and stored: "escStored s" and wf: "wf (rs_kube s)"
    and run: "forEach (operandSteps env md recon) withESC s = (Ret (), s')"
    and steps: "operandSteps env md recon =
      ((\<lambda>esc. createOrApplyNamespace env esc md) # (\<lambda>esc. createOrApplyNetworkPolicies env esc md recon) # fs) @ g # hs"
    and specs: "\<And>f. f \<in> set fs \<Longrightarrow> keeps specKept (withESC f)"
    and kinds: "\<And>f. f \<in> set fs \<union> set hs \<Longrightarrow> keeps (untouched (- K)) (withESC f)"
    and K: "''Namespace'' \<notin> K" "''NetworkPolicy'' \<notin> K" "''ExternalSecretsConfig'' \<notin> K"
    and app: "\<And>esc. applies md (D esc) (g esc)" and D: "\<And>e. esc_Spec e = esc_Spec (rs_ESC s) \<Longrightarrow> D e = D (rs_ESC s)"
    and ok: "applicable md (D (rs_ESC s))" and member: "\<And>d. d \<in> set (D (rs_ESC s)) \<Longrightarrow> kindOf d \<in> K"
    and d: "d \<in> set (D (rs_ESC s))" "notDeleting (objs (rs_kube s) (objid d))"
  shows "installed d md s'"
  unfolding installed_def
proof (rule pass_reaches [OF ident stored wf run steps specs kinds K, where Q = "\<lambda>x. \<exists>f. x = Some f \<and> HasObjectChanged d f md = Ret False"])
  show "fst (objid d) \<in> K" using member [OF d(1)] by (simp add: objid_def)
  show "wf (rs_kube t') \<and> (\<exists>f. objs (rs_kube t') (objid d) = Some f \<and> HasObjectChanged d f md = Ret False)"
    if "wf (rs_kube t)" "esc_Spec (rs_ESC t) = esc_Spec (rs_ESC s)" "objs (rs_kube t) (objid d) = objs (rs_kube s) (objid d)"
      "g (rs_ESC t) t = (Ret (), t')" for t t'
  proof -
    have a: "applies md (D (rs_ESC s)) (g (rs_ESC t))" using app D [OF that(2)] by metis
    from appliesD(1) [OF a ok that(1,4)] appliesD(3) [OF a ok that(1,4) refl d(1)] d(2) that(3)
    show ?thesis by (simp add: installed_def)
  qed
qed

lemma steps_install:
  assumes "patchKeepsIdentity env" and "escStored s" and "wf (rs_kube s)"
    and "forEach (operandSteps env md recon) withESC s = (Ret (), s')"
    and ok: "applicable md (desiredObjects env (rs_ESC s) md)"
    and "d \<in> set (desiredObjects env (rs_ESC s) md)" and nd: "notDeleting (objs (rs_kube s) (objid d))"
    and safe: "kindOf d = ''NetworkPolicy'' \<Longrightarrow> policySafe env (rs_ESC s) d"
  shows "installed d md s'"
proof -
  let ?ns = "\<lambda>esc. createOrApplyNamespace env esc md" and ?np = "\<lambda>esc. createOrApplyNetworkPolicies env esc md recon"
  let ?sa = "\<lambda>esc. createOrApplyServiceAccounts env esc md recon" and ?ce = "\<lambda>esc. createOrApplyCertificates env esc md recon"
  let ?se = "\<lambda>esc. createOrApplySecret env esc md recon" and ?cm = "\<lambda>esc. ensureTrustedCABundleConfigMap env esc md"
  let ?rb = "\<lambda>esc. createOrApplyRBACResource env esc md recon" and ?sv = "\<lambda>esc. createOrApplyServices env esc md recon"
  let ?de = "\<lambda>esc. createOrApplyDeployments env esc md recon" and ?wh = "\<lambda>esc. createOrApplyValidatingWebhookConfiguration env esc md recon"
  note kinds = step_kinds [OF assms(1), THEN keeps_untouched_mono]
  note specs = step_specs [OF assms(1)]
  note parts = ok [unfolded desiredObjects_def]
  note ok1 = applicable_append(1) [OF parts] and ok2 = applicable_append(1) [OF applicable_append(2) [OF parts]]
    and ok3 = applicable_append(1) [OF applicable_append(2) [OF applicable_append(2) [OF parts]]]
    and rest = applicable_append(2) [OF applicable_append(2) [OF applicable_append(2) [OF parts]]]
  note ok4 = applicable_append(1) [OF rest] and ok5 = applicable_append(1) [OF applicable_append(2) [OF rest]]
    and ok6 = applicable_append(2) [OF applicable_append(2) [OF rest]]
  consider "d \<in> set (desiredServiceAccounts env (rs_ESC s) md)" | "d \<in> set (desiredRBAC env (rs_ESC s) md)"
    | "d \<in> set (desiredServices env (rs_ESC s) md)" | "d \<in> set (desiredWebhooks env (rs_ESC s) md)"
    | "d \<in> set (desiredCertificates env (rs_ESC s) md)" | "d \<in> set (desiredPolicies env (rs_ESC s) md)"
    using assms(6) unfolding desiredObjects_def by auto
  then show ?thesis
  proof cases
    case 1
    have steps: "operandSteps env md recon = (?ns # ?np # []) @ ?sa # [?ce, ?se, ?cm, ?rb, ?sv, ?de, ?wh]" by (simp add: operandSteps_def)
    show ?thesis
      by (rule pass_step [OF assms(1-4) steps _ _ _ _ _ applies_serviceAccounts desired_spec(1) ok1, where K = "{''ServiceAccount''}"])
        (use desired_kinds(1) 1 nd in \<open>auto intro!: kinds specs\<close>)
  next
    case 2
    have steps: "operandSteps env md recon = (?ns # ?np # [?sa, ?ce, ?se, ?cm]) @ ?rb # [?sv, ?de, ?wh]" by (simp add: operandSteps_def)
    show ?thesis
      by (rule pass_step [OF assms(1-4) steps _ _ _ _ _ applies_rbac desired_spec(2) ok2, where K = "{''ClusterRole'', ''ClusterRoleBinding'', ''Role'', ''RoleBinding''}"])
        (use desired_kinds(3) 2 nd in \<open>auto intro!: kinds specs\<close>)
  next
    case 3
    have steps: "operandSteps env md recon = (?ns # ?np # [?sa, ?ce, ?se, ?cm, ?rb]) @ ?sv # [?de, ?wh]" by (simp add: operandSteps_def)
    show ?thesis
      by (rule pass_step [OF assms(1-4) steps _ _ _ _ _ applies_services desired_spec(3) ok3, where K = "{''Service''}"])
        (use desired_kinds(2) 3 nd in \<open>auto intro!: kinds specs\<close>)
  next
    case 4
    have steps: "operandSteps env md recon = (?ns # ?np # [?sa, ?ce, ?se, ?cm, ?rb, ?sv, ?de]) @ ?wh # []" by (simp add: operandSteps_def)
    show ?thesis
      by (rule pass_step [OF assms(1-4) steps _ _ _ _ _ applies_webhooks desired_spec(4) ok4, where K = "{''ValidatingWebhookConfiguration''}"])
        (use desired_kinds(4) 4 nd in \<open>auto intro!: kinds specs\<close>)
  next
    case 5
    have steps: "operandSteps env md recon = (?ns # ?np # [?sa]) @ ?ce # [?se, ?cm, ?rb, ?sv, ?de, ?wh]" by (simp add: operandSteps_def)
    show ?thesis
      by (rule pass_step [OF assms(1-4) steps _ _ _ _ _ applies_certificates desired_spec(5) ok5, where K = "{''Certificate''}"])
        (use desired_kinds(5) 5 nd in \<open>auto intro!: kinds specs\<close>)
  next
    case 6
    have steps: "operandSteps env md recon = [?ns] @ ?np # [?sa, ?ce, ?se, ?cm, ?rb, ?sv, ?de, ?wh]" by (simp add: operandSteps_def)
    note kd = desired_kinds(6) [OF 6]
    from assms(4) obtain t t' where 1: "withESC ?ns s = (Ret (), t)" and 2: "withESC ?np t = (Ret (), t')"
      and 3: "forEach [?sa, ?ce, ?se, ?cm, ?rb, ?sv, ?de, ?wh] withESC t' = (Ret (), s')"
      unfolding steps forEach_split by (auto simp: andThen_Ret_iff)
    note e1 = escStored_step [OF step_kinds(1) [OF assms(1)] namespace_memory _ assms(2,3) 1, simplified]
    have "objs (rs_kube t) (objid d) = objs (rs_kube s) (objid d)"
      by (rule untouchedD(2) [OF keepsD [OF step_kinds(1) [OF assms(1)] 1] assms(3)]) (simp add: objid_def kd)
    with nd have nt: "notDeleting (objs (rs_kube t) (objid d))" by simp
    have np: "?np (rs_ESC s) t = (Ret (), t')" using 2 e1(3) by (simp add: withESC_def andThen_def readState_def)
    have i: "installed d md t'" by (rule policies_install [OF e1(2) np ok6 safe [OF kd] 6 nt])
    have wt: "wf (rs_kube t')" using keepsD [OF step_kinds(2) [OF assms(1)] 2] untouchedD(1) e1(2) by blast
    have "keeps (untouched (- {''NetworkPolicy''})) (forEach [?sa, ?ce, ?se, ?cm, ?rb, ?sv, ?de, ?wh] withESC)"
      by (rule ut.frame_forEach) (auto intro!: kinds)
    from untouchedD(2) [OF keepsD [OF this 3] wt, of "objid d"] i show ?thesis by (simp add: installed_def objid_def kd)
  qed
qed

end

lemma withESC_apply: "withESC f s = f (rs_ESC s) s" and readState_bind: "andThen (readState g) h s = h (g s) s"
  by (simp_all add: withESC_def andThen_def readState_def)

lemma pass_split:
  assumes "reconcileExternalSecretsDeployment env recon s = (Ret (), s')"
    and "getResourceMetadata (e_Getenv env externalsecretsImageVersionEnvVarName) (rs_esm s) (rs_ESC s) = Inr md"
  obtains t t' where "rs_kube t = rs_kube s" and "rs_ESC t = rs_ESC s"
    and "forEach (operandSteps env md recon) withESC t = (Ret (), t')" and "updateCRAnnotationsIfNeeded env md t' = (Ret (), s')"
proof -
  from assms(1) obtain u t where v: "withESC (validateExternalSecretsConfig env) s = (Ret u, t)"
    and rest: "andThen (readState rs_esm) (\<lambda>esm. withESC (\<lambda>esc.
       case getResourceMetadata (e_Getenv env externalsecretsImageVersionEnvVarName) esm esc of Inl err \<Rightarrow> gerr err
       | Inr md \<Rightarrow> andThen (forEach (operandSteps env md recon) withESC) (\<lambda>_. updateCRAnnotationsIfNeeded env md))) t = (Ret (), s')"
    unfolding reconcileExternalSecretsDeployment_def by (rule andThen_RetE)
  from v have same: "rs_kube t = rs_kube s" "rs_ESC t = rs_ESC s" "rs_esm t = rs_esm s"
    by (auto simp: withESC_apply readState_bind validateExternalSecretsConfig_def setProxyConfig_def Let_def split: if_splits sum.splits)
  from rest have "andThen (forEach (operandSteps env md recon) withESC) (\<lambda>_. updateCRAnnotationsIfNeeded env md) t = (Ret (), s')"
    by (simp only: withESC_apply readState_bind same assms(2) sum.case)
  with same that show ?thesis by (auto elim: andThen_RetE)
qed

context operator_env
begin

text \<open>The steps of a successful pass; after them only the custom resource is written.\<close>

lemma pass_ends:
  assumes "patchKeepsIdentity env" and "wf (rs_kube s)"
    and "reconcileExternalSecretsDeployment env recon s = (Ret (), s')"
    and "getResourceMetadata (e_Getenv env externalsecretsImageVersionEnvVarName) (rs_esm s) (rs_ESC s) = Inr md"
  obtains t t' where "rs_kube t = rs_kube s" and "rs_ESC t = rs_ESC s"
    and "forEach (operandSteps env md recon) withESC t = (Ret (), t')"
    and "\<And>i. fst i \<noteq> ''ExternalSecretsConfig'' \<Longrightarrow> objs (rs_kube s') i = objs (rs_kube t') i"
proof -
  from assms(3,4) obtain t t' where same: "rs_kube t = rs_kube s" "rs_ESC t = rs_ESC s"
    and 1: "forEach (operandSteps env md recon) withESC t = (Ret (), t')" and 2: "updateCRAnnotationsIfNeeded env md t' = (Ret (), s')"
    by (rule pass_split)
  have K: "keeps (untouched UNIV) (forEach (operandSteps env md recon) withESC)"
    by (rule ut.frame_forEach)
       (use step_kinds [OF assms(1), THEN keeps_untouched_mono, OF subset_UNIV] in \<open>auto simp: operandSteps_def\<close>)
  have w: "wf (rs_kube t')" using untouchedD(1) [OF keepsD [OF K 1]] assms(2) same(1) by simp
  have "untouched {''ExternalSecretsConfig''} t' s'"
    by (rule keepsD [OF ut.frame_annotate 2]) (rule covers_kinds, simp)
  from untouchedD(2) [OF this w] that [OF same 1] show ?thesis by simp
qed

lemma pass_installs:
  assumes "patchKeepsIdentity env" and "escStored s" and "wf (rs_kube s)"
    and "reconcileExternalSecretsDeployment env recon s = (Ret (), s')"
    and "getResourceMetadata (e_Getenv env externalsecretsImageVersionEnvVarName) (rs_esm s) (rs_ESC s) = Inr md"
    and "applicable md (desiredObjects env (rs_ESC s) md)"
    and "d \<in> set (desiredObjects env (rs_ESC s) md)" and "notDeleting (objs (rs_kube s) (objid d))"
    and "kindOf d = ''NetworkPolicy'' \<Longrightarrow> policySafe env (rs_ESC s) d"
  shows "installed d md s'"
proof (rule pass_ends [OF assms(1,3-5)])
  fix t t'
  assume same: "rs_kube t = rs_kube s" "rs_ESC t = rs_ESC s" and run: "forEach (operandSteps env md recon) withESC t = (Ret (), t')"
    and last: "\<And>i. fst i \<noteq> ''ExternalSecretsConfig'' \<Longrightarrow> objs (rs_kube s') i = objs (rs_kube t') i"
  have i: "installed d md t'"
    using steps_install [OF assms(1) _ _ run] assms(2,3,6-9) by (simp add: same escStored_def)
  have "kindOf d \<noteq> ''ExternalSecretsConfig''"
    using assms(7) desired_kinds [of d "rs_ESC s" md] by (auto simp: desiredObjects_def)
  with i last [of "objid d"] show ?thesis by (simp add: installed_def objid_def)
qed

end

section \<open>Properties\<close>


text \<open>Manifests with short names, and a configuration that is served by cert-manager.\<close>

definition shortDecode :: "string \<Rightarrow> kobj option" where
  "shortDecode bytes =
     (let file = drop 26 bytes; kind = takeWhile (\<lambda>c. c \<noteq> CHR ''_'') file;
          name = take 2 (drop 18 (dropWhile (\<lambda>c. c \<noteq> CHR ''_'') file)); meta = zeroMeta\<lparr>om_Name := name\<rparr>;
          binding = \<lparr>rb_Meta = meta, rb_RoleRef = \<lparr>rref_APIGroup = '''', rref_Kind = '''', rref_Name = ''''\<rparr>, rb_Subjects = None\<rparr> in
      if bytes ! 5 = CHR ''t'' then Some (egressPolicy (systemNetworkPolicyPrefix @ take 3 (drop 29 bytes) @ take 1 (drop 53 bytes)) '''' (nameSelector ''e'') None)
      else if kind = ''service'' then Some (KService \<lparr>svc_Meta = meta, svc_Type = '''', svc_Ports = None, svc_Selector = NilMap\<rparr>)
      else if kind = ''serviceaccount'' then Some (KServiceAccount meta)
      else if kind = ''clusterrole'' then Some (KClusterRole \<lparr>role_Meta = meta, role_Rules = None\<rparr>)
      else if kind = ''role'' then Some (KRole \<lparr>role_Meta = meta, role_Rules = None\<rparr>)
      else if kind = ''clusterrolebinding'' then Some (KClusterRoleBinding binding)
      else if kind = ''rolebinding'' then Some (KRoleBinding binding)
      else if kind = ''certificate'' then Some (KCertificate \<lparr>cert_Meta = meta, cert_SecretName = '''',
             cert_IssuerRef = \<lparr>iref_Name = '''', iref_Kind = '''', iref_Group = ''''\<rparr>, cert_DNSNames = None, cert_RenewBefore = None,
             cert_Duration = None, cert_Other = JNull\<rparr>)
      else if kind = ''validatingwebhookconfiguration'' then Some (KWebhookConfig \<lparr>whc_Meta = meta, whc_Webhooks = []\<rparr>)
      else if kind = ''deployment'' then Some (KDeployment (updContainers (\<lambda>_. [zeroContainer\<lparr>c_Name := ''webhook''\<rparr>]) (zeroDeployment\<lparr>d_Meta := meta\<rparr>)))
      else None)"

definition shortEnv :: "memserver env" where
  "shortEnv = sampleEnv\<lparr>e_OptionalResources := [certificateCRDGKV], e_Client := memClient (\<lambda>_. True), e_Decode := shortDecode,
     e_StrategicMergePatch := (\<lambda>_ _. Inl (PlainErr ''no patch''))\<rparr>"

definition issuedESC :: ExternalSecretsConfig where
  "issuedESC = zeroESC\<lparr>esc_Meta := zeroMeta\<lparr>om_Name := ''cluster''\<rparr>,
     esc_Spec := (esc_Spec zeroESC)\<lparr>spec_ControllerConfig := zeroControllerConfig\<lparr>ctl_CertProvider :=
       Some \<lparr>cpc_CertManager = Some \<lparr>cmc_Mode = ''Enabled'', cmc_InjectAnnotations = ''false'',
         cmc_IssuerRef = Some \<lparr>or_Name = ''i'', or_Kind = '''', or_Group = ''''\<rparr>,
         cmc_CertificateDuration = None, cmc_CertificateRenewBefore = None\<rparr>\<rparr>\<rparr>\<rparr>\<rparr>"

definition issuedState :: "memserver rstate" where
  "issuedState = (policyState [KESC issuedESC, KIssuer (zeroMeta\<lparr>om_Namespace := OperandDefaultNamespace, om_Name := ''i''\<rparr>)])\<lparr>rs_ESC := issuedESC\<rparr>"

definition issuedMetadata :: ResourceMetadata where
  "issuedMetadata = (case getResourceMetadata (e_Getenv shortEnv externalsecretsImageVersionEnvVarName) (rs_esm issuedState) (rs_ESC issuedState) of Inr md \<Rightarrow> md | Inl _ \<Rightarrow> sampleMetadata)"

lemma shortEnv_ok: "operator_env shortEnv memLookup memWf" "patchKeepsIdentity shortEnv"
proof -
  show "operator_env shortEnv memLookup memWf"
    unfolding operator_env_def shortEnv_def sampleEnv_def using mem.api_client_axioms by auto
  show "patchKeepsIdentity shortEnv"
    unfolding patchKeepsIdentity_def
    by (simp add: shortEnv_def sampleEnv_def strategicMergePatchDeployment_def unmarshalMap_def)
qed

lemma issuedState_run: "fst (reconcileExternalSecretsDeployment shortEnv False issuedState) = Ret ()"
  by code_simp

lemma issuedState_ok:
  "memWf (rs_kube issuedState)"
  "memLookup (rs_kube issuedState) (objid (KESC (rs_ESC issuedState))) = Some (KESC issuedESC)"
  "esc_Spec issuedESC = esc_Spec (rs_ESC issuedState)"
  "getResourceMetadata (e_Getenv shortEnv externalsecretsImageVersionEnvVarName) (rs_esm issuedState) (rs_ESC issuedState) = Inr issuedMetadata"
  by code_simp+

lemma issuedState_desired:
  "distinct (map objid (desiredObjects shortEnv (rs_ESC issuedState) issuedMetadata))"
  "list_all (\<lambda>d. comparable d \<and> freeOfDeleted d issuedMetadata) (desiredObjects shortEnv (rs_ESC issuedState) issuedMetadata)"
  "list_ex (\<lambda>d. objid d = (''NetworkPolicy'', ''external-secrets'', ''eso-sys--al'') \<and> policySafe shortEnv (rs_ESC issuedState) d) (desiredObjects shortEnv (rs_ESC issuedState) issuedMetadata)"
  by code_simp+


end
