(* ===== verification/Operand_Running.thy ===== *)
theory Operand_Running
  imports Installed
begin

section \<open>What the operand runs after a successful pass\<close>

text \<open>
  The desired deployment is computed from what the pass finds on the cluster (the trust bundle, the
  proxy), so it is not a function of the configuration alone. What matters of it is followed from the
  code that builds it, through the call that applies it, to the live object at the end of the pass.
\<close>

text \<open>The live object is a deployment that runs container \<open>n\<close> with the image \<open>img\<close>, locked down.\<close>

definition runsHardened :: "string \<Rightarrow> string \<Rightarrow> kobj \<Rightarrow> bool" where
  "runsHardened n img f \<longleftrightarrow> (case f of
     KDeployment d \<Rightarrow> list_ex (\<lambda>c. c_Name c = n \<and> c_Image c = img \<and> c_SecurityContext c = Some hardenedSecurityContext) (ps_Containers (podSpec d))
   | _ \<Rightarrow> False)"

lemma runsHardened_applied:
  assumes "runsHardened n img (KDeployment d)" and "sameUpToServer (withStatusOf cur (RemoveObsoleteAnnotations (KDeployment d) md)) f"
  shows "runsHardened n img f"
proof -
  obtain d' where d': "RemoveObsoleteAnnotations (KDeployment d) md = KDeployment d'" "podSpec d' = podSpec d"
    by (cases "rm_DeletedAnnotationKeys md = []") (auto simp: RemoveObsoleteAnnotations_def Let_def)
  have "withStatusOf cur (KDeployment d') = KDeployment d'" by (cases cur) (simp_all add: withStatusOf_def)
  with assms d' show ?thesis by (auto simp: runsHardened_def sameUpToServer_def)
qed

text \<open>The name of the deployment that a manifest describes.\<close>

definition deploymentName :: "'s env \<Rightarrow> string \<Rightarrow> string" where
  "deploymentName env a = (case DecodeDeploymentObjBytes env a :: (goerr, kobj) result of Ret asset \<Rightarrow> om_Name (metaOf asset) | _ \<Rightarrow> [])"

context operator_env
begin

lemma runsHardened_established:
  assumes run: "runsHardened n img (KDeployment d)"
  shows "established (KDeployment d) md (runsHardened n img)"
  unfolding established_def
proof (intro conjI allI impI)
  fix f assume h: "HasObjectChanged (KDeployment d) f md = Ret False"
  then obtain fd where f: "f = KDeployment fd" by (cases f) (auto simp: HasObjectChanged_def)
  have "\<not> deploymentSpecModified d fd md" using h by (auto simp: f HasObjectChanged_def objectSpecModified_def)
  moreover from run obtain c where c: "c \<in> set (ps_Containers (podSpec d))" "c_Name c = n" "c_Image c = img"
    "c_SecurityContext c = Some hardenedSecurityContext"
    by (auto simp: runsHardened_def list_ex_iff)
  ultimately obtain c' where "c' \<in> set (ps_Containers (podSpec fd))" "\<not> containerSpecModified c c'"
    using undrifted_container by metis
  with unmodified_container [OF this(2)] c show "runsHardened n img f" by (auto simp: f runsHardened_def list_ex_iff)
next
  fix f assume "sameUpToServer (KDeployment d) f"
  with run show "runsHardened n img f" by (auto simp: runsHardened_def sameUpToServer_def)
qed (use runsHardened_applied [OF run] in \<open>auto simp: acceptedUpdate_def\<close>)

lemma deployment_stays:
  assumes "patchKeepsIdentity env" and "n \<noteq> deploymentName env a"
  shows "keeps (stays (''Deployment'', OperandDefaultNamespace, n)) (createOrApplyDeploymentFromAsset env esc a md recon)"
  by (rule at.frame_deployment_only [OF _ assms(1)]) (use assms(2) in \<open>auto simp: at.covers_def deploymentName_def\<close>)

lemma nothing_built: "getDeploymentObject env a esc md s \<noteq> (Ret (None, None), s')"
proof
  assume run: "getDeploymentObject env a esc md s = (Ret (None, None), s')"
  have no: "componentSpec env esc a img bw ll d0 s \<noteq> (Ret (Inl (None, None)), s2)" for img bw ll d0 s2
    by (auto simp: componentSpec_def Let_def lift_bind andThen_Ret_iff split: if_splits sum.splits result.splits)
       (auto simp: wrapInl_def split: if_splits option.splits sum.splits)
  from run obtain asset x s1 where c: "componentSpec env esc a (e_Getenv env externalsecretsImageEnvVarName) (e_Getenv env bitwardenImageEnvVarName)
         (getLogLevel esc (Some (rs_esm s))) (baseDeployment asset esc md) s = (Ret x, s1)"
    and rest: "(case x of Inl early \<Rightarrow> gret early
           | Inr d1 \<Rightarrow> andThen (readState rs_proxyConfig) (\<lambda>proxyConfig.
               gret (case finishDeployment env (rs_esm s) proxyConfig esc a d1 of
                       Inl e \<Rightarrow> (None, Some e) | Inr d2 \<Rightarrow> (Some d2, None)))) s1 = (Ret (None, None), s')"
    by (cases "DecodeDeploymentObjBytes env a :: (goerr, kobj) result")
       (auto simp: getDeploymentObject_def lift_bind Let_def andThen_Ret_iff split: if_splits)
  from rest c no show False by (cases x) (auto split: sum.splits)
qed

lemma deployment_runs:
  assumes ident: "patchKeepsIdentity env" and comp: "getComponentNameFromAsset a = Inr (component, cn)"
    and dec: "DecodeDeploymentObjBytes env a = (Ret (KDeployment asset) :: (goerr, kobj) result)"
    and has: "list_ex (\<lambda>c. c_Name c = cn) (ps_Containers (podSpec asset))" and adv: "noAdvancedOverrides esc"
    and wf: "wf (rs_kube s)" and run: "createOrApplyDeploymentFromAsset env esc a md recon s = (Ret (), s')"
    and nd: "notDeleting (objs (rs_kube s) (''Deployment'', OperandDefaultNamespace, om_Name (d_Meta asset)))"
  shows "wf (rs_kube s') \<and> (\<exists>f. objs (rs_kube s') (''Deployment'', OperandDefaultNamespace, om_Name (d_Meta asset)) = Some f \<and>
    runsHardened cn (operandImage env a) f)"
proof -
  let ?i = "(''Deployment'', OperandDefaultNamespace, om_Name (d_Meta asset))"
  from run obtain p t where 1: "getDeploymentObject env a esc md s = (Ret p, t)"
    unfolding createOrApplyDeploymentFromAsset_def by (rule andThen_RetE)
  obtain d where p: "p = (Some d, None)" and 2: "\<exists>n m1 m2 m3 m4. applyObject env (KDeployment d) md n recon m1 m2 m3 m4 t = (Ret (), s')"
    using run 1 nothing_built [of a esc md s t]
    by (cases p; cases "fst p"; cases "snd p") (auto simp: createOrApplyDeploymentFromAsset_def andThen_def Let_def split: prod.splits result.splits, blast)
  obtain n m1 m2 m3 m4 where 3: "applyObject env (KDeployment d) md n recon m1 m2 m3 m4 t = (Ret (), s')" using 2 by blast
  have id: "objid (KDeployment d) = ?i"
    by (rule getDeploymentObject_id [OF ident 1 [unfolded p]]) (use dec in simp)
  have "stays ?i s t" by (rule keepsD [OF at.frame_getDeploymentObject 1]) (simp add: at.covers_def)
  note u = staysD [OF this wf]
  have "runsHardened cn (operandImage env a) (KDeployment d)"
    using built_deployment(1) [OF 1 [unfolded p] comp dec has adv] by (auto simp: runsHardened_def list_ex_iff)
  from applyObject_leaves [OF u(1) runsHardened_established [OF this] 3] u(2) nd
  show ?thesis by (simp add: leaves_def id)
qed

lemma deployments_run:
  assumes ident: "patchKeepsIdentity env" and comp: "getComponentNameFromAsset a = Inr (component, cn)"
    and dec: "DecodeDeploymentObjBytes env a = (Ret (KDeployment asset) :: (goerr, kobj) result)"
    and has: "list_ex (\<lambda>c. c_Name c = cn) (ps_Containers (podSpec asset))" and adv: "noAdvancedOverrides esc"
    and names: "distinct (map (deploymentName env) (enabledAssets (deploymentsToCreate esc)))" and a: "a \<in> set (enabledAssets (deploymentsToCreate esc))"
    and wf: "wf (rs_kube s)" and run: "createOrApplyDeployments env esc md recon s = (Ret (), s')"
    and nd: "notDeleting (objs (rs_kube s) (''Deployment'', OperandDefaultNamespace, om_Name (d_Meta asset)))"
  shows "wf (rs_kube s') \<and> (\<exists>f. objs (rs_kube s') (''Deployment'', OperandDefaultNamespace, om_Name (d_Meta asset)) = Some f \<and>
    runsHardened cn (operandImage env a) f)"
proof -
  let ?i = "(''Deployment'', OperandDefaultNamespace, om_Name (d_Meta asset))" and ?f = "\<lambda>a. createOrApplyDeploymentFromAsset env esc a md recon"
  have name: "deploymentName env a = om_Name (d_Meta asset)" by (simp add: deploymentName_def dec)
  from a obtain xs ys where split: "enabledAssets (deploymentsToCreate esc) = xs @ a # ys" by (auto simp: in_set_conv_decomp)
  have others: "keeps (stays ?i) (?f x)" if "x \<in> set xs \<union> set ys" for x
    by (rule deployment_stays [OF ident]) (use names that in \<open>auto simp: split name [symmetric]\<close>)
  from run obtain t where 1: "forEach (xs @ a # ys) ?f s = (Ret (), t)"
    and 2: "onErr (updateImageInStatus env)
          (\<lambda>err. gerr (fromClientErr err (''failed to update '' @ om_Namespace (esc_Meta esc) @ ''/'' @ om_Name (esc_Meta esc) @ '' status with image info''))) t = (Ret (), s')"
    unfolding createOrApplyDeployments_def split by (auto elim: andThen_RetE)
  from 1 obtain t1 t2 where 3: "forEach xs ?f s = (Ret (), t1)" "?f a t1 = (Ret (), t2)" "forEach ys ?f t2 = (Ret (), t)"
    unfolding forEach_split by blast
  have "keeps (stays ?i) (forEach xs ?f)" "keeps (stays ?i) (forEach ys ?f)"
    by (rule at.frame_forEach, rule others, simp)+
  note u1 = staysD [OF keepsD [OF this(1) 3(1)] wf] and k2 = keepsD [OF this(2) 3(3)]
  have e: "wf (rs_kube t2) \<and> (\<exists>f. objs (rs_kube t2) ?i = Some f \<and> runsHardened cn (operandImage env a) f)"
    by (rule deployment_runs [OF ident comp dec has adv u1(1) 3(2)]) (use nd u1(2) in simp)
  note u2 = staysD [OF k2, OF conjunct1 [OF e]]
  have "keeps (stays ?i) (onErr (updateImageInStatus env)
          (\<lambda>err. gerr (fromClientErr err (''failed to update '' @ om_Namespace (esc_Meta esc) @ ''/'' @ om_Name (esc_Meta esc) @ '' status with image info''))))"
    by (rule at.frame_onErr [OF at.frame_image]) (auto simp: at.covers_def)
  note u3 = staysD [OF keepsD [OF this 2] u2(1)]
  from e u2(2) u3 show ?thesis by simp
qed

lemma pass_runs:
  assumes "patchKeepsIdentity env" and "escStored s" and "wf (rs_kube s)"
    and "reconcileExternalSecretsDeployment env recon s = (Ret (), s')"
    and "getResourceMetadata (e_Getenv env externalsecretsImageVersionEnvVarName) (rs_esm s) (rs_ESC s) = Inr md"
    and comp: "getComponentNameFromAsset a = Inr (component, cn)"
    and dec: "DecodeDeploymentObjBytes env a = (Ret (KDeployment asset) :: (goerr, kobj) result)"
    and has: "list_ex (\<lambda>c. c_Name c = cn) (ps_Containers (podSpec asset))" and adv: "noAdvancedOverrides (rs_ESC s)"
    and names: "distinct (map (deploymentName env) (enabledAssets (deploymentsToCreate (rs_ESC s))))"
    and a: "a \<in> set (enabledAssets (deploymentsToCreate (rs_ESC s)))"
    and nd: "notDeleting (objs (rs_kube s) (''Deployment'', OperandDefaultNamespace, om_Name (d_Meta asset)))"
  shows "\<exists>f. objs (rs_kube s') (''Deployment'', OperandDefaultNamespace, om_Name (d_Meta asset)) = Some f \<and>
    runsHardened cn (operandImage env a) f"
proof (rule pass_ends [OF assms(1,3-5)])
  let ?i = "(''Deployment'', OperandDefaultNamespace, om_Name (d_Meta asset))"
  fix t t'
  assume same: "rs_kube t = rs_kube s" "rs_ESC t = rs_ESC s" and run: "forEach (operandSteps env md recon) withESC t = (Ret (), t')"
    and last: "\<And>i. fst i \<noteq> ''ExternalSecretsConfig'' \<Longrightarrow> objs (rs_kube s') i = objs (rs_kube t') i"
  have spec: "noAdvancedOverrides e = noAdvancedOverrides (rs_ESC s)" "deploymentsToCreate e = deploymentsToCreate (rs_ESC s)"
    if "esc_Spec e = esc_Spec (rs_ESC s)" for e
    using that by (simp_all add: noAdvancedOverrides_def deploymentsToCreate_def isCertManagerConfigEnabled_def certManagerConfig_def isBitwardenConfigEnabled_def)
  note kinds = step_kinds [OF assms(1), THEN keeps_untouched_mono] and specs = step_specs [OF assms(1)]
  let ?ns = "\<lambda>esc. createOrApplyNamespace env esc md" and ?np = "\<lambda>esc. createOrApplyNetworkPolicies env esc md recon"
  let ?fs = "[\<lambda>esc. createOrApplyServiceAccounts env esc md recon, \<lambda>esc. createOrApplyCertificates env esc md recon,
    \<lambda>esc. createOrApplySecret env esc md recon, \<lambda>esc. ensureTrustedCABundleConfigMap env esc md,
    \<lambda>esc. createOrApplyRBACResource env esc md recon, \<lambda>esc. createOrApplyServices env esc md recon]"
  have steps: "operandSteps env md recon = (?ns # ?np # ?fs) @ (\<lambda>esc. createOrApplyDeployments env esc md recon) #
      [\<lambda>esc. createOrApplyValidatingWebhookConfiguration env esc md recon]"
    by (simp add: operandSteps_def)
  have st: "escStored t" "wf (rs_kube t)" using assms(2,3) by (simp_all add: escStored_def same)
  have "\<exists>f. objs (rs_kube t') ?i = Some f \<and> runsHardened cn (operandImage env a) f"
  proof (rule pass_reaches [OF assms(1) st run steps, where K = "{''Deployment''}" and Q = "\<lambda>x. \<exists>f. x = Some f \<and> runsHardened cn (operandImage env a) f"])
    show "wf (rs_kube u') \<and> (\<exists>f. objs (rs_kube u') ?i = Some f \<and> runsHardened cn (operandImage env a) f)"
      if "wf (rs_kube u)" "esc_Spec (rs_ESC u) = esc_Spec (rs_ESC t)" "objs (rs_kube u) ?i = objs (rs_kube t) ?i"
        "createOrApplyDeployments env (rs_ESC u) md recon u = (Ret (), u')" for u u'
    proof (rule deployments_run [OF assms(1) comp dec has _ _ _ that(1,4)])
      have "esc_Spec (rs_ESC u) = esc_Spec (rs_ESC s)" using that(2) same(2) by simp
      note e = spec [OF this]
      show "noAdvancedOverrides (rs_ESC u)" using adv e by simp
      show "distinct (map (deploymentName env) (enabledAssets (deploymentsToCreate (rs_ESC u))))" using names e by simp
      show "a \<in> set (enabledAssets (deploymentsToCreate (rs_ESC u)))" using a e by simp
      show "notDeleting (objs (rs_kube u) ?i)" using nd that(3) same(1) by simp
    qed
    show "keeps specKept (withESC f)" if "f \<in> set ?fs" for f using that by (auto intro!: specs)
    show "keeps (untouched (- {''Deployment''})) (withESC f)"
      if "f \<in> set ?fs \<union> set [\<lambda>esc. createOrApplyValidatingWebhookConfiguration env esc md recon]" for f
      using that by (auto intro!: kinds)
  qed simp_all
  with last [of ?i] show ?thesis by simp
qed

end

section \<open>Properties\<close>


definition webhookManifest :: Deployment where
  "webhookManifest = (case DecodeDeploymentObjBytes shortEnv webhookDeploymentAssetName :: (goerr, kobj) result of
     Ret (KDeployment d) \<Rightarrow> d | _ \<Rightarrow> zeroDeployment)"

lemma webhookManifest_ok:
  "noAdvancedOverrides (rs_ESC issuedState)"
  "distinct (map (deploymentName shortEnv) (enabledAssets (deploymentsToCreate (rs_ESC issuedState))))"
  "webhookDeploymentAssetName \<in> set (enabledAssets (deploymentsToCreate (rs_ESC issuedState)))"
  "getComponentNameFromAsset webhookDeploymentAssetName = Inr (Webhook, OperandWebhookContainer)"
  "(DecodeDeploymentObjBytes shortEnv webhookDeploymentAssetName :: (goerr, kobj) result) = Ret (KDeployment webhookManifest)"
  "list_ex (\<lambda>c. c_Name c = OperandWebhookContainer) (ps_Containers (podSpec webhookManifest))"
  "notDeleting (memLookup (rs_kube issuedState) (''Deployment'', OperandDefaultNamespace, om_Name (d_Meta webhookManifest)))"
  by code_simp+


end
