(* ===== verification/Affinity_Validation.thy ===== *)
theory Affinity_Validation
  imports Pod_Template
begin

section \<open>Validation of affinities: \<^verbatim>\<open>pkg/controller/common/validation_helpers_duplication.go\<close>\<close>

text \<open>
  The checks that the operator copies from Kubernetes, over affinities with their structure. The
  functions of Kubernetes that are called (node selectors, label selectors, label and
  namespace names) are parameters. An error list that is empty means accepted.
\<close>

subsection \<open>Errors and paths\<close>

text \<open>\<open>field.Path\<close> is its text; \<open>Child\<close> and \<open>Index\<close> extend it.\<close>

type_synonym path = string

definition Child :: "path \<Rightarrow> string \<Rightarrow> path" where "Child p name = p @ ''.'' @ name"
definition Index :: "path \<Rightarrow> nat \<Rightarrow> path" where "Index p i = p @ ''['' @ showNat i @ '']''"

datatype badValue = BadString string | BadInt int

datatype fieldError =
    Invalid path badValue string
  | Required path string
  | Forbidden path string

subsection \<open>Affinities\<close>

record PodAffinityTerm =
  pat_LabelSelector :: "LabelSelector option"
  pat_Namespaces :: "string list"
  pat_TopologyKey :: string
  pat_NamespaceSelector :: "LabelSelector option"
  pat_MatchLabelKeys :: "string list"
  pat_MismatchLabelKeys :: "string list"

record WeightedPodAffinityTerm =
  wpat_Weight :: int
  wpat_PodAffinityTerm :: PodAffinityTerm

text \<open>\<open>PodAffinity\<close> and \<open>PodAntiAffinity\<close> have the same fields.\<close>

record PodAffinity =
  pa_Required :: "PodAffinityTerm slice"
  pa_Preferred :: "WeightedPodAffinityTerm slice"

record NodeAffinity =
  na_Required :: "blob option"
  na_Preferred :: "blob list"

record Affinity =
  af_NodeAffinity :: "NodeAffinity option"
  af_PodAffinity :: "PodAffinity option"
  af_PodAntiAffinity :: "PodAffinity option"

text \<open>The functions of Kubernetes: \<^verbatim>\<open>corevalidation.ValidateNodeSelector\<close>, \<^verbatim>\<open>ValidatePreferredSchedulingTerms\<close>,
  \<^verbatim>\<open>ValidatePodAffinityTermSelector\<close>, \<^verbatim>\<open>ValidateNamespaceName\<close> and \<^verbatim>\<open>metav1validation.ValidateLabelName\<close>.\<close>

record validators =
  v_NodeSelector :: "blob \<Rightarrow> bool \<Rightarrow> path \<Rightarrow> fieldError list"
  v_PreferredSchedulingTerms :: "blob list \<Rightarrow> path \<Rightarrow> fieldError list"
  v_PodAffinityTermSelector :: "PodAffinityTerm \<Rightarrow> bool \<Rightarrow> path \<Rightarrow> fieldError list"
  v_NamespaceName :: "string \<Rightarrow> bool \<Rightarrow> string list"
  v_LabelName :: "string \<Rightarrow> path \<Rightarrow> fieldError list"

subsection \<open>The checks\<close>

text \<open>\<open>for i, x := range xs { errs = append(errs, f(i, x)...) }\<close>\<close>

definition concatIndexed :: "(nat \<Rightarrow> 'a \<Rightarrow> fieldError list) \<Rightarrow> 'a list \<Rightarrow> fieldError list" where
  "concatIndexed f xs = concat (map (\<lambda>(i, x). f i x) (enumerate 0 xs))"

definition validateLabelKeys :: "validators \<Rightarrow> path \<Rightarrow> string list \<Rightarrow> LabelSelector option \<Rightarrow> fieldError list" where
  "validateLabelKeys v fldPath labelKeys labelSelector =
     (if labelKeys = [] then []
      else if labelSelector = None then [Forbidden fldPath ''must not be specified when labelSelector is not set'']
      else concatIndexed (\<lambda>i key. v_LabelName v key (Index fldPath i)) labelKeys)"

text \<open>\<open>labelKeysMap\<close> gives the last index of a key.\<close>

definition labelKeysMap :: "string list \<Rightarrow> string \<Rightarrow> nat option" where
  "labelKeysMap keys = map_of (rev (map (\<lambda>(i, k). (k, i)) (enumerate 0 keys)))"

fun duplicateSelectorKeys :: "path \<Rightarrow> (string \<Rightarrow> nat option) \<Rightarrow> string list \<Rightarrow> LabelSelectorRequirement list \<Rightarrow> fieldError list" where
  "duplicateSelectorKeys fldPath keysMap labelSelectorKeys [] = []"
| "duplicateSelectorKeys fldPath keysMap labelSelectorKeys (matchExpression # rest) =
     (let key = lsr_Key matchExpression in
      (case keysMap key of
         Some i \<Rightarrow> if List.member labelSelectorKeys key
           then [Invalid (Index fldPath i) (BadString key) ''exists in both matchLabelKeys and labelSelector''] else []
       | None \<Rightarrow> []) @
      duplicateSelectorKeys fldPath keysMap (List.insert key labelSelectorKeys) rest)"

definition validateMatchLabelKeysAndMismatchLabelKeys :: "validators \<Rightarrow> path \<Rightarrow> string list \<Rightarrow> string list \<Rightarrow> LabelSelector option \<Rightarrow> fieldError list" where
  "validateMatchLabelKeysAndMismatchLabelKeys v fldPath matchLabelKeys mismatchLabelKeys labelSelector =
     validateLabelKeys v (Child fldPath ''matchLabelKeys'') matchLabelKeys labelSelector @
     validateLabelKeys v (Child fldPath ''mismatchLabelKeys'') mismatchLabelKeys labelSelector @
     (case labelSelector of
        None \<Rightarrow> []
      | Some ls \<Rightarrow> duplicateSelectorKeys fldPath (labelKeysMap matchLabelKeys) (gkeys (ls_MatchLabels ls)) (elems (ls_MatchExpressions ls))) @
     concatIndexed (\<lambda>i k. if List.member mismatchLabelKeys k
        then [Invalid (Index (Child fldPath ''matchLabelKeys'') i) (BadString k) ''exists in both matchLabelKeys and mismatchLabelKeys''] else []) matchLabelKeys"

definition validatePodAffinityTerm :: "validators \<Rightarrow> PodAffinityTerm \<Rightarrow> bool \<Rightarrow> path \<Rightarrow> fieldError list" where
  "validatePodAffinityTerm v podAffinityTerm allowInvalidLabelValueInSelector fldPath =
     v_PodAffinityTermSelector v podAffinityTerm allowInvalidLabelValueInSelector fldPath @
     concat (map (\<lambda>name. map (\<lambda>msg. Invalid (Child fldPath ''namespace'') (BadString name) msg) (v_NamespaceName v name False))
        (pat_Namespaces podAffinityTerm)) @
     validateMatchLabelKeysAndMismatchLabelKeys v fldPath (pat_MatchLabelKeys podAffinityTerm) (pat_MismatchLabelKeys podAffinityTerm)
        (pat_LabelSelector podAffinityTerm) @
     (if pat_TopologyKey podAffinityTerm = '''' then [Required (Child fldPath ''topologyKey'') ''can not be empty''] else []) @
     v_LabelName v (pat_TopologyKey podAffinityTerm) (Child fldPath ''topologyKey'')"

definition validatePodAffinityTerms :: "validators \<Rightarrow> PodAffinityTerm list \<Rightarrow> bool \<Rightarrow> path \<Rightarrow> fieldError list" where
  "validatePodAffinityTerms v podAffinityTerms allowInvalid fldPath =
     concatIndexed (\<lambda>i term. validatePodAffinityTerm v term allowInvalid (Index fldPath i)) podAffinityTerms"

definition validateWeightedPodAffinityTerms :: "validators \<Rightarrow> WeightedPodAffinityTerm list \<Rightarrow> bool \<Rightarrow> path \<Rightarrow> fieldError list" where
  "validateWeightedPodAffinityTerms v weightedPodAffinityTerms allowInvalid fldPath =
     concatIndexed (\<lambda>j weightedTerm.
       (if wpat_Weight weightedTerm \<le> 0 \<or> wpat_Weight weightedTerm > 100
        then [Invalid (Child (Index fldPath j) ''weight'') (BadInt (wpat_Weight weightedTerm)) ''must be in the range 1-100''] else []) @
       validatePodAffinityTerm v (wpat_PodAffinityTerm weightedTerm) allowInvalid (Child (Index fldPath j) ''podAffinityTerm''))
       weightedPodAffinityTerms"

definition validateNodeAffinity :: "validators \<Rightarrow> NodeAffinity \<Rightarrow> path \<Rightarrow> fieldError list" where
  "validateNodeAffinity v na fldPath =
     (case na_Required na of
        None \<Rightarrow> []
      | Some sel \<Rightarrow> v_NodeSelector v sel True (Child fldPath ''requiredDuringSchedulingIgnoredDuringExecution'')) @
     (if na_Preferred na \<noteq> []
      then v_PreferredSchedulingTerms v (na_Preferred na) (Child fldPath ''preferredDuringSchedulingIgnoredDuringExecution'') else [])"

definition validatePodAffinity :: "validators \<Rightarrow> PodAffinity \<Rightarrow> bool \<Rightarrow> path \<Rightarrow> fieldError list" where
  "validatePodAffinity v podAffinity allowInvalid fldPath =
     (case pa_Required podAffinity of
        None \<Rightarrow> []
      | Some terms \<Rightarrow> validatePodAffinityTerms v terms allowInvalid (Child fldPath ''requiredDuringSchedulingIgnoredDuringExecution'')) @
     (case pa_Preferred podAffinity of
        None \<Rightarrow> []
      | Some terms \<Rightarrow> validateWeightedPodAffinityTerms v terms allowInvalid (Child fldPath ''preferredDuringSchedulingIgnoredDuringExecution''))"

definition validatePodAntiAffinity :: "validators \<Rightarrow> PodAffinity \<Rightarrow> bool \<Rightarrow> path \<Rightarrow> fieldError list" where
  "validatePodAntiAffinity v podAntiAffinity allowInvalid fldPath =
     (case pa_Required podAntiAffinity of
        None \<Rightarrow> []
      | Some terms \<Rightarrow> validatePodAffinityTerms v terms allowInvalid (Child fldPath ''requiredDuringSchedulingIgnoredDuringExecution'')) @
     (case pa_Preferred podAntiAffinity of
        None \<Rightarrow> []
      | Some terms \<Rightarrow> validateWeightedPodAffinityTerms v terms allowInvalid (Child fldPath ''preferredDuringSchedulingIgnoredDuringExecution''))"

definition ValidateAffinity :: "validators \<Rightarrow> Affinity option \<Rightarrow> bool \<Rightarrow> path \<Rightarrow> fieldError list" where
  "ValidateAffinity v affinity allowInvalid fldPath =
     (case affinity of
        None \<Rightarrow> []
      | Some a \<Rightarrow>
          (case af_NodeAffinity a of None \<Rightarrow> [] | Some na \<Rightarrow> validateNodeAffinity v na (Child fldPath ''nodeAffinity'')) @
          (case af_PodAffinity a of None \<Rightarrow> [] | Some pa \<Rightarrow> validatePodAffinity v pa allowInvalid (Child fldPath ''podAffinity'')) @
          (case af_PodAntiAffinity a of None \<Rightarrow> [] | Some pa \<Rightarrow> validatePodAntiAffinity v pa allowInvalid (Child fldPath ''podAntiAffinity'')))"

text \<open>The environment of the reconciler with this validation: \<open>convert\<close> is the conversion between the two
  versions of the type, \<open>toAggregate\<close> the error of a list.\<close>

definition withAffinityValidation :: "validators \<Rightarrow> (blob \<Rightarrow> Affinity option) \<Rightarrow> (fieldError list \<Rightarrow> goerr option) \<Rightarrow> 's env \<Rightarrow> 's env" where
  "withAffinityValidation v convert toAggregate env =
     env\<lparr>e_ValidateAffinity := (\<lambda>affinity. toAggregate (ValidateAffinity v (convert affinity) False
        (Child (Child ''spec'' ''affinity'') ''affinity'')))\<rparr>"

section \<open>Lemmas\<close>

subsection \<open>What is accepted\<close>

text \<open>Whether the called checks report anything does not depend on where the value stands.\<close>

definition pathFree :: "validators \<Rightarrow> bool" where
  "pathFree v \<longleftrightarrow>
     (\<forall>a b p q. v_NodeSelector v a b p = [] \<longleftrightarrow> v_NodeSelector v a b q = []) \<and>
     (\<forall>a p q. v_PreferredSchedulingTerms v a p = [] \<longleftrightarrow> v_PreferredSchedulingTerms v a q = []) \<and>
     (\<forall>a b p q. v_PodAffinityTermSelector v a b p = [] \<longleftrightarrow> v_PodAffinityTermSelector v a b q = []) \<and>
     (\<forall>a p q. v_LabelName v a p = [] \<longleftrightarrow> v_LabelName v a q = [])"

definition selectorUses :: "LabelSelector \<Rightarrow> string \<Rightarrow> nat" where
  "selectorUses ls k = length (filter (\<lambda>e. lsr_Key e = k) (elems (ls_MatchExpressions ls))) + (if ghas (ls_MatchLabels ls) k then 1 else 0)"

definition validTerm :: "validators \<Rightarrow> bool \<Rightarrow> PodAffinityTerm \<Rightarrow> bool" where
  "validTerm v allow t \<longleftrightarrow>
     v_PodAffinityTermSelector v t allow '''' = [] \<and>
     (\<forall>n\<in>set (pat_Namespaces t). v_NamespaceName v n False = []) \<and>
     (pat_LabelSelector t = None \<longrightarrow> pat_MatchLabelKeys t = [] \<and> pat_MismatchLabelKeys t = []) \<and>
     (\<forall>k\<in>set (pat_MatchLabelKeys t) \<union> set (pat_MismatchLabelKeys t). v_LabelName v k '''' = []) \<and>
     (\<forall>ls. pat_LabelSelector t = Some ls \<longrightarrow> (\<forall>k\<in>set (pat_MatchLabelKeys t). selectorUses ls k \<le> 1)) \<and>
     set (pat_MatchLabelKeys t) \<inter> set (pat_MismatchLabelKeys t) = {} \<and>
     pat_TopologyKey t \<noteq> '''' \<and> v_LabelName v (pat_TopologyKey t) '''' = []"

definition validPodTerms :: "validators \<Rightarrow> bool \<Rightarrow> PodAffinity \<Rightarrow> bool" where
  "validPodTerms v allow pa \<longleftrightarrow> (\<forall>t\<in>set (elems (pa_Required pa)). validTerm v allow t) \<and>
     (\<forall>w\<in>set (elems (pa_Preferred pa)). 1 \<le> wpat_Weight w \<and> wpat_Weight w \<le> 100 \<and> validTerm v allow (wpat_PodAffinityTerm w))"

definition validAffinity :: "validators \<Rightarrow> bool \<Rightarrow> Affinity \<Rightarrow> bool" where
  "validAffinity v allow a \<longleftrightarrow>
     (\<forall>na. af_NodeAffinity a = Some na \<longrightarrow> (\<forall>sel. na_Required na = Some sel \<longrightarrow> v_NodeSelector v sel True '''' = []) \<and>
        (na_Preferred na \<noteq> [] \<longrightarrow> v_PreferredSchedulingTerms v (na_Preferred na) '''' = [])) \<and>
     (\<forall>pa. af_PodAffinity a = Some pa \<or> af_PodAntiAffinity a = Some pa \<longrightarrow> validPodTerms v allow pa)"

lemma pathFreeD:
  assumes "pathFree v"
  shows "v_NodeSelector v a b p = [] \<longleftrightarrow> v_NodeSelector v a b '''' = []"
    "v_PreferredSchedulingTerms v ts p = [] \<longleftrightarrow> v_PreferredSchedulingTerms v ts '''' = []"
    "v_PodAffinityTermSelector v t b p = [] \<longleftrightarrow> v_PodAffinityTermSelector v t b '''' = []"
    "v_LabelName v k p = [] \<longleftrightarrow> v_LabelName v k '''' = []"
  using assms unfolding pathFree_def by blast+

subsection \<open>Each check\<close>

lemma concatIndexed_Nil:
  assumes "\<And>i x. x \<in> set xs \<Longrightarrow> f i x = [] \<longleftrightarrow> P x"
  shows "concatIndexed f xs = [] \<longleftrightarrow> (\<forall>x\<in>set xs. P x)"
proof -
  have "concatIndexed f xs = [] \<longleftrightarrow> (\<forall>(i, x)\<in>set (enumerate 0 xs). f i x = [])"
    by (auto simp: concatIndexed_def)
  also have "\<dots> \<longleftrightarrow> (\<forall>(i, x)\<in>set (enumerate 0 xs). P x)"
    using assms by (fastforce simp: enumerate_eq_zip dest: set_zip_rightD)
  also have "\<dots> \<longleftrightarrow> (\<forall>x\<in>snd ` set (enumerate 0 xs). P x)" by auto
  also have "snd ` set (enumerate 0 xs) = set xs" by (metis list.set_map map_snd_enumerate)
  finally show ?thesis .
qed

lemma labelKeysMap_None: "labelKeysMap keys k = None \<longleftrightarrow> k \<notin> set keys"
proof -
  have "fst ` set (map (\<lambda>(i, k). (k, i)) (enumerate 0 keys)) = snd ` set (enumerate 0 keys)" by force
  also have "\<dots> = set keys" by (metis list.set_map map_snd_enumerate)
  finally show ?thesis by (simp add: labelKeysMap_def map_of_eq_None_iff)
qed

lemma duplicateSelectorKeys_Nil:
  "duplicateSelectorKeys p m seen es = [] \<longleftrightarrow>
     (\<forall>k. m k \<noteq> None \<longrightarrow> length (filter (\<lambda>e. lsr_Key e = k) es) + (if k \<in> set seen then 1 else 0) \<le> 1)"
proof (induction es arbitrary: seen)
  case Nil
  then show ?case by auto
next
  case (Cons e es)
  have "duplicateSelectorKeys p m seen (e # es) = [] \<longleftrightarrow>
      (m (lsr_Key e) \<noteq> None \<longrightarrow> lsr_Key e \<notin> set seen) \<and> duplicateSelectorKeys p m (List.insert (lsr_Key e) seen) es = []"
    by (simp add: Let_def split: option.splits)
  then show ?case unfolding Cons.IH by (auto split: if_splits)
qed

lemma validateLabelKeys_Nil:
  assumes "pathFree v"
  shows "validateLabelKeys v p keys sel = [] \<longleftrightarrow> (sel = None \<longrightarrow> keys = []) \<and> (\<forall>k\<in>set keys. v_LabelName v k '''' = [])"
proof -
  have "concatIndexed (\<lambda>i key. v_LabelName v key (Index p i)) keys = [] \<longleftrightarrow> (\<forall>k\<in>set keys. v_LabelName v k '''' = [])"
    by (rule concatIndexed_Nil) (rule pathFreeD(4) [OF assms])
  then show ?thesis by (auto simp: validateLabelKeys_def)
qed

lemma validatePodAffinityTerm_Nil:
  assumes "pathFree v"
  shows "validatePodAffinityTerm v t allow p = [] \<longleftrightarrow> validTerm v allow t"
proof -
  have dup: "(case pat_LabelSelector t of None \<Rightarrow> [] | Some ls \<Rightarrow>
      duplicateSelectorKeys p (labelKeysMap (pat_MatchLabelKeys t)) (gkeys (ls_MatchLabels ls)) (elems (ls_MatchExpressions ls))) = [] \<longleftrightarrow>
      (\<forall>ls. pat_LabelSelector t = Some ls \<longrightarrow> (\<forall>k\<in>set (pat_MatchLabelKeys t). selectorUses ls k \<le> 1))"
    by (auto simp: duplicateSelectorKeys_Nil labelKeysMap_None selectorUses_def set_gkeys ghas_def split: option.splits)
  have both: "concatIndexed (\<lambda>i k. if List.member (pat_MismatchLabelKeys t) k
      then [Invalid (Index (Child p ''matchLabelKeys'') i) (BadString k) ''exists in both matchLabelKeys and mismatchLabelKeys''] else []) (pat_MatchLabelKeys t) = [] \<longleftrightarrow>
      (\<forall>k\<in>set (pat_MatchLabelKeys t). k \<notin> set (pat_MismatchLabelKeys t))"
    by (rule concatIndexed_Nil) simp
  show ?thesis
    unfolding validatePodAffinityTerm_def validateMatchLabelKeysAndMismatchLabelKeys_def validTerm_def append_is_Nil_conv
      dup both validateLabelKeys_Nil [OF assms] pathFreeD(3) [OF assms, of _ _ p] pathFreeD(4) [OF assms, of _ "Child p ''topologyKey''"]
    by auto
qed

lemma validatePodAffinity_Nil:
  assumes "pathFree v"
  shows "validatePodAffinity v pa allow p = [] \<longleftrightarrow> validPodTerms v allow pa"
    "validatePodAntiAffinity v pa allow p = [] \<longleftrightarrow> validPodTerms v allow pa"
proof -
  have req: "validatePodAffinityTerms v ts allow q = [] \<longleftrightarrow> (\<forall>t\<in>set ts. validTerm v allow t)" for ts q
    unfolding validatePodAffinityTerms_def by (rule concatIndexed_Nil) (rule validatePodAffinityTerm_Nil [OF assms])
  have pref: "validateWeightedPodAffinityTerms v ws allow q = [] \<longleftrightarrow>
      (\<forall>w\<in>set ws. 1 \<le> wpat_Weight w \<and> wpat_Weight w \<le> 100 \<and> validTerm v allow (wpat_PodAffinityTerm w))" for ws q
    unfolding validateWeightedPodAffinityTerms_def
    by (rule concatIndexed_Nil) (auto simp: validatePodAffinityTerm_Nil [OF assms])
  show "validatePodAffinity v pa allow p = [] \<longleftrightarrow> validPodTerms v allow pa"
    "validatePodAntiAffinity v pa allow p = [] \<longleftrightarrow> validPodTerms v allow pa"
    by (auto simp: validatePodAffinity_def validatePodAntiAffinity_def validPodTerms_def req pref split: option.splits)
qed

section \<open>Properties\<close>

text \<open>C9. Which affinities are accepted. With checks of Kubernetes that do not look at where a value
  stands, an affinity is accepted exactly when its node terms pass these checks and every pod term,
  required or preferred, for affinity or anti-affinity, has a topology key and valid selectors and
  names, label keys only next to a selector, no key both matched and mismatched, at most one use of
  a matched key in the selector, and a weight from 1 to 100 where it is preferred. A matched key
  that the selector uses once is accepted, although the comment on the check excludes it.\<close>

theorem affinity_accepted_iff:
  assumes "pathFree v"
  shows "ValidateAffinity v (Some a) allow p = [] \<longleftrightarrow> validAffinity v allow a"
proof -
  have "validateNodeAffinity v na q = [] \<longleftrightarrow> (\<forall>sel. na_Required na = Some sel \<longrightarrow> v_NodeSelector v sel True '''' = []) \<and>
      (na_Preferred na \<noteq> [] \<longrightarrow> v_PreferredSchedulingTerms v (na_Preferred na) '''' = [])" for na q
    using pathFreeD(1) [OF assms, of _ True] pathFreeD(2) [OF assms] by (auto simp: validateNodeAffinity_def split: option.splits)
  then show ?thesis
    by (auto simp: ValidateAffinity_def validAffinity_def validatePodAffinity_Nil [OF assms] split: option.splits)
qed

text \<open>Checks that only refuse empty names.\<close>

definition sampleValidators :: validators where
  "sampleValidators = \<lparr>v_NodeSelector = (\<lambda>_ _ _. []), v_PreferredSchedulingTerms = (\<lambda>_ _. []), v_PodAffinityTermSelector = (\<lambda>_ _ _. []),
     v_NamespaceName = (\<lambda>n _. if n = '''' then [''name part must be non-empty''] else []),
     v_LabelName = (\<lambda>k p. if k = '''' then [Invalid p (BadString k) ''name part must be non-empty''] else [])\<rparr>"

definition zoneTerm :: PodAffinityTerm where
  "zoneTerm = \<lparr>pat_LabelSelector = Some \<lparr>ls_MatchLabels = GoMap [(''app'', ''x'')], ls_MatchExpressions = None\<rparr>, pat_Namespaces = [''default''],
     pat_TopologyKey = ''topology.kubernetes.io/zone'', pat_NamespaceSelector = None, pat_MatchLabelKeys = [''app''], pat_MismatchLabelKeys = []\<rparr>"

definition zoneAffinity :: "int \<Rightarrow> Affinity" where
  "zoneAffinity w = \<lparr>af_NodeAffinity = None, af_PodAffinity = None, af_PodAntiAffinity =
     Some \<lparr>pa_Required = None, pa_Preferred = Some [\<lparr>wpat_Weight = w, wpat_PodAffinityTerm = zoneTerm\<rparr>]\<rparr>\<rparr>"

theorem affinity_accepted_iff_witness:
  "ValidateAffinity sampleValidators (Some (zoneAffinity 100)) False ''spec'' = [] \<and>
   ValidateAffinity sampleValidators (Some (zoneAffinity 101)) False ''spec'' \<noteq> []"
proof -
  have p: "pathFree sampleValidators" by (simp add: pathFree_def sampleValidators_def)
  have t: "validTerm sampleValidators False zoneTerm"
    by (simp add: validTerm_def sampleValidators_def zoneTerm_def selectorUses_def)
  have "validAffinity sampleValidators False (zoneAffinity 100)" "\<not> validAffinity sampleValidators False (zoneAffinity 101)"
    using t by (auto simp: validAffinity_def zoneAffinity_def validPodTerms_def)
  with affinity_accepted_iff [OF p] show ?thesis by blast
qed

end
