(* ===== verification/Spec2Isabelle.thy ===== *)
theory Spec2Isabelle
  imports Startup Operand_Running Affinity_Validation Once_Gate
begin

text \<open>
  \<^bold>\<open>The external-secrets operator\<close>

  The operator installs external-secrets (the operand) on a cluster and keeps it as the singleton
  custom resource \<^verbatim>\<open>ExternalSecretsConfig\<close> asks, with cluster-wide settings from the singleton
  \<^verbatim>\<open>ExternalSecretsManager\<close>. Three controllers run over one API server: the main one
  (\<^verbatim>\<open>pkg/controller/external_secrets\<close>), one that mirrors its status into the manager's resource
  (\<^verbatim>\<open>pkg/controller/external_secrets_manager\<close>) and one that annotates custom resource definitions
  (\<^verbatim>\<open>pkg/controller/crd_annotator\<close>). They share the helpers of \<^verbatim>\<open>pkg/controller/common\<close> and the client of
  \<^verbatim>\<open>pkg/controller/client\<close>. At startup \<^verbatim>\<open>cmd/external-secrets-operator/main.go\<close> reads the cluster's TLS profile
  into the cache of \<^verbatim>\<open>pkg/tlsprofile\<close>, from which operand deployments take arguments.

  \<^bold>\<open>How the code is modelled\<close>

  A Go function that can fail, panic and change state is a program \<open>('e, 's, 'a) prog\<close>, that is a function
  from a state to a \<open>result\<close> (\<open>Ret\<close>, \<open>Err\<close> or \<open>Panic\<close>) and a state; \<open>andThen\<close>, \<open>onErr\<close> and \<open>forEach\<close> are the
  sequencing, the handling of an error and the loop with early return. Errors are the datatype \<open>goerr\<close>
  with wrapping, so that classification looks through it as \<^verbatim>\<open>errors.As\<close> does. Maps keep the difference
  between nil and empty, slices are lists or, where nil matters, optional lists. A pointer that is only
  passed down is the value, returned changed; where aliasing decides (the status entry of the manager,
  the pointers compared by the watch setup) the pointer is explicit. The reconciler is the record \<open>rstate\<close>
  (its cluster, recorded events, once gate, resolved proxy and the two custom resources in memory);
  what the code takes from outside is the record \<open>env\<close>: the two clients, the process environment, assets
  and their decoder, and the functions of other packages (URL, duration, PEM, X.509 and JSON parsing, the
  strategic merge patch, the field validations). Log lines are left out, so is the wall clock.

  The API server is not code of the repository. What the operator relies on is the locale
  \<open>api_client\<close>: a successful call had its effect, a failed one had none, any call may fail, the
  cached client may miss objects, objects with finalizers are only marked when deleted and vanish with
  the last finalizer. \<open>memClient\<close>, an executable server with optimistic locking, a visibility filter and
  injected faults, interprets it. \<open>operator_env\<close> extends it to the pair of clients of the reconciler, and
  \<open>frame\<close> extends that by a relation between cluster states, with the laws under which every composed
  program preserves it; four instances follow from the contract: the objects a program may touch, the kinds
  it leaves alone, one object that it leaves alone, the custom resource in memory that stays.

  \<^bold>\<open>The theories\<close>

  \<^item> \<open>Go_Prelude\<close>: programs, maps, slices, strings; the collections \<open>prog_simps\<close> and \<open>gomap_simps\<close>;
    \<open>keeps\<close>, the rule set for relations that every program of a kind preserves; the locale \<open>named_slice\<close>.
  \<^item> \<open>Reconcile_Errors\<close> (\<^verbatim>\<open>errors.go\<close>), \<open>Kube_Types\<close> (\<^verbatim>\<open>api/v1alpha1\<close> and the Kubernetes types in use),
    \<open>Annotation_Codec\<close> (base64 and JSON of the tracking annotation), \<open>Resource_Metadata\<close> (labels, annotations,
    tracking), \<open>Drift\<close> (\<^verbatim>\<open>HasObjectChanged\<close> and all it calls), \<open>Operand_Args\<close> (argument parsing and merging),
    \<open>Once_Gate\<close> (\<^verbatim>\<open>Now\<close> as a step relation under every interleaving of threads), \<open>Finalizers\<close>: the parts of
    \<^verbatim>\<open>pkg/controller/common\<close>.
  \<^item> \<open>Kube_Client\<close>: the client wrapper with its retries, the contract and the in-memory server.
  \<^item> \<open>Reconciler_Core\<close>: the reconciler's state, asset decoding, the routine that creates, restores or updates
    one object (every \<^verbatim>\<open>createOrApply\<close> function is an instance), status updates and watch labels.
  \<^item> \<open>Managed_Resources\<close>: RBAC, service accounts, services, certificates, secret, ConfigMap, webhooks, namespace.
  \<^item> \<open>CA_Bundle\<close>, \<open>Advanced_Overrides\<close>, \<open>Pod_Template\<close>, \<open>Proxy_Config\<close>, \<open>Deployments\<close>: \<^verbatim>\<open>trusted_ca_bundle.go\<close>,
    \<^verbatim>\<open>advanced_overrides.go\<close> and \<^verbatim>\<open>deployments.go\<close>.
  \<^item> \<open>Affinity_Validation\<close>: \<^verbatim>\<open>validation_helpers_duplication.go\<close>, over affinities with their structure.
  \<^item> \<open>Network_Policies\<close>: \<^verbatim>\<open>networkpolicy.go\<close> with the cleanup of legacy policies.
  \<^item> \<open>Frame\<close>: what a composed program can touch, one rule per primitive and composition, and the four
    instances of the locale \<open>frame\<close>.
  \<^item> \<open>Install\<close>, \<open>Status_Conditions\<close>, \<open>Controller\<close>: \<^verbatim>\<open>install_external_secrets.go\<close> and \<^verbatim>\<open>controller.go\<close>, up to
    \<open>Reconcile\<close>, the cache configuration and the watches.
  \<^item> \<open>Installed\<close>: the composition of the installation steps against the list of desired objects.
    \<open>Operand_Running\<close>: the deployments on the cluster at the end of the pass.
  \<^item> \<open>Manager_Controller\<close>, \<open>CRD_Annotator\<close>: the two other controllers. \<open>TLS_Profile\<close>: \<^verbatim>\<open>pkg/tlsprofile\<close> and the
    startup and metrics options of \<^verbatim>\<open>main.go\<close>.
  \<^item> \<open>Startup\<close>: \<^verbatim>\<open>main.go\<close> and \<^verbatim>\<open>setup_manager.go\<close>, from the flags to the running manager, with what is
    registered on it at every point.

  \<^bold>\<open>What is shown\<close>

  For the main controller: a whole reconciliation stays inside the operand's objects; a pass that succeeds
  has put every desired service account, role, binding, service, webhook configuration, certificate and network
  policy on the server, undrifted at the end of the whole pass, and the operand's containers run there with the
  operator's images, locked down; applying an object touches nothing else, converges and, on success,
  leaves no drift; drift that is not reported means that the running deployment agrees with the desired one;
  Ready is True exactly after a complete pass and a failed pass is reported by class; what is applied is
  visible to the cache and its events are enqueued. For the client: an update with retry ends after at most
  five attempts, all but the last of them conflicts. For the user's configuration: an accepted override touches
  only the allowlisted fields, the validation of overrides, affinities and trust bundles is exact, precedence of
  labels, environment, arguments and proxy settings. For shared state: at most one run between resets of
  the once gate under every interleaving; operator and operand agree on TLS in every reachable cache. For the
  other controllers: mirrored conditions and injected annotations; a definition that loses its annotation is
  enqueued and annotated again. For the start: \<^verbatim>\<open>main\<close> that reaches the manager's start has registered every
  controller, and the annotator exactly where cert-manager is installed. Theorems that state defects are named in
  the findings of the manifest.

  \<^bold>\<open>Bounds\<close>

  Recursion is structural or has a measure. Retries on conflict make one attempt and at most
  \<open>DefaultRetry\<close> = 4 more, as client-go's five steps. The loop over PEM blocks has fuel, one more than the
  length of the text; that it returns is part of the theorem on trust bundles, under the named hypothesis
  that decoding a block consumes input. Integers are unbounded except where the width matters: ports and the parsed proxy port keep
  Go's range checks, TLS versions and cipher suites are 16-bit words.

  \<^bold>\<open>Not modelled\<close>

  Generated code (bindata, deep copies, scheme registration), fakes and tests; logging; the inside of
  managers, caches, informers and watchers of controller-runtime, whose construction may fail and whose
  registrations are recorded; the validation of tolerations and the selectors inside affinities, which are
  Kubernetes' own functions and parameters. The deployments take the affinity validation as the parameter of
  their environment; \<open>Affinity_Validation\<close> is the code behind it. Concurrent writers between two calls of
  one reconciliation appear only as failing calls.
  The namespace, the webhook's secret and the trust bundles are not in the theorem on a successful pass:
  the code merges them into what it finds instead of making them equal to a desired object.
\<close>

end
